(* ===== verification/Prelude.thy ===== *)
theory Prelude
  imports Main "HOL-Library.Word"
begin

text \<open>
  Shared vocabulary of the development.

  \<^item> Machine integers: \<open>uint8_t\<close> \<dots> \<open>uint64_t\<close> of the C sources are words of that width.
  \<^item> Faults: the ways in which a call does not return to the guest (\<open>assert\<close>, \<open>hw_error\<close>,
    which calls \<open>abort\<close>, a division by zero, an access outside an array or through a pointer to
    memory that is not allocated, \<open>exit\<close>).
  \<^item> Effects: what a device function does to the world outside its own \<open>struct\<close>, in order.
    A call \<open>qemu_set_irq(line, level)\<close> is the effect \<open>SetIrq line level\<close>; the machine model
    (theory \<open>Machine\<close>) runs the connected handlers.
  \<^item> \<open>'a run\<close>: the outcome of a device function, a value or a fault, with its effects.
  \<^item> The combinators that run the statements of a block and of a loop, and the rules by which a
    property of a state is carried through them.
\<close>

unbundle bit_operations_syntax

section \<open>Types\<close>

type_synonym u8 = "8 word"
type_synonym u16 = "16 word"
type_synonym u32 = "32 word"
type_synonym u64 = "64 word"

datatype fault =
    AssertFail
  | HwError string
  | DivByZero
  | OutOfBounds
  | NullDeref
  | ExitProcess int
  | OutOfFuel
  | BadPointer

text \<open>
  A \<open>qemu_irq\<close> is a pointer to a handler, the device it belongs to and a line number
  (\<open>struct IRQState\<close>). The constructors are the handlers the STM32 sources install.
\<close>

datatype qemu_irq =
    IrqNull                \<comment> \<open>\<open>NULL\<close>: \<open>qemu_set_irq\<close> returns at once\<close>
  | IrqNvic nat            \<comment> \<open>input \<open>pic[n]\<close> of the interrupt controller\<close>
  | IrqExtiIn nat          \<comment> \<open>\<open>stm32_exti_gpio_in_handler\<close>, line \<open>n\<close>\<close>
  | IrqGpioIn nat nat      \<comment> \<open>\<open>stm32_gpio_in_trigger\<close>: index of the port, pin\<close>
  | IrqHclkUpd             \<comment> \<open>\<open>stm32_rcc_hclk_upd_irq_handler\<close>\<close>
  | IrqUartClk nat         \<comment> \<open>\<open>stm32_uart_clk_irq_handler\<close>: index of the UART\<close>
  | IrqBoardOut nat        \<comment> \<open>\<open>output_write_handler\<close> of the P103 board, line \<open>n\<close>\<close>
  | IrqLed nat             \<comment> \<open>\<open>led_irq_handler\<close> of the Maple board, line \<open>n\<close>\<close>
  | IrqLedErr nat          \<comment> \<open>\<open>led_err_irq_handler\<close> of the Maple board, line \<open>n\<close>\<close>

datatype effect =
    SetIrq qemu_irq int        \<comment> \<open>\<open>qemu_set_irq\<close>\<close>
  | ClkNotify qemu_irq u32     \<comment> \<open>\<open>qemu_set_irq(user, 1)\<close> by a clock whose output is now the frequency\<close>
  | HwWarn string              \<comment> \<open>\<open>stm32_hw_warn\<close>\<close>
  | Stderr string              \<comment> \<open>\<open>fprintf(stderr, ..)\<close>\<close>
  | GuestLog string            \<comment> \<open>\<open>qemu_log_mask(LOG_GUEST_ERROR, ..)\<close>\<close>
  | ChrWrite u8                \<comment> \<open>\<open>qemu_chr_fe_write\<close> of one byte\<close>
  | PostEvent u8               \<comment> \<open>\<open>post_event_c\<close>\<close>
  | PostDigitalOut u8 u8 u32   \<comment> \<open>\<open>post_event_digital_out\<close>\<close>
  | WaitAck                    \<comment> \<open>\<open>event_wait_ack\<close>\<close>
  | Printf string              \<comment> \<open>\<open>printf\<close>\<close>

section \<open>Outcomes of device functions\<close>

datatype 'a run = Ok 'a "effect list" | Stop fault "effect list"

named_theorems run_simps \<open>evaluation of the outcome combinators\<close>

primrec run_emit :: "effect list \<Rightarrow> 'a run \<Rightarrow> 'a run" where
  "run_emit es (Ok a fs) = Ok a (es @ fs)"
| "run_emit es (Stop x fs) = Stop x (es @ fs)"

primrec run_bind :: "'a run \<Rightarrow> ('a \<Rightarrow> 'b run) \<Rightarrow> 'b run" where
  "run_bind (Ok a es) f = run_emit es (f a)"
| "run_bind (Stop x es) f = Stop x es"

text \<open>The statements of a C block, one after the other.\<close>

fun run_seq :: "('s \<Rightarrow> 's run) list \<Rightarrow> 's \<Rightarrow> 's run" where
  "run_seq [] s = Ok s []"
| "run_seq (f # fs) s = run_bind (f s) (run_seq fs)"

text \<open>A \<open>for\<close> loop over a list of indices.\<close>

fun run_for :: "'i list \<Rightarrow> ('i \<Rightarrow> 's \<Rightarrow> 's run) \<Rightarrow> 's \<Rightarrow> 's run" where
  "run_for [] f s = Ok s []"
| "run_for (i # is) f s = run_bind (f i s) (run_for is f)"

primrec run_map :: "('a \<Rightarrow> 'b) \<Rightarrow> 'a run \<Rightarrow> 'b run" where
  "run_map g (Ok a es) = Ok (g a) es"
| "run_map g (Stop x es) = Stop x es"

primrec run_effects :: "'a run \<Rightarrow> effect list" where
  "run_effects (Ok a es) = es"
| "run_effects (Stop x es) = es"

text \<open>\<open>run_sat P r\<close>: if \<open>r\<close> returns, its value and effects satisfy \<open>P\<close>. \<open>run_total\<close> adds
  that it returns.\<close>

primrec run_sat :: "('a \<Rightarrow> effect list \<Rightarrow> bool) \<Rightarrow> 'a run \<Rightarrow> bool" where
  "run_sat P (Ok a es) = P a es"
| "run_sat P (Stop x es) = True"

primrec run_total :: "('a \<Rightarrow> effect list \<Rightarrow> bool) \<Rightarrow> 'a run \<Rightarrow> bool" where
  "run_total P (Ok a es) = P a es"
| "run_total P (Stop x es) = False"

lemma run_emit_Nil [simp]: "run_emit [] r = r"
  by (cases r) auto

lemma run_emit_emit [simp]: "run_emit es (run_emit fs r) = run_emit (es @ fs) r"
  by (cases r) auto

lemma run_bind_emit [simp]: "run_bind (run_emit es r) f = run_emit es (run_bind r f)"
  by (cases r) auto

lemma run_bind_assoc: "run_bind (run_bind r f) g = run_bind r (\<lambda>a. run_bind (f a) g)"
  by (cases r) auto

lemma run_bind_Ok [simp]: "run_bind r (\<lambda>a. Ok a []) = r"
  by (cases r) auto

lemma run_emit_eq_Ok [simp]:
  "run_emit es r = Ok a fs \<longleftrightarrow> (\<exists>gs. r = Ok a gs \<and> fs = es @ gs)"
  by (cases r) auto

lemma run_bind_eq_Ok:
  "run_bind r f = Ok b es \<longleftrightarrow> (\<exists>a es1 es2. r = Ok a es1 \<and> f a = Ok b es2 \<and> es = es1 @ es2)"
  by (cases r) auto

lemma run_map_eq_Ok [simp]: "run_map g r = Ok b es \<longleftrightarrow> (\<exists>a. r = Ok a es \<and> b = g a)"
  by (cases r) auto

lemma run_sat_emit [simp]: "run_sat P (run_emit es r) = run_sat (\<lambda>a fs. P a (es @ fs)) r"
  by (cases r) auto

lemma run_total_emit [simp]: "run_total P (run_emit es r) = run_total (\<lambda>a fs. P a (es @ fs)) r"
  by (cases r) auto

lemma run_sat_bind [simp]:
  "run_sat P (run_bind r f) = run_sat (\<lambda>a es. run_sat (\<lambda>b fs. P b (es @ fs)) (f a)) r"
  by (cases r) auto

lemma run_total_bind [simp]:
  "run_total P (run_bind r f) = run_total (\<lambda>a es. run_total (\<lambda>b fs. P b (es @ fs)) (f a)) r"
  by (cases r) auto

lemma run_sat_mono: "run_sat P r \<Longrightarrow> (\<And>a es. P a es \<Longrightarrow> Q a es) \<Longrightarrow> run_sat Q r"
  by (cases r) auto

lemma run_total_mono: "run_total P r \<Longrightarrow> (\<And>a es. P a es \<Longrightarrow> Q a es) \<Longrightarrow> run_total Q r"
  by (cases r) auto

lemma run_total_imp_sat: "run_total P r \<Longrightarrow> run_sat P r"
  by (cases r) auto

lemma run_totalE: "run_total P r \<Longrightarrow> (\<And>a es. r = Ok a es \<Longrightarrow> P a es \<Longrightarrow> R) \<Longrightarrow> R"
  by (cases r) auto

lemma run_satD: "run_sat P r \<Longrightarrow> r = Ok a es \<Longrightarrow> P a es"
  by simp

lemma run_total_conj: "run_total P r \<Longrightarrow> run_total Q r \<Longrightarrow> run_total (\<lambda>a es. P a es \<and> Q a es) r"
  by (cases r) auto

text \<open>A property that every statement keeps is kept by a block and by a loop.\<close>

lemma run_seq_keeps:
  assumes "\<And>f s. f \<in> set fs \<Longrightarrow> P s \<Longrightarrow> run_sat (\<lambda>s' _. P s') (f s)" and "P s"
  shows "run_sat (\<lambda>s' _. P s') (run_seq fs s)"
  using assms
proof (induction fs arbitrary: s)
  case Nil
  then show ?case by simp
next
  case (Cons f fs)
  have "run_sat (\<lambda>s' _. P s') (f s)" using Cons.prems by simp
  then show ?case using Cons by (cases "f s") auto
qed

lemma run_seq_total:
  assumes "\<And>f s. f \<in> set fs \<Longrightarrow> P s \<Longrightarrow> run_total (\<lambda>s' _. P s') (f s)" and "P s"
  shows "run_total (\<lambda>s' _. P s') (run_seq fs s)"
  using assms
proof (induction fs arbitrary: s)
  case Nil
  then show ?case by simp
next
  case (Cons f fs)
  have "run_total (\<lambda>s' _. P s') (f s)" using Cons.prems by simp
  then show ?case using Cons by (cases "f s") auto
qed

lemma run_for_keeps:
  assumes "\<And>i s. i \<in> set is \<Longrightarrow> P s \<Longrightarrow> run_sat (\<lambda>s' _. P s') (f i s)" and "P s"
  shows "run_sat (\<lambda>s' _. P s') (run_for is f s)"
  using assms
proof (induction "is" arbitrary: s)
  case Nil
  then show ?case by simp
next
  case (Cons i "is")
  have "run_sat (\<lambda>s' _. P s') (f i s)" using Cons.prems by simp
  then show ?case using Cons by (cases "f i s") auto
qed

lemma run_for_total:
  assumes "\<And>i s. i \<in> set is \<Longrightarrow> P s \<Longrightarrow> run_total (\<lambda>s' _. P s') (f i s)" and "P s"
  shows "run_total (\<lambda>s' _. P s') (run_for is f s)"
  using assms
proof (induction "is" arbitrary: s)
  case Nil
  then show ?case by simp
next
  case (Cons i "is")
  have "run_total (\<lambda>s' _. P s') (f i s)" using Cons.prems by simp
  then show ?case using Cons by (cases "f i s") auto
qed

lemma run_for_emits:
  assumes "\<And>i s. i \<in> set is \<Longrightarrow> I s \<Longrightarrow> run_sat (\<lambda>s' es. I s' \<and> list_all E es) (f i s)" and "I s"
  shows "run_sat (\<lambda>s' es. I s' \<and> list_all E es) (run_for is f s)"
  using assms
proof (induction "is" arbitrary: s)
  case (Cons i "is")
  have "run_sat (\<lambda>s' es. I s' \<and> list_all E es) (f i s)" using Cons.prems by simp
  then show ?case
    by (cases "f i s") (auto intro!: run_sat_mono [OF Cons.IH] Cons.prems(1))
qed simp

lemma run_seq_Nil [simp]: "run_seq [] = (\<lambda>s. Ok s [])"
  by (simp add: fun_eq_iff)

lemma run_seq_single [simp]: "run_seq [f] = f"
  by (simp add: fun_eq_iff)

lemma run_for_append: "run_for (xs @ ys) f s = run_bind (run_for xs f s) (run_for ys f)"
proof (induction xs arbitrary: s)
  case Nil
  then show ?case by simp
next
  case (Cons x xs)
  then show ?case by (cases "f x s") simp_all
qed

section \<open>Formatted output\<close>

text \<open>The conversions \<open>%x\<close> and \<open>%d\<close> of \<open>printf\<close> for unsigned values.\<close>

fun digits_in :: "nat \<Rightarrow> nat \<Rightarrow> string" where
  "digits_in b n =
     (if b < 2 then [] else if n < b then [''0123456789abcdef'' ! n]
      else digits_in b (n div b) @ [''0123456789abcdef'' ! (n mod b)])"

declare digits_in.simps [simp del]

definition hex_string :: "nat \<Rightarrow> string" where
  "hex_string n = digits_in 16 n"

definition dec_string :: "nat \<Rightarrow> string" where
  "dec_string n = digits_in 10 n"

lemmas run_combinators [run_simps] =
  run_emit.simps run_bind.simps run_seq.simps run_for.simps run_map.simps

end
