(* ===== verification/Bitops.thy ===== *)
theory Bitops
  imports Prelude
begin

text \<open>
  The arithmetic helpers the device models call: the bit field functions of
  \<open>include/qemu/bitops.h\<close> (\<open>BIT\<close>, \<open>extract32\<close>, \<open>extract64\<close>, \<open>deposit32\<close>, \<open>deposit64\<close>) and
  \<open>muldiv64\<close> of \<open>include/qemu-common.h\<close>. The lemmas read each helper bit by bit, or as
  arithmetic on the unsigned values.
\<close>

section \<open>Bit fields (\<open>include/qemu/bitops.h\<close>)\<close>

named_theorems bit_field \<open>bitwise readings of the register helpers\<close>

definition BIT :: "nat \<Rightarrow> 'a::len word" where
  "BIT nr = push_bit nr 1"

text \<open>The condition both helpers assert: the field lies inside the word.\<close>

definition bitfield_ok :: "nat \<Rightarrow> nat \<Rightarrow> nat \<Rightarrow> bool" where
  "bitfield_ok w start len \<longleftrightarrow> 0 < len \<and> len \<le> w - start"

definition extract32 :: "u32 \<Rightarrow> nat \<Rightarrow> nat \<Rightarrow> u32" where
  "extract32 value start len = drop_bit start value AND drop_bit (32 - len) (NOT 0)"

definition extract64 :: "u64 \<Rightarrow> nat \<Rightarrow> nat \<Rightarrow> u64" where
  "extract64 value start len = drop_bit start value AND drop_bit (64 - len) (NOT 0)"

definition deposit32 :: "u32 \<Rightarrow> nat \<Rightarrow> nat \<Rightarrow> u32 \<Rightarrow> u32" where
  "deposit32 value start len fieldval =
     (let m = push_bit start (drop_bit (32 - len) (NOT 0))
      in (value AND NOT m) OR (push_bit start fieldval AND m))"

definition deposit64 :: "u64 \<Rightarrow> nat \<Rightarrow> nat \<Rightarrow> u64 \<Rightarrow> u64" where
  "deposit64 value start len fieldval =
     (let m = push_bit start (drop_bit (64 - len) (NOT 0))
      in (value AND NOT m) OR (push_bit start fieldval AND m))"

lemma bit_BIT [bit_field]: "bit (BIT nr :: 'a::len word) n \<longleftrightarrow> n = nr \<and> n < LENGTH('a)"
  by (auto simp: BIT_def bit_simps)

lemma and_BIT_eq_0 [bit_field]: "w AND BIT n = 0 \<longleftrightarrow> \<not> bit w n" for w :: "'a::len word"
proof
  assume *: "w AND BIT n = 0"
  show "\<not> bit w n"
  proof
    assume "bit w n"
    then have "bit (w AND BIT n) n"
      by (simp add: bit_and_iff bit_BIT bit_imp_le_length)
    with * show False by simp
  qed
next
  assume "\<not> bit w n"
  then show "w AND BIT n = 0"
    by (auto intro: bit_word_eqI simp: bit_and_iff bit_BIT)
qed

lemma bit_extract32 [bit_field]:
  "bitfield_ok 32 start len \<Longrightarrow> bit (extract32 v start len) n \<longleftrightarrow> n < len \<and> bit v (start + n)"
  unfolding extract32_def bitfield_ok_def by (auto simp: bit_simps dest: bit_imp_le_length)

lemma bit_extract64 [bit_field]:
  "bitfield_ok 64 start len \<Longrightarrow> bit (extract64 v start len) n \<longleftrightarrow> n < len \<and> bit v (start + n)"
  unfolding extract64_def bitfield_ok_def by (auto simp: bit_simps dest: bit_imp_le_length)

lemma bit_deposit32 [bit_field]:
  "bitfield_ok 32 start len \<Longrightarrow> bit (deposit32 v start len f) n \<longleftrightarrow>
     (if start \<le> n \<and> n < start + len then bit f (n - start) else bit v n)"
  unfolding deposit32_def bitfield_ok_def Let_def
  by (auto simp: bit_simps dest: bit_imp_le_length)

lemma bit_deposit64 [bit_field]:
  "bitfield_ok 64 start len \<Longrightarrow> bit (deposit64 v start len f) n \<longleftrightarrow>
     (if start \<le> n \<and> n < start + len then bit f (n - start) else bit v n)"
  unfolding deposit64_def bitfield_ok_def Let_def
  by (auto simp: bit_simps dest: bit_imp_le_length)

lemma extract32_deposit32:
  "bitfield_ok 32 st len \<Longrightarrow> extract32 (deposit32 v st len f) st len = take_bit len f"
  by (rule bit_word_eqI) (auto simp: bit_field bit_take_bit_iff)

lemma deposit32_extract32: "bitfield_ok 32 st len \<Longrightarrow> deposit32 v st len (extract32 v st len) = v"
  by (rule bit_word_eqI) (auto simp: bit_field)

lemma extract64_full32: "extract64 (ucast (v :: u32)) 0 32 = ucast v"
  by (rule bit_word_eqI)
    (auto simp: bit_extract64 bitfield_ok_def bit_ucast_iff dest: bit_imp_le_length)

lemma extract32_bit: "n < 32 \<Longrightarrow> extract32 v n 1 = (if bit v n then 1 else 0)"
  by (rule bit_word_eqI) (auto simp: bit_extract32 bitfield_ok_def bit_1_iff)

section \<open>\<open>muldiv64\<close> (\<open>include/qemu-common.h\<close>)\<close>

text \<open>
  \<open>a * b / c\<close> on a 96-bit intermediate product, kept in two 32-bit halves as the \<open>union\<close> of
  the source does. The host is little-endian; the halves are named, so the layout does not matter.
\<close>

definition muldiv64 :: "u64 \<Rightarrow> u32 \<Rightarrow> u32 \<Rightarrow> u64" where
  "muldiv64 a b c =
     (let low = ucast a :: u32; high = ucast (drop_bit 32 a) :: u32;
          rl = ucast low * ucast b :: u64;
          rh = ucast high * ucast b + drop_bit 32 rl :: u64;
          res_high = ucast (rh div ucast c) :: u32;
          res_low = ucast ((push_bit 32 (rh mod ucast c) + (rl AND 0xffffffff)) div ucast c) :: u32
      in push_bit 32 (ucast res_high) OR ucast res_low)"

lemma unat_lt_length: "unat w < 2 ^ LENGTH('a)" for w :: "'a::len word"
  by (rule unsigned_less)

lemma unat_u32_lt: "unat (w :: u32) < 2 ^ 32"
  by (rule less_le_trans [OF unat_lt_length]) simp

lemma unat_u64_lt: "unat (w :: u64) < 2 ^ 64"
  by (rule less_le_trans [OF unat_lt_length]) simp

lemma unat_ucast_widen:
  fixes x :: "'a::len word"
  assumes "LENGTH('a) \<le> LENGTH('b::len)"
  shows "unat (ucast x :: 'b word) = unat x"
proof -
  have "unat x < 2 ^ LENGTH('b)"
    using unat_lt_length [of x] by (rule less_le_trans) (use assms in simp)
  then show ?thesis by (simp only: unsigned_ucast_eq take_bit_nat_eq_self_iff)
qed

lemma unat_ucast32_64 [simp]: "unat (ucast (x :: u32) :: u64) = unat x"
  by (rule unat_ucast_widen) simp

lemma unat_ucast16_32 [simp]: "unat (ucast (x :: u16) :: u32) = unat x"
  by (rule unat_ucast_widen) simp

lemma unat_drop_bit_word: "unat (drop_bit n w) = unat w div 2 ^ n" for w :: "'a::len word"
  unfolding unat_drop_bit_eq by (rule drop_bit_eq_div)

lemma unat_ucast64_32: "unat (ucast (x :: u64) :: u32) = unat x mod 2 ^ 32"
  by (simp add: unsigned_ucast_eq take_bit_eq_mod)

lemma unat_and_mask32: "unat (x AND 0xffffffff :: u64) = unat x mod 2 ^ 32"
proof -
  have "x AND 0xffffffff = take_bit 32 x" by (simp add: take_bit_eq_mask mask_eq_exp_minus_1)
  then have "unat (x AND 0xffffffff) = take_bit 32 (unat x)"
    by (simp only: unsigned_take_bit_eq)
  then show ?thesis by (simp add: take_bit_eq_mod)
qed

lemma unat_join_words:
  "unat (push_bit 32 (ucast (h :: u32)) OR ucast (l :: u32) :: u64) = unat h * 2 ^ 32 + unat l"
proof -
  have "push_bit 32 (ucast h :: u64) AND ucast l = 0"
    by (rule bit_word_eqI) (auto simp: bit_simps dest: bit_imp_le_length)
  then have "push_bit 32 (ucast h) OR ucast l = push_bit 32 (ucast h :: u64) + ucast l"
    by (simp add: disjunctive_add_eq_or)
  moreover have "unat h * 2 ^ 32 + unat l < 2 ^ 64"
    using unat_lt_length [of h] unat_lt_length [of l] by simp
  ultimately show ?thesis
    by (simp add: push_bit_eq_mult unat_word_ariths mult.commute)
qed

lemma muldiv_split:
  fixes rh k x c :: nat
  assumes "0 < c"
  shows "(rh * k + x) div c = (rh div c) * k + ((rh mod c) * k + x) div c"
proof -
  have "(q * c + r) * k + x = (r * k + x) + c * (q * k)" for q r
    by (simp add: algebra_simps)
  from this [of "rh div c" "rh mod c"]
  have "rh * k + x = ((rh mod c) * k + x) + c * (rh div c * k)" by simp
  then show ?thesis using assms by (simp only: div_mult_self2)
qed

lemma muldiv_high_bound:
  fixes hi lo b :: nat
  assumes "hi < 2 ^ 32" "lo < 2 ^ 32" "b < 2 ^ 32"
  shows "lo * b < 2 ^ 64" and "hi * b + (lo * b) div 2 ^ 32 < 2 ^ 64"
proof -
  have le: "x * b \<le> (2 ^ 32 - 1) * (2 ^ 32 - 1)" if "x < 2 ^ 32" for x
    using that assms(3) by (intro mult_le_mono) simp_all
  show "lo * b < 2 ^ 64" using le [OF assms(2)] by simp
  have "(lo * b) div 2 ^ 32 \<le> ((2 ^ 32 - 1) * (2 ^ 32 - 1)) div 2 ^ 32"
    using le [OF assms(2)] by (rule div_le_mono)
  then have "(lo * b) div 2 ^ 32 \<le> 4294967294" by simp
  then show "hi * b + (lo * b) div 2 ^ 32 < 2 ^ 64" using le [OF assms(1)] by simp
qed

lemma muldiv_low_bound:
  fixes r c x :: nat
  assumes "r < c" "x < k"
  shows "r * k + x < c * k"
proof -
  have "Suc r * k \<le> c * k" using assms(1) by (intro mult_le_mono1) simp
  then show ?thesis using assms(2) by simp
qed

lemma mod_join: "l < (2 :: nat) ^ 32 \<Longrightarrow> q mod 2 ^ 32 * 2 ^ 32 + l = (q * 2 ^ 32 + l) mod 2 ^ 64"
  using mod_mult2_eq [of "q * 2 ^ 32 + l" "2 ^ 32" "2 ^ 32"] by simp

lemma muldiv64_words:
  fixes rlw rhw a :: u64 and b c :: u32
  assumes "rlw = ucast (ucast a :: u32) * ucast b"
    and "rhw = ucast (ucast (drop_bit 32 a) :: u32) * ucast b + drop_bit 32 rlw"
  shows "unat (muldiv64 a b c) = unat (rhw div ucast c) mod 2 ^ 32 * 2 ^ 32 +
     unat ((push_bit 32 (rhw mod ucast c) + (rlw AND 0xffffffff)) div ucast c) mod 2 ^ 32"
  unfolding muldiv64_def Let_def unat_join_words unat_ucast64_32 assms by (rule refl)

lemma muldiv64_parts:
  fixes rlw rhw a :: u64 and b :: u32
  assumes "rlw = ucast (ucast a :: u32) * ucast b"
    and "rhw = ucast (ucast (drop_bit 32 a) :: u32) * ucast b + drop_bit 32 rlw"
  shows "unat rlw = (unat a mod 2 ^ 32) * unat b"
    and "unat rhw = (unat a div 2 ^ 32) * unat b + ((unat a mod 2 ^ 32) * unat b) div 2 ^ 32"
proof -
  have hi: "unat a div 2 ^ 32 < 2 ^ 32" 
    by (rule less_mult_imp_div_less) (use unat_u64_lt [of a] in simp)
  have lo: "unat a mod 2 ^ 32 < 2 ^ 32" by simp
  have b: "unat b < 2 ^ 32" by (rule unat_u32_lt)
  note bounds = muldiv_high_bound [OF hi lo b]
  show rl: "unat rlw = (unat a mod 2 ^ 32) * unat b"
    unfolding assms(1) unat_word_ariths unat_ucast32_64 unat_ucast64_32
    by (rule mod_less) (use bounds(1) in simp)
  show "unat rhw = (unat a div 2 ^ 32) * unat b + ((unat a mod 2 ^ 32) * unat b) div 2 ^ 32"
    unfolding assms(2) unat_word_ariths unat_ucast32_64 unat_ucast64_32 unat_drop_bit_word rl
      mod_less [OF hi] mod_add_left_eq
    by (rule mod_less) (use bounds(2) in simp)
qed

lemma muldiv_product:
  fixes a b k :: nat
  shows "((a div k) * b + (a mod k * b) div k) * k + (a mod k * b) mod k = a * b"
proof -
  have reorder: "(h * b + q) * k + r = h * k * b + (q * k + r)" for h q r
    by (simp add: algebra_simps)
  have "((a div k) * b + (a mod k * b) div k) * k + (a mod k * b) mod k
      = (a div k) * k * b + a mod k * b"
    unfolding reorder div_mult_mod_eq by (rule refl)
  also have "\<dots> = a * b"
    by (simp only: distrib_right [symmetric] div_mult_mod_eq)
  finally show ?thesis .
qed

lemma unat_low_part:
  fixes r x :: u64
  assumes "unat r * 2 ^ 32 + unat x mod 2 ^ 32 < 2 ^ 64"
  shows "unat (push_bit 32 r + (x AND 0xffffffff)) = unat r * 2 ^ 32 + unat x mod 2 ^ 32"
proof -
  have "unat (push_bit 32 r) = unat r * 2 ^ 32"
    unfolding push_bit_eq_mult using assms by (subst unat_mult_lem [THEN iffD1]) simp_all
  then have "unat (push_bit 32 r) + unat (x AND 0xffffffff) < 2 ^ LENGTH(64)"
    using assms by (simp only: unat_and_mask32) simp
  then show ?thesis
    unfolding unat_and_mask32 [symmetric] \<open>unat (push_bit 32 r) = _\<close> [symmetric] by (rule unat_add_lem [THEN iffD1])
qed

text \<open>The two halves assemble the exact quotient, truncated to 64 bits.\<close>

lemma unat_muldiv64:
  assumes "c \<noteq> 0"
  shows "unat (muldiv64 a b c) = (unat a * unat b div unat c) mod 2 ^ 64"
proof -
  define rlw rhw :: u64 where rlw: "rlw = ucast (ucast a :: u32) * ucast b"
    and rhw: "rhw = ucast (ucast (drop_bit 32 a) :: u32) * ucast b + drop_bit 32 rlw"
  define rl rh where "rl = unat rlw" and "rh = unat rhw"
  note parts = muldiv64_parts [OF rlw rhw, folded rl_def rh_def]
  have c: "0 < unat c" "unat c < 2 ^ 32"
    using assms unat_u32_lt [of c] by (simp_all add: unat_gt_0)
  have lt: "(rh mod unat c) * 2 ^ 32 + rl mod 2 ^ 32 < unat c * 2 ^ 32"
    using c(1) by (intro muldiv_low_bound) simp_all
  have "unat c * 2 ^ 32 < 2 ^ 64" using c(2) by simp
  with lt have small: "(rh mod unat c) * 2 ^ 32 + rl mod 2 ^ 32 < 2 ^ 64" by (rule less_trans)
  define l where "l = ((rh mod unat c) * 2 ^ 32 + rl mod 2 ^ 32) div unat c"
  have l: "l < 2 ^ 32" unfolding l_def by (rule less_mult_imp_div_less) (use lt in \<open>simp only: mult.commute\<close>)
  have rem: "unat (rhw mod ucast c) = rh mod unat c"
    by (simp only: unat_mod_distrib unat_ucast32_64 rh_def)
  have low: "unat ((push_bit 32 (rhw mod ucast c) + (rlw AND 0xffffffff)) div ucast c) = l"
    unfolding unat_div_distrib unat_ucast32_64 l_def rl_def
    by (subst unat_low_part) (use small in \<open>simp_all only: rem rl_def\<close>)
  have prod: "unat a * unat b = rh * 2 ^ 32 + rl mod 2 ^ 32"
    unfolding parts by (rule muldiv_product [symmetric])
  have "unat a * unat b div unat c = rh div unat c * 2 ^ 32 + l"
    unfolding prod l_def by (rule muldiv_split [OF c(1)])
  moreover have "unat (muldiv64 a b c) = (rh div unat c) mod 2 ^ 32 * 2 ^ 32 + l"
    unfolding muldiv64_words [OF rlw rhw, of c] low mod_less [OF l]
    by (simp only: unat_div_distrib unat_ucast32_64 rh_def)
  ultimately show ?thesis by (simp only: mod_join [OF l])
qed

section \<open>Properties\<close>

text \<open>
  C25: \<open>muldiv64\<close> is exact: for a divisor other than 0 it returns the quotient of the full 96-bit product,
  cut to 64 bits only if it does not fit.
\<close>

theorem muldiv64_exact:
  assumes "c \<noteq> 0"
  shows "unat (muldiv64 a b c) = (unat a * unat b div unat c) mod 2 ^ 64"
  using assms by (rule unat_muldiv64)

theorem muldiv64_exact_witness: "unat (muldiv64 0xffffffffffffffff 0xffffffff 0xffffffff) = 2 ^ 64 - 1"
  using muldiv64_exact [of "0xffffffff" "0xffffffffffffffff" "0xffffffff"] by simp

end
