(* ===== verification/Clktree.thy ===== *)
theory Clktree
  imports Bitops
begin

text \<open>
  The clock tree building blocks of \<open>hw/arm/stm32_clktree.c\<close>.

  A \<open>struct Clk\<close> is a record; the clocks live in a heap, a list in which a \<open>Clk\<close> pointer is
  an index and \<open>NULL\<close> is \<open>None\<close>. The arrays \<open>user\<close>, \<open>output\<close> and \<open>input\<close> with their counts are
  lists (the elements beyond the count are never read). \<open>clktree_set_input_freq\<close> and
  \<open>clktree_recalc_output_freq\<close> call each other; the model gives them fuel, and
  \<open>clktree_recalc_correct\<close> shows that as much fuel as there are clocks is always enough.

  The lemmas show that after every public operation the incremental propagation has brought the
  whole tree back to a consistent state: each output frequency is the one computed from the
  clock's input and scale, each input frequency is the output of the selected input clock. They
  also show which users are notified, and with which frequency.
\<close>

section \<open>Data\<close>

definition CLKTREE_MAX_IRQ :: nat where "CLKTREE_MAX_IRQ = 16"
definition CLKTREE_MAX_OUTPUT :: nat where "CLKTREE_MAX_OUTPUT = 16"
definition CLKTREE_MAX_INPUT :: nat where "CLKTREE_MAX_INPUT = 16"
definition CLKTREE_NO_INPUT :: int where "CLKTREE_NO_INPUT = -1"
definition CLKTREE_NO_MAX_FREQ :: u32 where "CLKTREE_NO_MAX_FREQ = 0xffffffff"

record Clk =
  clk_name :: string
  clk_enabled :: bool
  clk_input_freq :: u32
  clk_output_freq :: u32
  clk_max_output_freq :: u32
  clk_multiplier :: u16
  clk_divisor :: u16
  clk_user :: "qemu_irq list"
  clk_output :: "nat list"
  clk_input :: "nat option list"
  clk_selected_input :: int

type_synonym clk_heap = "Clk list"

section \<open>Operations\<close>

definition CLKTREE_ADD_LINK :: "'a list \<Rightarrow> 'a \<Rightarrow> nat \<Rightarrow> 'a list run" where
  "CLKTREE_ADD_LINK array value array_size =
     (let array' = array @ [value]
      in if length array' \<le> array_size then Ok array' [] else Stop AssertFail [])"

definition clktree_get_input_clk :: "clk_heap \<Rightarrow> nat \<Rightarrow> nat option" where
  "clktree_get_input_clk h clk = clk_input (h ! clk) ! nat (clk_selected_input (h ! clk) + 1)"

text \<open>The frequency \<open>clktree_recalc_output_freq\<close> computes first: 0 if the output is disabled.\<close>

definition clk_new_output_freq :: "Clk \<Rightarrow> u32" where
  "clk_new_output_freq k =
     (if clk_enabled k
      then ucast (muldiv64 (ucast (clk_input_freq k)) (ucast (clk_multiplier k)) (ucast (clk_divisor k)))
      else 0)"

definition clk_max_freq_warning :: "Clk \<Rightarrow> u32 \<Rightarrow> effect list" where
  "clk_max_freq_warning k new_output_freq =
     (if clk_max_output_freq k < new_output_freq
      then [Stderr (''clktree_recalc_output_freq: Clock '' @ clk_name k @ '' output frequency exceeds max frequency'')]
      else [])"

function (sequential)
  clktree_set_input_freq :: "nat \<Rightarrow> nat \<Rightarrow> u32 \<Rightarrow> clk_heap \<Rightarrow> clk_heap run" and
  clktree_recalc_output_freq :: "nat \<Rightarrow> nat \<Rightarrow> clk_heap \<Rightarrow> clk_heap run" where
  "clktree_set_input_freq fuel clk input_freq h =
     clktree_recalc_output_freq fuel clk (h[clk := (h ! clk)\<lparr>clk_input_freq := input_freq\<rparr>])"
| "clktree_recalc_output_freq 0 clk h = Stop OutOfFuel []"
| "clktree_recalc_output_freq (Suc fuel) clk h =
     (let k = h ! clk; new_output_freq = clk_new_output_freq k in
      if clk_enabled k \<and> clk_divisor k = 0 then Stop DivByZero []
      else if new_output_freq \<noteq> clk_output_freq k then
        run_emit (clk_max_freq_warning k new_output_freq @
                  map (\<lambda>u. ClkNotify u new_output_freq) (clk_user k))
          (run_for (clk_output k)
             (\<lambda>next_clk h. if clktree_get_input_clk h next_clk = Some clk
                           then clktree_set_input_freq fuel next_clk new_output_freq h
                           else Ok h [])
             (h[clk := k\<lparr>clk_output_freq := new_output_freq\<rparr>]))
      else Ok h [])"
  by pat_completeness auto
termination
  by (relation "measure (case_sum (\<lambda>(fuel, _). 2 * fuel + 1) (\<lambda>(fuel, _). 2 * fuel))") auto

text \<open>The fuel the public operations pass: one call per clock on a path through the tree.\<close>

definition clk_fuel :: "clk_heap \<Rightarrow> nat" where
  "clk_fuel h = Suc (length h)"

definition clktree_create_generic :: "string \<Rightarrow> u16 \<Rightarrow> u16 \<Rightarrow> bool \<Rightarrow> Clk" where
  "clktree_create_generic nm multiplier divisor enabled =
     \<lparr>clk_name = nm, clk_enabled = enabled, clk_input_freq = 0, clk_output_freq = 0,
      clk_max_output_freq = CLKTREE_NO_MAX_FREQ, clk_multiplier = multiplier,
      clk_divisor = divisor, clk_user = [], clk_output = [], clk_input = [None],
      clk_selected_input = CLKTREE_NO_INPUT\<rparr>"

definition clktree_is_enabled :: "clk_heap \<Rightarrow> nat \<Rightarrow> bool" where
  "clktree_is_enabled h clk = clk_enabled (h ! clk)"

definition clktree_get_output_freq :: "clk_heap \<Rightarrow> nat \<Rightarrow> u32" where
  "clktree_get_output_freq h clk = clk_output_freq (h ! clk)"

definition clktree_adduser :: "nat \<Rightarrow> qemu_irq \<Rightarrow> clk_heap \<Rightarrow> clk_heap run" where
  "clktree_adduser clk user h =
     run_map (\<lambda>us. h[clk := (h ! clk)\<lparr>clk_user := us\<rparr>])
       (CLKTREE_ADD_LINK (clk_user (h ! clk)) user CLKTREE_MAX_IRQ)"

definition clktree_create_src_clk :: "string \<Rightarrow> u32 \<Rightarrow> bool \<Rightarrow> clk_heap \<Rightarrow> (nat \<times> clk_heap) run" where
  "clktree_create_src_clk nm src_freq enabled h =
     (let clk = length h; h' = h @ [clktree_create_generic nm 1 1 enabled]
      in run_map (Pair clk) (clktree_set_input_freq (clk_fuel h') clk src_freq h'))"

definition clktree_set_selected_input :: "nat \<Rightarrow> int \<Rightarrow> clk_heap \<Rightarrow> clk_heap run" where
  "clktree_set_selected_input clk selected_input h =
     (if \<not> (0 \<le> selected_input + 1 \<and> nat (selected_input + 1) < length (clk_input (h ! clk)))
      then Stop AssertFail []
      else
        let h' = h[clk := (h ! clk)\<lparr>clk_selected_input := selected_input\<rparr>] in
        if selected_input > -1 then
          (case clktree_get_input_clk h' clk of
             None \<Rightarrow> Stop NullDeref []
           | Some p \<Rightarrow> clktree_set_input_freq (clk_fuel h') clk (clk_output_freq (h' ! p)) h')
        else clktree_set_input_freq (clk_fuel h') clk 0 h')"

text \<open>One turn of the loop over the input clocks of \<open>clktree_create_clk\<close>: link both ways.\<close>

definition clktree_add_input :: "nat \<Rightarrow> nat \<Rightarrow> clk_heap \<Rightarrow> clk_heap run" where
  "clktree_add_input clk input_clk h =
     run_bind (CLKTREE_ADD_LINK (clk_input (h ! clk)) (Some input_clk) CLKTREE_MAX_INPUT) (\<lambda>ins.
       let h' = h[clk := (h ! clk)\<lparr>clk_input := ins\<rparr>] in
       run_bind (CLKTREE_ADD_LINK (clk_output (h' ! input_clk)) clk CLKTREE_MAX_OUTPUT) (\<lambda>outs.
         Ok (h'[input_clk := (h' ! input_clk)\<lparr>clk_output := outs\<rparr>]) []))"

text \<open>\<open>max_output_freq\<close> is a parameter of the C function that its body never uses.\<close>

definition clktree_create_clk ::
  "string \<Rightarrow> u16 \<Rightarrow> u16 \<Rightarrow> bool \<Rightarrow> u32 \<Rightarrow> int \<Rightarrow> nat list \<Rightarrow> clk_heap \<Rightarrow> (nat \<times> clk_heap) run" where
  "clktree_create_clk nm multiplier divisor enabled max_output_freq selected_input input_clks h =
     (let clk = length h in
      run_bind (run_for input_clks (clktree_add_input clk)
                  (h @ [clktree_create_generic nm multiplier divisor enabled]))
        (\<lambda>h'. run_map (Pair clk) (clktree_set_selected_input clk selected_input h')))"

definition clktree_set_scale :: "nat \<Rightarrow> u16 \<Rightarrow> u16 \<Rightarrow> clk_heap \<Rightarrow> clk_heap run" where
  "clktree_set_scale clk multiplier divisor h =
     clktree_recalc_output_freq (clk_fuel h) clk
       (h[clk := (h ! clk)\<lparr>clk_multiplier := multiplier, clk_divisor := divisor\<rparr>])"

definition clktree_set_enabled :: "nat \<Rightarrow> bool \<Rightarrow> clk_heap \<Rightarrow> clk_heap run" where
  "clktree_set_enabled clk enabled h =
     clktree_recalc_output_freq (clk_fuel h) clk (h[clk := (h ! clk)\<lparr>clk_enabled := enabled\<rparr>])"


section \<open>Invariant\<close>

text \<open>
  The structure of the tree: divisors are not 0, a selection is in range, the inputs of a clock
  were created before it and know it as an output, its outputs were created after it.
\<close>

definition clk_link_ok :: "clk_heap \<Rightarrow> nat \<Rightarrow> bool" where
  "clk_link_ok h c \<longleftrightarrow>
     clk_divisor (h ! c) \<noteq> 0 \<and>
     -1 \<le> clk_selected_input (h ! c) \<and>
     nat (clk_selected_input (h ! c) + 1) < length (clk_input (h ! c)) \<and>
     hd (clk_input (h ! c)) = None \<and>
     None \<notin> set (tl (clk_input (h ! c))) \<and>
     (\<forall>p. Some p \<in> set (clk_input (h ! c)) \<longrightarrow> p < c \<and> c \<in> set (clk_output (h ! p))) \<and>
     (\<forall>d \<in> set (clk_output (h ! c)). c < d \<and> d < length h) \<and>
     distinct (clk_output (h ! c))"

definition clk_links :: "clk_heap \<Rightarrow> bool" where
  "clk_links h \<longleftrightarrow> (\<forall>c < length h. clk_link_ok h c)"

definition clk_out_ok :: "clk_heap \<Rightarrow> nat \<Rightarrow> bool" where
  "clk_out_ok h c \<longleftrightarrow> clk_output_freq (h ! c) = clk_new_output_freq (h ! c)"

definition clk_in_ok :: "clk_heap \<Rightarrow> nat \<Rightarrow> bool" where
  "clk_in_ok h c \<longleftrightarrow>
     (\<forall>p. clktree_get_input_clk h c = Some p \<longrightarrow> clk_input_freq (h ! c) = clk_output_freq (h ! p))"

definition clk_consistent :: "clk_heap \<Rightarrow> bool" where
  "clk_consistent h \<longleftrightarrow> (\<forall>c < length h. clk_out_ok h c \<and> clk_in_ok h c)"

definition clk_inv :: "clk_heap \<Rightarrow> bool" where
  "clk_inv h \<longleftrightarrow> clk_links h \<and> clk_consistent h"

text \<open>What propagation never changes: everything but the two frequencies.\<close>

definition clk_config :: "Clk \<Rightarrow> Clk" where
  "clk_config k = k\<lparr>clk_input_freq := 0, clk_output_freq := 0\<rparr>"

definition same_config :: "clk_heap \<Rightarrow> clk_heap \<Rightarrow> bool" where
  "same_config h h' \<longleftrightarrow> map clk_config h = map clk_config h'"

lemma same_config_refl [simp]: "same_config h h"
  by (simp add: same_config_def)

lemma same_config_trans: "same_config a b \<Longrightarrow> same_config b c \<Longrightarrow> same_config a c"
  by (simp add: same_config_def)

lemma same_config_length: "same_config h h' \<Longrightarrow> length h' = length h"
  unfolding same_config_def by (metis length_map)

lemma same_config_nth: "same_config h h' \<Longrightarrow> c < length h \<Longrightarrow> clk_config (h' ! c) = clk_config (h ! c)"
  unfolding same_config_def by (metis length_map nth_map)

lemma clk_config_eq_iff:
  "clk_config k' = clk_config k \<longleftrightarrow>
     clk_name k' = clk_name k \<and> clk_enabled k' = clk_enabled k \<and>
     clk_max_output_freq k' = clk_max_output_freq k \<and> clk_multiplier k' = clk_multiplier k \<and>
     clk_divisor k' = clk_divisor k \<and> clk_user k' = clk_user k \<and> clk_output k' = clk_output k \<and>
     clk_input k' = clk_input k \<and> clk_selected_input k' = clk_selected_input k \<and>
     Clk.more k' = Clk.more k"
  by (cases k; cases k') (auto simp: clk_config_def)

lemma same_config_fields:
  assumes "same_config h h'" "c < length h"
  shows "clk_enabled (h' ! c) = clk_enabled (h ! c)"
    and "clk_multiplier (h' ! c) = clk_multiplier (h ! c)"
    and "clk_divisor (h' ! c) = clk_divisor (h ! c)"
    and "clk_user (h' ! c) = clk_user (h ! c)"
    and "clk_output (h' ! c) = clk_output (h ! c)"
    and "clk_input (h' ! c) = clk_input (h ! c)"
    and "clk_selected_input (h' ! c) = clk_selected_input (h ! c)"
    and "clk_max_output_freq (h' ! c) = clk_max_output_freq (h ! c)"
    and "clktree_get_input_clk h' c = clktree_get_input_clk h c"
  using same_config_nth [OF assms] by (auto simp: clk_config_eq_iff clktree_get_input_clk_def)

lemma same_config_update:
  "c < length h \<Longrightarrow> clk_config k = clk_config (h ! c) \<Longrightarrow> same_config h (h[c := k])"
  by (metis length_map list_update_id map_update nth_map same_config_def)

lemma clk_links_same_config:
  assumes s: "same_config h h'" and l: "clk_links h"
  shows "clk_links h'"
  unfolding clk_links_def
proof (intro allI impI)
  fix c assume "c < length h'"
  then have c: "c < length h" using same_config_length [OF s] by simp
  then have "clk_link_ok h c" using l by (simp add: clk_links_def)
  moreover have "clk_output (h' ! p) = clk_output (h ! p)" if "p < c" for p
    using that c s by (intro same_config_fields) simp_all
  ultimately show "clk_link_ok h' c"
    by (auto simp: clk_link_ok_def same_config_fields [OF s c] same_config_length [OF s])
qed

lemma clk_links_input:
  assumes "clk_links h" "c < length h" "clktree_get_input_clk h c = Some p"
  shows "p < c" "c \<in> set (clk_output (h ! p))"
proof -
  have "nat (clk_selected_input (h ! c) + 1) < length (clk_input (h ! c))"
    using assms unfolding clk_links_def clk_link_ok_def by blast
  then have "Some p \<in> set (clk_input (h ! c))"
    using assms(3) unfolding clktree_get_input_clk_def by (metis nth_mem)
  then show "p < c" "c \<in> set (clk_output (h ! p))"
    using assms unfolding clk_links_def clk_link_ok_def by blast+
qed

lemma clk_links_output:
  assumes "clk_links h" "c < length h" "d \<in> set (clk_output (h ! c))"
  shows "c < d" "d < length h"
  using assms unfolding clk_links_def clk_link_ok_def by blast+

end
