(* ===== verification/Clktree_Propagation.thy ===== *)
theory Clktree_Propagation
  imports Clktree
begin

text \<open>
  The correctness of the propagation in \<open>hw/arm/stm32_clktree.c\<close>: recalculating one clock of a
  well-formed tree returns (with fuel for the clocks created after it), settles every clock that
  depends on it, leaves the others alone and notifies exactly the users of the clocks whose output
  frequency changed.
\<close>

section \<open>Propagation\<close>

text \<open>\<open>clk_under h x j\<close>: the chain of selected inputs of \<open>j\<close> passes through \<open>x\<close>.\<close>

function clk_under :: "clk_heap \<Rightarrow> nat \<Rightarrow> nat \<Rightarrow> bool" where
  "clk_under h x j \<longleftrightarrow> j = x \<or>
     (case clktree_get_input_clk h j of None \<Rightarrow> False | Some p \<Rightarrow> if p < j then clk_under h x p else False)"
  by pat_completeness auto
termination by (relation "measure (\<lambda>(h, x, j). j)") auto

declare clk_under.simps [simp del]

lemma clk_under_refl [simp]: "clk_under h x x"
  by (subst clk_under.simps) simp

lemma clk_under_step: "clktree_get_input_clk h j = Some p \<Longrightarrow> p < j \<Longrightarrow> clk_under h x p \<Longrightarrow> clk_under h x j"
  by (subst clk_under.simps) simp

lemma clk_underE:
  assumes "clk_under h x j"
  obtains "j = x" | p where "clktree_get_input_clk h j = Some p" "p < j" "clk_under h x p"
proof -
  have "j = x \<or> (\<exists>p. clktree_get_input_clk h j = Some p \<and> p < j \<and> clk_under h x p)"
    using clk_under.simps [of h x j] assms by (auto split: option.splits if_splits)
  then show ?thesis using that by blast
qed

lemma clk_under_ge: "clk_under h x j \<Longrightarrow> x \<le> j"
proof (induction h x j rule: clk_under.induct)
  case (1 h x j)
  from "1.prems" show ?case by (rule clk_underE) (use "1.IH" in fastforce)+
qed

lemma clk_under_child:
  assumes "clk_under h x j" "clktree_get_input_clk h x = Some c" "c < x"
  shows "clk_under h c j"
  using assms
proof (induction h x j rule: clk_under.induct)
  case (1 h x j)
  from "1.prems"(1) show ?case
  proof (rule clk_underE)
    assume "j = x"
    then show ?thesis using "1.prems" by (auto intro: clk_under_step)
  next
    fix p assume "clktree_get_input_clk h j = Some p" "p < j" "clk_under h x p"
    with 1 show ?thesis by (auto intro: clk_under_step)
  qed
qed

lemma clk_under_parent:
  "clk_under h y x \<Longrightarrow> x \<noteq> y \<Longrightarrow> clktree_get_input_clk h x = Some c \<Longrightarrow> y \<le> c"
  by (erule clk_underE) (auto dest: clk_under_ge)

lemma clk_under_unique:
  assumes "clk_under h x j" "clk_under h y j"
    and "clktree_get_input_clk h x = Some c" "clktree_get_input_clk h y = Some c" "c < x" "c < y"
  shows "x = y"
  using assms
proof (induction h x j rule: clk_under.induct)
  case (1 h x j)
  show ?case
  proof (cases "j = x \<or> j = y")
    case True
    then show ?thesis using "1.prems" clk_under_parent [of h y x c] clk_under_parent [of h x y c]
      by force
  next
    case False
    then obtain p where p: "clktree_get_input_clk h j = Some p" "p < j" "clk_under h x p"
      using "1.prems"(1) by (auto elim: clk_underE)
    moreover have "clk_under h y p"
      using "1.prems"(2) False p by (auto elim: clk_underE)
    ultimately show ?thesis using 1 by blast
  qed
qed

lemma clk_under_same_config:
  assumes "same_config h h'" "j < length h"
  shows "clk_under h' x j \<longleftrightarrow> clk_under h x j"
  using assms
proof (induction h x j rule: clk_under.induct)
  case (1 h x j)
  note input = same_config_fields(9) [OF "1.prems"]
  show ?case
  proof (cases "clktree_get_input_clk h j")
    case None
    then show ?thesis by (subst (1 2) clk_under.simps) (simp add: input)
  next
    case (Some p)
    then have "clk_under h' x p \<longleftrightarrow> clk_under h x p" if "p < j" using 1 that by simp
    then show ?thesis using Some by (subst (1 2) clk_under.simps) (auto simp: input)
  qed
qed

definition notified :: "effect list \<Rightarrow> (qemu_irq \<times> u32) set" where
  "notified es = {(u, f). ClkNotify u f \<in> set es}"

lemma notified_simps [simp]:
  "notified [] = {}" "notified (es @ fs) = notified es \<union> notified fs"
  "notified (map (\<lambda>u. ClkNotify u f) us) = (\<lambda>u. (u, f)) ` set us"
  "notified (clk_max_freq_warning k f) = {}"
  by (auto simp: notified_def clk_max_freq_warning_def)

text \<open>The users of the clocks whose output differs between two heaps, with the new frequency.\<close>

definition freq_changes :: "clk_heap \<Rightarrow> clk_heap \<Rightarrow> (qemu_irq \<times> u32) set" where
  "freq_changes h h' = (\<Union>j \<in> {..<length h}.
     if clk_output_freq (h' ! j) \<noteq> clk_output_freq (h ! j)
     then (\<lambda>u. (u, clk_output_freq (h' ! j))) ` set (clk_user (h ! j)) else {})"

lemma freq_changes_refl [simp]: "freq_changes h h = {}"
  by (simp add: freq_changes_def)

lemma freq_changes_same_output:
  "(\<And>j. j < length h \<Longrightarrow> clk_output_freq (h' ! j) = clk_output_freq (h ! j)) \<Longrightarrow> freq_changes h h' = {}"
  by (simp add: freq_changes_def)

text \<open>The effect of a change that spreads from clock \<open>c\<close>; \<open>P\<close> are clocks still to be visited.\<close>

definition clk_settled :: "clk_heap \<Rightarrow> nat set \<Rightarrow> nat \<Rightarrow> clk_heap \<Rightarrow> effect list \<Rightarrow> bool" where
  "clk_settled h P c h' es \<longleftrightarrow> same_config h h' \<and>
     (\<forall>j < length h. clk_out_ok h' j) \<and> (\<forall>j < length h. j \<notin> P \<longrightarrow> clk_in_ok h' j) \<and>
     (\<forall>j < length h. \<not> clk_under h c j \<longrightarrow> h' ! j = h ! j) \<and>
     clk_input_freq (h' ! c) = clk_input_freq (h ! c) \<and>
     notified es = freq_changes h h'"

definition clk_children_settled :: "clk_heap \<Rightarrow> nat set \<Rightarrow> nat set \<Rightarrow> clk_heap \<Rightarrow> effect list \<Rightarrow> bool" where
  "clk_children_settled h P X h' es \<longleftrightarrow> same_config h h' \<and>
     (\<forall>j < length h. clk_out_ok h' j) \<and> (\<forall>j < length h. j \<notin> P \<longrightarrow> clk_in_ok h' j) \<and>
     (\<forall>j < length h. (\<forall>x \<in> X. \<not> clk_under h x j) \<longrightarrow> h' ! j = h ! j) \<and>
     notified es = freq_changes h h'"

lemma clk_out_ok_update_other: "j \<noteq> c \<Longrightarrow> clk_out_ok (h[c := k]) j = clk_out_ok h j"
  by (simp add: clk_out_ok_def)

lemma clk_in_ok_update_input:
  "c < length h \<Longrightarrow> j \<noteq> c \<Longrightarrow> clk_in_ok (h[c := (h ! c)\<lparr>clk_input_freq := f\<rparr>]) j = clk_in_ok h j"
  by (auto simp: clk_in_ok_def clktree_get_input_clk_def nth_list_update)

lemma clk_set_input_props:
  assumes links: "clk_links h" and x: "x < length h" and inp: "clktree_get_input_clk h x = Some c"
    and freq: "clk_output_freq (h ! c) = f"
    and out: "\<forall>j < length h. clk_out_ok h j"
    and ins: "\<forall>j < length h. j \<notin> insert x Q \<longrightarrow> clk_in_ok h j"
  defines "h2 \<equiv> h[x := (h ! x)\<lparr>clk_input_freq := f\<rparr>]"
  shows "same_config h h2" "\<forall>j < length h2. j \<noteq> x \<longrightarrow> clk_out_ok h2 j"
    "\<forall>j < length h2. j \<notin> Q \<longrightarrow> clk_in_ok h2 j" "freq_changes h h2 = {}"
    "\<forall>j. j \<noteq> x \<longrightarrow> h2 ! j = h ! j" "\<forall>j. clk_output_freq (h2 ! j) = clk_output_freq (h ! j)"
proof -
  have cx: "c < x" using clk_links_input [OF links x inp] by simp
  show s: "same_config h h2"
    unfolding h2_def by (rule same_config_update [OF x]) (simp add: clk_config_def)
  show "\<forall>j < length h2. j \<noteq> x \<longrightarrow> clk_out_ok h2 j"
    using out by (simp add: h2_def clk_out_ok_update_other)
  show outf: "\<forall>j. clk_output_freq (h2 ! j) = clk_output_freq (h ! j)"
    using x by (auto simp: h2_def nth_list_update)
  have "clk_in_ok h2 x"
    using x inp cx freq same_config_fields(9) [OF s x] outf
    by (auto simp: clk_in_ok_def h2_def)
  then show "\<forall>j < length h2. j \<notin> Q \<longrightarrow> clk_in_ok h2 j"
    using ins x by (metis clk_in_ok_update_input h2_def insertE length_list_update)
  show "freq_changes h h2 = {}" using outf by (intro freq_changes_same_output) simp
  show "\<forall>j. j \<noteq> x \<longrightarrow> h2 ! j = h ! j" by (simp add: h2_def)
qed

lemma freq_changes_join:
  assumes s: "same_config h h1"
    and once: "\<And>j. j < length h \<Longrightarrow> clk_output_freq (h1 ! j) = clk_output_freq (h ! j) \<or>
           clk_output_freq (h2 ! j) = clk_output_freq (h1 ! j)"
  shows "freq_changes h h1 \<union> freq_changes h1 h2 = freq_changes h h2"
  unfolding freq_changes_def same_config_length [OF s] UN_Un_distrib [symmetric]
proof (rule SUP_cong [OF refl])
  fix j assume "j \<in> {..<length h}"
  then have "j < length h" by simp
  then show "(if clk_output_freq (h1 ! j) \<noteq> clk_output_freq (h ! j)
       then (\<lambda>u. (u, clk_output_freq (h1 ! j))) ` set (clk_user (h ! j)) else {}) \<union>
      (if clk_output_freq (h2 ! j) \<noteq> clk_output_freq (h1 ! j)
       then (\<lambda>u. (u, clk_output_freq (h2 ! j))) ` set (clk_user (h1 ! j)) else {}) =
      (if clk_output_freq (h2 ! j) \<noteq> clk_output_freq (h ! j)
       then (\<lambda>u. (u, clk_output_freq (h2 ! j))) ` set (clk_user (h ! j)) else {})"
    using once [of j] same_config_fields(4) [OF s, of j] by auto
qed

lemma clk_children_settle:
  assumes rec: "\<And>x h Q. clk_links h \<Longrightarrow> x < length h \<Longrightarrow> length h - x \<le> fuel \<Longrightarrow>
      \<forall>j < length h. j \<noteq> x \<longrightarrow> clk_out_ok h j \<Longrightarrow> \<forall>j < length h. j \<notin> Q \<longrightarrow> clk_in_ok h j \<Longrightarrow>
      run_total (clk_settled h Q x) (clktree_recalc_output_freq fuel x h)"
    and "clk_links h" "c < length h" "length h - c \<le> Suc fuel" "clk_output_freq (h ! c) = f"
    and "\<forall>j < length h. clk_out_ok h j"
    and "\<forall>j < length h. j \<notin> P \<union> {x \<in> set xs. clktree_get_input_clk h x = Some c} \<longrightarrow> clk_in_ok h j"
    and "distinct xs" "\<forall>x \<in> set xs. c < x \<and> x < length h"
  shows "run_total (clk_children_settled h P {x \<in> set xs. clktree_get_input_clk h x = Some c})
     (run_for xs (\<lambda>x h. if clktree_get_input_clk h x = Some c
                        then clktree_set_input_freq fuel x f h else Ok h []) h)"
  using assms(2-)
proof (induction xs arbitrary: h)
  case Nil
  then show ?case by (simp add: clk_children_settled_def)
next
  case (Cons x xs)
  let ?sel = "\<lambda>h xs. {x \<in> set xs. clktree_get_input_clk h x = Some c}"
  let ?body = "\<lambda>x h. if clktree_get_input_clk h x = Some c
                        then clktree_set_input_freq fuel x f h else Ok h []"
  have x: "c < x" "x < length h" "x \<notin> set xs" using Cons.prems by auto
  show ?case
  proof (cases "clktree_get_input_clk h x = Some c")
    case False
    then have eq: "?sel h (x # xs) = ?sel h xs" by auto
    have "run_total (clk_children_settled h P (?sel h xs)) (run_for xs ?body h)"
      by (rule Cons.IH) (use Cons.prems in \<open>simp_all only: eq, simp_all\<close>)
    then show ?thesis using False unfolding eq by simp
  next
    case True
    define Q where "Q = P \<union> ?sel h xs"
    define h2 where "h2 = h[x := (h ! x)\<lparr>clk_input_freq := f\<rparr>]"
    have eq: "?sel h (x # xs) = insert x (?sel h xs)" using True by auto
    have ins: "\<forall>j < length h. j \<notin> insert x Q \<longrightarrow> clk_in_ok h j"
      using Cons.prems(6) unfolding eq Q_def by blast
    note p2 = clk_set_input_props [OF Cons.prems(1) x(2) True Cons.prems(4) Cons.prems(5) ins, folded h2_def]
    have len2: "length h2 = length h" using p2(1) by (rule same_config_length)
    have links2: "clk_links h2" using p2(1) Cons.prems(1) by (rule clk_links_same_config)
    have "run_total (clk_settled h2 Q x) (clktree_recalc_output_freq fuel x h2)"
      using links2 x p2(2,3) Cons.prems(3) by (intro rec) (simp_all add: len2)
    then obtain h3 es1 where r1: "clktree_recalc_output_freq fuel x h2 = Ok h3 es1"
      and st: "clk_settled h2 Q x h3 es1" by (rule run_totalE)
    have s3: "same_config h h3"
      using p2(1) st by (auto simp: clk_settled_def intro: same_config_trans)
    have len3: "length h3 = length h" using s3 by (rule same_config_length)
    have sel3: "?sel h3 ys = ?sel h ys" if "set ys \<subseteq> set xs" for ys
      using Cons.prems(8) that same_config_fields(9) [OF s3] by auto
    have under2: "clk_under h2 x j = clk_under h x j" if "j < length h" for j
      using p2(1) that by (rule clk_under_same_config)
    have frame3: "h3 ! j = h2 ! j" if "j < length h" "\<not> clk_under h x j" for j
      using st that under2 [of j] by (simp add: clk_settled_def len2)
    have c3: "clk_output_freq (h3 ! c) = f"
    proof -
      have "\<not> clk_under h x c" using clk_under_ge [of h x c] x(1) by auto
      then show ?thesis using frame3 [of c] p2(5) Cons.prems(2,4) x(1) by simp
    qed
    have "run_total (clk_children_settled h3 P (?sel h3 xs)) (run_for xs ?body h3)"
    proof (rule Cons.IH)
      show "clk_links h3" using s3 Cons.prems(1) by (rule clk_links_same_config)
      show "\<forall>j < length h3. clk_out_ok h3 j" using st by (simp add: clk_settled_def len2 len3)
      show "\<forall>j < length h3. j \<notin> P \<union> ?sel h3 xs \<longrightarrow> clk_in_ok h3 j"
        using st unfolding sel3 [OF order_refl] by (simp add: clk_settled_def len2 len3 Q_def)
    qed (use Cons.prems c3 in \<open>auto simp: len3\<close>)
    then obtain h4 es2 where r2: "run_for xs ?body h3 = Ok h4 es2"
      and st2: "clk_children_settled h3 P (?sel h xs) h4 es2"
      unfolding sel3 [OF order_refl] by (rule run_totalE)
    have under3: "clk_under h3 y j = clk_under h y j" if "j < length h" for y j
      using s3 that by (rule clk_under_same_config)
    have frame4: "h4 ! j = h3 ! j" if "j < length h" "\<forall>y \<in> ?sel h xs. \<not> clk_under h y j" for j
      using st2 that under3 [of j] by (simp add: clk_children_settled_def len3)
    have sep: "h4 ! j = h3 ! j" if "j < length h" "clk_under h x j" for j
    proof (rule frame4 [OF that(1)], intro ballI notI)
      fix y assume y: "y \<in> ?sel h xs" "clk_under h y j"
      then have "c < y" using Cons.prems(8) by auto
      then have "x = y" using that(2) y True x(1) by (intro clk_under_unique [of h x j y c]) auto
      then show False using y x(3) by simp
    qed
    have ch: "freq_changes h h3 \<union> freq_changes h3 h4 = freq_changes h h4"
    proof (rule freq_changes_join [OF s3])
      fix j assume j: "j < length h"
      show "clk_output_freq (h3 ! j) = clk_output_freq (h ! j) \<or>
          clk_output_freq (h4 ! j) = clk_output_freq (h3 ! j)"
        using frame3 [OF j] sep [OF j] p2(6) by (cases "clk_under h x j") simp_all
    qed
    have "freq_changes h2 h3 = freq_changes h h3"
      unfolding freq_changes_def len2
      by (rule SUP_cong [OF refl]) (use p2(6) same_config_fields(4) [OF p2(1)] in simp)
    then have ntf: "notified (es1 @ es2) = freq_changes h h4"
      using st st2 ch by (simp add: clk_children_settled_def clk_settled_def)
    have frame: "h4 ! j = h ! j"
      if "j < length h" "\<forall>y \<in> insert x (?sel h xs). \<not> clk_under h y j" for j
    proof -
      have "j \<noteq> x" using that(2) by auto
      then show ?thesis using frame3 [of j] frame4 [of j] p2(5) that by simp
    qed
    have "clk_children_settled h P (insert x (?sel h xs)) h4 (es1 @ es2)"
      using st2 s3 ntf frame unfolding clk_children_settled_def len3
      by (blast intro: same_config_trans)
    then show ?thesis
      using True r1 r2 unfolding eq by (simp add: h2_def)
  qed
qed

lemma clk_output_update_props:
  assumes links: "clk_links h" and c: "c < length h"
    and out: "\<forall>j < length h. j \<noteq> c \<longrightarrow> clk_out_ok h j"
    and ins: "\<forall>j < length h. j \<notin> P \<longrightarrow> clk_in_ok h j"
  defines "h1 \<equiv> h[c := (h ! c)\<lparr>clk_output_freq := clk_new_output_freq (h ! c)\<rparr>]"
  shows "same_config h h1" "\<forall>j < length h. clk_out_ok h1 j"
    "\<forall>j < length h. j \<notin> P \<union> {x \<in> set (clk_output (h ! c)). clktree_get_input_clk h1 x = Some c}
       \<longrightarrow> clk_in_ok h1 j"
proof -
  show s: "same_config h h1"
    unfolding h1_def by (rule same_config_update [OF c]) (simp add: clk_config_def)
  show "\<forall>j < length h. clk_out_ok h1 j"
    using out c by (auto simp: h1_def clk_out_ok_def nth_list_update clk_new_output_freq_def)
  show "\<forall>j < length h. j \<notin> P \<union> {x \<in> set (clk_output (h ! c)). clktree_get_input_clk h1 x = Some c}
       \<longrightarrow> clk_in_ok h1 j"
  proof (intro allI impI)
    fix j assume j: "j < length h"
      "j \<notin> P \<union> {x \<in> set (clk_output (h ! c)). clktree_get_input_clk h1 x = Some c}"
    note inp = same_config_fields(9) [OF s j(1)]
    have "clktree_get_input_clk h j \<noteq> Some c"
      using j clk_links_input(2) [OF links j(1)] inp by auto
    then show "clk_in_ok h1 j"
      using ins j inp c unfolding clk_in_ok_def by (auto simp: h1_def nth_list_update)
  qed
qed

lemma clk_settled_unchanged:
  assumes "clk_output_freq (h ! c) = clk_new_output_freq (h ! c)"
    and "\<forall>j < length h. j \<noteq> c \<longrightarrow> clk_out_ok h j" and "\<forall>j < length h. j \<notin> P \<longrightarrow> clk_in_ok h j"
  shows "clk_settled h P c h []"
  using assms by (auto simp: clk_settled_def clk_out_ok_def)

text \<open>
  The heart of the component: with fuel for the clocks above \<open>c\<close>, recalculating \<open>c\<close> returns,
  makes every output agree with its clock's input and scale, every input (but those of \<open>P\<close>) agree
  with the selected clock, changes nothing that does not depend on \<open>c\<close>, and notifies exactly the
  users of the clocks whose output changed.
\<close>

lemma clktree_recalc_correct:
  assumes "clk_links h" "c < length h" "length h - c \<le> fuel"
    and "\<forall>j < length h. j \<noteq> c \<longrightarrow> clk_out_ok h j" "\<forall>j < length h. j \<notin> P \<longrightarrow> clk_in_ok h j"
  shows "run_total (clk_settled h P c) (clktree_recalc_output_freq fuel c h)"
  using assms
proof (induction fuel arbitrary: c h P)
  case 0
  then show ?case by simp
next
  case (Suc fuel)
  define f where "f = clk_new_output_freq (h ! c)"
  define h1 where "h1 = h[c := (h ! c)\<lparr>clk_output_freq := f\<rparr>]"
  have div: "clk_divisor (h ! c) \<noteq> 0"
    using Suc.prems unfolding clk_links_def clk_link_ok_def by blast
  show ?case
  proof (cases "f = clk_output_freq (h ! c)")
    case True
    then show ?thesis using div Suc.prems clk_settled_unchanged [of h c P] by (simp add: f_def)
  next
    case False
    let ?X = "{x \<in> set (clk_output (h ! c)). clktree_get_input_clk h1 x = Some c}"
    note p = clk_output_update_props [OF Suc.prems(1,2,4,5), folded f_def, folded h1_def]
    have len: "length h1 = length h" using p(1) by (rule same_config_length)
    have "run_total (clk_children_settled h1 P ?X) (run_for (clk_output (h ! c))
        (\<lambda>x h. if clktree_get_input_clk h x = Some c then clktree_set_input_freq fuel x f h else Ok h []) h1)"
    proof (rule clk_children_settle [OF Suc.IH])
      show "clk_links h1" using p(1) Suc.prems(1) by (rule clk_links_same_config)
      show "distinct (clk_output (h ! c))"
        using Suc.prems unfolding clk_links_def clk_link_ok_def by blast
      show "\<forall>x \<in> set (clk_output (h ! c)). c < x \<and> x < length h1"
        using clk_links_output [OF Suc.prems(1,2)] len by simp
    qed (use Suc.prems p in \<open>simp_all add: len h1_def\<close>)
    then obtain h' es where r: "run_for (clk_output (h ! c))
        (\<lambda>x h. if clktree_get_input_clk h x = Some c then clktree_set_input_freq fuel x f h else Ok h []) h1 = Ok h' es"
      and st: "clk_children_settled h1 P ?X h' es" by (rule run_totalE)
    have s': "same_config h h'"
      using p(1) st by (auto simp: clk_children_settled_def intro: same_config_trans)
    have below: "h' ! j = h1 ! j" if "j < length h" "\<forall>x \<in> ?X. \<not> clk_under h x j" for j
      using st that clk_under_same_config [OF p(1) that(1)] by (simp add: clk_children_settled_def len)
    have above: "\<not> clk_under h x c" if "x \<in> ?X" for x
      using that clk_links_output(1) [OF Suc.prems(1,2)] clk_under_ge [of h x c] by fastforce
    have h'c: "h' ! c = h1 ! c" using below Suc.prems(2) above by blast
    have frame: "h' ! j = h ! j" if j: "j < length h" "\<not> clk_under h c j" for j
    proof -
      have "\<not> clk_under h x j" if "x \<in> ?X" for x
      proof
        assume "clk_under h x j"
        moreover have "x < length h" "c < x" using that clk_links_output [OF Suc.prems(1,2)] by auto
        moreover have "clktree_get_input_clk h x = Some c"
          using that same_config_fields(9) [OF p(1) \<open>x < length h\<close>] by simp
        ultimately show False using clk_under_child [of h x j c] j(2) by blast
      qed
      moreover have "j \<noteq> c" using j(2) by auto
      ultimately show ?thesis using below j(1) by (simp add: h1_def)
    qed
    have ch: "freq_changes h h1 \<union> freq_changes h1 h' = freq_changes h h'"
      by (rule freq_changes_join [OF p(1)]) (metis h'c h1_def nth_list_update_neq)
    have "freq_changes h h1 = (\<lambda>u. (u, f)) ` set (clk_user (h ! c))"
      using Suc.prems(2) False by (auto simp: freq_changes_def h1_def nth_list_update split: if_splits)
    then have "notified (clk_max_freq_warning (h ! c) f @ map (\<lambda>u. ClkNotify u f) (clk_user (h ! c)) @ es)
        = freq_changes h h'"
      using st ch by (simp add: clk_children_settled_def)
    moreover have "clk_input_freq (h' ! c) = clk_input_freq (h ! c)"
      using h'c Suc.prems(2) by (simp add: h1_def)
    ultimately have "clk_settled h P c h' (clk_max_freq_warning (h ! c) f @ map (\<lambda>u. ClkNotify u f) (clk_user (h ! c)) @ es)"
      using st s' frame by (simp add: clk_settled_def clk_children_settled_def len)
    then show ?thesis
      unfolding clktree_recalc_output_freq.simps Let_def f_def [symmetric] h1_def [symmetric]
      using False div r by simp
  qed
qed

end
