(* ===== verification/Clktree_Ops.thy ===== *)
theory Clktree_Ops
  imports Clktree_Propagation
begin

text \<open>
  Contracts of the public operations of \<open>hw/arm/stm32_clktree.c\<close>: each of them returns, keeps the
  invariant \<open>clk_inv\<close> and leaves every clock at the frequency \<open>clk_eval\<close> computes from the
  configuration of the whole tree. The relation \<open>clk_reach\<close> collects the trees the operations can
  build; no over-frequency warning is issued on the way to any of them, because
  \<open>clktree_create_clk\<close> never stores the limit it is given.
\<close>

section \<open>Contracts of the public operations\<close>

text \<open>The reference: the frequency of a clock recomputed from the configuration of the whole tree.\<close>

function clk_eval :: "clk_heap \<Rightarrow> nat \<Rightarrow> u32" where
  "clk_eval h c = clk_new_output_freq ((h ! c)\<lparr>clk_input_freq :=
     (case clktree_get_input_clk h c of
        None \<Rightarrow> clk_input_freq (h ! c)
      | Some p \<Rightarrow> if p < c then clk_eval h p else 0)\<rparr>)"
  by pat_completeness auto
termination by (relation "measure (\<lambda>(h, c). c)") auto

declare clk_eval.simps [simp del]

lemma clk_new_output_freq_cong:
  "clk_enabled k' = clk_enabled k \<Longrightarrow> clk_multiplier k' = clk_multiplier k \<Longrightarrow>
   clk_divisor k' = clk_divisor k \<Longrightarrow> clk_input_freq k' = clk_input_freq k \<Longrightarrow>
   clk_new_output_freq k' = clk_new_output_freq k"
  by (simp add: clk_new_output_freq_def)

lemma clk_inv_output_eval:
  assumes inv: "clk_inv h" and c: "c < length h"
  shows "clk_output_freq (h ! c) = clk_eval h c"
  using c
proof (induction c rule: less_induct)
  case (less c)
  have out: "clk_output_freq (h ! c) = clk_new_output_freq (h ! c)"
    using inv less.prems by (simp add: clk_inv_def clk_consistent_def clk_out_ok_def)
  show ?case
  proof (cases "clktree_get_input_clk h c")
    case None
    then show ?thesis by (subst clk_eval.simps) (simp add: out)
  next
    case (Some p)
    have p: "p < c" using inv less.prems Some by (auto simp: clk_inv_def dest: clk_links_input)
    have "clk_input_freq (h ! c) = clk_output_freq (h ! p)"
      using inv less.prems Some by (simp add: clk_inv_def clk_consistent_def clk_in_ok_def)
    also have "\<dots> = clk_eval h p" using less.IH p less.prems by simp
    finally show ?thesis
      using Some p out by (subst clk_eval.simps) (simp add: clk_new_output_freq_def)
  qed
qed

text \<open>What a public operation promises, for the heap \<open>h\<close> with the new configuration.\<close>

definition clk_propagated :: "clk_heap \<Rightarrow> clk_heap \<Rightarrow> effect list \<Rightarrow> bool" where
  "clk_propagated h h' es \<longleftrightarrow> clk_inv h' \<and> same_config h h' \<and>
     (\<forall>c < length h. clk_output_freq (h' ! c) = clk_eval h c) \<and>
     (\<forall>c < length h. clktree_get_input_clk h c = None \<longrightarrow> clk_input_freq (h' ! c) = clk_input_freq (h ! c)) \<and>
     notified es = freq_changes h h'"

lemma clk_eval_frame:
  assumes s: "same_config h h'" and c: "c < length h"
    and src: "\<And>j. j < length h \<Longrightarrow> clktree_get_input_clk h j = None \<Longrightarrow>
       clk_input_freq (h' ! j) = clk_input_freq (h ! j)"
  shows "clk_eval h' c = clk_eval h c"
  using c
proof (induction c rule: less_induct)
  case (less c)
  note f = same_config_fields [OF s less.prems]
  show ?case
  proof (cases "clktree_get_input_clk h c")
    case None
    then show ?thesis
      using f src [OF less.prems] by (subst (1 2) clk_eval.simps) (simp add: clk_new_output_freq_def)
  next
    case (Some p)
    then have "clk_eval h' p = clk_eval h p" if "p < c" using less that by simp
    then show ?thesis
      using Some f by (subst (1 2) clk_eval.simps) (simp add: clk_new_output_freq_def)
  qed
qed

lemma clk_settled_propagated:
  assumes "clk_links h" "c < length h" "clk_settled h {} c h' es"
  shows "clk_propagated h h' es"
proof -
  have s: "same_config h h'" using assms(3) by (simp add: clk_settled_def)
  have len: "length h' = length h" using s by (rule same_config_length)
  have inv: "clk_inv h'"
    using assms(3) clk_links_same_config [OF s assms(1)]
    by (simp add: clk_settled_def clk_inv_def clk_consistent_def len)
  have src: "clk_input_freq (h' ! j) = clk_input_freq (h ! j)"
    if "j < length h" "clktree_get_input_clk h j = None" for j
  proof (cases "j = c")
    case True
    then show ?thesis using assms(3) by (simp add: clk_settled_def)
  next
    case False
    then have "\<not> clk_under h c j" using that(2) by (auto elim: clk_underE)
    then show ?thesis using assms(3) that by (simp add: clk_settled_def)
  qed
  have "clk_output_freq (h' ! j) = clk_eval h j" if "j < length h" for j
    using clk_inv_output_eval [OF inv] clk_eval_frame [OF s that src] that len by simp
  then show ?thesis using assms(3) inv s src by (simp add: clk_propagated_def clk_settled_def)
qed

lemma clktree_recalc_propagates:
  assumes "clk_links h" "c < length h" "length h \<le> fuel"
    and "\<forall>j < length h. j \<noteq> c \<longrightarrow> clk_out_ok h j" "\<forall>j < length h. clk_in_ok h j"
  shows "run_total (clk_propagated h) (clktree_recalc_output_freq fuel c h)"
  by (rule run_total_mono [OF clktree_recalc_correct [of h c fuel "{}"]])
    (use assms clk_settled_propagated in auto)

text \<open>Changing the scale or the gate of one clock keeps the links and every input frequency.\<close>

lemma clk_update_scale_gate:
  assumes inv: "clk_inv h" and c: "c < length h" and "clk_divisor k \<noteq> 0"
    and f: "clk_input_freq k = clk_input_freq (h ! c)" "clk_output_freq k = clk_output_freq (h ! c)"
      "clk_output k = clk_output (h ! c)" "clk_input k = clk_input (h ! c)"
      "clk_selected_input k = clk_selected_input (h ! c)"
  defines "h0 \<equiv> h[c := k]"
  shows "clk_links h0" "\<forall>j < length h0. j \<noteq> c \<longrightarrow> clk_out_ok h0 j" "\<forall>j < length h0. clk_in_ok h0 j"
    "\<forall>j. clk_output_freq (h0 ! j) = clk_output_freq (h ! j)"
proof -
  have len: "length h0 = length h" by (simp add: h0_def)
  have get: "clk_output (h0 ! j) = clk_output (h ! j)" "clk_input (h0 ! j) = clk_input (h ! j)"
    "clk_selected_input (h0 ! j) = clk_selected_input (h ! j)"
    "clk_input_freq (h0 ! j) = clk_input_freq (h ! j)" "clktree_get_input_clk h0 j = clktree_get_input_clk h j" for j
    unfolding h0_def clktree_get_input_clk_def using f c by (cases "j = c"; simp)+
  show outf: "\<forall>j. clk_output_freq (h0 ! j) = clk_output_freq (h ! j)"
    unfolding h0_def using f c by (simp add: nth_list_update)
  have "clk_link_ok h0 j" if "j < length h" for j
  proof -
    have ok: "clk_link_ok h j" using inv that by (simp add: clk_inv_def clk_links_def)
    then have "clk_divisor (h0 ! j) \<noteq> 0"
      unfolding h0_def using assms(3) c by (cases "j = c") (simp_all add: clk_link_ok_def)
    then show ?thesis using ok unfolding clk_link_ok_def get len by blast
  qed
  then show "clk_links h0" by (simp add: clk_links_def len)
  show "\<forall>j < length h0. j \<noteq> c \<longrightarrow> clk_out_ok h0 j"
    using inv by (simp add: h0_def clk_out_ok_update_other clk_inv_def clk_consistent_def)
  show "\<forall>j < length h0. clk_in_ok h0 j"
    using inv outf unfolding clk_inv_def clk_consistent_def clk_in_ok_def get len by simp
qed

lemma clk_fuel_update [simp]: "clk_fuel (h[c := k]) = clk_fuel h"
  by (simp add: clk_fuel_def)

lemma clk_inv_divisor: "clk_inv h \<Longrightarrow> c < length h \<Longrightarrow> clk_divisor (h ! c) \<noteq> 0"
  unfolding clk_inv_def clk_links_def clk_link_ok_def by blast

lemma clktree_recalc_scale_gate:
  assumes "clk_inv h" "c < length h" "clk_divisor k \<noteq> 0"
    and "clk_input_freq k = clk_input_freq (h ! c)" "clk_output_freq k = clk_output_freq (h ! c)"
      "clk_output k = clk_output (h ! c)" "clk_input k = clk_input (h ! c)"
      "clk_selected_input k = clk_selected_input (h ! c)"
  shows "run_total (clk_propagated (h[c := k])) (clktree_recalc_output_freq (clk_fuel h) c (h[c := k]))"
  by (rule clktree_recalc_propagates [OF clk_update_scale_gate(1) [OF assms] _ _
        clk_update_scale_gate(2,3) [OF assms]])
    (use assms(2) in \<open>simp_all add: clk_fuel_def\<close>)

lemma clktree_set_enabled_spec:
  assumes "clk_inv h" "c < length h"
  shows "run_total (clk_propagated (h[c := (h ! c)\<lparr>clk_enabled := e\<rparr>])) (clktree_set_enabled c e h)"
  unfolding clktree_set_enabled_def
  by (rule clktree_recalc_scale_gate [OF assms]) (simp_all add: clk_inv_divisor [OF assms])

lemma clktree_set_scale_spec:
  assumes "clk_inv h" "c < length h" "d \<noteq> 0"
  shows "run_total (clk_propagated (h[c := (h ! c)\<lparr>clk_multiplier := m, clk_divisor := d\<rparr>]))
    (clktree_set_scale c m d h)"
  unfolding clktree_set_scale_def
  by (rule clktree_recalc_scale_gate [OF assms(1,2)]) (simp_all add: assms(3))

text \<open>Selecting an input: the configuration is the new selection, with the input frequency it gives.\<close>

definition clk_selection :: "clk_heap \<Rightarrow> nat \<Rightarrow> int \<Rightarrow> Clk" where
  "clk_selection h c s = (h ! c)\<lparr>clk_selected_input := s,
     clk_input_freq := (case clk_input (h ! c) ! nat (s + 1) of None \<Rightarrow> 0 | Some p \<Rightarrow> clk_output_freq (h ! p))\<rparr>"

lemma clk_update_selection:
  assumes inv: "clk_inv h" and c: "c < length h" and s: "-1 \<le> s" "nat (s + 1) < length (clk_input (h ! c))"
  defines "h0 \<equiv> h[c := clk_selection h c s]"
  shows "clk_links h0" "\<forall>j < length h0. j \<noteq> c \<longrightarrow> clk_out_ok h0 j" "\<forall>j < length h0. clk_in_ok h0 j"
proof -
  have len: "length h0 = length h" by (simp add: h0_def)
  have get: "clk_output (h0 ! j) = clk_output (h ! j)" "clk_input (h0 ! j) = clk_input (h ! j)"
    "clk_divisor (h0 ! j) = clk_divisor (h ! j)" "clk_output_freq (h0 ! j) = clk_output_freq (h ! j)" for j
    unfolding h0_def clk_selection_def using c by (cases "j = c"; simp)+
  have other: "clktree_get_input_clk h0 j = clktree_get_input_clk h j" "h0 ! j = h ! j" if "j \<noteq> c" for j
    using that by (simp_all add: h0_def clktree_get_input_clk_def)
  have sel: "clk_selected_input (h0 ! c) = s" using c by (simp add: h0_def clk_selection_def)
  have "clk_link_ok h0 j" if "j < length h" for j
  proof -
    have ok: "clk_link_ok h j" using inv that by (simp add: clk_inv_def clk_links_def)
    have "-1 \<le> clk_selected_input (h0 ! j) \<and>
        nat (clk_selected_input (h0 ! j) + 1) < length (clk_input (h ! j))"
      using ok s sel other(2) [of j] by (cases "j = c") (simp_all add: clk_link_ok_def)
    then show ?thesis using ok unfolding clk_link_ok_def get len by blast
  qed
  then show "clk_links h0" by (simp add: clk_links_def len)
  show "\<forall>j < length h0. j \<noteq> c \<longrightarrow> clk_out_ok h0 j"
    using inv by (simp add: h0_def clk_out_ok_update_other clk_inv_def clk_consistent_def)
  have "clk_in_ok h0 j" if "j < length h" for j
  proof (cases "j = c")
    case True
    have "clktree_get_input_clk h0 c = clk_input (h ! c) ! nat (s + 1)"
      unfolding clktree_get_input_clk_def get sel ..
    moreover have "clk_input_freq (h0 ! c) =
        (case clk_input (h ! c) ! nat (s + 1) of None \<Rightarrow> 0 | Some p \<Rightarrow> clk_output_freq (h ! p))"
      using c by (simp add: h0_def clk_selection_def)
    ultimately show ?thesis using True by (simp add: clk_in_ok_def get)
  next
    case False
    have "clk_in_ok h j" using inv that by (simp add: clk_inv_def clk_consistent_def)
    then show ?thesis using False by (simp add: clk_in_ok_def other get)
  qed
  then show "\<forall>j < length h0. clk_in_ok h0 j" by (simp add: len)
qed

lemma clk_inv_input_None:
  assumes "clk_inv h" "c < length h" "-1 \<le> s" "nat (s + 1) < length (clk_input (h ! c))"
  shows "clk_input (h ! c) ! nat (s + 1) = None \<longleftrightarrow> s = -1"
proof -
  have k: "hd (clk_input (h ! c)) = None" "None \<notin> set (tl (clk_input (h ! c)))"
    using assms unfolding clk_inv_def clk_links_def clk_link_ok_def by blast+
  show ?thesis
  proof (cases "s = -1")
    case True
    then show ?thesis using k(1) assms(4) by (simp add: hd_conv_nth)
  next
    case False
    then obtain n where n: "nat (s + 1) = Suc n" using assms(3) by (cases "nat (s + 1)") auto
    then have "clk_input (h ! c) ! Suc n \<in> set (tl (clk_input (h ! c)))"
      using assms(4) by (metis Suc_less_eq2 length_tl nth_mem nth_tl diff_Suc_1 gr_implies_not0 length_0_conv list.exhaust_sel length_Cons)
    then show ?thesis using k(2) False n by metis
  qed
qed

lemma clktree_set_selected_input_eq:
  assumes inv: "clk_inv h" and c: "c < length h"
    and s: "-1 \<le> s" "nat (s + 1) < length (clk_input (h ! c))"
  shows "clktree_set_selected_input c s h =
    clktree_recalc_output_freq (clk_fuel h) c (h[c := clk_selection h c s])"
proof (cases "clk_input (h ! c) ! nat (s + 1)")
  case None
  then show ?thesis
    using s c clk_inv_input_None [OF assms]
    by (simp add: clktree_set_selected_input_def clk_selection_def)
next
  case (Some p)
  then have "s > -1" using clk_inv_input_None [OF assms] s(1) by force
  moreover have "clk_output_freq (h[c := (h ! c)\<lparr>clk_selected_input := s\<rparr>] ! p) = clk_output_freq (h ! p)"
    by (cases "p = c") (use c in simp_all)
  ultimately show ?thesis
    using s c Some
    by (simp add: clktree_set_selected_input_def clk_selection_def clktree_get_input_clk_def)
qed

lemma clktree_set_selected_input_spec:
  assumes inv: "clk_inv h" and c: "c < length h"
    and s: "-1 \<le> s" "nat (s + 1) < length (clk_input (h ! c))"
  shows "run_total (clk_propagated (h[c := clk_selection h c s])) (clktree_set_selected_input c s h)"
  unfolding clktree_set_selected_input_eq [OF assms]
  by (rule clktree_recalc_propagates [OF clk_update_selection(1) [OF assms] _ _
        clk_update_selection(2,3) [OF assms]]) (use c in \<open>simp_all add: clk_fuel_def\<close>)

section \<open>Building the tree\<close>

lemma unat_clk_new_output_freq:
  assumes "clk_enabled k" "clk_divisor k \<noteq> 0"
  shows "unat (clk_new_output_freq k) =
    (unat (clk_input_freq k) * unat (clk_multiplier k) div unat (clk_divisor k)) mod 2 ^ 32"
proof -
  have d: "ucast (clk_divisor k) \<noteq> (0 :: u32)"
    using assms(2) by (metis unat_eq_0 unat_ucast16_32)
  show ?thesis
    using assms(1) unat_muldiv64 [OF d, of "ucast (clk_input_freq k)" "ucast (clk_multiplier k)"]
    by (simp add: clk_new_output_freq_def unat_ucast64_32 unat_ucast16_32 mod_mod_cancel)
qed

lemma clk_new_output_freq_copy:
  "clk_enabled k \<Longrightarrow> clk_multiplier k = 1 \<Longrightarrow> clk_divisor k = 1 \<Longrightarrow>
   clk_new_output_freq k = clk_input_freq k"
  by (rule word_unat_eq_iff [THEN iffD2]) (use unat_u32_lt in \<open>simp add: unat_clk_new_output_freq\<close>)

lemma clk_new_output_freq_0: "clk_input_freq k = 0 \<Longrightarrow> clk_new_output_freq k = 0"
  by (simp add: clk_new_output_freq_def muldiv64_def Let_def)

lemma clk_new_output_freq_off: "\<not> clk_enabled k \<Longrightarrow> clk_new_output_freq k = 0"
  by (simp add: clk_new_output_freq_def)

lemma clktree_get_input_clk_append:
  "c < length h \<Longrightarrow> clktree_get_input_clk (h @ hs) c = clktree_get_input_clk h c"
  by (simp add: clktree_get_input_clk_def nth_append)

lemma clk_inv_append_generic:
  assumes inv: "clk_inv h" and d: "d \<noteq> 0"
  shows "clk_inv (h @ [clktree_create_generic nm m d e])"
proof -
  let ?h = "h @ [clktree_create_generic nm m d e]"
  have links: "clk_links h" and cons: "clk_consistent h" using inv by (simp_all add: clk_inv_def)
  have "clk_link_ok ?h c \<and> clk_out_ok ?h c \<and> clk_in_ok ?h c" if "c < length ?h" for c
  proof (cases "c < length h")
    case True
    then have ok: "clk_link_ok h c" "clk_out_ok h c" "clk_in_ok h c"
      using links cons by (simp_all add: clk_links_def clk_consistent_def)
    have at: "?h ! j = h ! j" if "j \<le> c" for j using that True by (simp add: nth_append)
    have "clk_link_ok ?h c"
      using ok(1) True unfolding clk_link_ok_def at [OF order_refl]
      by (force simp: nth_append)
    moreover have "clk_in_ok ?h c"
      using ok(3) True clk_links_input(1) [OF links True]
      by (auto simp: clk_in_ok_def clktree_get_input_clk_append nth_append)
    ultimately show ?thesis using ok(2) at [OF order_refl] by (simp add: clk_out_ok_def)
  next
    case False
    then have "?h ! c = clktree_create_generic nm m d e" using that by (simp add: nth_append)
    then show ?thesis
      using d by (simp add: clk_link_ok_def clk_out_ok_def clk_in_ok_def clktree_get_input_clk_def
          clktree_create_generic_def CLKTREE_NO_INPUT_def clk_new_output_freq_0)
  qed
  then show ?thesis by (simp add: clk_inv_def clk_links_def clk_consistent_def)
qed

lemma clktree_create_src_clk_spec:
  assumes inv: "clk_inv h"
  shows "run_total (\<lambda>(clk, h') es. clk = length h \<and> clk_inv h' \<and>
      length h' = Suc (length h) \<and> clk_output_freq (h' ! clk) = (if e then f else 0))
    (clktree_create_src_clk nm f e h)"
proof -
  define g where "g = clktree_create_generic nm 1 1 e"
  define h0 where "h0 = (h @ [g])[length h := ((h @ [g]) ! length h)\<lparr>clk_input_freq := f\<rparr>]"
  have inv1: "clk_inv (h @ [g])" unfolding g_def by (rule clk_inv_append_generic [OF inv]) simp
  have s: "same_config (h @ [g]) h0"
    unfolding h0_def by (rule same_config_update) (simp_all add: clk_config_def)
  have c: "length h < length (h @ [g])" by simp
  have none: "clktree_get_input_clk (h @ [g]) (length h) = None"
    by (simp add: clktree_get_input_clk_def g_def clktree_create_generic_def CLKTREE_NO_INPUT_def)
  have "clk_out_ok h0 j" if "j < length (h @ [g])" "j \<noteq> length h" for j
    unfolding h0_def clk_out_ok_update_other [OF that(2)]
    using inv1 that by (simp add: clk_inv_def clk_consistent_def)
  then have out: "\<forall>j < length h0. j \<noteq> length h \<longrightarrow> clk_out_ok h0 j" by (simp add: h0_def)
  have "clk_in_ok h0 j" if "j < length (h @ [g])" for j
  proof (cases "j = length h")
    case True
    then show ?thesis using none same_config_fields(9) [OF s c] by (simp add: clk_in_ok_def)
  next
    case False
    then show ?thesis
      using inv1 that unfolding h0_def
      by (subst clk_in_ok_update_input) (simp_all add: clk_inv_def clk_consistent_def)
  qed
  then have ins: "\<forall>j < length h0. clk_in_ok h0 j" by (simp add: h0_def)
  have "run_total (clk_propagated h0) (clktree_recalc_output_freq (clk_fuel (h @ [g])) (length h) h0)"
    by (rule clktree_recalc_propagates [OF clk_links_same_config [OF s] _ _ out ins])
      (use inv1 in \<open>simp_all add: clk_inv_def h0_def clk_fuel_def\<close>)
  then obtain h' es where r: "clktree_recalc_output_freq (clk_fuel (h @ [g])) (length h) h0 = Ok h' es"
    and p: "clk_propagated h0 h' es" by (rule run_totalE)
  have "length h' = Suc (length h)"
    using p by (auto simp: clk_propagated_def h0_def dest: same_config_length)
  moreover have "clk_eval h0 (length h) = (if e then f else 0)"
    using none same_config_fields(9) [OF s c]
    by (subst clk_eval.simps)
      (simp add: h0_def g_def clktree_create_generic_def clk_new_output_freq_copy clk_new_output_freq_off)
  ultimately show ?thesis
    using p r unfolding clktree_create_src_clk_def Let_def g_def [symmetric] clktree_set_input_freq.simps
      h0_def [symmetric]
    by (simp add: clk_propagated_def h0_def)
qed

text \<open>Linking one input of a clock that has no input selected yet.\<close>

definition clk_fresh :: "clk_heap \<Rightarrow> nat \<Rightarrow> bool" where
  "clk_fresh h c \<longleftrightarrow> clk_inv h \<and> Suc c = length h \<and> clk_selected_input (h ! c) = -1"

lemma clktree_add_input_spec:
  assumes fresh: "clk_fresh h c" and p: "p < c" "c \<notin> set (clk_output (h ! p))"
    and room: "length (clk_input (h ! c)) < 16" "length (clk_output (h ! p)) < 16"
  defines "h' \<equiv> h[c := (h ! c)\<lparr>clk_input := clk_input (h ! c) @ [Some p]\<rparr>,
                  p := (h ! p)\<lparr>clk_output := clk_output (h ! p) @ [c]\<rparr>]"
  shows "clktree_add_input c p h = Ok h' []" "clk_fresh h' c"
proof -
  have links: "clk_links h" and cons: "clk_consistent h" and c: "Suc c = length h"
    and sel: "clk_selected_input (h ! c) = -1"
    using fresh by (simp_all add: clk_fresh_def clk_inv_def)
  show "clktree_add_input c p h = Ok h' []"
    using p room by (simp add: clktree_add_input_def CLKTREE_ADD_LINK_def CLKTREE_MAX_INPUT_def
        CLKTREE_MAX_OUTPUT_def h'_def)
  have len: "length h' = length h" by (simp add: h'_def)
  have get: "clk_divisor (h' ! j) = clk_divisor (h ! j)"
    "clk_selected_input (h' ! j) = clk_selected_input (h ! j)"
    "clk_output_freq (h' ! j) = clk_output_freq (h ! j)" "clk_input_freq (h' ! j) = clk_input_freq (h ! j)"
    "clk_new_output_freq (h' ! j) = clk_new_output_freq (h ! j)"
    "clk_input (h' ! j) = (if j = c then clk_input (h ! c) @ [Some p] else clk_input (h ! j))"
    "clk_output (h' ! j) = (if j = p then clk_output (h ! p) @ [c] else clk_output (h ! j))" for j
    using p c by (cases "j = p"; cases "j = c"; simp add: h'_def clk_new_output_freq_def)+
  have ok: "clk_link_ok h j" if "j < length h" for j using links that by (simp add: clk_links_def)
  have ne: "clk_input (h ! j) \<noteq> []" if "j < length h" for j
    using ok [OF that] by (auto simp: clk_link_ok_def)
  have inp: "clktree_get_input_clk h' j = clktree_get_input_clk h j" if "j < length h" for j
    using ne [OF that] sel by (cases "j = c") (simp_all add: clktree_get_input_clk_def get nth_append)
  have "clk_link_ok h' j" if "j < length h" for j
    unfolding clk_link_ok_def len get
    using ok [OF that] ne [OF that] p c that unfolding clk_link_ok_def
    by (cases "j = c"; cases "j = p") auto
  moreover have "clk_consistent h'"
    using cons len by (simp add: clk_consistent_def clk_out_ok_def clk_in_ok_def inp get)
  ultimately show "clk_fresh h' c"
    by (simp add: clk_fresh_def clk_inv_def clk_links_def len c get sel)
qed

lemma clktree_add_inputs_spec:
  assumes "clk_fresh h c" "distinct ps" "length (clk_input (h ! c)) + length ps \<le> 16"
    and "\<forall>p \<in> set ps. p < c \<and> c \<notin> set (clk_output (h ! p)) \<and> length (clk_output (h ! p)) < 16"
  shows "run_total (\<lambda>h' es. clk_fresh h' c \<and> length h' = length h \<and>
      clk_input (h' ! c) = clk_input (h ! c) @ map Some ps) (run_for ps (clktree_add_input c) h)"
  using assms
proof (induction ps arbitrary: h)
  case Nil
  then show ?case by simp
next
  case (Cons p ps)
  define h1 where "h1 = h[c := (h ! c)\<lparr>clk_input := clk_input (h ! c) @ [Some p]\<rparr>,
                  p := (h ! p)\<lparr>clk_output := clk_output (h ! p) @ [c]\<rparr>]"
  have add: "clktree_add_input c p h = Ok h1 []" "clk_fresh h1 c"
    unfolding h1_def by (rule clktree_add_input_spec; use Cons.prems in auto)+
  have c: "c < length h" using Cons.prems(1) by (simp add: clk_fresh_def)
  have inp: "clk_input (h1 ! c) = clk_input (h ! c) @ [Some p]"
    using Cons.prems(4) c by (simp add: h1_def)
  have outp: "clk_output (h1 ! q) = clk_output (h ! q)" if "q \<in> set ps" for q
  proof -
    have "q \<noteq> p" using Cons.prems(2) that by auto
    then show ?thesis using c by (cases "q = c") (simp_all add: h1_def)
  qed
  have "run_total (\<lambda>h' es. clk_fresh h' c \<and> length h' = length h1 \<and>
      clk_input (h' ! c) = clk_input (h1 ! c) @ map Some ps) (run_for ps (clktree_add_input c) h1)"
    by (rule Cons.IH [OF add(2)]) (use Cons.prems inp outp in auto)
  then show ?case using add(1) inp by (simp add: h1_def)
qed

lemma clktree_create_linked:
  assumes inv: "clk_inv h" and d: "d \<noteq> 0" and ps: "distinct ps" "length ps < 16"
    and old: "\<forall>p \<in> set ps. p < length h \<and> length (clk_output (h ! p)) < 16"
  shows "run_total (\<lambda>h1 es. clk_fresh h1 (length h) \<and> length h1 = Suc (length h) \<and>
      clk_input (h1 ! length h) = None # map Some ps)
    (run_for ps (clktree_add_input (length h)) (h @ [clktree_create_generic nm m d e]))"
proof -
  define h0 where "h0 = h @ [clktree_create_generic nm m d e]"
  have fresh: "clk_fresh h0 (length h)"
    using clk_inv_append_generic [OF inv d]
    by (simp add: clk_fresh_def h0_def clktree_create_generic_def CLKTREE_NO_INPUT_def)
  have new: "length h \<notin> set (clk_output (h ! p))" if "p < length h" for p
    using clk_links_output(2) [of h p "length h"] inv that by (auto simp: clk_inv_def)
  have i0: "clk_input (h0 ! length h) = [None]" by (simp add: h0_def clktree_create_generic_def)
  have "run_total (\<lambda>h' es. clk_fresh h' (length h) \<and> length h' = length h0 \<and>
      clk_input (h' ! length h) = clk_input (h0 ! length h) @ map Some ps)
      (run_for ps (clktree_add_input (length h)) h0)"
    by (rule clktree_add_inputs_spec [OF fresh ps(1)])
      (use ps(2) old new i0 in \<open>auto simp: h0_def nth_append\<close>)
  then show ?thesis unfolding i0 by (simp add: h0_def)
qed

lemma clktree_create_clk_spec:
  assumes "clk_inv h" "d \<noteq> 0" "distinct ps" "length ps < 16"
    and "\<forall>p \<in> set ps. p < length h \<and> length (clk_output (h ! p)) < 16"
    and s: "-1 \<le> s" "s < int (length ps)"
  shows "run_total (\<lambda>(clk, h') es. clk = length h \<and> clk_inv h' \<and> length h' = Suc (length h) \<and>
      clktree_get_input_clk h' clk = (None # map Some ps) ! nat (s + 1))
    (clktree_create_clk nm m d e mx s ps h)"
proof -
  obtain h1 es where r1: "run_for ps (clktree_add_input (length h)) (h @ [clktree_create_generic nm m d e]) = Ok h1 es"
    and f1: "clk_fresh h1 (length h)" "length h1 = Suc (length h)"
    and i1: "clk_input (h1 ! length h) = None # map Some ps"
    using clktree_create_linked [OF assms(1-5)] by (blast elim: run_totalE)
  have inv1: "clk_inv h1" using f1(1) by (simp add: clk_fresh_def)
  have "run_total (clk_propagated (h1[length h := clk_selection h1 (length h) s]))
      (clktree_set_selected_input (length h) s h1)"
    by (rule clktree_set_selected_input_spec [OF inv1]) (use f1(2) i1 s in \<open>simp_all add: nat_less_iff\<close>)
  then obtain h2 fs where r2: "clktree_set_selected_input (length h) s h1 = Ok h2 fs"
    and p2: "clk_propagated (h1[length h := clk_selection h1 (length h) s]) h2 fs"
    by (rule run_totalE)
  let ?h1 = "h1[length h := clk_selection h1 (length h) s]"
  have "same_config ?h1 h2" using p2 by (simp add: clk_propagated_def)
  then have "length h2 = Suc (length h)" "clktree_get_input_clk h2 (length h) = (None # map Some ps) ! nat (s + 1)"
    using same_config_fields(9) [of ?h1 h2 "length h"] f1(2) i1
    by (auto simp: clktree_get_input_clk_def clk_selection_def dest: same_config_length)
  then show ?thesis
    using p2 r1 r2 by (simp add: clktree_create_clk_def clk_propagated_def)
qed

lemma clktree_adduser_spec:
  assumes inv: "clk_inv h" and c: "c < length h" and room: "length (clk_user (h ! c)) < 16"
  shows "run_total (\<lambda>h' es. es = [] \<and> clk_inv h' \<and> h' = h[c := (h ! c)\<lparr>clk_user := clk_user (h ! c) @ [u]\<rparr>])
    (clktree_adduser c u h)"
proof -
  let ?h = "h[c := (h ! c)\<lparr>clk_user := clk_user (h ! c) @ [u]\<rparr>]"
  have d: "clk_divisor ((h ! c)\<lparr>clk_user := clk_user (h ! c) @ [u]\<rparr>) \<noteq> 0"
    using clk_inv_divisor [OF inv c] by simp
  note upd = clk_update_scale_gate [OF inv c d, simplified]
  have "clk_out_ok h c" using inv c by (simp add: clk_inv_def clk_consistent_def)
  then have "clk_out_ok ?h c" using c by (simp add: clk_out_ok_def clk_new_output_freq_def)
  then have "\<forall>j < length ?h. clk_out_ok ?h j" using upd(2) by (metis length_list_update)
  then have "clk_inv ?h" using upd(1,3) by (simp add: clk_inv_def clk_consistent_def)
  then show ?thesis
    using room by (simp add: clktree_adduser_def CLKTREE_ADD_LINK_def CLKTREE_MAX_IRQ_def)
qed

section \<open>No frequency limit is ever recorded\<close>

definition clk_unlimited :: "clk_heap \<Rightarrow> bool" where
  "clk_unlimited h \<longleftrightarrow> (\<forall>c < length h. clk_max_output_freq (h ! c) = CLKTREE_NO_MAX_FREQ)"

primrec not_stderr :: "effect \<Rightarrow> bool" where
  "not_stderr (SetIrq i l) = True"
| "not_stderr (ClkNotify i f) = True"
| "not_stderr (HwWarn s) = True"
| "not_stderr (Stderr s) = False"
| "not_stderr (GuestLog s) = True"
| "not_stderr (ChrWrite b) = True"
| "not_stderr (PostEvent e) = True"
| "not_stderr (PostDigitalOut p n v) = True"
| "not_stderr WaitAck = True"
| "not_stderr (Printf s) = True"

lemma clk_unlimited_same_config: "same_config h h' \<Longrightarrow> clk_unlimited h \<Longrightarrow> clk_unlimited h'"
  by (simp add: clk_unlimited_def same_config_fields same_config_length)

lemma clk_max_freq_warning_none:
  assumes "clk_max_output_freq k = CLKTREE_NO_MAX_FREQ"
  shows "clk_max_freq_warning k f = []"
proof -
  have "f \<le> - 1" by (rule word_order.extremum)
  moreover have "(- 1 :: u32) = CLKTREE_NO_MAX_FREQ" by (simp add: CLKTREE_NO_MAX_FREQ_def)
  ultimately show ?thesis using assms by (simp add: clk_max_freq_warning_def)
qed

lemma clktree_recalc_silent:
  assumes "clk_links h" "clk_unlimited h" "c < length h"
  shows "run_sat (\<lambda>h' es. same_config h h' \<and> list_all not_stderr es) (clktree_recalc_output_freq fuel c h)"
  using assms
proof (induction fuel arbitrary: c h)
  case (Suc fuel)
  define f where "f = clk_new_output_freq (h ! c)"
  define h1 where "h1 = h[c := (h ! c)\<lparr>clk_output_freq := f\<rparr>]"
  let ?body = "\<lambda>x h. if clktree_get_input_clk h x = Some c then clktree_set_input_freq fuel x f h else Ok h []"
  have warn: "clk_max_freq_warning (h ! c) f = []"
    using Suc.prems by (simp add: clk_max_freq_warning_none clk_unlimited_def)
  have s1: "same_config h h1"
    unfolding h1_def by (rule same_config_update) (use Suc.prems in \<open>simp_all add: clk_config_def\<close>)
  have "run_sat (\<lambda>h' es. same_config h h' \<and> list_all not_stderr es) (run_for (clk_output (h ! c)) ?body h1)"
  proof (rule run_for_emits [where I = "same_config h", OF _ s1])
    fix x h2 assume x: "x \<in> set (clk_output (h ! c))" and s2: "same_config h h2"
    have len: "x < length h2"
      using clk_links_output(2) [OF Suc.prems(1,3) x] same_config_length [OF s2] by simp
    define h3 where "h3 = h2[x := (h2 ! x)\<lparr>clk_input_freq := f\<rparr>]"
    have s3: "same_config h h3"
      unfolding h3_def by (rule same_config_trans [OF s2 same_config_update [OF len]]) (simp add: clk_config_def)
    have "run_sat (\<lambda>h' es. same_config h3 h' \<and> list_all not_stderr es) (clktree_recalc_output_freq fuel x h3)"
      using clk_links_same_config [OF s3] clk_unlimited_same_config [OF s3] Suc.prems len
      by (intro Suc.IH) (simp_all add: h3_def)
    then have "run_sat (\<lambda>h' es. same_config h h' \<and> list_all not_stderr es) (clktree_recalc_output_freq fuel x h3)"
      by (rule run_sat_mono) (use s3 same_config_trans in blast)
    then show "run_sat (\<lambda>h' es. same_config h h' \<and> list_all not_stderr es) (?body x h2)"
      using s2 by (simp add: h3_def)
  qed
  then show ?case
    unfolding clktree_recalc_output_freq.simps Let_def f_def [symmetric] h1_def [symmetric] warn
    by (auto simp: list_all_iff elim!: run_sat_mono)
qed simp


text \<open>
  Every tree the public operations can build and the effects on the way. The premises are what the
  callers keep to: clocks that exist, divisors other than 0, room in the link arrays.
\<close>

inductive clk_reach :: "clk_heap \<Rightarrow> effect list \<Rightarrow> bool" where
  reach_empty: "clk_reach [] []"
| reach_src: "clk_reach h es \<Longrightarrow> clktree_create_src_clk nm f e h = Ok (c, h') fs \<Longrightarrow> clk_reach h' (es @ fs)"
| reach_clk: "clk_reach h es \<Longrightarrow> d \<noteq> 0 \<Longrightarrow> distinct ps \<Longrightarrow> length ps < 16 \<Longrightarrow>
    \<forall>p \<in> set ps. p < length h \<and> length (clk_output (h ! p)) < 16 \<Longrightarrow> -1 \<le> s \<Longrightarrow> s < int (length ps) \<Longrightarrow>
    clktree_create_clk nm m d e mx s ps h = Ok (c, h') fs \<Longrightarrow> clk_reach h' (es @ fs)"
| reach_user: "clk_reach h es \<Longrightarrow> c < length h \<Longrightarrow> clktree_adduser c u h = Ok h' fs \<Longrightarrow> clk_reach h' (es @ fs)"
| reach_scale: "clk_reach h es \<Longrightarrow> c < length h \<Longrightarrow> d \<noteq> 0 \<Longrightarrow>
    clktree_set_scale c m d h = Ok h' fs \<Longrightarrow> clk_reach h' (es @ fs)"
| reach_enabled: "clk_reach h es \<Longrightarrow> c < length h \<Longrightarrow> clktree_set_enabled c e h = Ok h' fs \<Longrightarrow> clk_reach h' (es @ fs)"
| reach_selected: "clk_reach h es \<Longrightarrow> c < length h \<Longrightarrow>
    clktree_set_selected_input c s h = Ok h' fs \<Longrightarrow> clk_reach h' (es @ fs)"

definition clk_sane :: "clk_heap \<Rightarrow> effect list \<Rightarrow> bool" where
  "clk_sane h es \<longleftrightarrow> clk_inv h \<and> clk_unlimited h \<and> list_all not_stderr es"

lemma clk_unlimited_update:
  assumes "clk_unlimited h" "clk_max_output_freq k = clk_max_output_freq (h ! c)"
  shows "clk_unlimited (h[c := k])"
  unfolding clk_unlimited_def
proof (intro allI impI)
  fix j assume "j < length (h[c := k])"
  then show "clk_max_output_freq (h[c := k] ! j) = CLKTREE_NO_MAX_FREQ"
    using assms by (cases "j = c") (simp_all add: clk_unlimited_def)
qed

lemma clktree_recalc_sane:
  assumes "clk_links h" "clk_unlimited h" "c < length h" "clktree_recalc_output_freq fuel c h = Ok h' fs"
  shows "clk_unlimited h' \<and> list_all not_stderr fs"
  using run_satD [OF clktree_recalc_silent [OF assms(1-3)] assms(4)] clk_unlimited_same_config assms(2)
  by blast

lemma clk_unlimited_append:
  "clk_unlimited h \<Longrightarrow> clk_unlimited (h @ [clktree_create_generic nm m d e])"
  by (auto simp: clk_unlimited_def nth_append clktree_create_generic_def less_Suc_eq)

lemma clktree_set_input_silent:
  assumes "clk_inv h" "clk_unlimited h" "c < length h" "clktree_set_input_freq fuel c f h = Ok h' fs"
  shows "clk_unlimited h' \<and> list_all not_stderr fs"
proof -
  let ?h = "h[c := (h ! c)\<lparr>clk_input_freq := f\<rparr>]"
  have s: "same_config h ?h" by (rule same_config_update) (simp_all add: assms(3) clk_config_def)
  show ?thesis
    by (rule clktree_recalc_sane [OF clk_links_same_config [OF s] clk_unlimited_same_config [OF s]])
      (use assms in \<open>simp_all add: clk_inv_def\<close>)
qed

lemma clktree_add_input_unlimited:
  assumes "clktree_add_input c p h = Ok h' fs" "clk_unlimited h"
  shows "clk_unlimited h' \<and> fs = []"
  using assms
  by (auto simp: clktree_add_input_def run_bind_eq_Ok CLKTREE_ADD_LINK_def Let_def
      intro!: clk_unlimited_update split: if_splits)

lemma clktree_set_selected_silent:
  assumes "clk_inv h" "clk_unlimited h" "c < length h" "clktree_set_selected_input c s h = Ok h' fs"
  shows "clk_unlimited h' \<and> list_all not_stderr fs"
proof -
  have s: "-1 \<le> s" "nat (s + 1) < length (clk_input (h ! c))"
    using assms(4) by (auto simp: clktree_set_selected_input_def split: if_splits)
  have k: "clk_max_output_freq (clk_selection h c s) = clk_max_output_freq (h ! c)"
    by (simp add: clk_selection_def)
  show ?thesis
    by (rule clktree_recalc_sane [OF clk_update_selection(1) [OF assms(1,3) s]
          clk_unlimited_update [OF assms(2) k]])
      (use assms(3,4) clktree_set_selected_input_eq [OF assms(1,3) s] in simp_all)
qed

lemma clktree_create_clk_silent:
  assumes "clk_unlimited h" "clktree_create_clk nm m d e mx s ps h = Ok (c, h') fs"
    and "\<And>h1. run_for ps (clktree_add_input (length h)) (h @ [clktree_create_generic nm m d e]) = Ok h1 []
           \<Longrightarrow> clk_inv h1 \<and> length h < length h1"
  shows "clk_unlimited h' \<and> list_all not_stderr fs"
proof -
  let ?h = "h @ [clktree_create_generic nm m d e]"
  obtain h1 es gs where r: "run_for ps (clktree_add_input (length h)) ?h = Ok h1 es"
    and q: "clktree_set_selected_input (length h) s h1 = Ok h' gs" "fs = es @ gs"
    using assms(2) by (auto simp: clktree_create_clk_def Let_def run_bind_eq_Ok)
  have "run_sat (\<lambda>h' es. clk_unlimited h' \<and> list_all (\<lambda>_. False) es)
      (run_for ps (clktree_add_input (length h)) ?h)"
  proof (rule run_for_emits [where I = clk_unlimited, OF _ clk_unlimited_append [OF assms(1)]])
    show "run_sat (\<lambda>h' es. clk_unlimited h' \<and> list_all (\<lambda>_. False) es) (clktree_add_input (length h) i s)"
      if "clk_unlimited s" for i s
      using clktree_add_input_unlimited [OF _ that, of "length h" i]
      by (cases "clktree_add_input (length h) i s") simp_all
  qed
  then have "clk_unlimited h1" "es = []" using r by (simp, cases es, auto)
  then show ?thesis using clktree_set_selected_silent [OF _ _ _ q(1)] assms(3) r q(2) by auto
qed

lemma clktree_recalc_scale_gate_silent:
  assumes "clk_inv h" "clk_unlimited h" "c < length h" "clk_divisor k \<noteq> 0"
    and "clk_input_freq k = clk_input_freq (h ! c)" "clk_output_freq k = clk_output_freq (h ! c)"
      "clk_output k = clk_output (h ! c)" "clk_input k = clk_input (h ! c)"
      "clk_selected_input k = clk_selected_input (h ! c)"
      "clk_max_output_freq k = clk_max_output_freq (h ! c)"
    and "clktree_recalc_output_freq fuel c (h[c := k]) = Ok h' fs"
  shows "clk_unlimited h' \<and> list_all not_stderr fs"
  by (rule clktree_recalc_sane [OF clk_update_scale_gate(1) [OF assms(1,3-9)]
        clk_unlimited_update [OF assms(2,10)] _ assms(11)]) (simp add: assms(3))

lemma run_total_result: "run_total P r \<Longrightarrow> r = Ok a es \<Longrightarrow> P a es"
  by simp

lemma clk_sane_step:
  "clk_sane h es \<Longrightarrow> clk_inv h' \<Longrightarrow> clk_unlimited h' \<and> list_all not_stderr fs \<Longrightarrow> clk_sane h' (es @ fs)"
  by (simp add: clk_sane_def)

lemma clk_sane_src:
  assumes sane: "clk_sane h es" and r: "clktree_create_src_clk nm f e h = Ok (c, h') fs"
  shows "clk_sane h' (es @ fs)"
proof (rule clk_sane_step [OF sane])
  have inv: "clk_inv h" "clk_unlimited h" using sane by (simp_all add: clk_sane_def)
  show "clk_inv h'" using run_total_result [OF clktree_create_src_clk_spec [OF inv(1)] r] by simp
  let ?h = "h @ [clktree_create_generic nm 1 1 e]"
  have "clktree_set_input_freq (clk_fuel ?h) (length h) f ?h = Ok h' fs"
    using r by (auto simp: clktree_create_src_clk_def Let_def)
  then show "clk_unlimited h' \<and> list_all not_stderr fs"
    by (rule clktree_set_input_silent [OF clk_inv_append_generic [OF inv(1)] clk_unlimited_append [OF inv(2)], rotated 2])
      simp_all
qed

lemma clk_sane_clk:
  assumes sane: "clk_sane h es" and pre: "d \<noteq> 0" "distinct ps" "length ps < 16"
      "\<forall>p \<in> set ps. p < length h \<and> length (clk_output (h ! p)) < 16" "-1 \<le> s" "s < int (length ps)"
    and r: "clktree_create_clk nm m d e mx s ps h = Ok (c, h') fs"
  shows "clk_sane h' (es @ fs)"
proof (rule clk_sane_step [OF sane])
  have inv: "clk_inv h" "clk_unlimited h" using sane by (simp_all add: clk_sane_def)
  show "clk_inv h'" using clktree_create_clk_spec [OF inv(1) pre, of nm m e mx] unfolding r by simp
  show "clk_unlimited h' \<and> list_all not_stderr fs"
  proof (rule clktree_create_clk_silent [OF inv(2) r])
    fix h1 assume r1: "run_for ps (clktree_add_input (length h)) (h @ [clktree_create_generic nm m d e]) = Ok h1 []"
    show "clk_inv h1 \<and> length h < length h1"
      using clktree_create_linked [OF inv(1) pre(1-4), of nm m e] unfolding r1 run_total.simps clk_fresh_def by (metis lessI)
  qed
qed

lemma clk_sane_user:
  assumes sane: "clk_sane h es" and c: "c < length h" and r: "clktree_adduser c u h = Ok h' fs"
  shows "clk_sane h' (es @ fs)"
proof (rule clk_sane_step [OF sane])
  have inv: "clk_inv h" "clk_unlimited h" using sane by (simp_all add: clk_sane_def)
  have h': "h' = h[c := (h ! c)\<lparr>clk_user := clk_user (h ! c) @ [u]\<rparr>]" "fs = []"
    and room: "length (clk_user (h ! c)) < 16"
    using r by (auto simp: clktree_adduser_def CLKTREE_ADD_LINK_def CLKTREE_MAX_IRQ_def Let_def split: if_splits)
  show "clk_inv h'" using run_total_result [OF clktree_adduser_spec [OF inv(1) c room] r] by blast
  show "clk_unlimited h' \<and> list_all not_stderr fs" using h' inv(2) by (simp add: clk_unlimited_update)
qed

lemma clk_sane_set:
  assumes sane: "clk_sane h es" and c: "c < length h"
    and r: "clktree_set_scale c m d h = Ok h' fs \<and> d \<noteq> 0 \<or> clktree_set_enabled c e h = Ok h' fs \<or>
            clktree_set_selected_input c s h = Ok h' fs"
  shows "clk_sane h' (es @ fs)"
proof (rule clk_sane_step [OF sane])
  have inv: "clk_inv h" "clk_unlimited h" using sane by (simp_all add: clk_sane_def)
  have s: "-1 \<le> s" "nat (s + 1) < length (clk_input (h ! c))"
    if "clktree_set_selected_input c s h = Ok h' fs"
    using that by (auto simp: clktree_set_selected_input_def split: if_splits)
  show "clk_inv h'"
    using r run_total_result [OF clktree_set_scale_spec [OF inv(1) c]]
      run_total_result [OF clktree_set_enabled_spec [OF inv(1) c]]
      run_total_result [OF clktree_set_selected_input_spec [OF inv(1) c s]]
    by (auto simp: clk_propagated_def)
  show "clk_unlimited h' \<and> list_all not_stderr fs"
    using r
  proof (elim disjE conjE)
    assume "clktree_set_scale c m d h = Ok h' fs" "d \<noteq> 0"
    then show ?thesis
      unfolding clktree_set_scale_def
      by (intro clktree_recalc_scale_gate_silent [OF inv c]) simp_all
  next
    assume "clktree_set_enabled c e h = Ok h' fs"
    then show ?thesis
      unfolding clktree_set_enabled_def
      using clk_inv_divisor [OF inv(1) c]
      by (intro clktree_recalc_scale_gate_silent [OF inv c]) simp_all
  qed (rule clktree_set_selected_silent [OF inv c])
qed

lemma clk_reach_sane: "clk_reach h es \<Longrightarrow> clk_sane h es"
proof (induction rule: clk_reach.induct)
  case reach_empty
  show ?case by (simp add: clk_sane_def clk_inv_def clk_links_def clk_consistent_def clk_unlimited_def)
qed (blast intro: clk_sane_src clk_sane_clk clk_sane_user clk_sane_set)+

section \<open>Properties\<close>

text \<open>
  C26: changing the gate, the scale or the selected input of a clock returns a tree that satisfies the
  invariant again, in which every clock has the frequency recomputed from the new configuration of
  the whole tree, and the notified users are exactly those of the clocks whose frequency changed.
\<close>

theorem clktree_ops_settle:
  assumes "clk_inv h" "c < length h" "d \<noteq> 0" "-1 \<le> s" "nat (s + 1) < length (clk_input (h ! c))"
  shows "run_total (clk_propagated (h[c := (h ! c)\<lparr>clk_enabled := e\<rparr>])) (clktree_set_enabled c e h) \<and>
    run_total (clk_propagated (h[c := (h ! c)\<lparr>clk_multiplier := m, clk_divisor := d\<rparr>]))
      (clktree_set_scale c m d h) \<and>
    run_total (clk_propagated (h[c := clk_selection h c s])) (clktree_set_selected_input c s h)"
  using clktree_set_enabled_spec clktree_set_scale_spec clktree_set_selected_input_spec assms by simp

text \<open>A tree for the witnesses: an 8 MHz source and a clock that multiplies it by 9/2,
  created with a limit of 1 MHz that it exceeds at once.\<close>

definition clk_example :: clk_heap where
  "clk_example =
     [(clktree_create_generic ''HSI'' 1 1 True)\<lparr>clk_input_freq := 8000000, clk_output_freq := 8000000, clk_output := [1]\<rparr>,
      (clktree_create_generic ''PLL'' 9 2 True)\<lparr>clk_input_freq := 8000000, clk_output_freq := 36000000,
        clk_input := [None, Some 0], clk_selected_input := 0\<rparr>]"

lemma clk_example_reach: "clk_reach clk_example []"
proof -
  define h1 where "h1 = [(clktree_create_generic ''HSI'' 1 1 True)\<lparr>clk_input_freq := 8000000, clk_output_freq := 8000000\<rparr>]"
  have "clktree_create_src_clk ''HSI'' 8000000 True [] = Ok (0, h1) []"
    unfolding h1_def by code_simp
  from reach_src [OF reach_empty this] have r1: "clk_reach h1 []" by simp
  have "clktree_create_clk ''PLL'' 9 2 True 1000000 0 [0] h1 = Ok (1, clk_example) []"
    unfolding h1_def clk_example_def by code_simp
  from reach_clk [OF r1 _ _ _ _ _ _ this] show ?thesis by (simp add: h1_def clktree_create_generic_def)
qed

theorem clktree_ops_settle_witness:
  "run_total (clk_propagated (clk_example[0 := (clk_example ! 0)\<lparr>clk_enabled := False\<rparr>]))
     (clktree_set_enabled 0 False clk_example)"
proof -
  have "clk_inv clk_example" using clk_reach_sane [OF clk_example_reach] by (simp add: clk_sane_def)
  then show ?thesis
    using clktree_ops_settle [of clk_example 0 1 "-1" False 1]
    by (simp add: clk_example_def clktree_create_generic_def)
qed

text \<open>
  C9: in every tree the public operations can build, the frequency \<open>clktree_get_output_freq\<close> returns is
  the one recomputed from the configuration of the tree.
\<close>

theorem clk_reach_consistent:
  assumes "clk_reach h es" "c < length h"
  shows "clktree_get_output_freq h c = clk_eval h c"
  using clk_inv_output_eval clk_reach_sane [OF assms(1)] assms(2)
  by (simp add: clktree_get_output_freq_def clk_sane_def)

theorem clk_reach_consistent_witness:
  "clktree_get_output_freq clk_example 1 = 36000000 \<and> clk_eval clk_example 1 = 36000000"
proof -
  have "clktree_get_output_freq clk_example 1 = 36000000" by code_simp
  then show ?thesis
    using clk_reach_consistent [OF clk_example_reach, of 1] by (simp add: clk_example_def)
qed

text \<open>
  C27: none of these trees ever reports that a clock exceeds its maximum output frequency, whatever
  limits the callers gave to \<open>clktree_create_clk\<close>.
\<close>

theorem clk_reach_no_warning:
  assumes "clk_reach h es"
  shows "Stderr msg \<notin> set es"
  using clk_reach_sane [OF assms] by (auto simp: clk_sane_def list_all_iff)

theorem clk_reach_no_warning_witness: "clk_reach clk_example [] \<and> Stderr ''exceeds'' \<notin> set []"
  using clk_example_reach clk_reach_no_warning [OF clk_example_reach, of "''exceeds''"] by blast

end
