(* ===== verification/Stm32_Defs.thy ===== *)
theory Stm32_Defs
  imports Bitops
begin

text \<open>
  The constants of \<open>include/hw/arm/stm32.h\<close> that the devices use, its error macros, and the two
  helpers of \<open>hw/arm/stm32.c\<close> that every device calls: the hardware warning and the names of the
  peripherals. A \<open>#define\<close> of the C sources is an abbreviation. The text of a message is kept
  without the numbers printed into it.
\<close>

section \<open>Constants\<close>

text \<open>Indexes of the GPIO ports.\<close>

abbreviation (input) STM32_GPIOA_INDEX :: nat where "STM32_GPIOA_INDEX \<equiv> 0"
abbreviation (input) STM32_GPIOB_INDEX :: nat where "STM32_GPIOB_INDEX \<equiv> 1"
abbreviation (input) STM32_GPIOC_INDEX :: nat where "STM32_GPIOC_INDEX \<equiv> 2"
abbreviation (input) STM32_GPIOD_INDEX :: nat where "STM32_GPIOD_INDEX \<equiv> 3"
abbreviation (input) STM32_GPIOE_INDEX :: nat where "STM32_GPIOE_INDEX \<equiv> 4"
abbreviation (input) STM32_GPIOF_INDEX :: nat where "STM32_GPIOF_INDEX \<equiv> 5"
abbreviation (input) STM32_GPIOG_INDEX :: nat where "STM32_GPIOG_INDEX \<equiv> 6"

text \<open>Indexes of the UARTs.\<close>

abbreviation (input) STM32_UART1_INDEX :: nat where "STM32_UART1_INDEX \<equiv> 0"
abbreviation (input) STM32_UART2_INDEX :: nat where "STM32_UART2_INDEX \<equiv> 1"
abbreviation (input) STM32_UART3_INDEX :: nat where "STM32_UART3_INDEX \<equiv> 2"
abbreviation (input) STM32_UART4_INDEX :: nat where "STM32_UART4_INDEX \<equiv> 3"
abbreviation (input) STM32_UART5_INDEX :: nat where "STM32_UART5_INDEX \<equiv> 4"

text \<open>Peripheral numbers (\<open>stm32_periph_t\<close>).\<close>

abbreviation (input) STM32_RCC_PERIPH :: nat where "STM32_RCC_PERIPH \<equiv> 0"
abbreviation (input) STM32_GPIOA :: nat where "STM32_GPIOA \<equiv> 1"
abbreviation (input) STM32_GPIOB :: nat where "STM32_GPIOB \<equiv> 2"
abbreviation (input) STM32_GPIOC :: nat where "STM32_GPIOC \<equiv> 3"
abbreviation (input) STM32_GPIOD :: nat where "STM32_GPIOD \<equiv> 4"
abbreviation (input) STM32_GPIOE :: nat where "STM32_GPIOE \<equiv> 5"
abbreviation (input) STM32_GPIOF :: nat where "STM32_GPIOF \<equiv> 6"
abbreviation (input) STM32_GPIOG :: nat where "STM32_GPIOG \<equiv> 7"
abbreviation (input) STM32_AFIO_PERIPH :: nat where "STM32_AFIO_PERIPH \<equiv> 8"
abbreviation (input) STM32_UART1 :: nat where "STM32_UART1 \<equiv> 9"
abbreviation (input) STM32_UART2 :: nat where "STM32_UART2 \<equiv> 10"
abbreviation (input) STM32_UART3 :: nat where "STM32_UART3 \<equiv> 11"
abbreviation (input) STM32_UART4 :: nat where "STM32_UART4 \<equiv> 12"
abbreviation (input) STM32_UART5 :: nat where "STM32_UART5 \<equiv> 13"
abbreviation (input) STM32_ADC1 :: nat where "STM32_ADC1 \<equiv> 14"
abbreviation (input) STM32_ADC2 :: nat where "STM32_ADC2 \<equiv> 15"
abbreviation (input) STM32_ADC3 :: nat where "STM32_ADC3 \<equiv> 16"
abbreviation (input) STM32_DAC :: nat where "STM32_DAC \<equiv> 17"
abbreviation (input) STM32_TIM1 :: nat where "STM32_TIM1 \<equiv> 18"
abbreviation (input) STM32_TIM2 :: nat where "STM32_TIM2 \<equiv> 19"
abbreviation (input) STM32_TIM3 :: nat where "STM32_TIM3 \<equiv> 20"
abbreviation (input) STM32_TIM4 :: nat where "STM32_TIM4 \<equiv> 21"
abbreviation (input) STM32_TIM5 :: nat where "STM32_TIM5 \<equiv> 22"
abbreviation (input) STM32_TIM6 :: nat where "STM32_TIM6 \<equiv> 23"
abbreviation (input) STM32_TIM7 :: nat where "STM32_TIM7 \<equiv> 24"
abbreviation (input) STM32_TIM8 :: nat where "STM32_TIM8 \<equiv> 25"
abbreviation (input) STM32_BKP :: nat where "STM32_BKP \<equiv> 26"
abbreviation (input) STM32_PWR :: nat where "STM32_PWR \<equiv> 27"
abbreviation (input) STM32_I2C1 :: nat where "STM32_I2C1 \<equiv> 28"
abbreviation (input) STM32_I2C2 :: nat where "STM32_I2C2 \<equiv> 29"
abbreviation (input) STM32_I2S2 :: nat where "STM32_I2S2 \<equiv> 30"
abbreviation (input) STM32_I2S3 :: nat where "STM32_I2S3 \<equiv> 31"
abbreviation (input) STM32_WWDG :: nat where "STM32_WWDG \<equiv> 32"
abbreviation (input) STM32_CAN1 :: nat where "STM32_CAN1 \<equiv> 33"
abbreviation (input) STM32_CAN2 :: nat where "STM32_CAN2 \<equiv> 34"
abbreviation (input) STM32_CAN :: nat where "STM32_CAN \<equiv> 35"
abbreviation (input) STM32_USB :: nat where "STM32_USB \<equiv> 36"
abbreviation (input) STM32_SPI1 :: nat where "STM32_SPI1 \<equiv> 37"
abbreviation (input) STM32_SPI2 :: nat where "STM32_SPI2 \<equiv> 38"
abbreviation (input) STM32_SPI3 :: nat where "STM32_SPI3 \<equiv> 39"
abbreviation (input) STM32_EXTI_PERIPH :: nat where "STM32_EXTI_PERIPH \<equiv> 40"
abbreviation (input) STM32_SDIO :: nat where "STM32_SDIO \<equiv> 41"
abbreviation (input) STM32_FSMC :: nat where "STM32_FSMC \<equiv> 42"
abbreviation (input) STM32_PERIPH_COUNT :: nat where "STM32_PERIPH_COUNT \<equiv> 43"

text \<open>Interrupt numbers.\<close>

abbreviation (input) STM32_RCC_IRQ :: nat where "STM32_RCC_IRQ \<equiv> 5"
abbreviation (input) STM32_UART1_IRQ :: nat where "STM32_UART1_IRQ \<equiv> 37"
abbreviation (input) STM32_UART2_IRQ :: nat where "STM32_UART2_IRQ \<equiv> 38"
abbreviation (input) STM32_UART3_IRQ :: nat where "STM32_UART3_IRQ \<equiv> 39"
abbreviation (input) STM32_UART4_IRQ :: nat where "STM32_UART4_IRQ \<equiv> 52"
abbreviation (input) STM32_UART5_IRQ :: nat where "STM32_UART5_IRQ \<equiv> 53"
abbreviation (input) STM32_EXTI0_IRQ :: nat where "STM32_EXTI0_IRQ \<equiv> 6"
abbreviation (input) STM32_EXTI1_IRQ :: nat where "STM32_EXTI1_IRQ \<equiv> 7"
abbreviation (input) STM32_EXTI2_IRQ :: nat where "STM32_EXTI2_IRQ \<equiv> 8"
abbreviation (input) STM32_EXTI3_IRQ :: nat where "STM32_EXTI3_IRQ \<equiv> 9"
abbreviation (input) STM32_EXTI4_IRQ :: nat where "STM32_EXTI4_IRQ \<equiv> 10"
abbreviation (input) STM32_EXTI9_5_IRQ :: nat where "STM32_EXTI9_5_IRQ \<equiv> 23"
abbreviation (input) STM32_EXTI15_10_IRQ :: nat where "STM32_EXTI15_10_IRQ \<equiv> 40"
abbreviation (input) STM32_PVD_IRQ :: nat where "STM32_PVD_IRQ \<equiv> 1"
abbreviation (input) STM32_RTCAlarm_IRQ :: nat where "STM32_RTCAlarm_IRQ \<equiv> 41"
abbreviation (input) STM32_OTG_FS_WKUP_IRQ :: nat where "STM32_OTG_FS_WKUP_IRQ \<equiv> 42"

text \<open>Pin mappings of the USARTs.\<close>

abbreviation (input) STM32_USART1_NO_REMAP :: u32 where "STM32_USART1_NO_REMAP \<equiv> 0"
abbreviation (input) STM32_USART1_REMAP :: u32 where "STM32_USART1_REMAP \<equiv> 1"
abbreviation (input) STM32_USART2_NO_REMAP :: u32 where "STM32_USART2_NO_REMAP \<equiv> 0"
abbreviation (input) STM32_USART2_REMAP :: u32 where "STM32_USART2_REMAP \<equiv> 1"
abbreviation (input) STM32_USART3_NO_REMAP :: u32 where "STM32_USART3_NO_REMAP \<equiv> 0"
abbreviation (input) STM32_USART3_PARTIAL_REMAP :: u32 where "STM32_USART3_PARTIAL_REMAP \<equiv> 1"
abbreviation (input) STM32_USART3_FULL_REMAP :: u32 where "STM32_USART3_FULL_REMAP \<equiv> 3"

text \<open>GPIO pin modes and configurations.\<close>

abbreviation (input) STM32_GPIO_MODE_IN :: u8 where "STM32_GPIO_MODE_IN \<equiv> 0"
abbreviation (input) STM32_GPIO_MODE_OUT_10MHZ :: u8 where "STM32_GPIO_MODE_OUT_10MHZ \<equiv> 1"
abbreviation (input) STM32_GPIO_MODE_OUT_2MHZ :: u8 where "STM32_GPIO_MODE_OUT_2MHZ \<equiv> 2"
abbreviation (input) STM32_GPIO_MODE_OUT_50MHZ :: u8 where "STM32_GPIO_MODE_OUT_50MHZ \<equiv> 3"
abbreviation (input) STM32_GPIO_IN_ANALOG :: u8 where "STM32_GPIO_IN_ANALOG \<equiv> 0"
abbreviation (input) STM32_GPIO_IN_FLOAT :: u8 where "STM32_GPIO_IN_FLOAT \<equiv> 1"
abbreviation (input) STM32_GPIO_IN_PULLUPDOWN :: u8 where "STM32_GPIO_IN_PULLUPDOWN \<equiv> 2"
abbreviation (input) STM32_GPIO_OUT_PUSHPULL :: u8 where "STM32_GPIO_OUT_PUSHPULL \<equiv> 0"
abbreviation (input) STM32_GPIO_OUT_OPENDRAIN :: u8 where "STM32_GPIO_OUT_OPENDRAIN \<equiv> 1"
abbreviation (input) STM32_GPIO_OUT_ALT_PUSHPULL :: u8 where "STM32_GPIO_OUT_ALT_PUSHPULL \<equiv> 2"
abbreviation (input) STM32_GPIO_OUT_ALT_OPEN :: u8 where "STM32_GPIO_OUT_ALT_OPEN \<equiv> 3"

text \<open>Number of UARTs and of pins of a port.\<close>

abbreviation (input) STM32_UART_COUNT :: nat where "STM32_UART_COUNT \<equiv> 5"
abbreviation (input) STM32_GPIO_PIN_COUNT :: nat where "STM32_GPIO_PIN_COUNT \<equiv> 16"

definition STM32_GPIO_COUNT :: nat where
  "STM32_GPIO_COUNT = STM32_GPIOG - STM32_GPIOA + 1"

definition STM32_GPIO_INDEX_FROM_PERIPH :: "nat \<Rightarrow> nat" where
  "STM32_GPIO_INDEX_FROM_PERIPH gpio_periph = gpio_periph - STM32_GPIOA"

definition STM32_GPIO_PERIPH_FROM_INDEX :: "nat \<Rightarrow> nat" where
  "STM32_GPIO_PERIPH_FROM_INDEX gpio_index = STM32_GPIOA + gpio_index"

section \<open>Error macros\<close>

text \<open>\<open>hw_error\<close> aborts the emulator; \<open>qemu_log_mask\<close> only logs.\<close>

definition STM32_BAD_REG :: "nat \<Rightarrow> nat \<Rightarrow> 'a run" where
  "STM32_BAD_REG offset sz = Stop (HwError ''Bad register'') []"

definition STM32_WARN_RO_REG :: "nat \<Rightarrow> effect" where
  "STM32_WARN_RO_REG offset = GuestLog ''Read-only register''"

definition STM32_WARN_WO_REG :: "nat \<Rightarrow> effect" where
  "STM32_WARN_WO_REG offset = GuestLog ''Write-only register''"

definition STM32_NOT_IMPL_REG :: "nat \<Rightarrow> nat \<Rightarrow> 'a run" where
  "STM32_NOT_IMPL_REG offset sz = Stop (HwError ''Not implemented yet'') []"

lemmas reg_error_defs [run_simps] =
  STM32_BAD_REG_def STM32_NOT_IMPL_REG_def STM32_WARN_RO_REG_def STM32_WARN_WO_REG_def

section \<open>Warnings and names\<close>

definition stm32_hw_warn :: "string \<Rightarrow> 's \<Rightarrow> 's run" where
  "stm32_hw_warn msg s = Ok s [HwWarn msg]"

definition stm32_periph_name_arr :: "string list" where
  "stm32_periph_name_arr =
     [''RCC'', ''GPIOA'', ''GPIOB'', ''GPIOC'', ''GPIOD'', ''GPIOE'', ''GPIOF'', ''GPIOG'',
      ''AFIO'', ''UART1'', ''UART2'', ''UART3'', ''UART4'', ''UART5'', ''ADC1'', ''ADC2'',
      ''ADC3'', ''DAC'', ''TIM1'', ''TIM2'', ''TIM3'', ''TIM4'', ''TIM5'', ''TIM6'',
      ''TIM7'', ''TIM8'', ''BKP'', ''PWR'', ''I2C1'', ''I2C2'', ''I2S1'', ''I2S2'',
      ''WWDG'', ''CAN1'', ''CAN2'', ''CAN'', ''USB'', ''SPI1'', ''SPI2'', ''SPI3'']"

definition stm32_periph_name :: "nat \<Rightarrow> string run" where
  "stm32_periph_name periph =
     (if periph < STM32_PERIPH_COUNT
      then if periph < length stm32_periph_name_arr then Ok (stm32_periph_name_arr ! periph) []
           else Stop OutOfBounds []
      else Stop AssertFail [])"

text \<open>The table of names is three entries shorter than the assertion admits.\<close>

lemma stm32_periph_name_total:
  "(\<exists>nm. stm32_periph_name p = Ok nm []) \<longleftrightarrow> p < STM32_EXTI_PERIPH"
  by (simp add: stm32_periph_name_def stm32_periph_name_arr_def)

end
