(* ===== verification/Rcc.thy ===== *)
theory Rcc
  imports Clktree_Ops Stm32_Defs
begin

text \<open>
  The reset and clock control device, \<open>hw/arm/stm32_rcc.c\<close>. The \<open>struct Stm32Rcc\<close> is a record; the
  clocks it points to live in its heap \<open>rcc_clks\<close>, and \<open>PERIPHCLK\<close> is a list of optional pointers.
  The register functions are named as in the source; a block of C statements is a \<open>run_seq\<close>.
\<close>

section \<open>Constants\<close>

abbreviation (input) HSI_FREQ :: u32 where "HSI_FREQ \<equiv> 8000000"
abbreviation (input) LSI_FREQ :: u32 where "LSI_FREQ \<equiv> 40000"
abbreviation (input) RCC_CR_PLLRDY_BIT :: nat where "RCC_CR_PLLRDY_BIT \<equiv> 25"
abbreviation (input) RCC_CR_PLLON_BIT :: nat where "RCC_CR_PLLON_BIT \<equiv> 24"
abbreviation (input) RCC_CR_HSERDY_BIT :: nat where "RCC_CR_HSERDY_BIT \<equiv> 17"
abbreviation (input) RCC_CR_HSEON_BIT :: nat where "RCC_CR_HSEON_BIT \<equiv> 16"
abbreviation (input) RCC_CR_HSIRDY_BIT :: nat where "RCC_CR_HSIRDY_BIT \<equiv> 1"
abbreviation (input) RCC_CR_HSION_BIT :: nat where "RCC_CR_HSION_BIT \<equiv> 0"
abbreviation (input) RCC_CFGR_PLLMUL_START :: nat where "RCC_CFGR_PLLMUL_START \<equiv> 18"
abbreviation (input) RCC_CFGR_PLLMUL_LENGTH :: nat where "RCC_CFGR_PLLMUL_LENGTH \<equiv> 4"
abbreviation (input) RCC_CFGR_PLLXTPRE_BIT :: nat where "RCC_CFGR_PLLXTPRE_BIT \<equiv> 17"
abbreviation (input) RCC_CFGR_PLLSRC_BIT :: nat where "RCC_CFGR_PLLSRC_BIT \<equiv> 16"
abbreviation (input) RCC_CFGR_PPRE2_START :: nat where "RCC_CFGR_PPRE2_START \<equiv> 11"
abbreviation (input) RCC_CFGR_PPRE1_START :: nat where "RCC_CFGR_PPRE1_START \<equiv> 8"
abbreviation (input) RCC_CFGR_HPRE_START :: nat where "RCC_CFGR_HPRE_START \<equiv> 4"
abbreviation (input) RCC_CFGR_SWS_START :: nat where "RCC_CFGR_SWS_START \<equiv> 2"
abbreviation (input) RCC_CFGR_SW_START :: nat where "RCC_CFGR_SW_START \<equiv> 0"
abbreviation (input) RCC_CFGR_PPRE2_MASK :: u32 where "RCC_CFGR_PPRE2_MASK \<equiv> 0x3c00"
abbreviation (input) RCC_CFGR_PPRE1_MASK :: u32 where "RCC_CFGR_PPRE1_MASK \<equiv> 0x700"
abbreviation (input) RCC_CFGR_HPRE_MASK :: u32 where "RCC_CFGR_HPRE_MASK \<equiv> 0xf0"
abbreviation (input) RCC_CFGR_SW_MASK :: u32 where "RCC_CFGR_SW_MASK \<equiv> 0x3"
abbreviation (input) RCC_APB2RSTR_USART1RST_BIT :: nat where "RCC_APB2RSTR_USART1RST_BIT \<equiv> 14"
abbreviation (input) RCC_APB2RSTR_IOPGRST_BIT :: nat where "RCC_APB2RSTR_IOPGRST_BIT \<equiv> 8"
abbreviation (input) RCC_APB2RSTR_IOPFRST_BIT :: nat where "RCC_APB2RSTR_IOPFRST_BIT \<equiv> 7"
abbreviation (input) RCC_APB2RSTR_IOPERST_BIT :: nat where "RCC_APB2RSTR_IOPERST_BIT \<equiv> 6"
abbreviation (input) RCC_APB2RSTR_IOPDRST_BIT :: nat where "RCC_APB2RSTR_IOPDRST_BIT \<equiv> 5"
abbreviation (input) RCC_APB2RSTR_IOPCRST_BIT :: nat where "RCC_APB2RSTR_IOPCRST_BIT \<equiv> 4"
abbreviation (input) RCC_APB2RSTR_IOPBRST_BIT :: nat where "RCC_APB2RSTR_IOPBRST_BIT \<equiv> 3"
abbreviation (input) RCC_APB2RSTR_IOPARST_BIT :: nat where "RCC_APB2RSTR_IOPARST_BIT \<equiv> 2"
abbreviation (input) RCC_APB2RSTR_AFIORST_BIT :: nat where "RCC_APB2RSTR_AFIORST_BIT \<equiv> 0"
abbreviation (input) RCC_APB1RSTR_UART5RST_BIT :: nat where "RCC_APB1RSTR_UART5RST_BIT \<equiv> 20"
abbreviation (input) RCC_APB1RSTR_UART4RST_BIT :: nat where "RCC_APB1RSTR_UART4RST_BIT \<equiv> 19"
abbreviation (input) RCC_APB1RSTR_USART3RST_BIT :: nat where "RCC_APB1RSTR_USART3RST_BIT \<equiv> 18"
abbreviation (input) RCC_APB1RSTR_USART2RST_BIT :: nat where "RCC_APB1RSTR_USART2RST_BIT \<equiv> 17"
abbreviation (input) RCC_APB2ENR_USART1EN_BIT :: nat where "RCC_APB2ENR_USART1EN_BIT \<equiv> 14"
abbreviation (input) RCC_APB2ENR_IOPGEN_BIT :: nat where "RCC_APB2ENR_IOPGEN_BIT \<equiv> 8"
abbreviation (input) RCC_APB2ENR_IOPFEN_BIT :: nat where "RCC_APB2ENR_IOPFEN_BIT \<equiv> 7"
abbreviation (input) RCC_APB2ENR_IOPEEN_BIT :: nat where "RCC_APB2ENR_IOPEEN_BIT \<equiv> 6"
abbreviation (input) RCC_APB2ENR_IOPDEN_BIT :: nat where "RCC_APB2ENR_IOPDEN_BIT \<equiv> 5"
abbreviation (input) RCC_APB2ENR_IOPCEN_BIT :: nat where "RCC_APB2ENR_IOPCEN_BIT \<equiv> 4"
abbreviation (input) RCC_APB2ENR_IOPBEN_BIT :: nat where "RCC_APB2ENR_IOPBEN_BIT \<equiv> 3"
abbreviation (input) RCC_APB2ENR_IOPAEN_BIT :: nat where "RCC_APB2ENR_IOPAEN_BIT \<equiv> 2"
abbreviation (input) RCC_APB2ENR_AFIOEN_BIT :: nat where "RCC_APB2ENR_AFIOEN_BIT \<equiv> 0"
abbreviation (input) RCC_APB1ENR_USART5EN_BIT :: nat where "RCC_APB1ENR_USART5EN_BIT \<equiv> 20"
abbreviation (input) RCC_APB1ENR_USART4EN_BIT :: nat where "RCC_APB1ENR_USART4EN_BIT \<equiv> 19"
abbreviation (input) RCC_APB1ENR_USART3EN_BIT :: nat where "RCC_APB1ENR_USART3EN_BIT \<equiv> 18"
abbreviation (input) RCC_APB1ENR_USART2EN_BIT :: nat where "RCC_APB1ENR_USART2EN_BIT \<equiv> 17"
abbreviation (input) RCC_BDCR_LSERDY_BIT :: nat where "RCC_BDCR_LSERDY_BIT \<equiv> 1"
abbreviation (input) RCC_BDCR_LSEON_BIT :: nat where "RCC_BDCR_LSEON_BIT \<equiv> 0"
abbreviation (input) RCC_CSR_LSIRDY_BIT :: nat where "RCC_CSR_LSIRDY_BIT \<equiv> 1"
abbreviation (input) RCC_CSR_LSION_BIT :: nat where "RCC_CSR_LSION_BIT \<equiv> 0"
abbreviation (input) RCC_CR_OFFSET :: nat where "RCC_CR_OFFSET \<equiv> 0x0"
abbreviation (input) RCC_CFGR_OFFSET :: nat where "RCC_CFGR_OFFSET \<equiv> 0x4"
abbreviation (input) RCC_CIR_OFFSET :: nat where "RCC_CIR_OFFSET \<equiv> 0x8"
abbreviation (input) RCC_APB2RSTR_OFFSET :: nat where "RCC_APB2RSTR_OFFSET \<equiv> 0xc"
abbreviation (input) RCC_APB1RSTR_OFFSET :: nat where "RCC_APB1RSTR_OFFSET \<equiv> 0x10"
abbreviation (input) RCC_AHBENR_OFFSET :: nat where "RCC_AHBENR_OFFSET \<equiv> 0x14"
abbreviation (input) RCC_APB2ENR_OFFSET :: nat where "RCC_APB2ENR_OFFSET \<equiv> 0x18"
abbreviation (input) RCC_APB1ENR_OFFSET :: nat where "RCC_APB1ENR_OFFSET \<equiv> 0x1c"
abbreviation (input) RCC_BDCR_OFFSET :: nat where "RCC_BDCR_OFFSET \<equiv> 0x20"
abbreviation (input) RCC_CSR_OFFSET :: nat where "RCC_CSR_OFFSET \<equiv> 0x24"
abbreviation (input) RCC_AHBRSTR :: nat where "RCC_AHBRSTR \<equiv> 0x28"
abbreviation (input) RCC_CFGR2_OFFSET :: nat where "RCC_CFGR2_OFFSET \<equiv> 0x2c"
abbreviation (input) PLLSRC_HSI_SELECTED :: u32 where "PLLSRC_HSI_SELECTED \<equiv> 0"
abbreviation (input) PLLSRC_HSE_SELECTED :: u32 where "PLLSRC_HSE_SELECTED \<equiv> 1"
abbreviation (input) SW_HSI_SELECTED :: u32 where "SW_HSI_SELECTED \<equiv> 0"
abbreviation (input) SW_HSE_SELECTED :: u32 where "SW_HSE_SELECTED \<equiv> 1"
abbreviation (input) SW_PLL_SELECTED :: u32 where "SW_PLL_SELECTED \<equiv> 2"

section \<open>State\<close>

record Stm32Rcc =
  osc_freq :: u32
  osc32_freq :: u32
  RCC_APB1ENR :: u32
  RCC_APB2ENR :: u32
  RCC_APB1RSTR :: u32
  RCC_APB2RSTR :: u32
  RCC_CFGR_PLLMUL :: u32
  RCC_CFGR_PLLXTPRE :: u32
  RCC_CFGR_PLLSRC :: u32
  RCC_CFGR_PPRE1 :: u32
  RCC_CFGR_PPRE2 :: u32
  RCC_CFGR_HPRE :: u32
  RCC_CFGR_SW :: u32
  rcc_clks :: clk_heap
  HSICLK :: nat
  HSECLK :: nat
  LSECLK :: nat
  LSICLK :: nat
  SYSCLK :: nat
  PLLXTPRECLK :: nat
  PLLCLK :: nat
  HCLK :: nat
  PCLK1 :: nat
  PCLK2 :: nat
  PERIPHCLK :: "nat option list"

text \<open>A clock tree operation on the clocks of the device.\<close>

definition rcc_clk :: "(clk_heap \<Rightarrow> clk_heap run) \<Rightarrow> Stm32Rcc \<Rightarrow> Stm32Rcc run" where
  "rcc_clk f s = run_map (\<lambda>h. s\<lparr>rcc_clks := h\<rparr>) (f (rcc_clks s))"

abbreviation rcc_enabled :: "Stm32Rcc \<Rightarrow> nat \<Rightarrow> bool" where
  "rcc_enabled s \<equiv> clktree_is_enabled (rcc_clks s)"

definition bool_to_u32 :: "bool \<Rightarrow> u32" where
  "bool_to_u32 b = (if b then 1 else 0)"

section \<open>Registers\<close>

definition stm32_rcc_periph_enable :: "u32 \<Rightarrow> nat \<Rightarrow> nat \<Rightarrow> Stm32Rcc \<Rightarrow> Stm32Rcc run" where
  "stm32_rcc_periph_enable new_value periph bit_pos s =
     (case PERIPHCLK s ! periph of
        None \<Rightarrow> Stop NullDeref []
      | Some clk \<Rightarrow> rcc_clk (clktree_set_enabled clk (new_value AND BIT bit_pos \<noteq> 0)) s)"

definition stm32_rcc_RCC_CR_read :: "Stm32Rcc \<Rightarrow> u32" where
  "stm32_rcc_RCC_CR_read s =
     (let pllon_bit = bool_to_u32 (rcc_enabled s (PLLCLK s));
          hseon_bit = bool_to_u32 (rcc_enabled s (HSECLK s));
          hsion_bit = bool_to_u32 (rcc_enabled s (HSICLK s))
      in push_bit RCC_CR_PLLRDY_BIT pllon_bit OR push_bit RCC_CR_PLLON_BIT pllon_bit OR
         push_bit RCC_CR_HSERDY_BIT hseon_bit OR push_bit RCC_CR_HSEON_BIT hseon_bit OR
         push_bit RCC_CR_HSIRDY_BIT hsion_bit OR push_bit RCC_CR_HSION_BIT hsion_bit)"

definition stm32_rcc_RCC_CR_write :: "u32 \<Rightarrow> bool \<Rightarrow> Stm32Rcc \<Rightarrow> Stm32Rcc run" where
  "stm32_rcc_RCC_CR_write new_value init =
     (let new_pllon = new_value AND BIT RCC_CR_PLLON_BIT \<noteq> 0;
          new_hseon = new_value AND BIT RCC_CR_HSEON_BIT \<noteq> 0;
          new_hsion = new_value AND BIT RCC_CR_HSION_BIT \<noteq> 0
      in run_seq
        [\<lambda>s. if (rcc_enabled s (PLLCLK s) \<and> \<not> new_pllon) \<and> RCC_CFGR_SW s = SW_PLL_SELECTED
             then stm32_hw_warn ''PLL cannot be disabled while it is selected as the system clock.'' s
             else Ok s [],
         \<lambda>s. rcc_clk (clktree_set_enabled (PLLCLK s) new_pllon) s,
         \<lambda>s. if (rcc_enabled s (HSECLK s) \<and> \<not> new_hseon) \<and>
                (RCC_CFGR_SW s = SW_HSE_SELECTED \<or>
                 (RCC_CFGR_SW s = SW_PLL_SELECTED \<and> RCC_CFGR_PLLSRC s = PLLSRC_HSE_SELECTED))
             then stm32_hw_warn ''HSE oscillator cannot be disabled while it is driving the system clock.'' s
             else Ok s [],
         \<lambda>s. rcc_clk (clktree_set_enabled (HSECLK s) new_hseon) s,
         \<lambda>s. if (rcc_enabled s (HSECLK s) \<and> \<not> new_hseon) \<and>
                (RCC_CFGR_SW s = SW_HSI_SELECTED \<or>
                 (RCC_CFGR_SW s = SW_PLL_SELECTED \<and> RCC_CFGR_PLLSRC s = PLLSRC_HSI_SELECTED))
             then stm32_hw_warn ''HSI oscillator cannot be disabled while it is driving the system clock.'' s
             else Ok s [],
         \<lambda>s. rcc_clk (clktree_set_enabled (HSICLK s) new_hsion) s])"

definition stm32_rcc_RCC_CFGR_read :: "Stm32Rcc \<Rightarrow> u32" where
  "stm32_rcc_RCC_CFGR_read s =
     push_bit RCC_CFGR_PLLMUL_START (RCC_CFGR_PLLMUL s) OR
     push_bit RCC_CFGR_PLLXTPRE_BIT (RCC_CFGR_PLLXTPRE s) OR
     push_bit RCC_CFGR_PLLSRC_BIT (RCC_CFGR_PLLSRC s) OR
     push_bit RCC_CFGR_PPRE2_START (RCC_CFGR_PPRE2 s) OR
     push_bit RCC_CFGR_PPRE1_START (RCC_CFGR_PPRE1 s) OR
     push_bit RCC_CFGR_HPRE_START (RCC_CFGR_HPRE s) OR
     push_bit RCC_CFGR_SW_START (RCC_CFGR_SW s) OR
     push_bit RCC_CFGR_SWS_START (RCC_CFGR_SW s)"

text \<open>The warning for a PLL setting that changes while the PLL is on.\<close>

definition rcc_pll_warn :: "bool \<Rightarrow> u32 \<Rightarrow> (Stm32Rcc \<Rightarrow> u32) \<Rightarrow> string \<Rightarrow> Stm32Rcc \<Rightarrow> Stm32Rcc run" where
  "rcc_pll_warn init new_value field msg s =
     (if \<not> init then
        if rcc_enabled s (PLLCLK s) \<and> new_value \<noteq> field s then stm32_hw_warn msg s else Ok s []
      else Ok s [])"

text \<open>PLLMUL, PLLXTPRE and PLLSRC.\<close>

definition rcc_cfgr_pll :: "u32 \<Rightarrow> bool \<Rightarrow> Stm32Rcc \<Rightarrow> Stm32Rcc run" where
  "rcc_cfgr_pll new_value init =
     (let new_PLLMUL = extract32 new_value RCC_CFGR_PLLMUL_START RCC_CFGR_PLLMUL_LENGTH;
          new_PLLXTPRE = extract32 new_value RCC_CFGR_PLLXTPRE_BIT 1;
          new_PLLSRC = extract32 new_value RCC_CFGR_PLLSRC_BIT 1
      in run_seq
        [rcc_pll_warn init new_PLLMUL RCC_CFGR_PLLMUL ''Can only change PLLMUL while PLL is disabled'',
         \<lambda>s. if new_PLLMUL \<le> 0xf then Ok s [] else Stop AssertFail [],
         \<lambda>s. if new_PLLMUL = 0xf then rcc_clk (clktree_set_scale (PLLCLK s) 16 1) s
             else rcc_clk (clktree_set_scale (PLLCLK s) (ucast (new_PLLMUL + 2)) 1) s,
         \<lambda>s. Ok (s\<lparr>RCC_CFGR_PLLMUL := new_PLLMUL\<rparr>) [],
         rcc_pll_warn init new_PLLXTPRE RCC_CFGR_PLLXTPRE ''Can only change PLLXTPRE while PLL is disabled'',
         \<lambda>s. rcc_clk (clktree_set_selected_input (PLLXTPRECLK s) (uint new_PLLXTPRE)) s,
         \<lambda>s. Ok (s\<lparr>RCC_CFGR_PLLXTPRE := new_PLLXTPRE\<rparr>) [],
         rcc_pll_warn init new_PLLSRC RCC_CFGR_PLLSRC ''Can only change PLLSRC while PLL is disabled'',
         \<lambda>s. rcc_clk (clktree_set_selected_input (PLLCLK s) (uint new_PLLSRC)) s,
         \<lambda>s. Ok (s\<lparr>RCC_CFGR_PLLSRC := new_PLLSRC\<rparr>) []])"

text \<open>The prescalers PPRE2, PPRE1 and HPRE.\<close>

definition rcc_prescaler :: "nat \<Rightarrow> u32 \<Rightarrow> u32 \<Rightarrow> Stm32Rcc \<Rightarrow> Stm32Rcc run" where
  "rcc_prescaler clk first field s =
     (if field < first then rcc_clk (clktree_set_scale clk 1 1) s
      else rcc_clk (clktree_set_scale clk 1 (ucast (2 * (field - (first - 1))))) s)"

definition rcc_cfgr_prescalers :: "u32 \<Rightarrow> Stm32Rcc \<Rightarrow> Stm32Rcc run" where
  "rcc_cfgr_prescalers new_value =
     run_seq
       [\<lambda>s. Ok (s\<lparr>RCC_CFGR_PPRE2 := drop_bit RCC_CFGR_PPRE2_START (new_value AND RCC_CFGR_PPRE2_MASK)\<rparr>) [],
        \<lambda>s. rcc_prescaler (PCLK2 s) 4 (RCC_CFGR_PPRE2 s) s,
        \<lambda>s. Ok (s\<lparr>RCC_CFGR_PPRE1 := drop_bit RCC_CFGR_PPRE1_START (new_value AND RCC_CFGR_PPRE1_MASK)\<rparr>) [],
        \<lambda>s. rcc_prescaler (PCLK1 s) 4 (RCC_CFGR_PPRE1 s) s,
        \<lambda>s. Ok (s\<lparr>RCC_CFGR_HPRE := drop_bit RCC_CFGR_HPRE_START (new_value AND RCC_CFGR_HPRE_MASK)\<rparr>) [],
        \<lambda>s. rcc_prescaler (HCLK s) 8 (RCC_CFGR_HPRE s) s]"

text \<open>The system clock switch.\<close>

definition rcc_cfgr_sw :: "u32 \<Rightarrow> Stm32Rcc \<Rightarrow> Stm32Rcc run" where
  "rcc_cfgr_sw new_value =
     run_seq
       [\<lambda>s. Ok (s\<lparr>RCC_CFGR_SW := drop_bit RCC_CFGR_SW_START (new_value AND RCC_CFGR_SW_MASK)\<rparr>) [],
        \<lambda>s. if RCC_CFGR_SW s = 0 \<or> RCC_CFGR_SW s = 1 \<or> RCC_CFGR_SW s = 2
            then rcc_clk (clktree_set_selected_input (SYSCLK s) (uint (RCC_CFGR_SW s))) s
            else Stop (HwError ''Invalid input selected for SYSCLK'') []]"

definition stm32_rcc_RCC_CFGR_write :: "u32 \<Rightarrow> bool \<Rightarrow> Stm32Rcc \<Rightarrow> Stm32Rcc run" where
  "stm32_rcc_RCC_CFGR_write new_value init =
     run_seq [rcc_cfgr_pll new_value init, rcc_cfgr_prescalers new_value, rcc_cfgr_sw new_value]"

definition stm32_rcc_RCC_APB2ENR_write :: "u32 \<Rightarrow> bool \<Rightarrow> Stm32Rcc \<Rightarrow> Stm32Rcc run" where
  "stm32_rcc_RCC_APB2ENR_write new_value init =
     run_seq
       [stm32_rcc_periph_enable new_value STM32_UART1 RCC_APB2ENR_USART1EN_BIT,
        stm32_rcc_periph_enable new_value STM32_GPIOE RCC_APB2ENR_IOPEEN_BIT,
        stm32_rcc_periph_enable new_value STM32_GPIOD RCC_APB2ENR_IOPDEN_BIT,
        stm32_rcc_periph_enable new_value STM32_GPIOC RCC_APB2ENR_IOPCEN_BIT,
        stm32_rcc_periph_enable new_value STM32_GPIOB RCC_APB2ENR_IOPBEN_BIT,
        stm32_rcc_periph_enable new_value STM32_GPIOA RCC_APB2ENR_IOPAEN_BIT,
        stm32_rcc_periph_enable new_value STM32_AFIO_PERIPH RCC_APB2ENR_AFIOEN_BIT,
        stm32_rcc_periph_enable new_value STM32_GPIOG RCC_APB2ENR_IOPGEN_BIT,
        stm32_rcc_periph_enable new_value STM32_GPIOF RCC_APB2ENR_IOPFEN_BIT,
        \<lambda>s. Ok (s\<lparr>RCC_APB2ENR := new_value AND 0x0000fffd\<rparr>) []]"

definition stm32_rcc_RCC_APB2RSTR_write :: "u32 \<Rightarrow> bool \<Rightarrow> Stm32Rcc \<Rightarrow> Stm32Rcc run" where
  "stm32_rcc_RCC_APB2RSTR_write new_value init =
     run_seq
       [stm32_rcc_periph_enable new_value STM32_UART1 RCC_APB2RSTR_USART1RST_BIT,
        stm32_rcc_periph_enable new_value STM32_GPIOE RCC_APB2RSTR_IOPERST_BIT,
        stm32_rcc_periph_enable new_value STM32_GPIOD RCC_APB2RSTR_IOPDRST_BIT,
        stm32_rcc_periph_enable new_value STM32_GPIOC RCC_APB2RSTR_IOPCRST_BIT,
        stm32_rcc_periph_enable new_value STM32_GPIOB RCC_APB2RSTR_IOPBRST_BIT,
        stm32_rcc_periph_enable new_value STM32_GPIOA RCC_APB2RSTR_IOPARST_BIT,
        stm32_rcc_periph_enable new_value STM32_AFIO_PERIPH RCC_APB2RSTR_AFIORST_BIT,
        stm32_rcc_periph_enable new_value STM32_GPIOG RCC_APB2RSTR_IOPGRST_BIT,
        stm32_rcc_periph_enable new_value STM32_GPIOF RCC_APB2RSTR_IOPFRST_BIT,
        \<lambda>s. Ok (s\<lparr>RCC_APB2RSTR := new_value AND 0x0000fffd\<rparr>) []]"

definition stm32_rcc_RCC_APB1ENR_write :: "u32 \<Rightarrow> bool \<Rightarrow> Stm32Rcc \<Rightarrow> Stm32Rcc run" where
  "stm32_rcc_RCC_APB1ENR_write new_value init =
     run_seq
       [stm32_rcc_periph_enable new_value STM32_UART5 RCC_APB1ENR_USART5EN_BIT,
        stm32_rcc_periph_enable new_value STM32_UART4 RCC_APB1ENR_USART4EN_BIT,
        stm32_rcc_periph_enable new_value STM32_UART3 RCC_APB1ENR_USART3EN_BIT,
        stm32_rcc_periph_enable new_value STM32_UART2 RCC_APB1ENR_USART2EN_BIT,
        \<lambda>s. Ok (s\<lparr>RCC_APB1ENR := new_value AND 0x00005e7d\<rparr>) []]"

definition stm32_rcc_RCC_APB1RSTR_write :: "u32 \<Rightarrow> bool \<Rightarrow> Stm32Rcc \<Rightarrow> Stm32Rcc run" where
  "stm32_rcc_RCC_APB1RSTR_write new_value init =
     run_seq
       [stm32_rcc_periph_enable new_value STM32_UART5 RCC_APB1RSTR_UART5RST_BIT,
        stm32_rcc_periph_enable new_value STM32_UART4 RCC_APB1RSTR_UART4RST_BIT,
        stm32_rcc_periph_enable new_value STM32_UART3 RCC_APB1RSTR_USART3RST_BIT,
        stm32_rcc_periph_enable new_value STM32_UART2 RCC_APB1RSTR_USART2RST_BIT,
        \<lambda>s. Ok (s\<lparr>RCC_APB1RSTR := new_value AND 0x00005e7d\<rparr>) []]"

definition stm32_rcc_RCC_BDCR_read :: "Stm32Rcc \<Rightarrow> u32" where
  "stm32_rcc_RCC_BDCR_read s =
     (let lseon_bit = bool_to_u32 (rcc_enabled s (LSECLK s))
      in push_bit RCC_BDCR_LSERDY_BIT lseon_bit OR push_bit RCC_BDCR_LSEON_BIT lseon_bit)"

definition stm32_rcc_RCC_BDCR_write :: "u32 \<Rightarrow> bool \<Rightarrow> Stm32Rcc \<Rightarrow> Stm32Rcc run" where
  "stm32_rcc_RCC_BDCR_write new_value init s =
     rcc_clk (clktree_set_enabled (LSECLK s) (new_value AND BIT RCC_BDCR_LSEON_BIT \<noteq> 0)) s"

definition stm32_rcc_RCC_CSR_read :: "Stm32Rcc \<Rightarrow> u32" where
  "stm32_rcc_RCC_CSR_read s =
     (let lseon_bit = bool_to_u32 (rcc_enabled s (LSICLK s))
      in push_bit RCC_CSR_LSIRDY_BIT lseon_bit OR push_bit RCC_CSR_LSION_BIT lseon_bit)"

definition stm32_rcc_RCC_CSR_write :: "u32 \<Rightarrow> bool \<Rightarrow> Stm32Rcc \<Rightarrow> Stm32Rcc run" where
  "stm32_rcc_RCC_CSR_write new_value init s =
     rcc_clk (clktree_set_enabled (LSICLK s) (new_value AND BIT RCC_CSR_LSION_BIT \<noteq> 0)) s"

section \<open>Register access\<close>

definition stm32_rcc_readw :: "Stm32Rcc \<Rightarrow> nat \<Rightarrow> u64 run" where
  "stm32_rcc_readw s offset =
     (if offset = RCC_CR_OFFSET then Ok (ucast (stm32_rcc_RCC_CR_read s)) []
      else if offset = RCC_CFGR_OFFSET then Ok (ucast (stm32_rcc_RCC_CFGR_read s)) []
      else if offset = RCC_CIR_OFFSET then Ok 0 []
      else if offset = RCC_APB2RSTR_OFFSET then Ok (ucast (RCC_APB2RSTR s)) []
      else if offset = RCC_APB1RSTR_OFFSET then Ok (ucast (RCC_APB1RSTR s)) []
      else if offset = RCC_AHBENR_OFFSET then STM32_NOT_IMPL_REG offset 4
      else if offset = RCC_APB2ENR_OFFSET then Ok (ucast (RCC_APB2ENR s)) []
      else if offset = RCC_APB1ENR_OFFSET then Ok (ucast (RCC_APB1ENR s)) []
      else if offset = RCC_BDCR_OFFSET then Ok (ucast (stm32_rcc_RCC_BDCR_read s)) []
      else if offset = RCC_CSR_OFFSET then Ok (ucast (stm32_rcc_RCC_CSR_read s)) []
      else if offset = RCC_AHBRSTR then STM32_NOT_IMPL_REG offset 4
      else if offset = RCC_CFGR2_OFFSET then STM32_NOT_IMPL_REG offset 4
      else STM32_BAD_REG offset 4)"

definition stm32_rcc_writew :: "Stm32Rcc \<Rightarrow> nat \<Rightarrow> u64 \<Rightarrow> Stm32Rcc run" where
  "stm32_rcc_writew s offset value =
     (if offset = RCC_CR_OFFSET then stm32_rcc_RCC_CR_write (ucast value) False s
      else if offset = RCC_CFGR_OFFSET then stm32_rcc_RCC_CFGR_write (ucast value) False s
      else if offset = RCC_CIR_OFFSET then Ok s []
      else if offset = RCC_APB2RSTR_OFFSET then stm32_rcc_RCC_APB2RSTR_write (ucast value) False s
      else if offset = RCC_APB1RSTR_OFFSET then stm32_rcc_RCC_APB1RSTR_write (ucast value) False s
      else if offset = RCC_AHBENR_OFFSET then STM32_NOT_IMPL_REG offset 4
      else if offset = RCC_APB2ENR_OFFSET then stm32_rcc_RCC_APB2ENR_write (ucast value) False s
      else if offset = RCC_APB1ENR_OFFSET then stm32_rcc_RCC_APB1ENR_write (ucast value) False s
      else if offset = RCC_BDCR_OFFSET then stm32_rcc_RCC_BDCR_write (ucast value) False s
      else if offset = RCC_CSR_OFFSET then stm32_rcc_RCC_CSR_write (ucast value) False s
      else if offset = RCC_AHBRSTR then STM32_NOT_IMPL_REG offset 4
      else if offset = RCC_CFGR2_OFFSET then STM32_NOT_IMPL_REG offset 4
      else STM32_BAD_REG offset 4)"

definition stm32_rcc_read :: "Stm32Rcc \<Rightarrow> nat \<Rightarrow> nat \<Rightarrow> u64 run" where
  "stm32_rcc_read s offset sz = (if sz = 4 then stm32_rcc_readw s offset else STM32_NOT_IMPL_REG offset sz)"

definition stm32_rcc_write :: "Stm32Rcc \<Rightarrow> nat \<Rightarrow> u64 \<Rightarrow> nat \<Rightarrow> Stm32Rcc run" where
  "stm32_rcc_write s offset value sz =
     (if sz = 4 then stm32_rcc_writew s offset value else STM32_NOT_IMPL_REG offset sz)"

definition stm32_rcc_reset :: "Stm32Rcc \<Rightarrow> Stm32Rcc run" where
  "stm32_rcc_reset =
     run_seq
       [stm32_rcc_RCC_CR_write 0x00000083 True,
        stm32_rcc_RCC_CFGR_write 0x00000000 True,
        stm32_rcc_RCC_APB2ENR_write 0x00000000 True,
        stm32_rcc_RCC_APB1ENR_write 0x00000000 True,
        stm32_rcc_RCC_BDCR_write 0x00000000 True,
        stm32_rcc_RCC_CSR_write 0x0c000000 True]"

section \<open>SysTick scales\<close>

text \<open>The two global variables the HCLK handler sets; \<open>get_ticks_per_sec\<close> is 10^9.\<close>

record systick_scales =
  system_clock_scale :: int
  external_ref_clock_scale :: int

definition get_ticks_per_sec :: int where "get_ticks_per_sec = 1000000000"

definition stm32_rcc_hclk_upd_irq_handler :: "u32 \<Rightarrow> systick_scales \<Rightarrow> systick_scales run" where
  "stm32_rcc_hclk_upd_irq_handler hclk_freq g =
     (if hclk_freq > 0 then
        let ext_ref_freq = hclk_freq div 8 in
        if ext_ref_freq = 0 then Stop DivByZero []
        else Ok (g\<lparr>system_clock_scale := get_ticks_per_sec div uint hclk_freq,
                  external_ref_clock_scale := get_ticks_per_sec div uint ext_ref_freq\<rparr>) []
      else Ok g [])"

section \<open>Functions for the other devices\<close>

definition stm32_rcc_check_periph_clk :: "Stm32Rcc \<Rightarrow> nat \<Rightarrow> unit run" where
  "stm32_rcc_check_periph_clk s periph =
     (case PERIPHCLK s ! periph of
        None \<Rightarrow> Stop AssertFail []
      | Some clk \<Rightarrow>
          if \<not> rcc_enabled s clk
          then run_bind (stm32_periph_name periph)
            (\<lambda>nm. stm32_hw_warn (''Warning: You are attempting to use the '' @ nm @
                    '' peripheral while its clock is disabled.'') ())
          else Ok () [])"

definition stm32_rcc_set_periph_clk_irq :: "nat \<Rightarrow> qemu_irq \<Rightarrow> Stm32Rcc \<Rightarrow> Stm32Rcc run" where
  "stm32_rcc_set_periph_clk_irq periph periph_irq s =
     (case PERIPHCLK s ! periph of
        None \<Rightarrow> Stop AssertFail []
      | Some clk \<Rightarrow> rcc_clk (clktree_adduser clk periph_irq) s)"

definition stm32_rcc_get_periph_freq :: "Stm32Rcc \<Rightarrow> nat \<Rightarrow> u32 run" where
  "stm32_rcc_get_periph_freq s periph =
     (case PERIPHCLK s ! periph of
        None \<Rightarrow> Stop AssertFail []
      | Some clk \<Rightarrow> Ok (clktree_get_output_freq (rcc_clks s) clk) [])"

section \<open>Initialisation\<close>

text \<open>Creating a clock and storing the pointer in a field of the device.\<close>

definition rcc_new_src :: "string \<Rightarrow> (Stm32Rcc \<Rightarrow> u32) \<Rightarrow> (nat \<Rightarrow> Stm32Rcc \<Rightarrow> Stm32Rcc) \<Rightarrow> Stm32Rcc \<Rightarrow> Stm32Rcc run" where
  "rcc_new_src nm freq store s =
     run_map (\<lambda>(clk, h). store clk (s\<lparr>rcc_clks := h\<rparr>)) (clktree_create_src_clk nm (freq s) False (rcc_clks s))"

definition rcc_create_clk ::
  "string \<Rightarrow> u16 \<Rightarrow> u16 \<Rightarrow> bool \<Rightarrow> u32 \<Rightarrow> int \<Rightarrow> nat list \<Rightarrow> Stm32Rcc \<Rightarrow> (nat \<times> Stm32Rcc) run" where
  "rcc_create_clk nm m d e mx sel inputs s =
     run_map (\<lambda>(clk, h). (clk, s\<lparr>rcc_clks := h\<rparr>)) (clktree_create_clk nm m d e mx sel inputs (rcc_clks s))"

definition rcc_new_clk ::
  "string \<Rightarrow> u16 \<Rightarrow> u16 \<Rightarrow> bool \<Rightarrow> u32 \<Rightarrow> int \<Rightarrow> (Stm32Rcc \<Rightarrow> nat list) \<Rightarrow>
   (nat \<Rightarrow> Stm32Rcc \<Rightarrow> Stm32Rcc) \<Rightarrow> Stm32Rcc \<Rightarrow> Stm32Rcc run" where
  "rcc_new_clk nm m d e mx sel inputs store s =
     run_map (\<lambda>(clk, s'). store clk s') (rcc_create_clk nm m d e mx sel (inputs s) s)"

definition rcc_new_periph :: "string \<Rightarrow> nat \<Rightarrow> (Stm32Rcc \<Rightarrow> nat) \<Rightarrow> Stm32Rcc \<Rightarrow> Stm32Rcc run" where
  "rcc_new_periph nm periph input =
     rcc_new_clk nm 1 1 False CLKTREE_NO_MAX_FREQ 0 (\<lambda>s. [input s])
       (\<lambda>clk s. s\<lparr>PERIPHCLK := (PERIPHCLK s)[periph := Some clk]\<rparr>)"

text \<open>\<open>stm32_rcc_init_clk\<close> in the order of the source; HSI/2 and HSE/2 are its local variables.\<close>

definition rcc_init_sources :: "Stm32Rcc \<Rightarrow> Stm32Rcc run" where
  "rcc_init_sources =
     run_seq
       [\<lambda>s. Ok (s\<lparr>PERIPHCLK := replicate STM32_PERIPH_COUNT None\<rparr>) [],
        rcc_new_src ''HSI'' (\<lambda>_. HSI_FREQ) (\<lambda>c s. s\<lparr>HSICLK := c\<rparr>),
        rcc_new_src ''LSI'' (\<lambda>_. LSI_FREQ) (\<lambda>c s. s\<lparr>LSICLK := c\<rparr>),
        rcc_new_src ''HSE'' osc_freq (\<lambda>c s. s\<lparr>HSECLK := c\<rparr>),
        rcc_new_src ''LSE'' osc32_freq (\<lambda>c s. s\<lparr>LSECLK := c\<rparr>)]"

definition rcc_init_system :: "nat \<Rightarrow> nat \<Rightarrow> Stm32Rcc \<Rightarrow> Stm32Rcc run" where
  "rcc_init_system HSI_DIV2 HSE_DIV2 =
     run_seq
       [rcc_new_clk ''PLLXTPRE'' 1 1 True CLKTREE_NO_MAX_FREQ CLKTREE_NO_INPUT
          (\<lambda>s. [HSECLK s, HSE_DIV2]) (\<lambda>c s. s\<lparr>PLLXTPRECLK := c\<rparr>),
        rcc_new_clk ''PLLCLK'' 0 1 False 72000000 CLKTREE_NO_INPUT
          (\<lambda>s. [HSI_DIV2, PLLXTPRECLK s]) (\<lambda>c s. s\<lparr>PLLCLK := c\<rparr>),
        rcc_new_clk ''SYSCLK'' 1 1 True 72000000 CLKTREE_NO_INPUT
          (\<lambda>s. [HSICLK s, HSECLK s, PLLCLK s]) (\<lambda>c s. s\<lparr>SYSCLK := c\<rparr>),
        rcc_new_clk ''HCLK'' 0 1 True 72000000 0 (\<lambda>s. [SYSCLK s]) (\<lambda>c s. s\<lparr>HCLK := c\<rparr>),
        \<lambda>s. rcc_clk (clktree_adduser (HCLK s) IrqHclkUpd) s,
        rcc_new_clk ''PCLK1'' 0 1 True 36000000 0 (\<lambda>s. [HCLK s]) (\<lambda>c s. s\<lparr>PCLK1 := c\<rparr>),
        rcc_new_clk ''PCLK2'' 0 1 True 72000000 0 (\<lambda>s. [HCLK s]) (\<lambda>c s. s\<lparr>PCLK2 := c\<rparr>)]"

definition rcc_init_periphs :: "Stm32Rcc \<Rightarrow> Stm32Rcc run" where
  "rcc_init_periphs =
     run_seq
       [rcc_new_periph ''GPIOA'' STM32_GPIOA PCLK2,
        rcc_new_periph ''GPIOB'' STM32_GPIOB PCLK2,
        rcc_new_periph ''GPIOC'' STM32_GPIOC PCLK2,
        rcc_new_periph ''GPIOD'' STM32_GPIOD PCLK2,
        rcc_new_periph ''GPIOE'' STM32_GPIOE PCLK2,
        rcc_new_periph ''GPIOF'' STM32_GPIOF PCLK2,
        rcc_new_periph ''GPIOG'' STM32_GPIOG PCLK2,
        rcc_new_periph ''AFIO'' STM32_AFIO_PERIPH PCLK2,
        rcc_new_periph ''UART1'' STM32_UART1 PCLK2,
        rcc_new_periph ''UART2'' STM32_UART2 PCLK1,
        rcc_new_periph ''UART3'' STM32_UART3 PCLK1,
        rcc_new_periph ''UART4'' STM32_UART4 PCLK1,
        rcc_new_periph ''UART5'' STM32_UART5 PCLK1]"

definition stm32_rcc_init_clk :: "Stm32Rcc \<Rightarrow> Stm32Rcc run" where
  "stm32_rcc_init_clk s =
     run_bind (rcc_init_sources s) (\<lambda>s.
     run_bind (rcc_create_clk ''HSI/2'' 1 2 True CLKTREE_NO_MAX_FREQ 0 [HSICLK s] s) (\<lambda>(HSI_DIV2, s).
     run_bind (rcc_create_clk ''HSE/2'' 1 2 True CLKTREE_NO_MAX_FREQ 0 [HSECLK s] s) (\<lambda>(HSE_DIV2, s).
     run_bind (rcc_init_system HSI_DIV2 HSE_DIV2 s) rcc_init_periphs)))"

text \<open>A device object starts with all fields 0 (QOM allocates it zeroed) and its two properties.\<close>

definition stm32_rcc_init :: "u32 \<Rightarrow> u32 \<Rightarrow> Stm32Rcc run" where
  "stm32_rcc_init osc osc32 =
     stm32_rcc_init_clk
       \<lparr>osc_freq = osc, osc32_freq = osc32, RCC_APB1ENR = 0, RCC_APB2ENR = 0, RCC_APB1RSTR = 0,
        RCC_APB2RSTR = 0, RCC_CFGR_PLLMUL = 0, RCC_CFGR_PLLXTPRE = 0, RCC_CFGR_PLLSRC = 0,
        RCC_CFGR_PPRE1 = 0, RCC_CFGR_PPRE2 = 0, RCC_CFGR_HPRE = 0, RCC_CFGR_SW = 0, rcc_clks = [],
        HSICLK = 0, HSECLK = 0, LSECLK = 0, LSICLK = 0, SYSCLK = 0, PLLXTPRECLK = 0, PLLCLK = 0,
        HCLK = 0, PCLK1 = 0, PCLK2 = 0, PERIPHCLK = []\<rparr>"

end
