(* ===== verification/Rcc_Tree.thy ===== *)
theory Rcc_Tree
  imports Rcc
begin

text \<open>
  The clock tree of the RCC as an abstract configuration. \<open>rcc_cfg\<close> holds what the registers control
  (which oscillators and gates are on, the scales and the selections); \<open>rcc_heap\<close> lays the 25 clocks
  of \<open>stm32_rcc_init_clk\<close> out; \<open>rcc_rep\<close> relates a device to its configuration. Each clock tree call
  of the device is a plain update of the configuration, and the frequencies are functions of it.
\<close>

section \<open>The abstract configuration\<close>

record rcc_cfg =
  cfg_hsi :: bool
  cfg_lsi :: bool
  cfg_hse :: bool
  cfg_lse :: bool
  cfg_pll :: bool
  cfg_pllmul :: u16
  cfg_xtpre :: int
  cfg_pllsrc :: int
  cfg_sw :: int
  cfg_hclk :: "u16 \<times> u16"
  cfg_pclk1 :: "u16 \<times> u16"
  cfg_pclk2 :: "u16 \<times> u16"
  cfg_periph :: "bool list"
  cfg_users :: "qemu_irq list list"
  cfg_osc :: u32
  cfg_osc32 :: u32

definition rcc_node :: "string \<Rightarrow> bool \<Rightarrow> u16 \<times> u16 \<Rightarrow> nat list \<Rightarrow> int \<Rightarrow> nat list \<Rightarrow> qemu_irq list \<Rightarrow> u32 \<Rightarrow> Clk" where
  "rcc_node nm e sc ins sel outs us f =
     \<lparr>clk_name = nm, clk_enabled = e, clk_input_freq = f, clk_output_freq = 0,
      clk_max_output_freq = CLKTREE_NO_MAX_FREQ, clk_multiplier = fst sc, clk_divisor = snd sc,
      clk_user = us, clk_output = outs, clk_input = None # map Some ins, clk_selected_input = sel\<rparr>"

definition rcc_periph_names :: "string list" where
  "rcc_periph_names =
     [''GPIOA'', ''GPIOB'', ''GPIOC'', ''GPIOD'', ''GPIOE'', ''GPIOF'', ''GPIOG'', ''AFIO'',
      ''UART1'', ''UART2'', ''UART3'', ''UART4'', ''UART5'']"

definition rcc_periph_node :: "rcc_cfg \<Rightarrow> nat \<Rightarrow> Clk" where
  "rcc_periph_node g i =
     rcc_node (rcc_periph_names ! i) (cfg_periph g ! i) (1, 1) [if i < 9 then 11 else 10] 0 [] (cfg_users g ! i) 0"

definition rcc_system :: "rcc_cfg \<Rightarrow> clk_heap" where
  "rcc_system g =
     [rcc_node ''HSI'' (cfg_hsi g) (1, 1) [] (-1) [4, 8] [] HSI_FREQ,
      rcc_node ''LSI'' (cfg_lsi g) (1, 1) [] (-1) [] [] LSI_FREQ,
      rcc_node ''HSE'' (cfg_hse g) (1, 1) [] (-1) [5, 6, 8] [] (cfg_osc g),
      rcc_node ''LSE'' (cfg_lse g) (1, 1) [] (-1) [] [] (cfg_osc32 g),
      rcc_node ''HSI/2'' True (1, 2) [0] 0 [7] [] 0,
      rcc_node ''HSE/2'' True (1, 2) [2] 0 [6] [] 0,
      rcc_node ''PLLXTPRE'' True (1, 1) [2, 5] (cfg_xtpre g) [7] [] 0,
      rcc_node ''PLLCLK'' (cfg_pll g) (cfg_pllmul g, 1) [4, 6] (cfg_pllsrc g) [8] [] 0,
      rcc_node ''SYSCLK'' True (1, 1) [0, 2, 7] (cfg_sw g) [9] [] 0,
      rcc_node ''HCLK'' True (cfg_hclk g) [8] 0 [10, 11] [IrqHclkUpd] 0,
      rcc_node ''PCLK1'' True (cfg_pclk1 g) [9] 0 [21, 22, 23, 24] [] 0,
      rcc_node ''PCLK2'' True (cfg_pclk2 g) [9] 0 [12, 13, 14, 15, 16, 17, 18, 19, 20] [] 0]"

definition rcc_heap :: "rcc_cfg \<Rightarrow> clk_heap" where
  "rcc_heap g = rcc_system g @ map (rcc_periph_node g) [0..<13]"

lemma length_rcc_heap [simp]: "length (rcc_heap g) = 25"
  by (simp add: rcc_heap_def rcc_system_def)

definition rcc_periphclk :: "nat option list" where
  "rcc_periphclk = None # map Some [12..<25] @ replicate 29 None"

definition rcc_ptrs :: "Stm32Rcc \<Rightarrow> bool" where
  "rcc_ptrs s \<longleftrightarrow> HSICLK s = 0 \<and> LSICLK s = 1 \<and> HSECLK s = 2 \<and> LSECLK s = 3 \<and> PLLXTPRECLK s = 6 \<and>
     PLLCLK s = 7 \<and> SYSCLK s = 8 \<and> HCLK s = 9 \<and> PCLK1 s = 10 \<and> PCLK2 s = 11 \<and> PERIPHCLK s = rcc_periphclk"

text \<open>A heap has the configuration: same tree, and the inputs that come from no clock are the given ones.\<close>

definition rcc_heap_rep :: "rcc_cfg \<Rightarrow> clk_heap \<Rightarrow> bool" where
  "rcc_heap_rep g h \<longleftrightarrow> same_config (rcc_heap g) h \<and>
     (\<forall>j < 25. clktree_get_input_clk (rcc_heap g) j = None \<longrightarrow>
        clk_input_freq (h ! j) = clk_input_freq (rcc_heap g ! j)) \<and>
     length (cfg_periph g) = 13 \<and> length (cfg_users g) = 13"

definition rcc_rep :: "rcc_cfg \<Rightarrow> Stm32Rcc \<Rightarrow> bool" where
  "rcc_rep g s \<longleftrightarrow> rcc_ptrs s \<and> clk_inv (rcc_clks s) \<and> rcc_heap_rep g (rcc_clks s)"

lemma rcc_heap_rep_length: "rcc_heap_rep g h \<Longrightarrow> length h = 25"
  by (auto simp: rcc_heap_rep_def dest: same_config_length)

lemma rcc_rep_propagated:
  assumes "rcc_heap_rep g h0" "clk_propagated h0 h' es"
  shows "rcc_heap_rep g h'"
proof -
  have len: "length h0 = 25" using assms(1) by (rule rcc_heap_rep_length)
  have s: "same_config (rcc_heap g) h0" using assms(1) by (simp add: rcc_heap_rep_def)
  have "clk_input_freq (h' ! j) = clk_input_freq (rcc_heap g ! j)"
    if "j < 25" "clktree_get_input_clk (rcc_heap g) j = None" for j
    using assms that same_config_fields(9) [OF s, of j] len
    by (simp add: rcc_heap_rep_def clk_propagated_def)
  then show ?thesis
    using assms s same_config_trans by (auto simp: rcc_heap_rep_def clk_propagated_def)
qed

text \<open>The frequency of each clock is the one recomputed from the configuration.\<close>

lemma rcc_heap_rep_freq:
  assumes "clk_inv h" "rcc_heap_rep g h" "c < 25"
  shows "clk_output_freq (h ! c) = clk_eval (rcc_heap g) c"
proof -
  have "clk_output_freq (h ! c) = clk_eval h c"
    using clk_inv_output_eval [OF assms(1), of c] rcc_heap_rep_length [OF assms(2)] assms(3) by simp
  also have "\<dots> = clk_eval (rcc_heap g) c"
    by (rule clk_eval_frame) (use assms in \<open>auto simp: rcc_heap_rep_def\<close>)
  finally show ?thesis .
qed

section \<open>Clock tree calls as updates of the configuration\<close>

text \<open>An operation that brings the device to configuration \<open>g\<close> and touches only its clocks.\<close>

definition rcc_moves_to :: "rcc_cfg \<Rightarrow> Stm32Rcc \<Rightarrow> Stm32Rcc \<Rightarrow> effect list \<Rightarrow> bool" where
  "rcc_moves_to g s s' es \<longleftrightarrow> rcc_rep g s' \<and> s' = s\<lparr>rcc_clks := rcc_clks s'\<rparr> \<and>
     notified es = freq_changes (rcc_clks s) (rcc_clks s')"

lemma freq_changes_same_start:
  assumes "length h0 = length h" "\<And>j. clk_output_freq (h0 ! j) = clk_output_freq (h ! j)"
    and "\<And>j. clk_user (h0 ! j) = clk_user (h ! j)"
  shows "freq_changes h0 h' = freq_changes h h'"
  unfolding freq_changes_def using assms by simp

lemma rcc_clk_moves:
  assumes rep: "rcc_rep g s" and h0: "rcc_heap_rep g' h0"
    and same: "length h0 = 25" "\<And>j. clk_output_freq (h0 ! j) = clk_output_freq (rcc_clks s ! j)"
      "\<And>j. clk_user (h0 ! j) = clk_user (rcc_clks s ! j)"
    and tot: "run_total (clk_propagated h0) (f (rcc_clks s))"
  shows "run_total (rcc_moves_to g' s) (rcc_clk f s)"
proof -
  obtain h' es where r: "f (rcc_clks s) = Ok h' es" and p: "clk_propagated h0 h' es"
    using tot by (rule run_totalE)
  have "freq_changes h0 h' = freq_changes (rcc_clks s) h'"
    by (rule freq_changes_same_start)
      (use same rcc_heap_rep_length rep in \<open>auto simp: rcc_rep_def\<close>)
  then show ?thesis
    using r p rcc_rep_propagated [OF h0 p] rep
    by (simp add: rcc_clk_def rcc_moves_to_def rcc_rep_def rcc_ptrs_def clk_propagated_def)
qed

lemma rcc_heap_rep_update:
  assumes rep: "rcc_heap_rep g h" and c: "c < 25"
    and g': "rcc_heap g' = (rcc_heap g)[c := u (rcc_heap g ! c)]"
      "length (cfg_periph g') = 13" "length (cfg_users g') = 13"
    and u: "clk_config (v (h ! c)) = clk_config (u (rcc_heap g ! c))"
    and inp: "clktree_get_input_clk (rcc_heap g') c = None \<Longrightarrow>
      clk_input_freq (v (h ! c)) = clk_input_freq (u (rcc_heap g ! c))"
  shows "rcc_heap_rep g' (h[c := v (h ! c)])"
proof -
  have s: "same_config (rcc_heap g) h" using rep by (simp add: rcc_heap_rep_def)
  have len: "length h = 25" using rep by (rule rcc_heap_rep_length)
  have "same_config (rcc_heap g') (h[c := v (h ! c)])"
    using s u by (simp add: same_config_def g' map_update)
  moreover have "clk_input_freq (h[c := v (h ! c)] ! j) = clk_input_freq (rcc_heap g' ! j)"
    if "j < 25" "clktree_get_input_clk (rcc_heap g') j = None" for j
  proof (cases "j = c")
    case True
    then show ?thesis using inp that c len by (simp add: g')
  next
    case False
    then have "clktree_get_input_clk (rcc_heap g) j = None" "rcc_heap g' ! j = rcc_heap g ! j"
      using that by (simp_all add: g' clktree_get_input_clk_def)
    then show ?thesis using False rep that by (simp add: rcc_heap_rep_def)
  qed
  ultimately show ?thesis using g'(2,3) by (simp add: rcc_heap_rep_def)
qed

lemma rcc_set_enabled_moves:
  assumes rep: "rcc_rep g s" and c: "c < 25"
    and g': "rcc_heap g' = (rcc_heap g)[c := (rcc_heap g ! c)\<lparr>clk_enabled := e\<rparr>]"
      "length (cfg_periph g') = 13" "length (cfg_users g') = 13"
  shows "run_total (rcc_moves_to g' s) (rcc_clk (clktree_set_enabled c e) s)"
proof (rule rcc_clk_moves [OF rep])
  have inv: "clk_inv (rcc_clks s)" and hr: "rcc_heap_rep g (rcc_clks s)" using rep by (simp_all add: rcc_rep_def)
  have len: "length (rcc_clks s) = 25" using hr by (rule rcc_heap_rep_length)
  let ?h0 = "(rcc_clks s)[c := (rcc_clks s ! c)\<lparr>clk_enabled := e\<rparr>]"
  have cc: "clk_config (rcc_clks s ! c) = clk_config (rcc_heap g ! c)"
    using hr c by (intro same_config_nth) (simp_all add: rcc_heap_rep_def)
  show "rcc_heap_rep g' ?h0"
  proof (rule rcc_heap_rep_update [OF hr c, where u = "\<lambda>k. k\<lparr>clk_enabled := e\<rparr>"])
    show "clk_config ((rcc_clks s ! c)\<lparr>clk_enabled := e\<rparr>) = clk_config ((rcc_heap g ! c)\<lparr>clk_enabled := e\<rparr>)"
      using cc by (simp add: clk_config_eq_iff)
    assume "clktree_get_input_clk (rcc_heap g') c = None"
    then have "clktree_get_input_clk (rcc_heap g) c = None"
      using c by (simp add: g' clktree_get_input_clk_def)
    then show "clk_input_freq ((rcc_clks s ! c)\<lparr>clk_enabled := e\<rparr>) =
        clk_input_freq ((rcc_heap g ! c)\<lparr>clk_enabled := e\<rparr>)"
      using hr c by (simp add: rcc_heap_rep_def)
  qed (use g' in simp_all)
  show "length ?h0 = 25" using len by simp
  show "clk_output_freq (?h0 ! j) = clk_output_freq (rcc_clks s ! j)"
    "clk_user (?h0 ! j) = clk_user (rcc_clks s ! j)" for j
    using c len by (cases "j = c"; simp)+
  show "run_total (clk_propagated ?h0) (clktree_set_enabled c e (rcc_clks s))"
    using inv c len by (intro clktree_set_enabled_spec) simp_all
qed

lemma rcc_set_scale_moves:
  assumes rep: "rcc_rep g s" and c: "c < 25" and d: "d \<noteq> 0"
    and g': "rcc_heap g' = (rcc_heap g)[c := (rcc_heap g ! c)\<lparr>clk_multiplier := m, clk_divisor := d\<rparr>]"
      "length (cfg_periph g') = 13" "length (cfg_users g') = 13"
  shows "run_total (rcc_moves_to g' s) (rcc_clk (clktree_set_scale c m d) s)"
proof (rule rcc_clk_moves [OF rep])
  have inv: "clk_inv (rcc_clks s)" and hr: "rcc_heap_rep g (rcc_clks s)" using rep by (simp_all add: rcc_rep_def)
  have len: "length (rcc_clks s) = 25" using hr by (rule rcc_heap_rep_length)
  let ?u = "\<lambda>k. k\<lparr>clk_multiplier := m, clk_divisor := d\<rparr>"
  let ?h0 = "(rcc_clks s)[c := ?u (rcc_clks s ! c)]"
  have cc: "clk_config (rcc_clks s ! c) = clk_config (rcc_heap g ! c)"
    using hr c by (intro same_config_nth) (simp_all add: rcc_heap_rep_def)
  show "rcc_heap_rep g' ?h0"
  proof (rule rcc_heap_rep_update [OF hr c, where u = ?u])
    show "clk_config (?u (rcc_clks s ! c)) = clk_config (?u (rcc_heap g ! c))"
      using cc by (simp add: clk_config_eq_iff)
    assume "clktree_get_input_clk (rcc_heap g') c = None"
    then have "clktree_get_input_clk (rcc_heap g) c = None"
      using c by (simp add: g' clktree_get_input_clk_def)
    then show "clk_input_freq (?u (rcc_clks s ! c)) = clk_input_freq (?u (rcc_heap g ! c))"
      using hr c by (simp add: rcc_heap_rep_def)
  qed (use g' in simp_all)
  show "length ?h0 = 25" using len by simp
  show "clk_output_freq (?h0 ! j) = clk_output_freq (rcc_clks s ! j)"
    "clk_user (?h0 ! j) = clk_user (rcc_clks s ! j)" for j
    using c len by (cases "j = c"; simp)+
  show "run_total (clk_propagated ?h0) (clktree_set_scale c m d (rcc_clks s))"
    using inv c d len by (intro clktree_set_scale_spec) simp_all
qed

lemma rcc_select_moves:
  assumes rep: "rcc_rep g s" and c: "c < 25" and n: "0 \<le> n" "nat (n + 1) < length (clk_input (rcc_heap g ! c))"
    and g': "rcc_heap g' = (rcc_heap g)[c := (rcc_heap g ! c)\<lparr>clk_selected_input := n\<rparr>]"
      "length (cfg_periph g') = 13" "length (cfg_users g') = 13"
  shows "run_total (rcc_moves_to g' s) (rcc_clk (clktree_set_selected_input c n) s)"
proof (rule rcc_clk_moves [OF rep])
  have inv: "clk_inv (rcc_clks s)" and hr: "rcc_heap_rep g (rcc_clks s)" using rep by (simp_all add: rcc_rep_def)
  have len: "length (rcc_clks s) = 25" using hr by (rule rcc_heap_rep_length)
  let ?h0 = "(rcc_clks s)[c := clk_selection (rcc_clks s) c n]"
  have same: "same_config (rcc_heap g) (rcc_clks s)" using hr by (simp add: rcc_heap_rep_def)
  then have cc: "clk_config (rcc_clks s ! c) = clk_config (rcc_heap g ! c)"
    using c by (intro same_config_nth) simp_all
  have room: "nat (n + 1) < length (clk_input (rcc_clks s ! c))"
    using n(2) same_config_fields(6) [OF same] c by simp
  have some: "clk_input (rcc_clks s ! c) ! nat (n + 1) \<noteq> None"
    using clk_inv_input_None [OF inv _ _ room] c len n(1) by simp
  show "rcc_heap_rep g' ?h0"
  proof (rule rcc_heap_rep_update [OF hr c, where u = "\<lambda>k. k\<lparr>clk_selected_input := n\<rparr>"])
    show "clk_config (clk_selection (rcc_clks s) c n) = clk_config ((rcc_heap g ! c)\<lparr>clk_selected_input := n\<rparr>)"
      using cc by (simp add: clk_config_eq_iff clk_selection_def)
    assume "clktree_get_input_clk (rcc_heap g') c = None"
    then have "clk_input (rcc_clks s ! c) ! nat (n + 1) = None"
      using c same_config_fields(6) [OF same] by (simp add: g' clktree_get_input_clk_def)
    then show "clk_input_freq (clk_selection (rcc_clks s) c n) =
        clk_input_freq ((rcc_heap g ! c)\<lparr>clk_selected_input := n\<rparr>)"
      using some by simp
  qed (use g' in simp_all)
  show "length ?h0 = 25" using len by simp
  show "clk_output_freq (?h0 ! j) = clk_output_freq (rcc_clks s ! j)"
    "clk_user (?h0 ! j) = clk_user (rcc_clks s ! j)" for j
    using c len by (cases "j = c"; simp add: clk_selection_def)+
  show "run_total (clk_propagated ?h0) (clktree_set_selected_input c n (rcc_clks s))"
    using inv c n room len by (intro clktree_set_selected_input_spec) simp_all
qed

section \<open>Notifications\<close>

text \<open>A clock tree operation only notifies users of clocks and reports exceeded frequencies.\<close>

primrec clk_effect :: "effect \<Rightarrow> bool" where
  "clk_effect (ClkNotify i f) = True"
| "clk_effect (Stderr s) = True"
| "clk_effect (SetIrq i l) = False"
| "clk_effect (HwWarn s) = False"
| "clk_effect (GuestLog s) = False"
| "clk_effect (ChrWrite b) = False"
| "clk_effect (PostEvent e) = False"
| "clk_effect (PostDigitalOut p n v) = False"
| "clk_effect WaitAck = False"
| "clk_effect (Printf s) = False"

lemma clktree_recalc_effects:
  "run_sat (\<lambda>_ es. list_all clk_effect es) (clktree_recalc_output_freq fuel c h)"
proof (induction fuel arbitrary: c h)
  case (Suc fuel)
  have loop: "run_sat (\<lambda>_ es. True \<and> list_all clk_effect es) (run_for (clk_output (h ! c))
      (\<lambda>x h. if clktree_get_input_clk h x = Some c then clktree_set_input_freq fuel x f h else Ok h []) h')" for f h'
    by (rule run_for_emits [where I = "\<lambda>_. True"]) (simp_all add: Suc)
  have "list_all clk_effect (clk_max_freq_warning k f)" "list_all clk_effect (map (\<lambda>u. ClkNotify u f) us)" for k f us
    by (simp_all add: clk_max_freq_warning_def list_all_iff)
  then show ?case using loop by (simp add: Let_def)
qed simp

lemma clktree_set_effects:
  "run_sat (\<lambda>_ es. list_all clk_effect es) (clktree_set_enabled c e h)"
  "run_sat (\<lambda>_ es. list_all clk_effect es) (clktree_set_scale c m d h)"
  "run_sat (\<lambda>_ es. list_all clk_effect es) (clktree_set_selected_input c n h)"
  by (simp_all add: clktree_set_enabled_def clktree_set_scale_def clktree_set_selected_input_def
      clktree_recalc_effects Let_def split: option.split)

text \<open>
  Configurations a program of a board can reach: an 8 MHz crystal, selections and factors the registers
  can make, and UARTs as the users of the peripheral clocks. What an operation between such
  configurations tells the rest of the machine: the HCLK frequency of such a configuration, or a clock
  of a UART.
\<close>

definition rcc_selected :: "rcc_cfg \<Rightarrow> bool" where
  "rcc_selected g \<longleftrightarrow> cfg_xtpre g \<in> {0, 1} \<and> cfg_pllsrc g \<in> {0, 1} \<and> cfg_sw g \<in> {0, 1, 2}"

fun uart_user :: "qemu_irq \<Rightarrow> bool" where
  "uart_user (IrqUartClk k) = (k < 5)"
| "uart_user irq = False"

definition cfg_sane :: "rcc_cfg \<Rightarrow> bool" where
  "cfg_sane g \<longleftrightarrow> cfg_osc g = 8000000 \<and> rcc_selected g \<and> fst (cfg_hclk g) = 1 \<and>
     unat (snd (cfg_hclk g)) \<in> {1 .. 16} \<and> unat (cfg_pllmul g) \<in> {2 .. 16} \<and>
     list_all (list_all uart_user) (cfg_users g)"

fun rcc_calm :: "effect \<Rightarrow> bool" where
  "rcc_calm (SetIrq i l) = False"
| "rcc_calm (ClkNotify i f) = (uart_user i \<or> i = IrqHclkUpd \<and> (\<exists>g. cfg_sane g \<and> f = clk_eval (rcc_heap g) 9))"
| "rcc_calm (PostDigitalOut p n v) = False"
| "rcc_calm (PostEvent e) = False"
| "rcc_calm e = True"

lemma rcc_heap_users:
  assumes "c < 25" "length (cfg_users g) = 13" "u \<in> set (clk_user (rcc_heap g ! c))"
  shows "c = 9 \<and> u = IrqHclkUpd \<or> (\<exists>us \<in> set (cfg_users g). u \<in> set us)"
proof (cases "c < 12")
  case True
  then have "c = 0 \<or> c = 1 \<or> c = 2 \<or> c = 3 \<or> c = 4 \<or> c = 5 \<or> c = 6 \<or> c = 7 \<or> c = 8 \<or> c = 9 \<or> c = 10 \<or> c = 11"
    by presburger
  then show ?thesis using assms(3) by (elim disjE) (simp_all add: rcc_heap_def rcc_system_def rcc_node_def)
next
  case False
  have "length (rcc_system g) = 12" by (simp add: rcc_system_def)
  then have "rcc_heap g ! c = rcc_periph_node g (c - 12)"
    using assms(1) False by (simp add: rcc_heap_def nth_append del: upt_rec_numeral)
  then show ?thesis
    using assms False by (auto simp: rcc_periph_node_def rcc_node_def)
qed

lemma rcc_moves_calm:
  assumes "rcc_rep g s" "cfg_sane g" "rcc_moves_to g' s s' es" "cfg_sane g'" "list_all clk_effect es"
  shows "list_all rcc_calm es"
  unfolding list_all_iff
proof
  fix e assume e: "e \<in> set es"
  have rep: "clk_inv (rcc_clks s')" "rcc_heap_rep g' (rcc_clks s')" "rcc_heap_rep g (rcc_clks s)"
    using assms(1,3) by (simp_all add: rcc_moves_to_def rcc_rep_def)
  have users: "list_all (list_all uart_user) (cfg_users g)" "length (cfg_users g) = 13"
    using assms(2) rep(3) by (simp_all add: cfg_sane_def rcc_heap_rep_def)
  show "rcc_calm e"
  proof (cases e)
    case (ClkNotify u f)
    then have "(u, f) \<in> freq_changes (rcc_clks s) (rcc_clks s')"
      using e assms(3) by (auto simp: rcc_moves_to_def notified_def)
    then obtain c where c: "c < 25" "u \<in> set (clk_user (rcc_clks s ! c))" "f = clk_output_freq (rcc_clks s' ! c)"
      using rcc_heap_rep_length [OF rep(3)] by (auto simp: freq_changes_def)
    have "clk_user (rcc_clks s ! c) = clk_user (rcc_heap g ! c)"
      using same_config_fields(4) [of "rcc_heap g" "rcc_clks s" c] rep(3) c(1) by (simp add: rcc_heap_rep_def)
    then have "c = 9 \<and> u = IrqHclkUpd \<or> uart_user u"
      using rcc_heap_users [OF c(1) users(2)] c(2) users(1) by (auto simp: list_all_iff)
    then show ?thesis
      using ClkNotify rcc_heap_rep_freq [OF rep(1,2) c(1)] c(3) assms(4) by auto
  qed (use e assms(5) in \<open>auto simp: list_all_iff\<close>)
qed

section \<open>The device as an abstract machine\<close>

text \<open>
  A device without its clocks, and the triple "from configuration and fields \<open>a\<close> the statement \<open>f\<close>
  returns and reaches \<open>b\<close>". Blocks compose.
\<close>

type_synonym rcc_abs = "rcc_cfg \<times> Stm32Rcc"

definition rcc_fields :: "Stm32Rcc \<Rightarrow> Stm32Rcc" where
  "rcc_fields s = s\<lparr>rcc_clks := []\<rparr>"

definition rcc_at :: "rcc_abs \<Rightarrow> Stm32Rcc \<Rightarrow> bool" where
  "rcc_at a s \<longleftrightarrow> rcc_rep (fst a) s \<and> rcc_fields s = snd a"

definition rcc_does :: "rcc_abs \<Rightarrow> (Stm32Rcc \<Rightarrow> Stm32Rcc run) \<Rightarrow> rcc_abs \<Rightarrow> bool" where
  "rcc_does a f b \<longleftrightarrow> (\<forall>s. rcc_at a s \<longrightarrow> run_total (\<lambda>s' es. rcc_at b s' \<and>
     (cfg_sane (fst a) \<longrightarrow> cfg_sane (fst b) \<and> list_all rcc_calm es)) (f s))"

lemma rcc_doesI:
  "(\<And>s. rcc_at a s \<Longrightarrow> run_total (\<lambda>s' es. rcc_at b s' \<and>
     (cfg_sane (fst a) \<longrightarrow> cfg_sane (fst b) \<and> list_all rcc_calm es)) (f s)) \<Longrightarrow> rcc_does a f b"
  by (simp add: rcc_does_def)

lemma rcc_does_all:
  "rcc_does a f b \<Longrightarrow> rcc_at a s \<Longrightarrow> run_total (\<lambda>s' es. rcc_at b s' \<and>
     (cfg_sane (fst a) \<longrightarrow> cfg_sane (fst b) \<and> list_all rcc_calm es)) (f s)"
  by (simp add: rcc_does_def)

lemma rcc_doesD: "rcc_does a f b \<Longrightarrow> rcc_at a s \<Longrightarrow> run_total (\<lambda>s' _. rcc_at b s') (f s)"
  by (blast intro: run_total_mono dest: rcc_does_all)

lemma rcc_does_Nil: "a = b \<Longrightarrow> rcc_does a (run_seq []) b"
  by (simp add: rcc_does_def)

lemma rcc_does_Cons:
  assumes "rcc_does a f b" "rcc_does b (run_seq fs) c"
  shows "rcc_does a (run_seq (f # fs)) c"
proof (rule rcc_doesI)
  fix s assume "rcc_at a s"
  then obtain s' es where "f s = Ok s' es" "rcc_at b s'" "cfg_sane (fst a) \<longrightarrow> cfg_sane (fst b) \<and> list_all rcc_calm es"
    using assms(1) by (blast dest: rcc_does_all elim: run_totalE)
  then show "run_total (\<lambda>s' es. rcc_at c s' \<and> (cfg_sane (fst a) \<longrightarrow> cfg_sane (fst c) \<and> list_all rcc_calm es))
      (run_seq (f # fs) s)"
    using rcc_does_all [OF assms(2), of s'] by (auto elim!: run_total_mono)
qed

lemma rcc_at_ptrs:
  assumes "rcc_at a s"
  shows "HSICLK s = 0" "LSICLK s = 1" "HSECLK s = 2" "LSECLK s = 3" "PLLXTPRECLK s = 6" "PLLCLK s = 7"
    "SYSCLK s = 8" "HCLK s = 9" "PCLK1 s = 10" "PCLK2 s = 11" "PERIPHCLK s = rcc_periphclk"
  using assms by (simp_all add: rcc_at_def rcc_rep_def rcc_ptrs_def)

lemma rcc_at_moves:
  assumes "rcc_at (g, x) s" "run_total (rcc_moves_to g' s) (rcc_clk f s)"
    and "run_sat (\<lambda>_ es. list_all clk_effect es) (f (rcc_clks s))" "cfg_sane g \<Longrightarrow> cfg_sane g'"
  shows "run_total (\<lambda>s' es. rcc_at (g', x) s' \<and>
    (cfg_sane (fst (g, x)) \<longrightarrow> cfg_sane (fst (g', x)) \<and> list_all rcc_calm es)) (rcc_clk f s)"
proof -
  obtain s' es where r: "rcc_clk f s = Ok s' es" "rcc_moves_to g' s s' es" using assms(2) by (rule run_totalE)
  from this have "rcc_fields s' = rcc_fields s"
    unfolding rcc_moves_to_def rcc_fields_def by (metis Stm32Rcc.surjective Stm32Rcc.update_convs(14))
  moreover have "list_all clk_effect es"
    using r(1) assms(3) by (auto simp: rcc_clk_def)
  ultimately show ?thesis
    using assms(1,4) r rcc_moves_calm [OF _ _ r(2), of g] by (simp add: rcc_at_def rcc_moves_to_def)
qed

lemma rcc_at_lengths: "rcc_at (g, x) s \<Longrightarrow> length (cfg_periph g) = 13 \<and> length (cfg_users g) = 13"
  by (simp add: rcc_at_def rcc_rep_def rcc_heap_rep_def)

text \<open>The layout under each update.\<close>

lemma rcc_heap_updates:
  "rcc_heap (g\<lparr>cfg_hsi := e\<rparr>) = (rcc_heap g)[0 := (rcc_heap g ! 0)\<lparr>clk_enabled := e\<rparr>]"
  "rcc_heap (g\<lparr>cfg_lsi := e\<rparr>) = (rcc_heap g)[1 := (rcc_heap g ! 1)\<lparr>clk_enabled := e\<rparr>]"
  "rcc_heap (g\<lparr>cfg_hse := e\<rparr>) = (rcc_heap g)[2 := (rcc_heap g ! 2)\<lparr>clk_enabled := e\<rparr>]"
  "rcc_heap (g\<lparr>cfg_lse := e\<rparr>) = (rcc_heap g)[3 := (rcc_heap g ! 3)\<lparr>clk_enabled := e\<rparr>]"
  "rcc_heap (g\<lparr>cfg_pll := e\<rparr>) = (rcc_heap g)[7 := (rcc_heap g ! 7)\<lparr>clk_enabled := e\<rparr>]"
  "rcc_heap (g\<lparr>cfg_pllmul := m\<rparr>) = (rcc_heap g)[7 := (rcc_heap g ! 7)\<lparr>clk_multiplier := m, clk_divisor := 1\<rparr>]"
  "rcc_heap (g\<lparr>cfg_hclk := (m, d)\<rparr>) = (rcc_heap g)[9 := (rcc_heap g ! 9)\<lparr>clk_multiplier := m, clk_divisor := d\<rparr>]"
  "rcc_heap (g\<lparr>cfg_pclk1 := (m, d)\<rparr>) = (rcc_heap g)[10 := (rcc_heap g ! 10)\<lparr>clk_multiplier := m, clk_divisor := d\<rparr>]"
  "rcc_heap (g\<lparr>cfg_pclk2 := (m, d)\<rparr>) = (rcc_heap g)[11 := (rcc_heap g ! 11)\<lparr>clk_multiplier := m, clk_divisor := d\<rparr>]"
  "rcc_heap (g\<lparr>cfg_xtpre := n\<rparr>) = (rcc_heap g)[6 := (rcc_heap g ! 6)\<lparr>clk_selected_input := n\<rparr>]"
  "rcc_heap (g\<lparr>cfg_pllsrc := n\<rparr>) = (rcc_heap g)[7 := (rcc_heap g ! 7)\<lparr>clk_selected_input := n\<rparr>]"
  "rcc_heap (g\<lparr>cfg_sw := n\<rparr>) = (rcc_heap g)[8 := (rcc_heap g ! 8)\<lparr>clk_selected_input := n\<rparr>]"
  by (simp_all add: rcc_heap_def rcc_system_def rcc_node_def rcc_periph_node_def)

lemma rcc_heap_periph:
  assumes "i < 13" "length (cfg_periph g) = 13"
  shows "rcc_heap (g\<lparr>cfg_periph := (cfg_periph g)[i := e]\<rparr>) =
    (rcc_heap g)[12 + i := (rcc_heap g ! (12 + i))\<lparr>clk_enabled := e\<rparr>]"
proof -
  have sys: "length (rcc_system g) = 12" "rcc_system (g\<lparr>cfg_periph := ps\<rparr>) = rcc_system g" for ps
    by (simp_all add: rcc_system_def)
  have "map (rcc_periph_node (g\<lparr>cfg_periph := (cfg_periph g)[i := e]\<rparr>)) [0..<13] =
      (map (rcc_periph_node g) [0..<13])[i := (rcc_periph_node g i)\<lparr>clk_enabled := e\<rparr>]"
    using assms by (intro nth_equalityI) (auto simp: rcc_periph_node_def rcc_node_def nth_list_update)
  then show ?thesis
    using assms(1) by (simp add: rcc_heap_def sys list_update_append nth_append)
qed

end
