(* ===== verification/Rcc_Ops.thy ===== *)
theory Rcc_Ops
  imports Rcc_Tree
begin

text \<open>
  The register functions of \<open>hw/arm/stm32_rcc.c\<close> as updates of the abstract configuration: which
  configuration and which fields each register write leads to, when it stops, and what the clocks
  then deliver.
\<close>

section \<open>Statements\<close>

lemma rcc_does_enabled:
  assumes "\<And>s. rcc_at (g, x) s \<Longrightarrow> p s = c" "c < 25"
    and "rcc_heap g' = (rcc_heap g)[c := (rcc_heap g ! c)\<lparr>clk_enabled := e\<rparr>]"
    and "length (cfg_periph g') = length (cfg_periph g)" "cfg_users g' = cfg_users g" "cfg_sane g \<Longrightarrow> cfg_sane g'"
  shows "rcc_does (g, x) (\<lambda>s. rcc_clk (clktree_set_enabled (p s) e) s) (g', x)"
proof (rule rcc_doesI)
  fix s assume a: "rcc_at (g, x) s"
  have "run_total (rcc_moves_to g' s) (rcc_clk (clktree_set_enabled c e) s)"
    using a assms rcc_at_lengths [OF a] by (intro rcc_set_enabled_moves [of g]) (simp_all add: rcc_at_def)
  from rcc_at_moves [OF a this clktree_set_effects(1)]
  show "run_total (\<lambda>s' es. rcc_at (g', x) s' \<and>
      (cfg_sane (fst (g, x)) \<longrightarrow> cfg_sane (fst (g', x)) \<and> list_all rcc_calm es)) (rcc_clk (clktree_set_enabled (p s) e) s)"
    unfolding assms(1) [OF a] using assms by blast
qed

lemma rcc_does_scale:
  assumes "\<And>s. rcc_at (g, x) s \<Longrightarrow> p s = c" "c < 25" "d \<noteq> 0"
    and "rcc_heap g' = (rcc_heap g)[c := (rcc_heap g ! c)\<lparr>clk_multiplier := m, clk_divisor := d\<rparr>]"
    and "cfg_periph g' = cfg_periph g" "cfg_users g' = cfg_users g" "cfg_sane g \<Longrightarrow> cfg_sane g'"
  shows "rcc_does (g, x) (\<lambda>s. rcc_clk (clktree_set_scale (p s) m d) s) (g', x)"
proof (rule rcc_doesI)
  fix s assume a: "rcc_at (g, x) s"
  have "run_total (rcc_moves_to g' s) (rcc_clk (clktree_set_scale c m d) s)"
    using a assms rcc_at_lengths [OF a] by (intro rcc_set_scale_moves [of g]) (simp_all add: rcc_at_def)
  from rcc_at_moves [OF a this clktree_set_effects(2)]
  show "run_total (\<lambda>s' es. rcc_at (g', x) s' \<and>
      (cfg_sane (fst (g, x)) \<longrightarrow> cfg_sane (fst (g', x)) \<and> list_all rcc_calm es)) (rcc_clk (clktree_set_scale (p s) m d) s)"
    unfolding assms(1) [OF a] using assms by blast
qed

lemma rcc_does_select:
  assumes "\<And>s. rcc_at (g, x) s \<Longrightarrow> p s = c" "c < 25" "0 \<le> n" "nat (n + 1) < length (clk_input (rcc_heap g ! c))"
    and "rcc_heap g' = (rcc_heap g)[c := (rcc_heap g ! c)\<lparr>clk_selected_input := n\<rparr>]"
    and "cfg_periph g' = cfg_periph g" "cfg_users g' = cfg_users g" "cfg_sane g \<Longrightarrow> cfg_sane g'"
  shows "rcc_does (g, x) (\<lambda>s. rcc_clk (clktree_set_selected_input (p s) n) s) (g', x)"
proof (rule rcc_doesI)
  fix s assume a: "rcc_at (g, x) s"
  have "run_total (rcc_moves_to g' s) (rcc_clk (clktree_set_selected_input c n) s)"
    using a assms rcc_at_lengths [OF a] by (intro rcc_select_moves [of g]) (simp_all add: rcc_at_def)
  from rcc_at_moves [OF a this clktree_set_effects(3)]
  show "run_total (\<lambda>s' es. rcc_at (g', x) s' \<and>
      (cfg_sane (fst (g, x)) \<longrightarrow> cfg_sane (fst (g', x)) \<and> list_all rcc_calm es)) (rcc_clk (clktree_set_selected_input (p s) n) s)"
    unfolding assms(1) [OF a] using assms by blast
qed

text \<open>Gates of the oscillators and of the PLL.\<close>

lemmas rcc_does_gates =
  rcc_does_enabled [OF rcc_at_ptrs(1) _ rcc_heap_updates(1)]
  rcc_does_enabled [OF rcc_at_ptrs(2) _ rcc_heap_updates(2)]
  rcc_does_enabled [OF rcc_at_ptrs(3) _ rcc_heap_updates(3)]
  rcc_does_enabled [OF rcc_at_ptrs(4) _ rcc_heap_updates(4)]
  rcc_does_enabled [OF rcc_at_ptrs(6) _ rcc_heap_updates(5)]

lemma cfg_sane_updates [simp]:
  "cfg_sane (g\<lparr>cfg_hsi := e\<rparr>) = cfg_sane g" "cfg_sane (g\<lparr>cfg_lsi := e\<rparr>) = cfg_sane g"
  "cfg_sane (g\<lparr>cfg_hse := e\<rparr>) = cfg_sane g" "cfg_sane (g\<lparr>cfg_lse := e\<rparr>) = cfg_sane g"
  "cfg_sane (g\<lparr>cfg_pll := e\<rparr>) = cfg_sane g" "cfg_sane (g\<lparr>cfg_pclk1 := sc\<rparr>) = cfg_sane g"
  "cfg_sane (g\<lparr>cfg_pclk2 := sc\<rparr>) = cfg_sane g" "cfg_sane (g\<lparr>cfg_periph := ps\<rparr>) = cfg_sane g"
  by (simp_all add: cfg_sane_def rcc_selected_def)

lemma rcc_does_set_gates:
  "rcc_does (g, x) (\<lambda>s. rcc_clk (clktree_set_enabled (HSICLK s) e) s) (g\<lparr>cfg_hsi := e\<rparr>, x)"
  "rcc_does (g, x) (\<lambda>s. rcc_clk (clktree_set_enabled (LSICLK s) e) s) (g\<lparr>cfg_lsi := e\<rparr>, x)"
  "rcc_does (g, x) (\<lambda>s. rcc_clk (clktree_set_enabled (HSECLK s) e) s) (g\<lparr>cfg_hse := e\<rparr>, x)"
  "rcc_does (g, x) (\<lambda>s. rcc_clk (clktree_set_enabled (LSECLK s) e) s) (g\<lparr>cfg_lse := e\<rparr>, x)"
  "rcc_does (g, x) (\<lambda>s. rcc_clk (clktree_set_enabled (PLLCLK s) e) s) (g\<lparr>cfg_pll := e\<rparr>, x)"
  by (rule rcc_does_gates; simp)+

lemma rcc_does_set_scales:
  "unat m \<in> {2 .. 16} \<Longrightarrow> rcc_does (g, x) (\<lambda>s. rcc_clk (clktree_set_scale (PLLCLK s) m 1) s) (g\<lparr>cfg_pllmul := m\<rparr>, x)"
  "unat d \<in> {1 .. 16} \<Longrightarrow> rcc_does (g, x) (\<lambda>s. rcc_clk (clktree_set_scale (HCLK s) 1 d) s) (g\<lparr>cfg_hclk := (1, d)\<rparr>, x)"
  "unat d \<in> {1 .. 16} \<Longrightarrow> rcc_does (g, x) (\<lambda>s. rcc_clk (clktree_set_scale (PCLK1 s) m d) s) (g\<lparr>cfg_pclk1 := (m, d)\<rparr>, x)"
  "unat d \<in> {1 .. 16} \<Longrightarrow> rcc_does (g, x) (\<lambda>s. rcc_clk (clktree_set_scale (PCLK2 s) m d) s) (g\<lparr>cfg_pclk2 := (m, d)\<rparr>, x)"
  by (rule rcc_does_scale [OF rcc_at_ptrs(6) _ _ rcc_heap_updates(6)]
      rcc_does_scale [OF rcc_at_ptrs(8) _ _ rcc_heap_updates(7)]
      rcc_does_scale [OF rcc_at_ptrs(9) _ _ rcc_heap_updates(8)]
      rcc_does_scale [OF rcc_at_ptrs(10) _ _ rcc_heap_updates(9)];
      auto simp: cfg_sane_def rcc_selected_def)+

lemma rcc_does_set_selections:
  "0 \<le> n \<Longrightarrow> n < 2 \<Longrightarrow>
    rcc_does (g, x) (\<lambda>s. rcc_clk (clktree_set_selected_input (PLLXTPRECLK s) n) s) (g\<lparr>cfg_xtpre := n\<rparr>, x)"
  "0 \<le> n \<Longrightarrow> n < 2 \<Longrightarrow>
    rcc_does (g, x) (\<lambda>s. rcc_clk (clktree_set_selected_input (PLLCLK s) n) s) (g\<lparr>cfg_pllsrc := n\<rparr>, x)"
  "0 \<le> n \<Longrightarrow> n < 3 \<Longrightarrow>
    rcc_does (g, x) (\<lambda>s. rcc_clk (clktree_set_selected_input (SYSCLK s) n) s) (g\<lparr>cfg_sw := n\<rparr>, x)"
  by (rule rcc_does_select [OF rcc_at_ptrs(5) _ _ _ rcc_heap_updates(10)]
      rcc_does_select [OF rcc_at_ptrs(6) _ _ _ rcc_heap_updates(11)]
      rcc_does_select [OF rcc_at_ptrs(7) _ _ _ rcc_heap_updates(12)];
      auto simp: rcc_heap_def rcc_system_def rcc_node_def cfg_sane_def rcc_selected_def)+

lemma rcc_does_warn:
  "rcc_does a (\<lambda>s. if C s then stm32_hw_warn msg s else Ok s []) a"
  "rcc_does a (rcc_pll_warn init v F msg) a"
  by (auto simp: rcc_does_def stm32_hw_warn_def rcc_pll_warn_def)

lemma rcc_does_assert: "P \<Longrightarrow> rcc_does a (\<lambda>s. if P then Ok s [] else Stop AssertFail []) a"
  by (auto simp: rcc_does_def)

lemma rcc_does_eq:
  "rcc_does a f' b \<Longrightarrow> (\<And>s. rcc_at a s \<Longrightarrow> f s = f' s) \<Longrightarrow> rcc_does a f b"
  by (simp add: rcc_does_def)

lemma rcc_does_length: "(length (cfg_periph g) = 13 \<Longrightarrow> rcc_does (g, x) f b) \<Longrightarrow> rcc_does (g, x) f b"
  by (auto simp: rcc_does_def dest: rcc_at_lengths)

lemma rcc_does_field:
  assumes "\<And>s. rcc_fields (u s) = u (rcc_fields s)" "\<And>s. rcc_clks (u s) = rcc_clks s"
    "\<And>s. rcc_ptrs (u s) = rcc_ptrs s"
  shows "rcc_does (g, x) (\<lambda>s. Ok (u s) []) (g, u x)"
  by (rule rcc_doesI) (use assms in \<open>auto simp: rcc_at_def rcc_rep_def\<close>)

lemma rcc_does_store:
  "rcc_does (g, x) (\<lambda>s. Ok (s\<lparr>RCC_CFGR_PLLMUL := v\<rparr>) []) (g, x\<lparr>RCC_CFGR_PLLMUL := v\<rparr>)"
  "rcc_does (g, x) (\<lambda>s. Ok (s\<lparr>RCC_CFGR_PLLXTPRE := v\<rparr>) []) (g, x\<lparr>RCC_CFGR_PLLXTPRE := v\<rparr>)"
  "rcc_does (g, x) (\<lambda>s. Ok (s\<lparr>RCC_CFGR_PLLSRC := v\<rparr>) []) (g, x\<lparr>RCC_CFGR_PLLSRC := v\<rparr>)"
  "rcc_does (g, x) (\<lambda>s. Ok (s\<lparr>RCC_CFGR_PPRE1 := v\<rparr>) []) (g, x\<lparr>RCC_CFGR_PPRE1 := v\<rparr>)"
  "rcc_does (g, x) (\<lambda>s. Ok (s\<lparr>RCC_CFGR_PPRE2 := v\<rparr>) []) (g, x\<lparr>RCC_CFGR_PPRE2 := v\<rparr>)"
  "rcc_does (g, x) (\<lambda>s. Ok (s\<lparr>RCC_CFGR_HPRE := v\<rparr>) []) (g, x\<lparr>RCC_CFGR_HPRE := v\<rparr>)"
  "rcc_does (g, x) (\<lambda>s. Ok (s\<lparr>RCC_CFGR_SW := v\<rparr>) []) (g, x\<lparr>RCC_CFGR_SW := v\<rparr>)"
  "rcc_does (g, x) (\<lambda>s. Ok (s\<lparr>RCC_APB1ENR := v\<rparr>) []) (g, x\<lparr>RCC_APB1ENR := v\<rparr>)"
  "rcc_does (g, x) (\<lambda>s. Ok (s\<lparr>RCC_APB2ENR := v\<rparr>) []) (g, x\<lparr>RCC_APB2ENR := v\<rparr>)"
  "rcc_does (g, x) (\<lambda>s. Ok (s\<lparr>RCC_APB1RSTR := v\<rparr>) []) (g, x\<lparr>RCC_APB1RSTR := v\<rparr>)"
  "rcc_does (g, x) (\<lambda>s. Ok (s\<lparr>RCC_APB2RSTR := v\<rparr>) []) (g, x\<lparr>RCC_APB2RSTR := v\<rparr>)"
  by (auto intro!: rcc_does_field simp: rcc_fields_def rcc_ptrs_def)

section \<open>Register writes\<close>

lemma and_BIT_ne_0: "n < 32 \<Longrightarrow> (v AND BIT n \<noteq> 0) = bit v n" for v :: u32
  by (simp add: and_BIT_eq_0)

definition rcc_cr_cfg :: "u32 \<Rightarrow> rcc_cfg \<Rightarrow> rcc_cfg" where
  "rcc_cr_cfg v g = g\<lparr>cfg_pll := bit v 24, cfg_hse := bit v 16, cfg_hsi := bit v 0\<rparr>"

lemma rcc_does_CR_write: "rcc_does (g, x) (stm32_rcc_RCC_CR_write v init) (rcc_cr_cfg v g, x)"
  unfolding stm32_rcc_RCC_CR_write_def Let_def
  by (rule rcc_does_Cons rcc_does_warn(1) rcc_does_set_gates rcc_does_Nil)+
    (simp add: rcc_cr_cfg_def and_BIT_ne_0)

definition rcc_pllmul :: "u32 \<Rightarrow> u16" where
  "rcc_pllmul f = (if f = 0xf then 16 else ucast (f + 2))"

definition rcc_presc :: "u32 \<Rightarrow> u32 \<Rightarrow> u16" where
  "rcc_presc first f = (if f < first then 1 else ucast (2 * (f - (first - 1))))"

definition cfgr_pllmul :: "u32 \<Rightarrow> u32" where "cfgr_pllmul v = extract32 v 18 4"
definition cfgr_xtpre :: "u32 \<Rightarrow> u32" where "cfgr_xtpre v = extract32 v 17 1"
definition cfgr_pllsrc :: "u32 \<Rightarrow> u32" where "cfgr_pllsrc v = extract32 v 16 1"
definition cfgr_ppre2 :: "u32 \<Rightarrow> u32" where "cfgr_ppre2 v = drop_bit 11 (v AND 0x3c00)"
definition cfgr_ppre1 :: "u32 \<Rightarrow> u32" where "cfgr_ppre1 v = drop_bit 8 (v AND 0x700)"
definition cfgr_hpre :: "u32 \<Rightarrow> u32" where "cfgr_hpre v = drop_bit 4 (v AND 0xf0)"
definition cfgr_sw :: "u32 \<Rightarrow> u32" where "cfgr_sw v = v AND 3"

definition rcc_cfgr_cfg :: "u32 \<Rightarrow> rcc_cfg \<Rightarrow> rcc_cfg" where
  "rcc_cfgr_cfg v g = g\<lparr>cfg_pllmul := rcc_pllmul (cfgr_pllmul v), cfg_xtpre := uint (cfgr_xtpre v),
     cfg_pllsrc := uint (cfgr_pllsrc v), cfg_pclk2 := (1, rcc_presc 4 (cfgr_ppre2 v)),
     cfg_pclk1 := (1, rcc_presc 4 (cfgr_ppre1 v)), cfg_hclk := (1, rcc_presc 8 (cfgr_hpre v)),
     cfg_sw := uint (cfgr_sw v)\<rparr>"

definition rcc_cfgr_fields :: "u32 \<Rightarrow> Stm32Rcc \<Rightarrow> Stm32Rcc" where
  "rcc_cfgr_fields v x = x\<lparr>RCC_CFGR_PLLMUL := cfgr_pllmul v, RCC_CFGR_PLLXTPRE := cfgr_xtpre v,
     RCC_CFGR_PLLSRC := cfgr_pllsrc v, RCC_CFGR_PPRE2 := cfgr_ppre2 v, RCC_CFGR_PPRE1 := cfgr_ppre1 v,
     RCC_CFGR_HPRE := cfgr_hpre v, RCC_CFGR_SW := cfgr_sw v\<rparr>"

text \<open>The widths of the fields.\<close>

lemma word_less_mask:
  fixes w :: u32
  assumes "\<And>n. bit w n \<Longrightarrow> n < k"
  shows "unat w < 2 ^ k"
proof -
  have "take_bit k w = w" by (rule bit_word_eqI) (use assms in \<open>auto simp: bit_take_bit_iff\<close>)
  then have "unat w = take_bit k (unat w)" by (metis unsigned_take_bit_eq)
  then show ?thesis by (metis take_bit_nat_less_exp)
qed

lemma cfgr_masks:
  "(0x3c00 :: u32) = push_bit 10 (mask 4)" "(0x700 :: u32) = push_bit 8 (mask 3)"
  "(0xf0 :: u32) = push_bit 4 (mask 4)" "(3 :: u32) = mask 2"
  by (simp_all add: mask_eq_exp_minus_1)

lemma bit_cfgr_fields [bit_field]:
  "bit (cfgr_pllmul v) n \<longleftrightarrow> n < 4 \<and> bit v (18 + n)"
  "bit (cfgr_xtpre v) n \<longleftrightarrow> n = 0 \<and> bit v 17"
  "bit (cfgr_pllsrc v) n \<longleftrightarrow> n = 0 \<and> bit v 16"
  "bit (cfgr_ppre2 v) n \<longleftrightarrow> n < 3 \<and> bit v (11 + n)"
  "bit (cfgr_ppre1 v) n \<longleftrightarrow> n < 3 \<and> bit v (8 + n)"
  "bit (cfgr_hpre v) n \<longleftrightarrow> n < 4 \<and> bit v (4 + n)"
  "bit (cfgr_sw v) n \<longleftrightarrow> n < 2 \<and> bit v n"
  unfolding cfgr_pllmul_def cfgr_xtpre_def cfgr_pllsrc_def cfgr_ppre2_def cfgr_ppre1_def cfgr_hpre_def
    cfgr_sw_def cfgr_masks
  by (auto simp: bit_extract32 bitfield_ok_def bit_simps dest: bit_imp_le_length)

lemma cfgr_fields_less:
  "cfgr_pllmul v < 16" "cfgr_xtpre v < 2" "cfgr_pllsrc v < 2" "cfgr_ppre2 v < 8" "cfgr_ppre1 v < 8"
  "cfgr_hpre v < 16" "cfgr_sw v < 4"
  using word_less_mask [of "cfgr_pllmul v" 4] word_less_mask [of "cfgr_xtpre v" 1]
    word_less_mask [of "cfgr_pllsrc v" 1] word_less_mask [of "cfgr_ppre2 v" 3]
    word_less_mask [of "cfgr_ppre1 v" 3] word_less_mask [of "cfgr_hpre v" 4] word_less_mask [of "cfgr_sw v" 2]
  by (simp_all add: bit_cfgr_fields word_less_nat_alt)

lemma unat_presc:
  "f < 8 \<Longrightarrow> unat (rcc_presc 4 f) = (if f < 4 then 1 else 2 * (unat f - 3))"
  "f < 16 \<Longrightarrow> unat (rcc_presc 8 f) = (if f < 8 then 1 else 2 * (unat f - 7))"
proof -
  have cast: "unat (ucast (w :: u32) :: u16) = unat w" if "unat w < 65536" for w
    using that by (simp add: unsigned_ucast_eq take_bit_nat_eq_self)
  show "f < 8 \<Longrightarrow> unat (rcc_presc 4 f) = (if f < 4 then 1 else 2 * (unat f - 3))"
    unfolding rcc_presc_def
    by (auto simp: word_less_nat_alt cast unat_word_ariths unat_sub_if')
  show "f < 16 \<Longrightarrow> unat (rcc_presc 8 f) = (if f < 8 then 1 else 2 * (unat f - 7))"
    unfolding rcc_presc_def
    by (auto simp: word_less_nat_alt cast unat_word_ariths unat_sub_if')
qed

lemma rcc_presc_nonzero: "f < 8 \<Longrightarrow> rcc_presc 4 f \<noteq> 0" "f < 16 \<Longrightarrow> rcc_presc 8 f \<noteq> 0"
  using unat_presc(1) [of f] unat_presc(2) [of f]
  by (auto simp: word_less_nat_alt split: if_splits)

lemma rcc_presc_range: "f < 8 \<Longrightarrow> unat (rcc_presc 4 f) \<in> {1 .. 16}" "f < 16 \<Longrightarrow> unat (rcc_presc 8 f) \<in> {1 .. 16}"
  using unat_presc(1) [of f] unat_presc(2) [of f] by (auto simp: word_less_nat_alt)

lemma unat_rcc_pllmul: "f < 16 \<Longrightarrow> unat (rcc_pllmul f) = min 16 (unat f + 2)"
proof -
  have "unat (ucast (w :: u32) :: u16) = unat w" if "unat w < 65536" for w
    using that by (simp add: unsigned_ucast_eq take_bit_nat_eq_self)
  then show "f < 16 \<Longrightarrow> unat (rcc_pllmul f) = min 16 (unat f + 2)"
    by (auto simp: rcc_pllmul_def word_less_nat_alt word_unat_eq_iff unat_word_ariths min_def)
qed

lemma rcc_pllmul_range: "unat (rcc_pllmul (cfgr_pllmul v)) \<in> {2 .. 16}"
  using unat_rcc_pllmul [OF cfgr_fields_less(1)] by simp

lemma rcc_does_prescaler:
  assumes "\<And>d. unat d \<in> {1 .. 16} \<Longrightarrow> rcc_does (g, x) (\<lambda>s. rcc_clk (clktree_set_scale (p s) 1 d) s) (u d, x)"
    and "\<And>s. rcc_at (g, x) s \<Longrightarrow> F s = f" "unat (rcc_presc first f) \<in> {1 .. 16}"
  shows "rcc_does (g, x) (\<lambda>s. rcc_prescaler (p s) first (F s) s) (u (rcc_presc first f), x)"
proof (rule rcc_does_eq [OF assms(1) [OF assms(3)]])
  fix s assume a: "rcc_at (g, x) s"
  show "rcc_prescaler (p s) first (F s) s = rcc_clk (clktree_set_scale (p s) 1 (rcc_presc first f)) s"
    by (simp add: rcc_prescaler_def rcc_presc_def assms(2) [OF a])
qed

lemma rcc_at_fields:
  assumes "rcc_at (g, x) s"
  shows "RCC_CFGR_PPRE2 s = RCC_CFGR_PPRE2 x" "RCC_CFGR_PPRE1 s = RCC_CFGR_PPRE1 x"
    "RCC_CFGR_HPRE s = RCC_CFGR_HPRE x" "RCC_CFGR_SW s = RCC_CFGR_SW x"
    "RCC_CFGR_PLLMUL s = RCC_CFGR_PLLMUL x" "RCC_CFGR_PLLXTPRE s = RCC_CFGR_PLLXTPRE x"
    "RCC_CFGR_PLLSRC s = RCC_CFGR_PLLSRC x" "RCC_APB1ENR s = RCC_APB1ENR x" "osc_freq s = osc_freq x"
  using assms by (auto simp: rcc_at_def rcc_fields_def)

lemma rcc_does_cfgr_pll:
  "rcc_does (g, x) (rcc_cfgr_pll v init)
     (g\<lparr>cfg_pllmul := rcc_pllmul (cfgr_pllmul v), cfg_xtpre := uint (cfgr_xtpre v), cfg_pllsrc := uint (cfgr_pllsrc v)\<rparr>,
      x\<lparr>RCC_CFGR_PLLMUL := cfgr_pllmul v, RCC_CFGR_PLLXTPRE := cfgr_xtpre v, RCC_CFGR_PLLSRC := cfgr_pllsrc v\<rparr>)"
proof -
  have mul: "rcc_does (g, x)
      (\<lambda>s. if cfgr_pllmul v = 0xf then rcc_clk (clktree_set_scale (PLLCLK s) 16 1) s
          else rcc_clk (clktree_set_scale (PLLCLK s) (ucast (cfgr_pllmul v + 2)) 1) s)
      (g\<lparr>cfg_pllmul := rcc_pllmul (cfgr_pllmul v)\<rparr>, x)" for g x
    by (rule rcc_does_eq [OF rcc_does_set_scales(1) [OF rcc_pllmul_range]]) (simp add: rcc_pllmul_def)
  have le: "cfgr_pllmul v \<le> 0xf" using cfgr_fields_less(1) [of v] by (simp add: word_less_nat_alt word_le_nat_alt)
  have small: "uint (cfgr_xtpre v) < 2" "uint (cfgr_pllsrc v) < 2"
    using cfgr_fields_less(2,3) [of v] by (simp_all add: word_less_def)
  have ge: "0 \<le> uint w" for w :: u32 by simp
  show ?thesis
    unfolding rcc_cfgr_pll_def Let_def cfgr_pllmul_def [symmetric] cfgr_xtpre_def [symmetric] cfgr_pllsrc_def [symmetric]
    by (rule rcc_does_Cons rcc_does_warn(2) rcc_does_assert [OF le] mul rcc_does_store
        rcc_does_set_selections(1) [OF ge small(1)] rcc_does_set_selections(2) [OF ge small(2)] rcc_does_Nil)+ simp
qed

lemma rcc_does_cfgr_prescalers:
  "rcc_does (g, x) (rcc_cfgr_prescalers v)
     (g\<lparr>cfg_pclk2 := (1, rcc_presc 4 (cfgr_ppre2 v)), cfg_pclk1 := (1, rcc_presc 4 (cfgr_ppre1 v)),
        cfg_hclk := (1, rcc_presc 8 (cfgr_hpre v))\<rparr>,
      x\<lparr>RCC_CFGR_PPRE2 := cfgr_ppre2 v, RCC_CFGR_PPRE1 := cfgr_ppre1 v, RCC_CFGR_HPRE := cfgr_hpre v\<rparr>)"
proof -
  have p2: "rcc_does (g, x) (\<lambda>s. rcc_prescaler (PCLK2 s) 4 (RCC_CFGR_PPRE2 s) s)
      (g\<lparr>cfg_pclk2 := (1, rcc_presc 4 (RCC_CFGR_PPRE2 x))\<rparr>, x)" if "RCC_CFGR_PPRE2 x < 8" for g x
    by (rule rcc_does_prescaler [where u = "\<lambda>d. g\<lparr>cfg_pclk2 := (1, d)\<rparr>"])
      (use that in \<open>simp_all add: rcc_does_set_scales(4) rcc_at_fields rcc_presc_range [simplified]\<close>)
  have p1: "rcc_does (g, x) (\<lambda>s. rcc_prescaler (PCLK1 s) 4 (RCC_CFGR_PPRE1 s) s)
      (g\<lparr>cfg_pclk1 := (1, rcc_presc 4 (RCC_CFGR_PPRE1 x))\<rparr>, x)" if "RCC_CFGR_PPRE1 x < 8" for g x
    by (rule rcc_does_prescaler [where u = "\<lambda>d. g\<lparr>cfg_pclk1 := (1, d)\<rparr>"])
      (use that in \<open>simp_all add: rcc_does_set_scales(3) rcc_at_fields rcc_presc_range [simplified]\<close>)
  have hp: "rcc_does (g, x) (\<lambda>s. rcc_prescaler (HCLK s) 8 (RCC_CFGR_HPRE s) s)
      (g\<lparr>cfg_hclk := (1, rcc_presc 8 (RCC_CFGR_HPRE x))\<rparr>, x)" if "RCC_CFGR_HPRE x < 16" for g x
    by (rule rcc_does_prescaler [where u = "\<lambda>d. g\<lparr>cfg_hclk := (1, d)\<rparr>"])
      (use that in \<open>simp_all add: rcc_does_set_scales(2) rcc_at_fields rcc_presc_range [simplified]\<close>)
  show ?thesis
    unfolding rcc_cfgr_prescalers_def cfgr_ppre2_def [symmetric] cfgr_ppre1_def [symmetric] cfgr_hpre_def [symmetric]
    by (rule rcc_does_Cons rcc_does_store p2 p1 hp rcc_does_Nil | simp add: cfgr_fields_less)+
qed

lemma rcc_does_cfgr_sw:
  assumes "cfgr_sw v \<noteq> 3"
  shows "rcc_does (g, x) (rcc_cfgr_sw v) (g\<lparr>cfg_sw := uint (cfgr_sw v)\<rparr>, x\<lparr>RCC_CFGR_SW := cfgr_sw v\<rparr>)"
proof -
  have lt: "unat (cfgr_sw v) < 4" "unat (cfgr_sw v) \<noteq> 3"
    using cfgr_fields_less(7) [of v] assms by (simp_all add: word_less_nat_alt word_unat_eq_iff)
  then have dom: "cfgr_sw v = 0 \<or> cfgr_sw v = 1 \<or> cfgr_sw v = 2"
    by (auto simp: word_unat_eq_iff)
  have sel: "rcc_does (g, x) (\<lambda>s. if RCC_CFGR_SW s = 0 \<or> RCC_CFGR_SW s = 1 \<or> RCC_CFGR_SW s = 2
        then rcc_clk (clktree_set_selected_input (SYSCLK s) (uint (RCC_CFGR_SW s))) s
        else Stop (HwError ''Invalid input selected for SYSCLK'') []) (g\<lparr>cfg_sw := uint (cfgr_sw v)\<rparr>, x)"
    if x: "RCC_CFGR_SW x = cfgr_sw v" for x
  proof (rule rcc_does_eq [OF rcc_does_set_selections(3)])
    show "0 \<le> uint (cfgr_sw v)" "uint (cfgr_sw v) < 3" using dom by auto
    fix s assume a: "rcc_at (g, x) s"
    have "RCC_CFGR_SW s = cfgr_sw v" using rcc_at_fields(4) [OF a] x by simp
    then show "(if RCC_CFGR_SW s = 0 \<or> RCC_CFGR_SW s = 1 \<or> RCC_CFGR_SW s = 2
        then rcc_clk (clktree_set_selected_input (SYSCLK s) (uint (RCC_CFGR_SW s))) s
        else Stop (HwError ''Invalid input selected for SYSCLK'') []) =
        rcc_clk (clktree_set_selected_input (SYSCLK s) (uint (cfgr_sw v))) s"
      using dom by auto
  qed
  have sw0: "drop_bit 0 (v AND 3) = cfgr_sw v" by (simp add: cfgr_sw_def)
  show ?thesis
    unfolding rcc_cfgr_sw_def sw0 by (rule rcc_does_Cons rcc_does_store sel rcc_does_Nil | simp)+
qed

lemma rcc_does_CFGR_write:
  assumes "cfgr_sw v \<noteq> 3"
  shows "rcc_does (g, x) (stm32_rcc_RCC_CFGR_write v init) (rcc_cfgr_cfg v g, rcc_cfgr_fields v x)"
  unfolding stm32_rcc_RCC_CFGR_write_def
  by (rule rcc_does_Cons rcc_does_cfgr_pll rcc_does_cfgr_prescalers rcc_does_cfgr_sw [OF assms] rcc_does_Nil)+
    (simp add: rcc_cfgr_cfg_def rcc_cfgr_fields_def)

lemma rcc_CFGR_write_bad_sw:
  assumes "rcc_at a s" "cfgr_sw v = 3"
  shows "\<exists>es. stm32_rcc_RCC_CFGR_write v init s = Stop (HwError ''Invalid input selected for SYSCLK'') es"
proof -
  obtain g x where a: "a = (g, x)" by (cases a)
  obtain s1 es1 where 1: "rcc_cfgr_pll v init s = Ok s1 es1" "rcc_at (g\<lparr>cfg_pllmul := rcc_pllmul (cfgr_pllmul v),
      cfg_xtpre := uint (cfgr_xtpre v), cfg_pllsrc := uint (cfgr_pllsrc v)\<rparr>,
      x\<lparr>RCC_CFGR_PLLMUL := cfgr_pllmul v, RCC_CFGR_PLLXTPRE := cfgr_xtpre v, RCC_CFGR_PLLSRC := cfgr_pllsrc v\<rparr>) s1"
    using rcc_doesD [OF rcc_does_cfgr_pll assms(1) [unfolded a]] by (rule run_totalE)
  obtain s2 es2 where 2: "rcc_cfgr_prescalers v s1 = Ok s2 es2"
    using rcc_doesD [OF rcc_does_cfgr_prescalers 1(2)] by (rule run_totalE)
  have "rcc_cfgr_sw v s2 = Stop (HwError ''Invalid input selected for SYSCLK'') []"
    using assms(2) by (simp add: rcc_cfgr_sw_def cfgr_sw_def)
  then show ?thesis using 1(1) 2 by (simp add: stm32_rcc_RCC_CFGR_write_def)
qed

text \<open>Peripheral clocks: peripheral \<open>p\<close> (from 1, GPIOA, to 13, UART5) is gate \<open>p - 1\<close>.\<close>

definition rcc_gate :: "nat \<Rightarrow> bool \<Rightarrow> rcc_cfg \<Rightarrow> rcc_cfg" where
  "rcc_gate p e g = g\<lparr>cfg_periph := (cfg_periph g)[p - 1 := e]\<rparr>"

lemma rcc_periphclk_nth: "1 \<le> p \<Longrightarrow> p \<le> 13 \<Longrightarrow> rcc_periphclk ! p = Some (11 + p)"
  by (cases p) (simp_all add: rcc_periphclk_def nth_append del: upt_rec_numeral)

lemma rcc_does_periph_enable:
  assumes "1 \<le> p" "p \<le> 13" "b < 32"
  shows "rcc_does (g, x) (stm32_rcc_periph_enable v p b) (rcc_gate p (bit v b) g, x)"
proof (rule rcc_does_length)
  assume len: "length (cfg_periph g) = 13"
  have "rcc_does (g, x) (\<lambda>s. rcc_clk (clktree_set_enabled (12 + (p - 1)) (bit v b)) s) (rcc_gate p (bit v b) g, x)"
    by (rule rcc_does_enabled) (use assms len in \<open>simp_all add: rcc_gate_def rcc_heap_periph\<close>)
  then show "rcc_does (g, x) (stm32_rcc_periph_enable v p b) (rcc_gate p (bit v b) g, x)"
  proof (rule rcc_does_eq)
    fix s assume a: "rcc_at (g, x) s"
    show "stm32_rcc_periph_enable v p b s = rcc_clk (clktree_set_enabled (12 + (p - 1)) (bit v b)) s"
      using assms rcc_periphclk_nth [OF assms(1,2)]
      by (simp add: stm32_rcc_periph_enable_def rcc_at_ptrs(11) [OF a] and_BIT_ne_0)
  qed
qed

text \<open>The gates a write to the APB2 and APB1 registers sets, the same for the enable and the reset ones.\<close>

definition rcc_apb2_cfg :: "u32 \<Rightarrow> rcc_cfg \<Rightarrow> rcc_cfg" where
  "rcc_apb2_cfg v g = g\<lparr>cfg_periph :=
     [bit v 2, bit v 3, bit v 4, bit v 5, bit v 6, bit v 7, bit v 8, bit v 0, bit v 14] @ drop 9 (cfg_periph g)\<rparr>"

definition rcc_apb1_cfg :: "u32 \<Rightarrow> rcc_cfg \<Rightarrow> rcc_cfg" where
  "rcc_apb1_cfg v g = g\<lparr>cfg_periph := take 9 (cfg_periph g) @ [bit v 17, bit v 18, bit v 19, bit v 20]\<rparr>"

lemma length_13_cases:
  assumes "length xs = (13 :: nat)"
  obtains a b c d e f g h i j k l m where "xs = [a, b, c, d, e, f, g, h, i, j, k, l, m]"
  using assms by (auto simp: numeral_eq_Suc length_Suc_conv)

lemma rcc_does_APB2:
  "rcc_does (g, x) (stm32_rcc_RCC_APB2ENR_write v init) (rcc_apb2_cfg v g, x\<lparr>RCC_APB2ENR := v AND 0xfffd\<rparr>)"
  "rcc_does (g, x) (stm32_rcc_RCC_APB2RSTR_write v init) (rcc_apb2_cfg v g, x\<lparr>RCC_APB2RSTR := v AND 0xfffd\<rparr>)"
  unfolding stm32_rcc_RCC_APB2ENR_write_def stm32_rcc_RCC_APB2RSTR_write_def
  by (rule rcc_does_length,
      (rule rcc_does_Cons rcc_does_store rcc_does_periph_enable rcc_does_Nil | simp (no_asm_simp); fail)+,
      erule length_13_cases, simp add: rcc_gate_def rcc_apb2_cfg_def)+

lemma rcc_does_APB1:
  "rcc_does (g, x) (stm32_rcc_RCC_APB1ENR_write v init) (rcc_apb1_cfg v g, x\<lparr>RCC_APB1ENR := v AND 0x5e7d\<rparr>)"
  "rcc_does (g, x) (stm32_rcc_RCC_APB1RSTR_write v init) (rcc_apb1_cfg v g, x\<lparr>RCC_APB1RSTR := v AND 0x5e7d\<rparr>)"
  unfolding stm32_rcc_RCC_APB1ENR_write_def stm32_rcc_RCC_APB1RSTR_write_def
  by (rule rcc_does_length,
      (rule rcc_does_Cons rcc_does_store rcc_does_periph_enable rcc_does_Nil | simp (no_asm_simp); fail)+,
      erule length_13_cases, simp add: rcc_gate_def rcc_apb1_cfg_def)+

lemma rcc_does_BDCR: "rcc_does (g, x) (stm32_rcc_RCC_BDCR_write v init) (g\<lparr>cfg_lse := bit v 0\<rparr>, x)"
  using rcc_does_set_gates(4) [of g x "bit v 0"]
  by (simp add: stm32_rcc_RCC_BDCR_write_def [abs_def] and_BIT_ne_0)

lemma rcc_does_CSR: "rcc_does (g, x) (stm32_rcc_RCC_CSR_write v init) (g\<lparr>cfg_lsi := bit v 0\<rparr>, x)"
  using rcc_does_set_gates(2) [of g x "bit v 0"]
  by (simp add: stm32_rcc_RCC_CSR_write_def [abs_def] and_BIT_ne_0)

text \<open>What reset leads to, from any configuration.\<close>

definition rcc_reset_cfg :: "rcc_cfg \<Rightarrow> rcc_cfg" where
  "rcc_reset_cfg g = g\<lparr>cfg_hsi := True, cfg_lsi := False, cfg_hse := False, cfg_lse := False, cfg_pll := False,
     cfg_pllmul := 2, cfg_xtpre := 0, cfg_pllsrc := 0, cfg_sw := 0, cfg_hclk := (1, 1), cfg_pclk1 := (1, 1),
     cfg_pclk2 := (1, 1), cfg_periph := replicate 13 False\<rparr>"

lemma cfgr_zero [simp]:
  "cfgr_pllmul 0 = 0" "cfgr_xtpre 0 = 0" "cfgr_pllsrc 0 = 0" "cfgr_ppre2 0 = 0" "cfgr_ppre1 0 = 0"
  "cfgr_hpre 0 = 0" "cfgr_sw 0 = 0"
  by (simp_all add: cfgr_pllmul_def cfgr_xtpre_def cfgr_pllsrc_def cfgr_ppre2_def cfgr_ppre1_def cfgr_hpre_def
      cfgr_sw_def extract32_def)

lemma replicate_13:
  "replicate 13 False = [False, False, False, False, False, False, False, False, False, False, False, False, False]"
  by (simp add: numeral_eq_Suc)

lemma rcc_does_reset:
  "rcc_does (g, x) stm32_rcc_reset
     (rcc_reset_cfg g, (rcc_cfgr_fields 0 x)\<lparr>RCC_APB2ENR := 0, RCC_APB1ENR := 0\<rparr>)"
  unfolding stm32_rcc_reset_def
  by (rule rcc_does_length,
      (rule rcc_does_Cons rcc_does_CR_write rcc_does_CFGR_write rcc_does_APB2 rcc_does_APB1 rcc_does_BDCR
        rcc_does_CSR rcc_does_Nil | simp (no_asm_simp); fail)+,
      erule length_13_cases,
      simp add: rcc_reset_cfg_def rcc_cr_cfg_def rcc_cfgr_cfg_def rcc_cfgr_fields_def rcc_apb2_cfg_def
        rcc_apb1_cfg_def rcc_pllmul_def rcc_presc_def replicate_13)

end
