(* ===== verification/Mmio.thy ===== *)
theory Mmio
  imports Prelude
begin

text \<open>
  The interface every device offers to the guest: \<open>read\<close> and \<open>write\<close> of its \<open>MemoryRegionOps\<close>. A
  sequence of accesses runs until one of them stops the emulator. The contract \<open>mmio_device\<close> is an
  invariant that each access keeps; its client lemma carries the invariant through every sequence.
\<close>

datatype mmio_access =
    MmioRead nat nat          \<comment> \<open>offset, size\<close>
  | MmioWrite nat u64 nat     \<comment> \<open>offset, value, size\<close>

primrec mmio_step ::
  "('s \<Rightarrow> nat \<Rightarrow> nat \<Rightarrow> ('s \<times> u64) run) \<Rightarrow> ('s \<Rightarrow> nat \<Rightarrow> u64 \<Rightarrow> nat \<Rightarrow> 's run) \<Rightarrow> mmio_access \<Rightarrow> 's \<Rightarrow> 's run" where
  "mmio_step rd wr (MmioRead offset sz) s = run_map fst (rd s offset sz)"
| "mmio_step rd wr (MmioWrite offset v sz) s = wr s offset v sz"

definition mmio_run ::
  "('s \<Rightarrow> nat \<Rightarrow> nat \<Rightarrow> ('s \<times> u64) run) \<Rightarrow> ('s \<Rightarrow> nat \<Rightarrow> u64 \<Rightarrow> nat \<Rightarrow> 's run) \<Rightarrow> mmio_access list \<Rightarrow> 's \<Rightarrow> 's run" where
  "mmio_run rd wr accs = run_for accs (mmio_step rd wr)"

locale mmio_device =
  fixes inv :: "'s \<Rightarrow> bool"
    and rd :: "'s \<Rightarrow> nat \<Rightarrow> nat \<Rightarrow> ('s \<times> u64) run"
    and wr :: "'s \<Rightarrow> nat \<Rightarrow> u64 \<Rightarrow> nat \<Rightarrow> 's run"
  assumes read_keeps: "inv s \<Longrightarrow> run_sat (\<lambda>(s', v) _. inv s') (rd s offset sz)"
    and write_keeps: "inv s \<Longrightarrow> run_sat (\<lambda>s' _. inv s') (wr s offset v sz)"
begin

lemma step_keeps: "inv s \<Longrightarrow> run_sat (\<lambda>s' _. inv s') (mmio_step rd wr acc s)"
proof (cases acc)
  case (MmioRead offset sz)
  assume "inv s"
  then show ?thesis using read_keeps [of s offset sz] MmioRead by (cases "rd s offset sz") auto
qed (simp add: write_keeps)

lemma accesses_keep: "inv s \<Longrightarrow> run_sat (\<lambda>s' _. inv s') (mmio_run rd wr accs s)"
  unfolding mmio_run_def by (rule run_for_keeps) (rule step_keeps)

lemma accesses_keepD: "inv s \<Longrightarrow> mmio_run rd wr accs s = Ok s' es \<Longrightarrow> inv s'"
  using accesses_keep by (metis run_sat.simps(1))

end

text \<open>A device whose reads have no side effect.\<close>

definition pure_read :: "('s \<Rightarrow> nat \<Rightarrow> nat \<Rightarrow> u64 run) \<Rightarrow> 's \<Rightarrow> nat \<Rightarrow> nat \<Rightarrow> ('s \<times> u64) run" where
  "pure_read rd s offset sz = run_map (Pair s) (rd s offset sz)"

lemma pure_read_keeps: "I s \<Longrightarrow> run_sat (\<lambda>(s', v) _. I s') (pure_read rd s offset sz)"
  by (cases "rd s offset sz") (simp_all add: pure_read_def)

end
