(* ===== verification/Rcc_Freq.thy ===== *)
theory Rcc_Freq
  imports Rcc_Ops Mmio
begin

text \<open>
  The state of the RCC after initialisation, the frequencies of its clocks as functions of the abstract
  configuration, the invariant \<open>rcc_wf\<close> that reset establishes and every register access keeps, and
  the frequencies as functions of what the guest reads from the registers CR and CFGR.
\<close>

section \<open>Initialisation\<close>

definition rcc_cfg0 :: "u32 \<Rightarrow> u32 \<Rightarrow> rcc_cfg" where
  "rcc_cfg0 osc osc32 =
     \<lparr>cfg_hsi = False, cfg_lsi = False, cfg_hse = False, cfg_lse = False, cfg_pll = False, cfg_pllmul = 0,
      cfg_xtpre = -1, cfg_pllsrc = -1, cfg_sw = -1, cfg_hclk = (0, 1), cfg_pclk1 = (0, 1), cfg_pclk2 = (0, 1),
      cfg_periph = replicate 13 False, cfg_users = replicate 13 [], cfg_osc = osc, cfg_osc32 = osc32\<rparr>"

definition rcc_fields0 :: "u32 \<Rightarrow> u32 \<Rightarrow> Stm32Rcc" where
  "rcc_fields0 osc osc32 =
     \<lparr>osc_freq = osc, osc32_freq = osc32, RCC_APB1ENR = 0, RCC_APB2ENR = 0, RCC_APB1RSTR = 0,
      RCC_APB2RSTR = 0, RCC_CFGR_PLLMUL = 0, RCC_CFGR_PLLXTPRE = 0, RCC_CFGR_PLLSRC = 0,
      RCC_CFGR_PPRE1 = 0, RCC_CFGR_PPRE2 = 0, RCC_CFGR_HPRE = 0, RCC_CFGR_SW = 0, rcc_clks = [],
      HSICLK = 0, HSECLK = 2, LSECLK = 3, LSICLK = 1, SYSCLK = 8, PLLXTPRECLK = 6, PLLCLK = 7,
      HCLK = 9, PCLK1 = 10, PCLK2 = 11, PERIPHCLK = rcc_periphclk\<rparr>"

lemma stm32_rcc_init_eq:
  "stm32_rcc_init osc osc32 = Ok ((rcc_fields0 osc osc32)\<lparr>rcc_clks := rcc_heap (rcc_cfg0 osc osc32)\<rparr>) []"
  by code_simp

lemma clk_link_ok_exec:
  "clk_link_ok h c \<longleftrightarrow>
     clk_divisor (h ! c) \<noteq> 0 \<and> -1 \<le> clk_selected_input (h ! c) \<and>
     nat (clk_selected_input (h ! c) + 1) < length (clk_input (h ! c)) \<and>
     hd (clk_input (h ! c)) = None \<and> \<not> List.member (tl (clk_input (h ! c))) None \<and>
     list_all (\<lambda>i. case i of None \<Rightarrow> True | Some p \<Rightarrow> p < c \<and> List.member (clk_output (h ! p)) c) (clk_input (h ! c)) \<and>
     list_all (\<lambda>d. c < d \<and> d < length h) (clk_output (h ! c)) \<and> distinct (clk_output (h ! c))"
  unfolding clk_link_ok_def list_all_iff
  by (auto simp: split: option.splits)

lemma rcc_cfg0_links: "clk_links (rcc_heap (rcc_cfg0 osc osc32))"
proof -
  have "list_all (clk_link_ok (rcc_heap (rcc_cfg0 osc osc32))) [0..<25]"
    unfolding clk_link_ok_exec by code_simp
  then show ?thesis by (simp add: clk_links_def list_all_iff)
qed

lemma rcc_cfg0_consistent: "clk_consistent (rcc_heap (rcc_cfg0 osc osc32))"
proof -
  let ?h = "rcc_heap (rcc_cfg0 osc osc32)"
  have off: "list_all (\<lambda>k. clk_output_freq k = 0 \<and> (clk_enabled k \<longrightarrow> clk_input_freq k = 0)) ?h"
    by code_simp
  have srcs: "list_all (\<lambda>c. clktree_get_input_clk ?h c = None \<or> clk_input_freq (?h ! c) = 0) [0..<25]"
    by code_simp
  have "clk_out_ok ?h c \<and> clk_in_ok ?h c" if c: "c < 25" for c
  proof
    have k: "clk_output_freq (?h ! c) = 0" "clk_enabled (?h ! c) \<longrightarrow> clk_input_freq (?h ! c) = 0"
      using off c by (simp_all add: list_all_length)
    show "clk_out_ok ?h c"
      using k clk_new_output_freq_0 [of "?h ! c"] clk_new_output_freq_off [of "?h ! c"]
      by (cases "clk_enabled (?h ! c)") (simp_all add: clk_out_ok_def)
    show "clk_in_ok ?h c"
      unfolding clk_in_ok_def
    proof (intro allI impI)
      fix p assume p: "clktree_get_input_clk ?h c = Some p"
      then have "p < c" using clk_links_input(1) [OF rcc_cfg0_links] c by simp
      then have "clk_output_freq (?h ! p) = 0" using off c by (simp add: list_all_length)
      moreover have "clk_input_freq (?h ! c) = 0"
        using srcs p c by (auto simp: list_all_length simp del: upt_rec_numeral)
      ultimately show "clk_input_freq (?h ! c) = clk_output_freq (?h ! p)" by simp
    qed
  qed
  then show ?thesis by (simp add: clk_consistent_def)
qed

lemma rcc_at_init: "run_total (\<lambda>s es. es = [] \<and> rcc_at (rcc_cfg0 osc osc32, rcc_fields0 osc osc32) s) (stm32_rcc_init osc osc32)"
proof -
  have "rcc_heap_rep (rcc_cfg0 osc osc32) (rcc_heap (rcc_cfg0 osc osc32))"
    by (simp add: rcc_heap_rep_def rcc_cfg0_def)
  then show ?thesis
    using rcc_cfg0_links rcc_cfg0_consistent
    by (simp add: stm32_rcc_init_eq rcc_at_def rcc_rep_def clk_inv_def rcc_fields_def rcc_fields0_def rcc_ptrs_def)
qed

section \<open>Frequencies\<close>

text \<open>The output of a clock from its input, as a number.\<close>

definition scaled :: "bool \<Rightarrow> u16 \<times> u16 \<Rightarrow> u32 \<Rightarrow> u32" where
  "scaled e sc f = (if e then ucast (muldiv64 (ucast f) (ucast (fst sc)) (ucast (snd sc))) else 0)"

lemma clk_eval_node:
  "clk_eval h c = scaled (clk_enabled (h ! c)) (clk_multiplier (h ! c), clk_divisor (h ! c))
     (case clktree_get_input_clk h c of None \<Rightarrow> clk_input_freq (h ! c) | Some p \<Rightarrow> if p < c then clk_eval h p else 0)"
  by (subst clk_eval.simps) (simp add: clk_new_output_freq_def scaled_def)

lemma muldiv64_1: "muldiv64 a 1 1 = a"
  by (rule word_unat_eq_iff [THEN iffD2]) (use unat_u64_lt [of a] in \<open>simp add: unat_muldiv64\<close>)

lemma scaled_1 [simp]: "scaled e (1, 1) f = (if e then f else 0)"
proof -
  have "ucast (ucast f :: u64) = f"
    by (rule word_unat_eq_iff [THEN iffD2]) (use unat_u32_lt [of f] in \<open>simp add: unat_ucast64_32\<close>)
  then show ?thesis by (simp add: scaled_def muldiv64_1)
qed

definition freq_hsi :: "rcc_cfg \<Rightarrow> u32" where "freq_hsi g = (if cfg_hsi g then HSI_FREQ else 0)"
definition freq_hse :: "rcc_cfg \<Rightarrow> u32" where "freq_hse g = (if cfg_hse g then cfg_osc g else 0)"
definition freq_pllxtpre :: "rcc_cfg \<Rightarrow> u32" where
  "freq_pllxtpre g = (if cfg_xtpre g = 0 then freq_hse g else scaled True (1, 2) (freq_hse g))"
definition freq_pll :: "rcc_cfg \<Rightarrow> u32" where
  "freq_pll g = scaled (cfg_pll g) (cfg_pllmul g, 1)
     (if cfg_pllsrc g = 0 then scaled True (1, 2) (freq_hsi g) else freq_pllxtpre g)"
definition freq_sysclk :: "rcc_cfg \<Rightarrow> u32" where
  "freq_sysclk g = (if cfg_sw g = 0 then freq_hsi g else if cfg_sw g = 1 then freq_hse g else freq_pll g)"
definition freq_hclk :: "rcc_cfg \<Rightarrow> u32" where "freq_hclk g = scaled True (cfg_hclk g) (freq_sysclk g)"
definition freq_pclk1 :: "rcc_cfg \<Rightarrow> u32" where "freq_pclk1 g = scaled True (cfg_pclk1 g) (freq_hclk g)"
definition freq_pclk2 :: "rcc_cfg \<Rightarrow> u32" where "freq_pclk2 g = scaled True (cfg_pclk2 g) (freq_hclk g)"

lemma rcc_eval_node:
  assumes "rcc_heap g ! c = rcc_node nm e sc ins sel outs us f"
  shows "clk_eval (rcc_heap g) c = scaled e sc
    (case (None # map Some ins) ! nat (sel + 1) of None \<Rightarrow> f | Some p \<Rightarrow> if p < c then clk_eval (rcc_heap g) p else 0)"
  by (subst clk_eval_node) (simp add: assms rcc_node_def clktree_get_input_clk_def split: option.split)

lemma rcc_nodes:
  "rcc_heap g ! 0 = rcc_node ''HSI'' (cfg_hsi g) (1, 1) [] (-1) [4, 8] [] HSI_FREQ"
  "rcc_heap g ! 2 = rcc_node ''HSE'' (cfg_hse g) (1, 1) [] (-1) [5, 6, 8] [] (cfg_osc g)"
  "rcc_heap g ! 4 = rcc_node ''HSI/2'' True (1, 2) [0] 0 [7] [] 0"
  "rcc_heap g ! 5 = rcc_node ''HSE/2'' True (1, 2) [2] 0 [6] [] 0"
  "rcc_heap g ! 6 = rcc_node ''PLLXTPRE'' True (1, 1) [2, 5] (cfg_xtpre g) [7] [] 0"
  "rcc_heap g ! 7 = rcc_node ''PLLCLK'' (cfg_pll g) (cfg_pllmul g, 1) [4, 6] (cfg_pllsrc g) [8] [] 0"
  "rcc_heap g ! 8 = rcc_node ''SYSCLK'' True (1, 1) [0, 2, 7] (cfg_sw g) [9] [] 0"
  "rcc_heap g ! 9 = rcc_node ''HCLK'' True (cfg_hclk g) [8] 0 [10, 11] [IrqHclkUpd] 0"
  "rcc_heap g ! 10 = rcc_node ''PCLK1'' True (cfg_pclk1 g) [9] 0 [21, 22, 23, 24] [] 0"
  "rcc_heap g ! 11 = rcc_node ''PCLK2'' True (cfg_pclk2 g) [9] 0 [12, 13, 14, 15, 16, 17, 18, 19, 20] [] 0"
  by (simp_all add: rcc_heap_def rcc_system_def)

lemma rcc_eval_sources:
  "clk_eval (rcc_heap g) 0 = freq_hsi g" "clk_eval (rcc_heap g) 2 = freq_hse g"
  unfolding rcc_eval_node [OF rcc_nodes(1)] rcc_eval_node [OF rcc_nodes(2)]
  by (simp_all add: freq_hsi_def freq_hse_def)

lemma rcc_eval_halves:
  "clk_eval (rcc_heap g) 4 = scaled True (1, 2) (freq_hsi g)"
  "clk_eval (rcc_heap g) 5 = scaled True (1, 2) (freq_hse g)"
  unfolding rcc_eval_node [OF rcc_nodes(3)] rcc_eval_node [OF rcc_nodes(4)]
  by (simp_all add: rcc_eval_sources)

lemma rcc_eval_pll:
  assumes "rcc_selected g"
  shows "clk_eval (rcc_heap g) 6 = freq_pllxtpre g" "clk_eval (rcc_heap g) 7 = freq_pll g"
proof -
  show 6: "clk_eval (rcc_heap g) 6 = freq_pllxtpre g"
    unfolding rcc_eval_node [OF rcc_nodes(5)]
    using assms by (auto simp: rcc_selected_def freq_pllxtpre_def rcc_eval_sources rcc_eval_halves)
  show "clk_eval (rcc_heap g) 7 = freq_pll g"
    unfolding rcc_eval_node [OF rcc_nodes(6)]
    using assms by (auto simp: rcc_selected_def freq_pll_def 6 rcc_eval_halves)
qed

lemma rcc_eval_system:
  assumes "rcc_selected g"
  shows "clk_eval (rcc_heap g) 8 = freq_sysclk g" "clk_eval (rcc_heap g) 9 = freq_hclk g"
    "clk_eval (rcc_heap g) 10 = freq_pclk1 g" "clk_eval (rcc_heap g) 11 = freq_pclk2 g"
proof -
  show 8: "clk_eval (rcc_heap g) 8 = freq_sysclk g"
    unfolding rcc_eval_node [OF rcc_nodes(7)] using rcc_eval_pll(2) [OF assms] assms
    by (auto simp: rcc_selected_def freq_sysclk_def rcc_eval_sources)
  show 9: "clk_eval (rcc_heap g) 9 = freq_hclk g"
    unfolding rcc_eval_node [OF rcc_nodes(8)] by (simp add: 8 freq_hclk_def)
  show "clk_eval (rcc_heap g) 10 = freq_pclk1 g" "clk_eval (rcc_heap g) 11 = freq_pclk2 g"
    unfolding rcc_eval_node [OF rcc_nodes(9)] rcc_eval_node [OF rcc_nodes(10)]
    by (simp_all add: 9 freq_pclk1_def freq_pclk2_def)
qed

lemma rcc_eval_periph:
  assumes "rcc_selected g" "i < 13"
  shows "clk_eval (rcc_heap g) (12 + i) = (if cfg_periph g ! i then if i < 9 then freq_pclk2 g else freq_pclk1 g else 0)"
proof -
  have "rcc_heap g ! (12 + i) = rcc_periph_node g i"
    using assms(2) by (simp add: rcc_heap_def rcc_system_def nth_append del: upt_rec_numeral)
  from rcc_eval_node [OF this [unfolded rcc_periph_node_def]] show ?thesis
    using rcc_eval_system(3,4) [OF assms(1)] assms(2) by simp
qed

section \<open>Invariant\<close>

definition rcc_synced :: "rcc_cfg \<Rightarrow> Stm32Rcc \<Rightarrow> bool" where
  "rcc_synced g x \<longleftrightarrow>
     cfg_pllmul g = rcc_pllmul (RCC_CFGR_PLLMUL x) \<and> cfg_xtpre g = uint (RCC_CFGR_PLLXTPRE x) \<and>
     cfg_pllsrc g = uint (RCC_CFGR_PLLSRC x) \<and> cfg_sw g = uint (RCC_CFGR_SW x) \<and>
     cfg_pclk2 g = (1, rcc_presc 4 (RCC_CFGR_PPRE2 x)) \<and> cfg_pclk1 g = (1, rcc_presc 4 (RCC_CFGR_PPRE1 x)) \<and>
     cfg_hclk g = (1, rcc_presc 8 (RCC_CFGR_HPRE x)) \<and>
     cfg_osc g = osc_freq x \<and> cfg_osc32 g = osc32_freq x \<and>
     RCC_CFGR_PLLMUL x < 16 \<and> RCC_CFGR_PLLXTPRE x < 2 \<and> RCC_CFGR_PLLSRC x < 2 \<and> RCC_CFGR_PPRE2 x < 8 \<and>
     RCC_CFGR_PPRE1 x < 8 \<and> RCC_CFGR_HPRE x < 16 \<and> RCC_CFGR_SW x < 3"

definition rcc_wf :: "Stm32Rcc \<Rightarrow> bool" where
  "rcc_wf s \<longleftrightarrow> (\<exists>g. rcc_at (g, rcc_fields s) s \<and> rcc_synced g (rcc_fields s))"

lemma rcc_wfE:
  assumes "rcc_wf s"
  obtains g where "rcc_at (g, rcc_fields s) s" "rcc_synced g (rcc_fields s)"
  using assms by (auto simp: rcc_wf_def)

lemma rcc_atI: "rcc_at (g, x) s \<Longrightarrow> rcc_synced g x \<Longrightarrow> rcc_wf s"
  by (auto simp: rcc_wf_def rcc_at_def)

lemma rcc_does_wf:
  assumes "rcc_wf s"
    and "\<And>g. rcc_synced g (rcc_fields s) \<Longrightarrow> \<exists>b. rcc_does (g, rcc_fields s) f b \<and> rcc_synced (fst b) (snd b)"
  shows "run_total (\<lambda>s' _. rcc_wf s') (f s)"
proof -
  obtain g where g: "rcc_at (g, rcc_fields s) s" "rcc_synced g (rcc_fields s)" using assms(1) by (rule rcc_wfE)
  obtain b where b: "rcc_does (g, rcc_fields s) f b" "rcc_synced (fst b) (snd b)" using assms(2) [OF g(2)] by blast
  show ?thesis
    by (rule run_total_mono [OF rcc_doesD [OF b(1) g(1)]]) (use b(2) rcc_atI [of "fst b" "snd b"] in simp)
qed

lemma rcc_synced_writes:
  "rcc_synced g x \<Longrightarrow> rcc_synced (rcc_cr_cfg v g) x"
  "rcc_synced g x \<Longrightarrow> rcc_synced (rcc_apb2_cfg v g) (x\<lparr>RCC_APB2ENR := w\<rparr>)"
  "rcc_synced g x \<Longrightarrow> rcc_synced (rcc_apb2_cfg v g) (x\<lparr>RCC_APB2RSTR := w\<rparr>)"
  "rcc_synced g x \<Longrightarrow> rcc_synced (rcc_apb1_cfg v g) (x\<lparr>RCC_APB1ENR := w\<rparr>)"
  "rcc_synced g x \<Longrightarrow> rcc_synced (rcc_apb1_cfg v g) (x\<lparr>RCC_APB1RSTR := w\<rparr>)"
  "rcc_synced g x \<Longrightarrow> rcc_synced (g\<lparr>cfg_lse := e\<rparr>) x"
  "rcc_synced g x \<Longrightarrow> rcc_synced (g\<lparr>cfg_lsi := e\<rparr>) x"
  by (simp_all add: rcc_synced_def rcc_cr_cfg_def rcc_apb2_cfg_def rcc_apb1_cfg_def)

lemma cfgr_sw_cases: "cfgr_sw v < 3 \<or> cfgr_sw v = 3"
  using cfgr_fields_less(7) [of v] by (auto simp: word_less_nat_alt word_unat_eq_iff)

lemma rcc_synced_cfgr:
  assumes "rcc_synced g x" "cfgr_sw v \<noteq> 3"
  shows "rcc_synced (rcc_cfgr_cfg v g) (rcc_cfgr_fields v x)"
  using assms cfgr_sw_cases [of v]
  by (simp add: rcc_synced_def rcc_cfgr_cfg_def rcc_cfgr_fields_def cfgr_fields_less)

text \<open>Every register write that is meant to succeed returns and keeps the invariant.\<close>

lemma rcc_wf_writes:
  assumes "rcc_wf s"
  shows "run_total (\<lambda>s' _. rcc_wf s') (stm32_rcc_RCC_CR_write v init s)"
    "cfgr_sw v \<noteq> 3 \<Longrightarrow> run_total (\<lambda>s' _. rcc_wf s') (stm32_rcc_RCC_CFGR_write v init s)"
    "run_total (\<lambda>s' _. rcc_wf s') (stm32_rcc_RCC_APB2ENR_write v init s)"
    "run_total (\<lambda>s' _. rcc_wf s') (stm32_rcc_RCC_APB2RSTR_write v init s)"
    "run_total (\<lambda>s' _. rcc_wf s') (stm32_rcc_RCC_APB1ENR_write v init s)"
    "run_total (\<lambda>s' _. rcc_wf s') (stm32_rcc_RCC_APB1RSTR_write v init s)"
    "run_total (\<lambda>s' _. rcc_wf s') (stm32_rcc_RCC_BDCR_write v init s)"
    "run_total (\<lambda>s' _. rcc_wf s') (stm32_rcc_RCC_CSR_write v init s)"
proof -
  note wf = rcc_does_wf [OF assms]
  show "run_total (\<lambda>s' _. rcc_wf s') (stm32_rcc_RCC_CR_write v init s)"
    by (rule wf) (use rcc_does_CR_write rcc_synced_writes(1) in fastforce)
  show "cfgr_sw v \<noteq> 3 \<Longrightarrow> run_total (\<lambda>s' _. rcc_wf s') (stm32_rcc_RCC_CFGR_write v init s)"
    by (rule wf) (use rcc_does_CFGR_write rcc_synced_cfgr in fastforce)
  show "run_total (\<lambda>s' _. rcc_wf s') (stm32_rcc_RCC_APB2ENR_write v init s)"
    by (rule wf) (use rcc_does_APB2(1) rcc_synced_writes(2) in fastforce)
  show "run_total (\<lambda>s' _. rcc_wf s') (stm32_rcc_RCC_APB2RSTR_write v init s)"
    by (rule wf) (use rcc_does_APB2(2) rcc_synced_writes(3) in fastforce)
  show "run_total (\<lambda>s' _. rcc_wf s') (stm32_rcc_RCC_APB1ENR_write v init s)"
    by (rule wf) (use rcc_does_APB1(1) rcc_synced_writes(4) in fastforce)
  show "run_total (\<lambda>s' _. rcc_wf s') (stm32_rcc_RCC_APB1RSTR_write v init s)"
    by (rule wf) (use rcc_does_APB1(2) rcc_synced_writes(5) in fastforce)
  show "run_total (\<lambda>s' _. rcc_wf s') (stm32_rcc_RCC_BDCR_write v init s)"
    by (rule wf) (use rcc_does_BDCR rcc_synced_writes(6) in fastforce)
  show "run_total (\<lambda>s' _. rcc_wf s') (stm32_rcc_RCC_CSR_write v init s)"
    by (rule wf) (use rcc_does_CSR rcc_synced_writes(7) in fastforce)
qed

lemma rcc_wf_CFGR_write: "rcc_wf s \<Longrightarrow> run_sat (\<lambda>s' _. rcc_wf s') (stm32_rcc_RCC_CFGR_write v init s)"
proof (cases "cfgr_sw v = 3")
  case True
  assume "rcc_wf s"
  then obtain g where "rcc_at (g, rcc_fields s) s" by (rule rcc_wfE)
  from rcc_CFGR_write_bad_sw [OF this True, of init] show ?thesis by auto
qed (blast intro: run_total_imp_sat rcc_wf_writes)

lemma rcc_wf_write: "rcc_wf s \<Longrightarrow> run_sat (\<lambda>s' _. rcc_wf s') (stm32_rcc_write s offset v sz)"
  by (simp add: stm32_rcc_write_def stm32_rcc_writew_def reg_error_defs run_total_imp_sat rcc_wf_writes rcc_wf_CFGR_write)

interpretation rcc_dev: mmio_device rcc_wf "pure_read stm32_rcc_read" stm32_rcc_write
  by unfold_locales (simp_all add: pure_read_keeps rcc_wf_write)

lemma rcc_wf_reset:
  assumes "rcc_at (g, x) s" "cfg_osc g = osc_freq x" "cfg_osc32 g = osc32_freq x"
  shows "run_total (\<lambda>s' _. rcc_wf s' \<and> rcc_at (rcc_reset_cfg g, rcc_fields s') s' \<and>
      rcc_synced (rcc_reset_cfg g) (rcc_fields s') \<and> osc_freq s' = osc_freq x)
    (stm32_rcc_reset s)"
proof (rule run_total_mono [OF rcc_doesD [OF rcc_does_reset assms(1)]])
  fix s' :: Stm32Rcc and es :: "effect list"
  let ?x = "(rcc_cfgr_fields 0 x)\<lparr>RCC_APB2ENR := 0, RCC_APB1ENR := 0\<rparr>"
  assume a: "rcc_at (rcc_reset_cfg g, ?x) s'"
  have "rcc_synced (rcc_reset_cfg g) ?x"
    using assms(2,3) by (simp add: rcc_synced_def rcc_reset_cfg_def rcc_cfgr_fields_def rcc_pllmul_def rcc_presc_def)
  moreover have "rcc_fields s' = ?x" using a by (simp add: rcc_at_def)
  moreover have "osc_freq s' = osc_freq (rcc_fields s')" by (simp add: rcc_fields_def)
  ultimately show "rcc_wf s' \<and> rcc_at (rcc_reset_cfg g, rcc_fields s') s' \<and>
      rcc_synced (rcc_reset_cfg g) (rcc_fields s') \<and> osc_freq s' = osc_freq x"
    using a rcc_atI by (simp add: rcc_cfgr_fields_def)
qed

section \<open>Reading the registers back\<close>

lemma rcc_at_enabled:
  assumes "rcc_at (g, x) s"
  shows "rcc_enabled s (PLLCLK s) = cfg_pll g" "rcc_enabled s (HSECLK s) = cfg_hse g"
    "rcc_enabled s (HSICLK s) = cfg_hsi g" "rcc_enabled s (LSECLK s) = cfg_lse g" "rcc_enabled s (LSICLK s) = cfg_lsi g"
proof -
  have same: "same_config (rcc_heap g) (rcc_clks s)"
    using assms by (simp add: rcc_at_def rcc_rep_def rcc_heap_rep_def)
  have at: "clk_enabled (rcc_clks s ! c) = clk_enabled (rcc_heap g ! c)" if "c < 25" for c
    using same_config_fields(1) [OF same] that by simp
  show "rcc_enabled s (PLLCLK s) = cfg_pll g" "rcc_enabled s (HSECLK s) = cfg_hse g"
    "rcc_enabled s (HSICLK s) = cfg_hsi g" "rcc_enabled s (LSECLK s) = cfg_lse g" "rcc_enabled s (LSICLK s) = cfg_lsi g"
    by (simp_all add: clktree_is_enabled_def rcc_at_ptrs [OF assms] at rcc_heap_def rcc_system_def rcc_node_def)
qed

lemma bit_bool_to_u32 [bit_field]: "bit (bool_to_u32 b) n \<longleftrightarrow> n = 0 \<and> b"
  by (simp add: bool_to_u32_def bit_1_iff)

lemma bit_push_bool [bit_field]: "bit (push_bit k (bool_to_u32 b)) n \<longleftrightarrow> n = k \<and> k < 32 \<and> b"
proof (cases "k \<le> n")
  case True
  then show ?thesis by (auto simp: bit_push_bit_iff bit_bool_to_u32)
qed (simp add: bit_push_bit_iff)

lemma bit_CR_read:
  assumes "rcc_at (g, x) s"
  shows "bit (stm32_rcc_RCC_CR_read s) n \<longleftrightarrow>
    (n = 24 \<or> n = 25) \<and> cfg_pll g \<or> (n = 16 \<or> n = 17) \<and> cfg_hse g \<or> (n = 0 \<or> n = 1) \<and> cfg_hsi g"
  unfolding stm32_rcc_RCC_CR_read_def Let_def rcc_at_enabled [OF assms] bit_or_iff bit_push_bool by auto

lemma word_bits_lt: "unat w < 2 ^ k \<Longrightarrow> bit w n \<Longrightarrow> n < k" for w :: u32
proof -
  assume "unat w < 2 ^ k" "bit w n"
  then have "take_bit k (unat w) = unat w" "bit (unat w) n"
    by (simp_all add: take_bit_nat_eq_self bit_unsigned_iff bit_imp_le_length)
  then show "n < k" by (metis bit_take_bit_iff)
qed

lemma word_bits_bound:
  fixes w :: u32
  shows "w < 16 \<Longrightarrow> bit w n \<Longrightarrow> n < 4" "w < 8 \<Longrightarrow> bit w n \<Longrightarrow> n < 3"
    "w < 3 \<Longrightarrow> bit w n \<Longrightarrow> n < 2" "w < 2 \<Longrightarrow> bit w n \<Longrightarrow> n = 0"
  using word_bits_lt [of w 4 n] word_bits_lt [of w 3 n] word_bits_lt [of w 2 n] word_bits_lt [of w 1 n]
  by (simp_all add: word_less_nat_alt)

lemma rcc_synced_bits:
  assumes "rcc_synced g (rcc_fields s)"
  shows "bit (RCC_CFGR_PLLMUL s) n \<Longrightarrow> n < 4" "bit (RCC_CFGR_PLLXTPRE s) n \<Longrightarrow> n = 0"
    "bit (RCC_CFGR_PLLSRC s) n \<Longrightarrow> n = 0" "bit (RCC_CFGR_PPRE2 s) n \<Longrightarrow> n < 3"
    "bit (RCC_CFGR_PPRE1 s) n \<Longrightarrow> n < 3" "bit (RCC_CFGR_HPRE s) n \<Longrightarrow> n < 4" "bit (RCC_CFGR_SW s) n \<Longrightarrow> n < 2"
proof -
  have x: "RCC_CFGR_PLLMUL s < 16" "RCC_CFGR_PLLXTPRE s < 2" "RCC_CFGR_PLLSRC s < 2" "RCC_CFGR_PPRE2 s < 8"
    "RCC_CFGR_PPRE1 s < 8" "RCC_CFGR_HPRE s < 16" "RCC_CFGR_SW s < 3"
    using assms by (simp_all add: rcc_synced_def rcc_fields_def)
  show "bit (RCC_CFGR_PLLMUL s) n \<Longrightarrow> n < 4" "bit (RCC_CFGR_PLLXTPRE s) n \<Longrightarrow> n = 0"
    "bit (RCC_CFGR_PLLSRC s) n \<Longrightarrow> n = 0" "bit (RCC_CFGR_PPRE2 s) n \<Longrightarrow> n < 3"
    "bit (RCC_CFGR_PPRE1 s) n \<Longrightarrow> n < 3" "bit (RCC_CFGR_HPRE s) n \<Longrightarrow> n < 4" "bit (RCC_CFGR_SW s) n \<Longrightarrow> n < 2"
    by (erule word_bits_bound(1) [OF x(1)] word_bits_bound(4) [OF x(2)] word_bits_bound(4) [OF x(3)]
        word_bits_bound(2) [OF x(4)] word_bits_bound(2) [OF x(5)] word_bits_bound(1) [OF x(6)]
        word_bits_bound(3) [OF x(7)])+
qed

text \<open>A stored field, shifted to its place, occupies exactly the bits of that place.\<close>

lemma bit_field_at:
  fixes r :: u32
  assumes "\<And>m. bit r m \<Longrightarrow> m < w" "k + w \<le> 32"
  shows "bit (push_bit k r) n \<longleftrightarrow> k \<le> n \<and> n < k + w \<and> bit r (n - k)"
  using assms(1) [of "n - k"] assms(2) by (auto simp: bit_push_bit_iff)

end
