(* ===== verification/Rcc_Registers.thy ===== *)
theory Rcc_Registers
  imports Rcc_Freq
begin

text \<open>
  What the guest reads from CR and CFGR, bit by bit, and the frequencies of the system clock and of the
  buses as functions of these two values.
\<close>

section \<open>CFGR bit by bit\<close>

lemma bit_CFGR_read:
  assumes "rcc_synced g (rcc_fields s)"
  shows "bit (stm32_rcc_RCC_CFGR_read s) n \<longleftrightarrow>
     (18 \<le> n \<and> n < 22 \<and> bit (RCC_CFGR_PLLMUL s) (n - 18)) \<or>
     (17 \<le> n \<and> n < 18 \<and> bit (RCC_CFGR_PLLXTPRE s) (n - 17)) \<or>
     (16 \<le> n \<and> n < 17 \<and> bit (RCC_CFGR_PLLSRC s) (n - 16)) \<or>
     (11 \<le> n \<and> n < 14 \<and> bit (RCC_CFGR_PPRE2 s) (n - 11)) \<or>
     (8 \<le> n \<and> n < 11 \<and> bit (RCC_CFGR_PPRE1 s) (n - 8)) \<or>
     (4 \<le> n \<and> n < 8 \<and> bit (RCC_CFGR_HPRE s) (n - 4)) \<or>
     (0 \<le> n \<and> n < 2 \<and> bit (RCC_CFGR_SW s) (n - 0)) \<or>
     (2 \<le> n \<and> n < 4 \<and> bit (RCC_CFGR_SW s) (n - 2))"
proof -
  note b = rcc_synced_bits [OF assms]
  have f0: "bit (push_bit 18 (RCC_CFGR_PLLMUL s)) n \<longleftrightarrow> 18 \<le> n \<and> n < 18 + 4 \<and> bit (RCC_CFGR_PLLMUL s) (n - 18)"
    by (rule bit_field_at) (use b(1) in auto)
  have f1: "bit (push_bit 17 (RCC_CFGR_PLLXTPRE s)) n \<longleftrightarrow> 17 \<le> n \<and> n < 17 + 1 \<and> bit (RCC_CFGR_PLLXTPRE s) (n - 17)"
    by (rule bit_field_at) (use b(2) in auto)
  have f2: "bit (push_bit 16 (RCC_CFGR_PLLSRC s)) n \<longleftrightarrow> 16 \<le> n \<and> n < 16 + 1 \<and> bit (RCC_CFGR_PLLSRC s) (n - 16)"
    by (rule bit_field_at) (use b(3) in auto)
  have f3: "bit (push_bit 11 (RCC_CFGR_PPRE2 s)) n \<longleftrightarrow> 11 \<le> n \<and> n < 11 + 3 \<and> bit (RCC_CFGR_PPRE2 s) (n - 11)"
    by (rule bit_field_at) (use b(4) in auto)
  have f4: "bit (push_bit 8 (RCC_CFGR_PPRE1 s)) n \<longleftrightarrow> 8 \<le> n \<and> n < 8 + 3 \<and> bit (RCC_CFGR_PPRE1 s) (n - 8)"
    by (rule bit_field_at) (use b(5) in auto)
  have f5: "bit (push_bit 4 (RCC_CFGR_HPRE s)) n \<longleftrightarrow> 4 \<le> n \<and> n < 4 + 4 \<and> bit (RCC_CFGR_HPRE s) (n - 4)"
    by (rule bit_field_at) (use b(6) in auto)
  have f6: "bit (push_bit 0 (RCC_CFGR_SW s)) n \<longleftrightarrow> 0 \<le> n \<and> n < 0 + 2 \<and> bit (RCC_CFGR_SW s) (n - 0)"
    by (rule bit_field_at) (use b(7) in auto)
  have f7: "bit (push_bit 2 (RCC_CFGR_SW s)) n \<longleftrightarrow> 2 \<le> n \<and> n < 2 + 2 \<and> bit (RCC_CFGR_SW s) (n - 2)"
    by (rule bit_field_at) (use b(7) in auto)
  show ?thesis
    unfolding stm32_rcc_RCC_CFGR_read_def bit_or_iff f0 f1 f2 f3 f4 f5 f6 f7
    by (simp only: numeral_plus_numeral add_num_simps numeral_plus_one add_0 disj_assoc)
qed

lemma word_eq_below:
  fixes u v :: u32
  assumes "\<And>n. bit v n \<Longrightarrow> n < k" "\<And>n. bit u n \<Longrightarrow> n < k" "\<And>n. n < k \<Longrightarrow> bit u n = bit v n"
  shows "u = v"
  by (rule bit_word_eqI) (use assms in blast)

text \<open>The fields of CFGR as the guest reads them are the stored ones.\<close>

lemma cfgr_of_read:
  assumes "rcc_synced g (rcc_fields s)"
  shows "cfgr_pllmul (stm32_rcc_RCC_CFGR_read s) = RCC_CFGR_PLLMUL s"
    "cfgr_xtpre (stm32_rcc_RCC_CFGR_read s) = RCC_CFGR_PLLXTPRE s"
    "cfgr_pllsrc (stm32_rcc_RCC_CFGR_read s) = RCC_CFGR_PLLSRC s"
    "cfgr_ppre2 (stm32_rcc_RCC_CFGR_read s) = RCC_CFGR_PPRE2 s"
    "cfgr_ppre1 (stm32_rcc_RCC_CFGR_read s) = RCC_CFGR_PPRE1 s"
    "cfgr_hpre (stm32_rcc_RCC_CFGR_read s) = RCC_CFGR_HPRE s"
    "cfgr_sw (stm32_rcc_RCC_CFGR_read s) = RCC_CFGR_SW s"
proof -
  note b = rcc_synced_bits [OF assms] and r = bit_cfgr_fields bit_CFGR_read [OF assms]
  show "cfgr_pllmul (stm32_rcc_RCC_CFGR_read s) = RCC_CFGR_PLLMUL s"
    by (rule word_eq_below [OF b(1)]) (simp_all add: r)
  show "cfgr_xtpre (stm32_rcc_RCC_CFGR_read s) = RCC_CFGR_PLLXTPRE s"
    by (rule word_eq_below [where k = 1]) (auto simp: r dest: b(2))
  show "cfgr_pllsrc (stm32_rcc_RCC_CFGR_read s) = RCC_CFGR_PLLSRC s"
    by (rule word_eq_below [where k = 1]) (auto simp: r dest: b(3))
  show "cfgr_ppre2 (stm32_rcc_RCC_CFGR_read s) = RCC_CFGR_PPRE2 s"
    by (rule word_eq_below [OF b(4)]) (simp_all add: r)
  show "cfgr_ppre1 (stm32_rcc_RCC_CFGR_read s) = RCC_CFGR_PPRE1 s"
    by (rule word_eq_below [OF b(5)]) (simp_all add: r)
  show "cfgr_hpre (stm32_rcc_RCC_CFGR_read s) = RCC_CFGR_HPRE s"
    by (rule word_eq_below [OF b(6)]) (simp_all add: r)
  show "cfgr_sw (stm32_rcc_RCC_CFGR_read s) = RCC_CFGR_SW s"
    by (rule word_eq_below [OF b(7)]) (simp_all add: r)
qed

section \<open>The reference frequencies\<close>

text \<open>
  The frequencies, as natural numbers, that the values of CR and CFGR stand for. The prescaler factors
  are those of the emulator.
\<close>

definition ref_hsi :: "u32 \<Rightarrow> nat" where "ref_hsi cr = (if bit cr 0 then 8000000 else 0)"
definition ref_hse :: "nat \<Rightarrow> u32 \<Rightarrow> nat" where "ref_hse osc cr = (if bit cr 16 then osc else 0)"

definition ref_pll :: "nat \<Rightarrow> u32 \<Rightarrow> u32 \<Rightarrow> nat" where
  "ref_pll osc cr cfgr =
     (if bit cr 24 then
        (if cfgr_pllsrc cfgr = 0 then ref_hsi cr div 2
         else if cfgr_xtpre cfgr = 0 then ref_hse osc cr else ref_hse osc cr div 2)
        * min 16 (unat (cfgr_pllmul cfgr) + 2) mod 2 ^ 32
      else 0)"

definition ref_sysclk :: "nat \<Rightarrow> u32 \<Rightarrow> u32 \<Rightarrow> nat" where
  "ref_sysclk osc cr cfgr =
     (if cfgr_sw cfgr = 0 then ref_hsi cr else if cfgr_sw cfgr = 1 then ref_hse osc cr else ref_pll osc cr cfgr)"

definition emu_div :: "nat \<Rightarrow> nat \<Rightarrow> nat" where
  "emu_div first f = (if f < first then 1 else 2 * (f - (first - 1)))"

definition ref_hclk :: "nat \<Rightarrow> u32 \<Rightarrow> u32 \<Rightarrow> nat" where
  "ref_hclk osc cr cfgr = ref_sysclk osc cr cfgr div emu_div 8 (unat (cfgr_hpre cfgr))"
definition ref_pclk1 :: "nat \<Rightarrow> u32 \<Rightarrow> u32 \<Rightarrow> nat" where
  "ref_pclk1 osc cr cfgr = ref_hclk osc cr cfgr div emu_div 4 (unat (cfgr_ppre1 cfgr))"
definition ref_pclk2 :: "nat \<Rightarrow> u32 \<Rightarrow> u32 \<Rightarrow> nat" where
  "ref_pclk2 osc cr cfgr = ref_hclk osc cr cfgr div emu_div 4 (unat (cfgr_ppre2 cfgr))"

lemma unat_scaled:
  assumes "d \<noteq> 0"
  shows "unat (scaled e (m, d) f) = (if e then (unat f * unat m div unat d) mod 2 ^ 32 else 0)"
proof -
  have d: "ucast d \<noteq> (0 :: u32)" using assms by (metis unat_eq_0 unat_ucast16_32)
  show ?thesis
    using unat_muldiv64 [OF d, of "ucast f" "ucast m"]
    by (simp add: scaled_def unat_ucast64_32 unat_ucast16_32 mod_mod_cancel)
qed

lemma unat_scaled_div: "d \<noteq> 0 \<Longrightarrow> unat (scaled True (1, d) f) = unat f div unat d"
  using unat_u32_lt [of f] by (simp add: unat_scaled order_le_less_trans [OF div_le_dividend])

lemma rcc_synced_selected:
  assumes "rcc_synced g x"
  shows "rcc_selected g"
proof -
  have "unat (RCC_CFGR_PLLXTPRE x) < 2" "unat (RCC_CFGR_PLLSRC x) < 2" "unat (RCC_CFGR_SW x) < 3"
    using assms by (simp_all add: rcc_synced_def word_less_nat_alt)
  then have "RCC_CFGR_PLLXTPRE x \<in> {0, 1}" "RCC_CFGR_PLLSRC x \<in> {0, 1}" "RCC_CFGR_SW x \<in> {0, 1, 2}"
    by (auto simp: word_unat_eq_iff)
  then show ?thesis using assms by (auto simp: rcc_selected_def rcc_synced_def)
qed

lemma unat_freq_sysclk:
  assumes at: "rcc_at (g, rcc_fields s) s" and sync: "rcc_synced g (rcc_fields s)"
  shows "unat (freq_sysclk g) = ref_sysclk (unat (osc_freq s)) (stm32_rcc_RCC_CR_read s) (stm32_rcc_RCC_CFGR_read s)"
proof -
  have hsi: "unat (freq_hsi g) = ref_hsi (stm32_rcc_RCC_CR_read s)"
    by (simp add: freq_hsi_def ref_hsi_def bit_CR_read [OF at])
  have hse: "unat (freq_hse g) = ref_hse (unat (osc_freq s)) (stm32_rcc_RCC_CR_read s)"
    using sync by (simp add: freq_hse_def ref_hse_def bit_CR_read [OF at] rcc_synced_def rcc_fields_def)
  have half: "unat (scaled True (1, 2) f) = unat f div 2" for f using unat_scaled_div [of 2 f] by simp
  have sel: "cfg_pllsrc g = 0 \<longleftrightarrow> cfgr_pllsrc (stm32_rcc_RCC_CFGR_read s) = 0"
    "cfg_xtpre g = 0 \<longleftrightarrow> cfgr_xtpre (stm32_rcc_RCC_CFGR_read s) = 0"
    "cfg_sw g = 0 \<longleftrightarrow> cfgr_sw (stm32_rcc_RCC_CFGR_read s) = 0"
    "cfg_sw g = 1 \<longleftrightarrow> cfgr_sw (stm32_rcc_RCC_CFGR_read s) = 1"
    unfolding cfgr_of_read [OF sync] using sync
    by (auto simp: rcc_synced_def rcc_fields_def word_uint_eq_iff)
  have mul: "unat (cfg_pllmul g) = min 16 (unat (cfgr_pllmul (stm32_rcc_RCC_CFGR_read s)) + 2)"
    unfolding cfgr_of_read [OF sync] using sync
    by (simp add: rcc_synced_def rcc_fields_def unat_rcc_pllmul)
  have pll: "unat (freq_pll g) = ref_pll (unat (osc_freq s)) (stm32_rcc_RCC_CR_read s) (stm32_rcc_RCC_CFGR_read s)"
    unfolding freq_pll_def freq_pllxtpre_def ref_pll_def sel
    by (simp add: unat_scaled mul hsi hse half bit_CR_read [OF at])
  show ?thesis unfolding freq_sysclk_def ref_sysclk_def sel using hsi hse pll by simp
qed

lemma unat_freq_buses:
  assumes at: "rcc_at (g, rcc_fields s) s" and sync: "rcc_synced g (rcc_fields s)"
  shows "unat (freq_hclk g) = ref_hclk (unat (osc_freq s)) (stm32_rcc_RCC_CR_read s) (stm32_rcc_RCC_CFGR_read s)"
    "unat (freq_pclk1 g) = ref_pclk1 (unat (osc_freq s)) (stm32_rcc_RCC_CR_read s) (stm32_rcc_RCC_CFGR_read s)"
    "unat (freq_pclk2 g) = ref_pclk2 (unat (osc_freq s)) (stm32_rcc_RCC_CR_read s) (stm32_rcc_RCC_CFGR_read s)"
proof -
  have presc: "unat (rcc_presc 8 (RCC_CFGR_HPRE s)) = emu_div 8 (unat (cfgr_hpre (stm32_rcc_RCC_CFGR_read s)))"
    "unat (rcc_presc 4 (RCC_CFGR_PPRE1 s)) = emu_div 4 (unat (cfgr_ppre1 (stm32_rcc_RCC_CFGR_read s)))"
    "unat (rcc_presc 4 (RCC_CFGR_PPRE2 s)) = emu_div 4 (unat (cfgr_ppre2 (stm32_rcc_RCC_CFGR_read s)))"
    "rcc_presc 8 (RCC_CFGR_HPRE s) \<noteq> 0" "rcc_presc 4 (RCC_CFGR_PPRE1 s) \<noteq> 0" "rcc_presc 4 (RCC_CFGR_PPRE2 s) \<noteq> 0"
    unfolding cfgr_of_read [OF sync] using sync
    by (simp_all add: rcc_synced_def rcc_fields_def unat_presc rcc_presc_nonzero emu_div_def word_less_nat_alt)
  have cfg: "cfg_hclk g = (1, rcc_presc 8 (RCC_CFGR_HPRE s))" "cfg_pclk1 g = (1, rcc_presc 4 (RCC_CFGR_PPRE1 s))"
    "cfg_pclk2 g = (1, rcc_presc 4 (RCC_CFGR_PPRE2 s))"
    using sync by (simp_all add: rcc_synced_def rcc_fields_def)
  show h: "unat (freq_hclk g) = ref_hclk (unat (osc_freq s)) (stm32_rcc_RCC_CR_read s) (stm32_rcc_RCC_CFGR_read s)"
    unfolding freq_hclk_def ref_hclk_def cfg unat_scaled_div [OF presc(4)] presc(1) unat_freq_sysclk [OF assms] ..
  show "unat (freq_pclk1 g) = ref_pclk1 (unat (osc_freq s)) (stm32_rcc_RCC_CR_read s) (stm32_rcc_RCC_CFGR_read s)"
    unfolding freq_pclk1_def ref_pclk1_def cfg unat_scaled_div [OF presc(5)] presc(2) h ..
  show "unat (freq_pclk2 g) = ref_pclk2 (unat (osc_freq s)) (stm32_rcc_RCC_CR_read s) (stm32_rcc_RCC_CFGR_read s)"
    unfolding freq_pclk2_def ref_pclk2_def cfg unat_scaled_div [OF presc(6)] presc(3) h ..
qed

lemma rcc_at_freq:
  assumes "rcc_at (g, x) s" "rcc_selected g"
  shows "clktree_get_output_freq (rcc_clks s) (SYSCLK s) = freq_sysclk g"
    "clktree_get_output_freq (rcc_clks s) (HCLK s) = freq_hclk g"
    "clktree_get_output_freq (rcc_clks s) (PCLK1 s) = freq_pclk1 g"
    "clktree_get_output_freq (rcc_clks s) (PCLK2 s) = freq_pclk2 g"
    "i < 13 \<Longrightarrow> clktree_get_output_freq (rcc_clks s) (12 + i) =
       (if cfg_periph g ! i then if i < 9 then freq_pclk2 g else freq_pclk1 g else 0)"
proof -
  have f: "clk_output_freq (rcc_clks s ! c) = clk_eval (rcc_heap g) c" if "c < 25" for c
    using assms(1) that by (intro rcc_heap_rep_freq) (simp_all add: rcc_at_def rcc_rep_def)
  show "clktree_get_output_freq (rcc_clks s) (SYSCLK s) = freq_sysclk g"
    "clktree_get_output_freq (rcc_clks s) (HCLK s) = freq_hclk g"
    "clktree_get_output_freq (rcc_clks s) (PCLK1 s) = freq_pclk1 g"
    "clktree_get_output_freq (rcc_clks s) (PCLK2 s) = freq_pclk2 g"
    by (simp_all add: clktree_get_output_freq_def rcc_at_ptrs [OF assms(1)] f rcc_eval_system [OF assms(2)])
  show "i < 13 \<Longrightarrow> clktree_get_output_freq (rcc_clks s) (12 + i) =
       (if cfg_periph g ! i then if i < 9 then freq_pclk2 g else freq_pclk1 g else 0)"
    using f [of "12 + i"] rcc_eval_periph [OF assms(2)] by (simp add: clktree_get_output_freq_def)
qed

end
