(* ===== verification/Rcc_Props.thy ===== *)
theory Rcc_Props
  imports Rcc_Registers
begin

text \<open>
  The properties of the RCC: what reset does, the frequencies of the buses and of the peripherals, the
  round trips through the registers, the error behaviour, and the places where the code does not do
  what its names and comments say.
\<close>

section \<open>Reset\<close>

text \<open>The state after machine creation: initialisation, then reset.\<close>

definition stm32_rcc_boot :: "u32 \<Rightarrow> u32 \<Rightarrow> Stm32Rcc run" where
  "stm32_rcc_boot osc osc32 = run_bind (stm32_rcc_init osc osc32) stm32_rcc_reset"

lemma rcc_boot_at:
  "run_total (\<lambda>s es. rcc_wf s \<and> rcc_at (rcc_reset_cfg (rcc_cfg0 osc osc32), rcc_fields s) s \<and>
    rcc_synced (rcc_reset_cfg (rcc_cfg0 osc osc32)) (rcc_fields s)) (stm32_rcc_boot osc osc32)"
proof -
  obtain s where s: "stm32_rcc_init osc osc32 = Ok s []" "rcc_at (rcc_cfg0 osc osc32, rcc_fields0 osc osc32) s"
    using rcc_at_init [of osc osc32] by (elim run_totalE) simp
  show ?thesis
    using rcc_wf_reset [OF s(2)] s(1)
    by (auto simp: stm32_rcc_boot_def rcc_cfg0_def rcc_fields0_def elim!: run_total_mono)
qed

lemma rcc_boot_ex:
  assumes "\<And>s. rcc_wf s \<Longrightarrow> P s"
  shows "\<exists>s es. stm32_rcc_boot osc osc32 = Ok s es \<and> P s"
proof -
  obtain s es where "stm32_rcc_boot osc osc32 = Ok s es" "rcc_wf s"
    using rcc_boot_at [of osc osc32] by (elim run_totalE) simp
  then show ?thesis using assms by blast
qed

lemma rcc_get_periph_freq:
  assumes "rcc_at (g, x) s" "rcc_selected g" "1 \<le> p" "p \<le> 13"
  shows "stm32_rcc_get_periph_freq s p =
    Ok (if cfg_periph g ! (p - 1) then if p < 10 then freq_pclk2 g else freq_pclk1 g else 0) []"
proof -
  obtain i where i: "p = Suc i" "i < 13" using assms(3,4) by (cases p) auto
  then show ?thesis
    using rcc_at_freq(5) [OF assms(1,2) i(2)] rcc_periphclk_nth [OF assms(3,4)]
    by (simp add: stm32_rcc_get_periph_freq_def rcc_at_ptrs(11) [OF assms(1)])
qed

text \<open>
  Creating the device and resetting it returns for any oscillator, and leaves the bus clocks at the
  8 MHz of the internal oscillator and every peripheral clock stopped.
\<close>

theorem rcc_boot_frequencies:
  "run_total (\<lambda>s es. rcc_wf s \<and>
     clktree_get_output_freq (rcc_clks s) (HCLK s) = 8000000 \<and>
     clktree_get_output_freq (rcc_clks s) (PCLK1 s) = 8000000 \<and>
     clktree_get_output_freq (rcc_clks s) (PCLK2 s) = 8000000 \<and>
     list_all (\<lambda>p. stm32_rcc_get_periph_freq s p = Ok 0 []) [STM32_GPIOA..<STM32_UART5 + 1])
   (stm32_rcc_boot osc osc32)"
proof (rule run_total_mono [OF rcc_boot_at], elim conjE)
  fix s :: Stm32Rcc and es :: "effect list"
  let ?g = "rcc_reset_cfg (rcc_cfg0 osc osc32)"
  assume wf: "rcc_wf s" and at: "rcc_at (?g, rcc_fields s) s"
  have sel: "rcc_selected ?g" by (simp add: rcc_selected_def rcc_reset_cfg_def)
  have h: "freq_hclk ?g = 8000000"
    by (simp add: freq_hclk_def freq_sysclk_def freq_hsi_def rcc_reset_cfg_def)
  then have p: "freq_pclk1 ?g = 8000000" "freq_pclk2 ?g = 8000000"
    unfolding freq_pclk1_def freq_pclk2_def by (simp_all add: rcc_reset_cfg_def)
  have "stm32_rcc_get_periph_freq s q = Ok 0 []" if "1 \<le> q" "q \<le> 13" for q
  proof -
    have "q - 1 < 13" using that by simp
    then have "\<not> cfg_periph ?g ! (q - 1)" by (simp add: rcc_reset_cfg_def)
    then show ?thesis using rcc_get_periph_freq [OF at sel that] by simp
  qed
  then show "rcc_wf s \<and>
     clktree_get_output_freq (rcc_clks s) (HCLK s) = 8000000 \<and>
     clktree_get_output_freq (rcc_clks s) (PCLK1 s) = 8000000 \<and>
     clktree_get_output_freq (rcc_clks s) (PCLK2 s) = 8000000 \<and>
     list_all (\<lambda>p. stm32_rcc_get_periph_freq s p = Ok 0 []) [STM32_GPIOA..<STM32_UART5 + 1]"
    using wf rcc_at_freq [OF at sel] h p by (simp add: list_all_iff)
qed

section \<open>Frequencies from the registers\<close>









section \<open>Peripheral clocks\<close>

text \<open>
  For each peripheral the RCC drives, the frequency handed to it is that of its bus (APB2 for the
  GPIO ports, AFIO and UART1, APB1 for the other UARTs) while its clock is enabled, and 0 otherwise.
\<close>

theorem rcc_periph_frequency:
  assumes "rcc_wf s" "STM32_GPIOA \<le> p" "p \<le> STM32_UART5" "PERIPHCLK s ! p = Some clk"
  shows "stm32_rcc_get_periph_freq s p =
    Ok (if clktree_is_enabled (rcc_clks s) clk
        then clktree_get_output_freq (rcc_clks s) (if p \<le> STM32_UART1 then PCLK2 s else PCLK1 s) else 0) []"
proof -
  obtain g where g: "rcc_at (g, rcc_fields s) s" "rcc_synced g (rcc_fields s)" using assms(1) by (rule rcc_wfE)
  note sel = rcc_synced_selected [OF g(2)]
  obtain i where i: "p = Suc i" "i < 13" using assms(2,3) by (cases p) auto
  have clk: "clk = 12 + i"
    using assms(2-4) rcc_periphclk_nth [of p] i by (simp add: rcc_at_ptrs(11) [OF g(1)])
  have same: "same_config (rcc_heap g) (rcc_clks s)" using g(1) by (simp add: rcc_at_def rcc_rep_def rcc_heap_rep_def)
  have "rcc_heap g ! (12 + i) = rcc_periph_node g i"
    using i(2) by (simp add: rcc_heap_def rcc_system_def nth_append del: upt_rec_numeral)
  then have "clktree_is_enabled (rcc_clks s) clk = cfg_periph g ! i"
    using same_config_fields(1) [OF same, of clk] i clk
    by (simp add: clktree_is_enabled_def rcc_periph_node_def rcc_node_def)
  then show ?thesis
    using rcc_get_periph_freq [OF g(1) sel assms(2,3)] rcc_at_freq(3,4) [OF g(1) sel] i by simp
qed

theorem rcc_periph_frequency_witness:
  "\<exists>s es. stm32_rcc_boot 8000000 32768 = Ok s es \<and> stm32_rcc_get_periph_freq s STM32_UART2 =
     Ok (if clktree_is_enabled (rcc_clks s) 21 then clktree_get_output_freq (rcc_clks s) (PCLK1 s) else 0) []"
proof -
  obtain s es where s: "stm32_rcc_boot 8000000 32768 = Ok s es" "rcc_wf s"
    "rcc_at (rcc_reset_cfg (rcc_cfg0 8000000 32768), rcc_fields s) s"
    using rcc_boot_at [of 8000000 32768] by (elim run_totalE) simp
  have "PERIPHCLK s ! STM32_UART2 = Some 21"
    using rcc_periphclk_nth [of STM32_UART2] by (simp add: rcc_at_ptrs(11) [OF s(3)])
  then show ?thesis using rcc_periph_frequency [OF s(2), of STM32_UART2 21] s(1) by auto
qed

section \<open>Round trips\<close>

lemma bit_cfgr_mask:
  "bit (0x3f3ff3 :: u32) n \<longleftrightarrow> n < 2 \<or> 4 \<le> n \<and> n < 14 \<or> 16 \<le> n \<and> n < 22"
  "bit (3 :: u32) n \<longleftrightarrow> n < 2"
proof -
  have m: "(0x3f3ff3 :: u32) = push_bit 16 (mask 6) OR push_bit 4 (mask 10) OR mask 2"
    by (simp add: mask_eq_exp_minus_1)
  show "bit (0x3f3ff3 :: u32) n \<longleftrightarrow> n < 2 \<or> 4 \<le> n \<and> n < 14 \<or> 16 \<le> n \<and> n < 22"
    unfolding m bit_or_iff bit_push_bit_iff bit_mask_iff by auto
  show "bit (3 :: u32) n \<longleftrightarrow> n < 2" by (simp add: cfgr_masks(4) bit_mask_iff) auto
qed

text \<open>
  A value written to CFGR that selects an existing system clock is accepted, and reading CFGR gives
  back its PLL, prescaler and switch fields, the status field SWS equal to SW, and 0 elsewhere.
\<close>

theorem rcc_cfgr_roundtrip:
  assumes "rcc_wf s" "v AND 3 \<noteq> 3"
  shows "run_total (\<lambda>s' es. stm32_rcc_RCC_CFGR_read s' = (v AND 0x3f3ff3) OR push_bit 2 (v AND 3))
    (stm32_rcc_RCC_CFGR_write v init s)"
proof -
  have sw: "cfgr_sw v \<noteq> 3" using assms(2) by (simp add: cfgr_sw_def)
  obtain g where g: "rcc_at (g, rcc_fields s) s" "rcc_synced g (rcc_fields s)" using assms(1) by (rule rcc_wfE)
  note post = rcc_doesD [OF rcc_does_CFGR_write [OF sw] g(1)]
  show ?thesis
  proof (rule run_total_mono [OF post])
    fix s' :: Stm32Rcc and es :: "effect list"
    assume at: "rcc_at (rcc_cfgr_cfg v g, rcc_cfgr_fields v (rcc_fields s)) s'"
    then have f: "rcc_fields s' = rcc_cfgr_fields v (rcc_fields s)" by (simp add: rcc_at_def)
    have sync: "rcc_synced (rcc_cfgr_cfg v g) (rcc_fields s')" using rcc_synced_cfgr [OF g(2) sw] f by simp
    show "stm32_rcc_RCC_CFGR_read s' = (v AND 0x3f3ff3) OR push_bit 2 (v AND 3)"
    proof (rule bit_word_eqI)
      fix n
      have e: "17 \<le> n \<and> n < 18 \<and> bit v 17 \<longleftrightarrow> n = 17 \<and> bit v n" "16 \<le> n \<and> n < 17 \<and> bit v 16 \<longleftrightarrow> n = 16 \<and> bit v n"
        by (auto simp: less_Suc_eq_le numeral_eq_Suc)
      have split: "(18 \<le> n \<and> n < 22 \<and> P \<or> n = 17 \<and> P \<or> n = 16 \<and> P \<or> 11 \<le> n \<and> n < 14 \<and> P \<or>
          8 \<le> n \<and> n < 11 \<and> P \<or> 4 \<le> n \<and> n < 8 \<and> P \<or> n < 2 \<and> P \<or> 2 \<le> n \<and> n < 4 \<and> Q) \<longleftrightarrow>
          P \<and> (n < 2 \<or> 4 \<le> n \<and> n < 14 \<or> 16 \<le> n \<and> n < 22) \<or> 2 \<le> n \<and> n < 32 \<and> Q \<and> n < 4" for P Q
        by (cases P; cases Q; simp; presburger)
      show "bit (stm32_rcc_RCC_CFGR_read s') n = bit ((v AND 0x3f3ff3) OR push_bit 2 (v AND 3)) n"
        unfolding bit_CFGR_read [OF sync] rcc_at_fields [OF at] bit_or_iff bit_push_bit_iff bit_and_iff bit_cfgr_mask
        using split [of "bit v n" "bit v (n - 2)"] e
        by (simp add: rcc_cfgr_fields_def bit_cfgr_fields less_diff_conv2 cong: conj_cong)
    qed
  qed
qed

theorem rcc_cfgr_roundtrip_witness:
  "\<exists>s es. stm32_rcc_boot 8000000 32768 = Ok s es \<and>
     run_total (\<lambda>s' es. stm32_rcc_RCC_CFGR_read s' = 0x001d040a) (stm32_rcc_RCC_CFGR_write 0x001d0402 False s)"
proof (rule rcc_boot_ex)
  fix s assume "rcc_wf s"
  moreover have "(0x001d0402 AND 0x3f3ff3) OR push_bit 2 (0x001d0402 AND 3) = (0x001d040a :: u32)" by code_simp
  ultimately show "run_total (\<lambda>s' es. stm32_rcc_RCC_CFGR_read s' = 0x001d040a) (stm32_rcc_RCC_CFGR_write 0x001d0402 False s)"
    using rcc_cfgr_roundtrip [of s "0x001d0402" False] by simp
qed

lemma ready_bits:
  "(1 \<le> n \<and> n < 32 \<and> (n - 1 = 24 \<or> n - 1 = 16 \<or> n - 1 = 0) \<and> P (n - 1)) \<longleftrightarrow>
   n = 25 \<and> P 24 \<or> n = 17 \<and> P 16 \<or> n = 1 \<and> P 0" for n :: nat
proof -
  consider "n = 25" | "n = 17" | "n = 1" | "n = 0" | "n \<noteq> 0" "n - 1 \<noteq> 24" "n - 1 \<noteq> 16" "n - 1 \<noteq> 0" by linarith
  then show ?thesis by cases auto
qed

lemma len32: "possible_bit TYPE(32 word) n \<longleftrightarrow> n < 32"
  by (simp add: possible_bit_word)

lemma CR_read_image:
  assumes at: "rcc_at (rcc_cr_cfg v g, x) s'"
  shows "stm32_rcc_RCC_CR_read s' = (v AND 0x01010001) OR push_bit 1 (v AND 0x01010001)"
proof (rule bit_word_eqI)
  fix n
  have m: "(0x01010001 :: u32) = BIT 24 OR BIT 16 OR BIT 0" by (simp add: BIT_def)
  have w: "bit (v AND 0x01010001) k \<longleftrightarrow> (k = 24 \<or> k = 16 \<or> k = 0) \<and> bit v k" for k
    unfolding m bit_or_iff bit_and_iff bit_BIT by auto
  have cfg: "cfg_pll (rcc_cr_cfg v g) = bit v 24" "cfg_hse (rcc_cr_cfg v g) = bit v 16" "cfg_hsi (rcc_cr_cfg v g) = bit v 0"
    unfolding rcc_cr_cfg_def by (simp_all del: bit_0)
  show "bit (stm32_rcc_RCC_CR_read s') n = bit ((v AND 0x01010001) OR push_bit 1 (v AND 0x01010001)) n"
    unfolding bit_CR_read [OF at] cfg bit_or_iff bit_push_bit_iff w len32 ready_bits [of n "bit v"]
    by blast
qed

text \<open>
  A write to CR sets the gates of the PLL and of the two oscillators, and reading it back gives the
  three enable bits with each ready bit equal to its enable bit.
\<close>

theorem rcc_cr_roundtrip:
  assumes "rcc_wf s"
  shows "run_total (\<lambda>s' es. stm32_rcc_RCC_CR_read s' = (v AND 0x01010001) OR push_bit 1 (v AND 0x01010001))
    (stm32_rcc_RCC_CR_write v init s)"
proof -
  obtain g where g: "rcc_at (g, rcc_fields s) s" using assms by (rule rcc_wfE)
  show ?thesis
    by (rule run_total_mono [OF rcc_doesD [OF rcc_does_CR_write g]]) (rule CR_read_image)
qed

theorem rcc_cr_roundtrip_witness:
  "\<exists>s es. stm32_rcc_boot 8000000 32768 = Ok s es \<and>
     run_total (\<lambda>s' es. stm32_rcc_RCC_CR_read s' = 0x03000003) (stm32_rcc_RCC_CR_write 0x01000083 False s)"
proof (rule rcc_boot_ex)
  fix s assume wf: "rcc_wf s"
  have "(0x01000083 AND 0x01010001) OR push_bit 1 (0x01000083 AND 0x01010001) = (0x03000003 :: u32)" by code_simp
  with rcc_cr_roundtrip [OF wf, of "0x01000083" False]
  show "run_total (\<lambda>s' es. stm32_rcc_RCC_CR_read s' = 0x03000003) (stm32_rcc_RCC_CR_write 0x01000083 False s)"
    by (simp only:)
qed

section \<open>Errors\<close>

text \<open>
  Selecting the reserved system clock source 3 in CFGR stops the emulator with a hardware error,
  from every reachable state.
\<close>

theorem rcc_cfgr_invalid_switch:
  assumes "rcc_wf s" "ucast v AND 3 = (3 :: u32)"
  shows "\<exists>es. stm32_rcc_write s RCC_CFGR_OFFSET v 4 = Stop (HwError ''Invalid input selected for SYSCLK'') es"
proof -
  obtain g where g: "rcc_at (g, rcc_fields s) s" using assms(1) by (rule rcc_wfE)
  show ?thesis
    using rcc_CFGR_write_bad_sw [OF g, of "ucast v" False] assms(2)
    by (simp add: stm32_rcc_write_def stm32_rcc_writew_def cfgr_sw_def)
qed

theorem rcc_cfgr_invalid_switch_witness:
  "\<exists>s es. stm32_rcc_boot 8000000 32768 = Ok s es \<and>
     (\<exists>es'. stm32_rcc_write s RCC_CFGR_OFFSET 3 4 = Stop (HwError ''Invalid input selected for SYSCLK'') es')"
  by (rule rcc_boot_ex) (rule rcc_cfgr_invalid_switch, simp_all)

text \<open>
  The handler that rescales SysTick divides by zero exactly for AHB frequencies from 1 to 7 Hz.
\<close>

theorem rcc_hclk_handler_total:
  "stm32_rcc_hclk_upd_irq_handler f g = Stop DivByZero [] \<longleftrightarrow> 0 < unat f \<and> unat f < 8"
proof -
  have "f div 8 = 0 \<longleftrightarrow> unat f < 8"
    by (simp add: word_unat_eq_iff unat_div_distrib div_eq_0_iff)
  then show ?thesis
    by (simp add: stm32_rcc_hclk_upd_irq_handler_def Let_def word_greater_zero_iff unat_gt_0)
qed

section \<open>Deviations\<close>



text \<open>
  C29: a write to APB1ENR gates the clock of UART2 by bit 17 of the value, but the stored register never
  has that bit, so the guest reads back a disabled UART2 clock whatever it wrote.
\<close>

theorem rcc_apb1enr_loses_uart2:
  assumes "rcc_wf s"
  shows "run_total (\<lambda>s' es. PERIPHCLK s' ! STM32_UART2 = Some 21 \<and> clktree_is_enabled (rcc_clks s') 21 = bit v 17 \<and>
      \<not> bit (RCC_APB1ENR s') 17) (stm32_rcc_RCC_APB1ENR_write v init s)"
proof -
  obtain g where g: "rcc_at (g, rcc_fields s) s" using assms by (rule rcc_wfE)
  show ?thesis
  proof (rule run_total_mono [OF rcc_doesD [OF rcc_does_APB1(1) g]])
    fix s' :: Stm32Rcc and es :: "effect list"
    let ?g = "rcc_apb1_cfg v g"
    assume at: "rcc_at (?g, (rcc_fields s)\<lparr>RCC_APB1ENR := v AND 0x5e7d\<rparr>) s'"
    have same: "same_config (rcc_heap ?g) (rcc_clks s')" using at by (simp add: rcc_at_def rcc_rep_def rcc_heap_rep_def)
    have "length (cfg_periph g) = 13" using rcc_at_lengths [OF g] by simp
    then have "cfg_periph ?g ! 9 = bit v 17" by (simp add: rcc_apb1_cfg_def nth_append)
    then have "clk_enabled (rcc_heap ?g ! 21) = bit v 17"
      by (simp add: rcc_heap_def rcc_system_def rcc_periph_node_def rcc_node_def)
    then have "clktree_is_enabled (rcc_clks s') 21 = bit v 17"
      using same_config_fields(1) [OF same, of 21] by (simp add: clktree_is_enabled_def)
    moreover have "\<not> bit (v AND 0x5e7d) 17" by (simp add: bit_and_iff)
    ultimately show "PERIPHCLK s' ! STM32_UART2 = Some 21 \<and> clktree_is_enabled (rcc_clks s') 21 = bit v 17 \<and>
        \<not> bit (RCC_APB1ENR s') 17"
      using rcc_periphclk_nth [of STM32_UART2] by (simp add: rcc_at_ptrs(11) [OF at] rcc_at_fields(8) [OF at])
  qed
qed

theorem rcc_apb1enr_loses_uart2_witness:
  "\<exists>s es. stm32_rcc_boot 8000000 32768 = Ok s es \<and>
     run_total (\<lambda>s' es. clktree_is_enabled (rcc_clks s') 21 \<and> \<not> bit (RCC_APB1ENR s') 17)
       (stm32_rcc_RCC_APB1ENR_write 0x20000 False s)"
proof (rule rcc_boot_ex)
  fix s assume "rcc_wf s"
  from rcc_apb1enr_loses_uart2 [OF this, of "0x20000" False]
  show "run_total (\<lambda>s' es. clktree_is_enabled (rcc_clks s') 21 \<and> \<not> bit (RCC_APB1ENR s') 17)
       (stm32_rcc_RCC_APB1ENR_write 0x20000 False s)"
    by (rule run_total_mono) simp
qed

end
