(* ===== verification/Qdev.thy ===== *)
theory Qdev
  imports Stm32_Defs
begin

text \<open>
  The parts of QEMU's device layer through which the STM32 devices talk to each other: raising a
  line (\<open>hw/core/irq.c\<close>, \<open>include/hw/irq.h\<close>), the GPIO lists of a device (\<open>hw/core/qdev.c\<close>) and the
  IRQ outputs of a system bus device (\<open>hw/core/sysbus.c\<close>). A device keeps its output lines in an
  array; connecting an output stores a \<open>qemu_irq\<close> in it. The GPIO list of a device has no name in the
  STM32 sources, so that \<open>gpios.lh_first->out\<close> is the array the device registered.
\<close>

definition qemu_set_irq :: "qemu_irq \<Rightarrow> int \<Rightarrow> 's \<Rightarrow> 's run" where
  "qemu_set_irq irq level s = Ok s (if irq = IrqNull then [] else [SetIrq irq level])"

definition qemu_irq_raise :: "qemu_irq \<Rightarrow> 's \<Rightarrow> 's run" where
  "qemu_irq_raise irq = qemu_set_irq irq 1"

definition qemu_irq_lower :: "qemu_irq \<Rightarrow> 's \<Rightarrow> 's run" where
  "qemu_irq_lower irq = qemu_set_irq irq 0"

definition qemu_irq_pulse :: "qemu_irq \<Rightarrow> 's \<Rightarrow> 's run" where
  "qemu_irq_pulse irq = run_seq [qemu_set_irq irq 1, qemu_set_irq irq 0]"

definition qdev_connect_gpio_out :: "nat \<Rightarrow> qemu_irq \<Rightarrow> qemu_irq list \<Rightarrow> qemu_irq list run" where
  "qdev_connect_gpio_out n pin outs = (if n < length outs then Ok (outs[n := pin]) [] else Stop AssertFail [])"

definition qdev_get_gpio_in :: "nat \<Rightarrow> qemu_irq list \<Rightarrow> qemu_irq run" where
  "qdev_get_gpio_in n ins = (if n < length ins then Ok (ins ! n) [] else Stop AssertFail [])"

definition sysbus_connect_irq :: "nat \<Rightarrow> qemu_irq \<Rightarrow> qemu_irq list \<Rightarrow> qemu_irq list run" where
  "sysbus_connect_irq n irq irqs = (if n < length irqs then Ok (irqs[n := irq]) [] else Stop AssertFail [])"

lemmas irq_defs [run_simps] =
  qemu_set_irq_def qemu_irq_raise_def qemu_irq_lower_def qemu_irq_pulse_def

text \<open>A loop that leaves the state alone: its effects, in order.\<close>

lemma run_for_frame:
  assumes "\<And>i. i \<in> set is \<Longrightarrow> f i s = Ok s (es i)"
  shows "run_for is f s = Ok s (concat (map es is))"
  using assms by (induction "is") simp_all

lemma concat_map_if: "concat (map (\<lambda>i. if P i then es i else []) is) = concat (map es (filter P is))"
  by (induction "is") auto

text \<open>The level of a line after a sequence of effects.\<close>

fun line_level :: "qemu_irq \<Rightarrow> effect list \<Rightarrow> int \<Rightarrow> int" where
  "line_level irq [] l = l"
| "line_level irq (SetIrq i v # es) l = line_level irq es (if i = irq then v else l)"
| "line_level irq (e # es) l = line_level irq es l"

lemma line_level_append: "line_level irq (es @ fs) l = line_level irq fs (line_level irq es l)"
proof (induction es arbitrary: l)
  case (Cons e es)
  then show ?case by (cases e) simp_all
qed simp

end
