(* ===== verification/Gpio.thy ===== *)
theory Gpio
  imports Rcc Qdev Mmio
begin

text \<open>
  The general purpose I/O port, \<open>hw/gpio/stm32_gpio.c\<close>. The record has the fields of
  \<open>struct Stm32Gpio\<close> that the functions use; \<open>in\<close> is \<open>in_pins\<close>, and the RCC the port points to is an
  argument of the write handler, which asks it whether the clock of the port runs. The port drives
  one output line per pin and forwards each change of an input pin on the line of \<open>in_irq\<close>.
\<close>

section \<open>Registers and state\<close>

abbreviation (input) GPIOx_CRL_OFFSET :: nat where "GPIOx_CRL_OFFSET \<equiv> 0x0"
abbreviation (input) GPIOx_CRH_OFFSET :: nat where "GPIOx_CRH_OFFSET \<equiv> 0x4"
abbreviation (input) GPIOx_IDR_OFFSET :: nat where "GPIOx_IDR_OFFSET \<equiv> 0x8"
abbreviation (input) GPIOx_ODR_OFFSET :: nat where "GPIOx_ODR_OFFSET \<equiv> 0xc"
abbreviation (input) GPIOx_BSRR_OFFSET :: nat where "GPIOx_BSRR_OFFSET \<equiv> 0x10"
abbreviation (input) GPIOx_BRR_OFFSET :: nat where "GPIOx_BRR_OFFSET \<equiv> 0x14"
abbreviation (input) GPIOx_LCKR_OFFSET :: nat where "GPIOx_LCKR_OFFSET \<equiv> 0x18"

record Stm32Gpio =
  gpio_periph :: nat
  GPIOx_CRy :: "u32 list"
  GPIOx_ODR :: u32
  in_pins :: u16
  dir_mask :: u16
  gpio_out_irq :: "qemu_irq list"
  gpio_in_irq :: "qemu_irq list"

section \<open>Input pins\<close>

definition stm32_gpio_in_trigger :: "nat \<Rightarrow> int \<Rightarrow> Stm32Gpio \<Rightarrow> Stm32Gpio run" where
  "stm32_gpio_in_trigger pin level s =
     (if pin < STM32_GPIO_PIN_COUNT
      then run_seq
        [\<lambda>s. Ok (s\<lparr>in_pins := in_pins s AND NOT (push_bit pin 1)\<rparr>) [],
         \<lambda>s. Ok (s\<lparr>in_pins := in_pins s OR push_bit pin (if level \<noteq> 0 then 1 else 0)\<rparr>) [],
         \<lambda>s. qemu_set_irq (gpio_in_irq s ! pin) level s] s
      else Stop AssertFail [])"

section \<open>Pin configuration\<close>

definition stm32_gpio_get_pin_config :: "Stm32Gpio \<Rightarrow> nat \<Rightarrow> u8 run" where
  "stm32_gpio_get_pin_config s pin =
     (let cr_64 = push_bit 32 (ucast (GPIOx_CRy s ! 1)) OR ucast (GPIOx_CRy s ! 0);
          start = pin * 4 mod 2 ^ 32
      in if bitfield_ok 64 start 4 then Ok (ucast (extract64 cr_64 start 4)) [] else Stop AssertFail [])"

definition stm32_gpio_get_config_bits :: "Stm32Gpio \<Rightarrow> nat \<Rightarrow> u8 run" where
  "stm32_gpio_get_config_bits s pin =
     run_map (\<lambda>c. drop_bit 2 c AND 0x3) (stm32_gpio_get_pin_config s pin)"

definition stm32_gpio_get_mode_bits :: "Stm32Gpio \<Rightarrow> nat \<Rightarrow> u8 run" where
  "stm32_gpio_get_mode_bits s pin = run_map (\<lambda>c. c AND 0x3) (stm32_gpio_get_pin_config s pin)"

definition gpio_update_pin :: "nat \<Rightarrow> Stm32Gpio \<Rightarrow> Stm32Gpio run" where
  "gpio_update_pin pin s =
     run_bind (stm32_gpio_get_mode_bits s pin) (\<lambda>pin_dir. run_seq
       [\<lambda>s. Ok (s\<lparr>dir_mask := dir_mask s AND NOT (push_bit pin 1)\<rparr>) [],
        \<lambda>s. Ok (s\<lparr>dir_mask := dir_mask s OR push_bit pin (if pin_dir \<noteq> 0 then 1 else 0)\<rparr>) []] s)"

definition stm32_gpio_update_dir :: "nat \<Rightarrow> Stm32Gpio \<Rightarrow> Stm32Gpio run" where
  "stm32_gpio_update_dir cr_index s =
     (if cr_index = 0 \<or> cr_index = 1
      then let start_pin = cr_index * 8 in run_for [start_pin ..< start_pin + 8] gpio_update_pin s
      else Stop AssertFail [])"

section \<open>Output data\<close>

definition gpio_set_out :: "u16 \<Rightarrow> nat \<Rightarrow> Stm32Gpio \<Rightarrow> Stm32Gpio run" where
  "gpio_set_out pins pin s =
     (if pins AND BIT pin \<noteq> 0
      then qemu_set_irq (gpio_out_irq s ! pin) (if GPIOx_ODR s AND BIT pin \<noteq> 0 then 1 else 0) s
      else Ok s [])"

definition stm32_gpio_GPIOx_ODR_write :: "u32 \<Rightarrow> Stm32Gpio \<Rightarrow> Stm32Gpio run" where
  "stm32_gpio_GPIOx_ODR_write new_value s =
     (let old_value = GPIOx_ODR s;
          s = s\<lparr>GPIOx_ODR := new_value AND 0x0000ffff\<rparr>;
          changed = ucast (old_value XOR new_value);
          changed_out = changed AND dir_mask s
      in if changed_out \<noteq> 0 then run_for [0 ..< STM32_GPIO_PIN_COUNT] (gpio_set_out changed_out) s
         else Ok s [])"

definition stm32_gpio_trigger_irq :: "u32 \<Rightarrow> u16 \<Rightarrow> Stm32Gpio \<Rightarrow> Stm32Gpio run" where
  "stm32_gpio_trigger_irq new_value pin_nbr s =
     (let pin_nbr = pin_nbr AND dir_mask s;
          s = s\<lparr>GPIOx_ODR := new_value AND 0x0000ffff\<rparr>
      in run_for [0 ..< STM32_GPIO_PIN_COUNT] (gpio_set_out pin_nbr) s)"

section \<open>Register access\<close>

definition stm32_gpio_read :: "Stm32Gpio \<Rightarrow> nat \<Rightarrow> nat \<Rightarrow> u64 run" where
  "stm32_gpio_read s offset sz =
     (if sz = 4 then
        if offset = GPIOx_CRL_OFFSET then Ok (ucast (GPIOx_CRy s ! 0)) []
        else if offset = GPIOx_CRH_OFFSET then Ok (ucast (GPIOx_CRy s ! 1)) []
        else if offset = GPIOx_IDR_OFFSET then Ok (ucast (in_pins s)) []
        else if offset = GPIOx_ODR_OFFSET then Ok (ucast (GPIOx_ODR s)) []
        else if offset = GPIOx_BSRR_OFFSET then Ok 0 [STM32_WARN_WO_REG offset]
        else if offset = GPIOx_BRR_OFFSET then Ok 0 [STM32_WARN_WO_REG offset]
        else if offset = GPIOx_LCKR_OFFSET then Ok 0 []
        else STM32_BAD_REG offset sz
      else Stop AssertFail [])"

definition gpio_write_reg :: "nat \<Rightarrow> u64 \<Rightarrow> Stm32Gpio \<Rightarrow> Stm32Gpio run" where
  "gpio_write_reg offset value s =
     (let pin_nbr = ucast (value AND 0x0000ffff)
      in if offset = GPIOx_CRL_OFFSET
         then stm32_gpio_update_dir 0 (s\<lparr>GPIOx_CRy := (GPIOx_CRy s)[0 := ucast value]\<rparr>)
         else if offset = GPIOx_CRH_OFFSET
         then stm32_gpio_update_dir 1 (s\<lparr>GPIOx_CRy := (GPIOx_CRy s)[1 := ucast value]\<rparr>)
         else if offset = GPIOx_IDR_OFFSET then Ok s [STM32_WARN_RO_REG offset]
         else if offset = GPIOx_ODR_OFFSET
         then run_emit [Printf (''stm32p103Write 1: 0x'' @ hex_string (unat (ucast value :: u16)) @ [CHR 0x0A])]
                (stm32_gpio_GPIOx_ODR_write (ucast value) s)
         else if offset = GPIOx_BSRR_OFFSET
         then let set_mask = ucast (value AND 0x0000ffff);
                  reset_mask = ucast (NOT (drop_bit 16 value) AND 0x0000ffff)
              in stm32_gpio_trigger_irq ((GPIOx_ODR s AND reset_mask) OR set_mask) pin_nbr s
         else if offset = GPIOx_BRR_OFFSET
         then let reset_mask = ucast (NOT value AND 0x0000ffff)
              in stm32_gpio_trigger_irq (GPIOx_ODR s AND reset_mask) pin_nbr s
         else if offset = GPIOx_LCKR_OFFSET then STM32_NOT_IMPL_REG offset 4
         else STM32_BAD_REG offset 4)"

definition stm32_gpio_write :: "Stm32Rcc \<Rightarrow> Stm32Gpio \<Rightarrow> nat \<Rightarrow> u64 \<Rightarrow> nat \<Rightarrow> Stm32Gpio run" where
  "stm32_gpio_write rcc s offset value sz =
     (if sz = 4
      then run_bind (stm32_rcc_check_periph_clk rcc (gpio_periph s)) (\<lambda>_. gpio_write_reg offset value s)
      else Stop AssertFail [])"

section \<open>Reset and initialization\<close>

definition stm32_gpio_reset :: "Stm32Gpio \<Rightarrow> Stm32Gpio run" where
  "stm32_gpio_reset s =
     run_for [0 ..< STM32_GPIO_PIN_COUNT] (\<lambda>pin s. qemu_irq_lower (gpio_out_irq s ! pin) s)
       (s\<lparr>GPIOx_CRy := [0x44444444, 0x44444444], GPIOx_ODR := 0, dir_mask := 0\<rparr>)"

text \<open>The object is allocated with zeros; \<open>init\<close> registers sixteen inputs, outputs and input
  relays, none of them connected yet.\<close>

definition stm32_gpio_init :: "nat \<Rightarrow> Stm32Gpio" where
  "stm32_gpio_init periph =
     \<lparr>gpio_periph = periph, GPIOx_CRy = [0, 0], GPIOx_ODR = 0, in_pins = 0, dir_mask = 0,
      gpio_out_irq = replicate STM32_GPIO_PIN_COUNT IrqNull,
      gpio_in_irq = replicate STM32_GPIO_PIN_COUNT IrqNull\<rparr>"

end
