(* ===== verification/Rcc_Clients.thy ===== *)
theory Rcc_Clients
  imports Rcc_Props
begin

text \<open>
  What the other devices rely on when they ask the RCC about their clock: for every peripheral that
  has a clock in the tree, both questions return, and the check says no more than a warning.
\<close>

primrec is_warning :: "effect \<Rightarrow> bool" where
  "is_warning (HwWarn m) = True"
| "is_warning (SetIrq i l) = False"
| "is_warning (ClkNotify i f) = False"
| "is_warning (Stderr m) = False"
| "is_warning (GuestLog m) = False"
| "is_warning (ChrWrite c) = False"
| "is_warning (PostEvent c) = False"
| "is_warning (PostDigitalOut p n v) = False"
| "is_warning WaitAck = False"
| "is_warning (Printf m) = False"

definition rcc_has_clk :: "nat \<Rightarrow> bool" where
  "rcc_has_clk p \<longleftrightarrow> STM32_GPIOA \<le> p \<and> p \<le> STM32_UART5"

definition rcc_clk_warning :: "Stm32Rcc \<Rightarrow> nat \<Rightarrow> effect list" where
  "rcc_clk_warning rcc p = run_effects (stm32_rcc_check_periph_clk rcc p)"

locale periph_clock =
  fixes ready :: "'r \<Rightarrow> nat \<Rightarrow> bool"
    and check :: "'r \<Rightarrow> nat \<Rightarrow> unit run"
    and freq :: "'r \<Rightarrow> nat \<Rightarrow> u32 run"
  assumes check_returns: "ready r p \<Longrightarrow> \<exists>ws. check r p = Ok () ws \<and> list_all is_warning ws"
    and freq_returns: "ready r p \<Longrightarrow> \<exists>f. freq r p = Ok f []"
begin

lemma after_check:
  "ready r p \<Longrightarrow> run_bind (check r p) (\<lambda>_. k) = run_emit (run_effects (check r p)) k"
  using check_returns [of r p] by auto

lemma check_warns: "ready r p \<Longrightarrow> list_all is_warning (run_effects (check r p))"
  using check_returns [of r p] by auto

lemma check_Ok: "ready r p \<Longrightarrow> check r p = Ok () (run_effects (check r p))"
  using check_returns [of r p] by auto

end

lemma rcc_check_returns:
  assumes "rcc_wf rcc" "rcc_has_clk p"
  shows "\<exists>ws. stm32_rcc_check_periph_clk rcc p = Ok () ws \<and> list_all is_warning ws"
proof -
  obtain g where g: "rcc_at (g, rcc_fields rcc) rcc" using assms(1) by (rule rcc_wfE)
  have "PERIPHCLK rcc ! p = Some (p + 11)"
    using rcc_periphclk_nth [of p] assms(2) by (simp add: rcc_has_clk_def rcc_at_ptrs(11) [OF g])
  moreover obtain nm where "stm32_periph_name p = Ok nm []"
    using stm32_periph_name_total [of p] assms(2) by (auto simp: rcc_has_clk_def)
  ultimately show ?thesis by (simp add: stm32_rcc_check_periph_clk_def stm32_hw_warn_def)
qed

lemma rcc_freq_returns:
  assumes "rcc_wf rcc" "rcc_has_clk p"
  shows "\<exists>f. stm32_rcc_get_periph_freq rcc p = Ok f []"
proof -
  obtain g where g: "rcc_at (g, rcc_fields rcc) rcc" "rcc_synced g (rcc_fields rcc)" using assms(1) by (rule rcc_wfE)
  then show ?thesis
    using rcc_get_periph_freq [OF g(1) rcc_synced_selected [OF g(2)], of p] assms(2) by (simp add: rcc_has_clk_def)
qed

interpretation rcc_clk: periph_clock "\<lambda>rcc p. rcc_wf rcc \<and> rcc_has_clk p"
  stm32_rcc_check_periph_clk stm32_rcc_get_periph_freq
  by unfold_locales (use rcc_check_returns rcc_freq_returns in blast)+

end
