(* ===== verification/Gpio_Ops.thy ===== *)
theory Gpio_Ops
  imports Gpio Rcc_Clients
begin

text \<open>
  Correctness of the I/O port: the invariant between the direction mask and the configuration
  registers, the meaning of each register write pin by pin, and what a listener connected to an
  output line sees.
\<close>

section \<open>Pin configuration\<close>

definition gpio_pin_output :: "u32 list \<Rightarrow> nat \<Rightarrow> bool" where
  "gpio_pin_output crs pin \<longleftrightarrow>
     bit (crs ! (pin div 8)) (4 * (pin mod 8)) \<or> bit (crs ! (pin div 8)) (4 * (pin mod 8) + 1)"

definition gpio_shape :: "Stm32Gpio \<Rightarrow> bool" where
  "gpio_shape s \<longleftrightarrow> length (GPIOx_CRy s) = 2 \<and> length (gpio_out_irq s) = 16 \<and> length (gpio_in_irq s) = 16
     \<and> (\<forall>n\<ge>16. \<not> bit (GPIOx_ODR s) n)"

definition gpio_wf :: "Stm32Gpio \<Rightarrow> bool" where
  "gpio_wf s \<longleftrightarrow> gpio_shape s \<and> (\<forall>pin<16. bit (dir_mask s) pin = gpio_pin_output (GPIOx_CRy s) pin)"

lemma bit_cr_64:
  "bit (push_bit 32 (ucast (hi :: u32)) OR ucast (lo :: u32) :: u64) n
     \<longleftrightarrow> (if n < 32 then bit lo n else n < 64 \<and> bit hi (n - 32))"
  by (auto simp: bit_or_iff bit_push_bit_iff bit_ucast_iff dest: bit_imp_le_length)

lemma bit_three: "bit (3 :: u8) n \<longleftrightarrow> n = 0 \<or> n = 1"
proof -
  have "(3 :: u8) = mask 2" by (simp add: mask_eq_exp_minus_1)
  then have "bit (3 :: u8) n \<longleftrightarrow> bit (mask 2 :: u8) n" by (rule arg_cong)
  also have "\<dots> \<longleftrightarrow> n = 0 \<or> n = 1" unfolding bit_mask_iff by auto
  finally show ?thesis .
qed

lemma word_nonzero_iff: "w \<noteq> 0 \<longleftrightarrow> (\<exists>n. bit w n)" for w :: "'a::len word"
  by (metis bit_0_eq bit_eq_iff bot_apply bot_bool_def)

lemma gpio_mode_bits:
  assumes "pin < 16" "length (GPIOx_CRy s) = 2"
  obtains m where "stm32_gpio_get_mode_bits s pin = Ok m []"
    "m \<noteq> 0 \<longleftrightarrow> gpio_pin_output (GPIOx_CRy s) pin"
proof -
  let ?c = "push_bit 32 (ucast (GPIOx_CRy s ! 1)) OR ucast (GPIOx_CRy s ! 0) :: u64"
  let ?m = "ucast (extract64 ?c (pin * 4) 4) AND 3 :: u8"
  have ok: "bitfield_ok 64 (pin * 4) 4" and md: "pin * 4 mod 2 ^ 32 = pin * 4"
    using assms(1) by (simp_all add: bitfield_ok_def)
  have cr: "bit ?c (pin * 4 + i) \<longleftrightarrow> bit (GPIOx_CRy s ! (pin div 8)) (4 * (pin mod 8) + i)" if "i < 4" for i
  proof (cases "pin < 8")
    case False
    then have "pin div 8 = 1" "pin mod 8 = pin - 8" using assms(1) by (simp_all add: div_if mod_if)
    moreover have "pin * 4 + i - 32 = 4 * (pin - 8) + i" using False by (simp add: algebra_simps)
    ultimately show ?thesis using False assms(1) that unfolding bit_cr_64 by auto
  qed (use that in \<open>auto simp: bit_cr_64 mult.commute\<close>)
  have "bit ?m n \<longleftrightarrow> (n = 0 \<or> n = 1) \<and> bit ?c (pin * 4 + n)" for n
    unfolding bit_and_iff bit_ucast_iff bit_three bit_extract64 [OF ok] by auto
  then have "?m \<noteq> 0 \<longleftrightarrow> (\<exists>n. (n = 0 \<or> n = 1) \<and> bit ?c (pin * 4 + n))"
    unfolding word_nonzero_iff by blast
  also have "\<dots> \<longleftrightarrow> gpio_pin_output (GPIOx_CRy s) pin"
    using cr [of 0] cr [of 1] unfolding gpio_pin_output_def by auto
  finally show ?thesis
    using that [of ?m] ok md
    by (simp add: stm32_gpio_get_mode_bits_def stm32_gpio_get_pin_config_def)
qed

section \<open>Direction mask\<close>

lemma bit_assign:
  "bit (w AND NOT (push_bit k 1) OR push_bit k (if b then 1 else 0)) n
     \<longleftrightarrow> (if n = k then b \<and> n < LENGTH('a) else bit w n)" for w :: "'a::len word"
proof -
  have "bit (push_bit k 1 :: 'a word) n \<longleftrightarrow> n = k \<and> n < LENGTH('a)"
    using bit_BIT [of k n] unfolding BIT_def .
  then show ?thesis
    unfolding bit_or_iff bit_and_iff bit_not_iff by (auto dest: bit_imp_le_length simp del: push_bit_of_1)
qed

lemma gpio_update_pin_eq:
  assumes "pin < 16" "length (GPIOx_CRy s) = 2"
  shows "\<exists>d. gpio_update_pin pin s = Ok (s\<lparr>dir_mask := d\<rparr>) [] \<and>
    (\<forall>n. bit d n = (if n = pin then gpio_pin_output (GPIOx_CRy s) pin else bit (dir_mask s) n))"
proof -
  obtain m where m: "stm32_gpio_get_mode_bits s pin = Ok m []"
    "m \<noteq> 0 \<longleftrightarrow> gpio_pin_output (GPIOx_CRy s) pin"
    by (rule gpio_mode_bits [OF assms])
  show ?thesis
    by (rule exI [of _ "dir_mask s AND NOT (push_bit pin 1) OR push_bit pin (if m \<noteq> 0 then 1 else 0)"])
      (use assms(1) in \<open>simp add: gpio_update_pin_def m(1) bit_assign m(2) del: push_bit_of_1\<close>)
qed

lemma gpio_update_pins:
  assumes "\<forall>p\<in>set ps. p < 16" "length (GPIOx_CRy s) = 2"
  shows "\<exists>d. run_for ps gpio_update_pin s = Ok (s\<lparr>dir_mask := d\<rparr>) [] \<and>
    (\<forall>n. bit d n = (if n \<in> set ps then gpio_pin_output (GPIOx_CRy s) n else bit (dir_mask s) n))"
  using assms
proof (induction ps arbitrary: s)
  case Nil
  show ?case by (rule exI [of _ "dir_mask s"]) simp
next
  case (Cons p ps)
  obtain d where d: "gpio_update_pin p s = Ok (s\<lparr>dir_mask := d\<rparr>) []"
    "\<forall>n. bit d n = (if n = p then gpio_pin_output (GPIOx_CRy s) p else bit (dir_mask s) n)"
    using gpio_update_pin_eq [of p s] Cons.prems by auto
  obtain e where e: "run_for ps gpio_update_pin (s\<lparr>dir_mask := d\<rparr>) = Ok (s\<lparr>dir_mask := e\<rparr>) []"
    "\<forall>n. bit e n = (if n \<in> set ps then gpio_pin_output (GPIOx_CRy s) n else bit d n)"
    using Cons.IH [of "s\<lparr>dir_mask := d\<rparr>"] Cons.prems by auto
  show ?case by (rule exI [of _ e]) (use d e in auto)
qed


lemma gpio_update_dir_wf:
  assumes "gpio_shape s" "i = 0 \<or> i = 1"
    "\<forall>pin<16. pin div 8 \<noteq> i \<longrightarrow> bit (dir_mask s) pin = gpio_pin_output (GPIOx_CRy s) pin"
  shows "\<exists>d. stm32_gpio_update_dir i s = Ok (s\<lparr>dir_mask := d\<rparr>) [] \<and> gpio_wf (s\<lparr>dir_mask := d\<rparr>)"
proof -
  have "\<forall>p\<in>set [i * 8 ..< i * 8 + 8]. p < 16" "length (GPIOx_CRy s) = 2"
    using assms(1,2) by (auto simp: gpio_shape_def)
  then obtain d where d: "run_for [i * 8 ..< i * 8 + 8] gpio_update_pin s = Ok (s\<lparr>dir_mask := d\<rparr>) []"
    "\<forall>n. bit d n = (if n \<in> set [i * 8 ..< i * 8 + 8] then gpio_pin_output (GPIOx_CRy s) n else bit (dir_mask s) n)"
    using gpio_update_pins by blast
  have "bit d pin = gpio_pin_output (GPIOx_CRy s) pin" if "pin < 16" for pin
  proof (cases "pin div 8 = i")
    case True
    then have "pin \<in> set [i * 8 ..< i * 8 + 8]" by auto
    then show ?thesis using d(2) by simp
  qed (use d(2) assms(3) that in \<open>auto simp del: upt_rec_numeral\<close>)
  then show ?thesis
    using assms(1,2) d(1) by (intro exI [of _ d]) (simp add: stm32_gpio_update_dir_def gpio_wf_def gpio_shape_def)
qed

section \<open>Output lines\<close>

definition gpio_events :: "Stm32Gpio \<Rightarrow> (nat \<Rightarrow> bool) \<Rightarrow> effect list" where
  "gpio_events s P = concat (map (\<lambda>pin. if gpio_out_irq s ! pin = IrqNull then []
       else [SetIrq (gpio_out_irq s ! pin) (if bit (GPIOx_ODR s) pin then 1 else 0)]) (filter P [0 ..< 16]))"

lemma gpio_set_out_loop:
  "run_for [0 ..< STM32_GPIO_PIN_COUNT] (gpio_set_out pins) s = Ok s (gpio_events s (bit pins))"
proof -
  have "run_for [0 ..< STM32_GPIO_PIN_COUNT] (gpio_set_out pins) s = Ok s (concat (map (\<lambda>pin. if bit pins pin then
      if gpio_out_irq s ! pin = IrqNull then []
       else [SetIrq (gpio_out_irq s ! pin) (if bit (GPIOx_ODR s) pin then 1 else 0)] else []) [0 ..< 16]))"
    by (rule run_for_frame) (simp add: gpio_set_out_def and_BIT_eq_0 qemu_set_irq_def)
  then show ?thesis by (simp only: concat_map_if gpio_events_def)
qed

lemma trigger_irq_eq:
  "stm32_gpio_trigger_irq v pins s =
     Ok (s\<lparr>GPIOx_ODR := v AND 0xffff\<rparr>)
       (gpio_events (s\<lparr>GPIOx_ODR := v AND 0xffff\<rparr>) (bit (pins AND dir_mask s)))"
  unfolding stm32_gpio_trigger_irq_def Let_def by (simp only: gpio_set_out_loop simp_thms Stm32Gpio.simps)

lemma ODR_write_eq:
  "stm32_gpio_GPIOx_ODR_write v s =
     Ok (s\<lparr>GPIOx_ODR := v AND 0xffff\<rparr>)
       (gpio_events (s\<lparr>GPIOx_ODR := v AND 0xffff\<rparr>) (bit (ucast (GPIOx_ODR s XOR v) AND dir_mask s)))"
proof -
  have "gpio_events s' (bit (0 :: u16)) = []" for s'
    by (simp add: gpio_events_def)
  then show ?thesis
    unfolding stm32_gpio_GPIOx_ODR_write_def Let_def
    by (simp only: gpio_set_out_loop simp_thms Stm32Gpio.simps split: if_split) auto
qed


section \<open>Register writes\<close>

lemma bit_ffff [bit_field]: "bit (w AND 0xffff) n \<longleftrightarrow> n < 16 \<and> bit w n" for w :: "'a::len word"
proof -
  have "(0xffff :: 'a word) = mask 16" by (simp add: mask_eq_exp_minus_1)
  then show ?thesis by (metis bit_take_bit_iff take_bit_eq_mask)
qed

lemma bit_ffff_int [bit_field]: "bit (0xffff :: int) n \<longleftrightarrow> n < 16"
proof -
  have "(0xffff :: int) = mask 16" by (simp add: mask_eq_exp_minus_1)
  then have "bit (0xffff :: int) n \<longleftrightarrow> bit (mask 16 :: int) n" by (rule arg_cong)
  then show ?thesis unfolding bit_mask_iff by (simp add: possible_bit_def)
qed

text \<open>The level a write leaves in the output register, and the pins whose output line it drives.\<close>

definition gpio_odr_next :: "nat \<Rightarrow> u64 \<Rightarrow> u32 \<Rightarrow> nat \<Rightarrow> bool" where
  "gpio_odr_next offset v odr pin =
     (if offset = GPIOx_ODR_OFFSET then bit v pin
      else if offset = GPIOx_BSRR_OFFSET then bit odr pin \<and> \<not> bit v (16 + pin) \<or> bit v pin
      else if offset = GPIOx_BRR_OFFSET then bit odr pin \<and> \<not> bit v pin
      else bit odr pin)"

definition gpio_drives :: "nat \<Rightarrow> u64 \<Rightarrow> u32 \<Rightarrow> nat \<Rightarrow> bool" where
  "gpio_drives offset v odr pin =
     (if offset = GPIOx_ODR_OFFSET then bit v pin \<noteq> bit odr pin
      else (offset = GPIOx_BSRR_OFFSET \<or> offset = GPIOx_BRR_OFFSET) \<and> bit v pin)"

definition gpio_registers :: "nat list" where
  "gpio_registers = [GPIOx_CRL_OFFSET, GPIOx_CRH_OFFSET, GPIOx_IDR_OFFSET, GPIOx_ODR_OFFSET,
     GPIOx_BSRR_OFFSET, GPIOx_BRR_OFFSET]"

definition gpio_log :: "nat \<Rightarrow> u64 \<Rightarrow> effect list" where
  "gpio_log offset v =
     (if offset = GPIOx_IDR_OFFSET then [STM32_WARN_RO_REG offset]
      else if offset = GPIOx_ODR_OFFSET
      then [Printf (''stm32p103Write 1: 0x'' @ hex_string (unat (ucast v :: u16)) @ [CHR 0x0A])]
      else [])"

lemma gpio_write_config:
  assumes "gpio_wf s" "i = 0 \<or> i = 1"
  shows "\<exists>d. stm32_gpio_update_dir i (s\<lparr>GPIOx_CRy := (GPIOx_CRy s)[i := c]\<rparr>)
      = Ok (s\<lparr>GPIOx_CRy := (GPIOx_CRy s)[i := c], dir_mask := d\<rparr>) []
    \<and> gpio_wf (s\<lparr>GPIOx_CRy := (GPIOx_CRy s)[i := c], dir_mask := d\<rparr>)"
proof -
  let ?s = "s\<lparr>GPIOx_CRy := (GPIOx_CRy s)[i := c]\<rparr>"
  have "gpio_shape ?s" using assms(1) by (simp add: gpio_wf_def gpio_shape_def)
  moreover have "\<forall>pin<16. pin div 8 \<noteq> i \<longrightarrow> bit (dir_mask ?s) pin = gpio_pin_output (GPIOx_CRy ?s) pin"
    using assms(1) by (simp add: gpio_wf_def gpio_pin_output_def)
  ultimately show ?thesis using gpio_update_dir_wf [of ?s i] assms(2) by auto
qed

lemma gpio_wf_odr: "gpio_wf s \<Longrightarrow> gpio_wf (s\<lparr>GPIOx_ODR := w AND 0xffff\<rparr>)"
  by (auto simp: gpio_wf_def gpio_shape_def bit_ffff)

lemma gpio_events_cong:
  "(\<And>pin. pin < 16 \<Longrightarrow> P pin = Q pin) \<Longrightarrow> gpio_events s P = gpio_events s Q"
  unfolding gpio_events_def by (rule arg_cong [where f = concat], rule arg_cong [where f = "map _"])
    (rule filter_cong; simp)

lemma gpio_trigger_spec:
  assumes "gpio_wf s" and "\<And>pin. pin < 16 \<Longrightarrow> bit w pin = gpio_odr_next offset v (GPIOx_ODR s) pin"
    and "\<And>pin. pin < 16 \<Longrightarrow> bit p pin = (gpio_drives offset v (GPIOx_ODR s) pin \<and> bit (dir_mask s) pin)"
  shows "\<exists>s'. Ok (s\<lparr>GPIOx_ODR := w AND 0xffff\<rparr>) (gpio_events (s\<lparr>GPIOx_ODR := w AND 0xffff\<rparr>) (bit p))
      = Ok s' (gpio_events s' (\<lambda>pin. gpio_drives offset v (GPIOx_ODR s) pin \<and> gpio_pin_output (GPIOx_CRy s) pin))
    \<and> gpio_wf s' \<and> s' = s\<lparr>GPIOx_ODR := GPIOx_ODR s'\<rparr>
    \<and> (\<forall>pin<16. bit (GPIOx_ODR s') pin = gpio_odr_next offset v (GPIOx_ODR s) pin)"
  using assms gpio_wf_odr [OF assms(1), of w]
  by (intro exI [of _ "s\<lparr>GPIOx_ODR := w AND 0xffff\<rparr>"] conjI)
    (auto simp: bit_ffff gpio_wf_def intro!: gpio_events_cong)

lemma gpio_write_odr_regs:
  assumes "gpio_wf s" "offset \<in> {GPIOx_ODR_OFFSET, GPIOx_BSRR_OFFSET, GPIOx_BRR_OFFSET}"
  shows "\<exists>s'. gpio_write_reg offset v s = Ok s' (gpio_log offset v @
      gpio_events s' (\<lambda>pin. gpio_drives offset v (GPIOx_ODR s) pin \<and> gpio_pin_output (GPIOx_CRy s) pin))
    \<and> gpio_wf s' \<and> s' = s\<lparr>GPIOx_ODR := GPIOx_ODR s'\<rparr>
    \<and> (\<forall>pin<16. bit (GPIOx_ODR s') pin = gpio_odr_next offset v (GPIOx_ODR s) pin)"
proof -
  consider "offset = GPIOx_ODR_OFFSET" | "offset = GPIOx_BSRR_OFFSET" | "offset = GPIOx_BRR_OFFSET"
    using assms(2) by blast
  then show ?thesis
  proof cases
    case 1
    then show ?thesis
      using gpio_trigger_spec [where w = "ucast v" and p = "ucast (GPIOx_ODR s XOR ucast v) AND dir_mask s"
          and offset = offset and v = v, OF assms(1)]
      by (auto simp: gpio_write_reg_def ODR_write_eq gpio_log_def gpio_odr_next_def gpio_drives_def
          bit_and_iff bit_xor_iff bit_ucast_iff)
  next
    case 2
    then show ?thesis
      using gpio_trigger_spec [where offset = offset and v = v and p = "ucast (v AND 0xffff) AND dir_mask s"
          and w = "GPIOx_ODR s AND ucast (NOT (drop_bit 16 v) AND 0xffff) OR ucast (v AND 0xffff)", OF assms(1)]
      by (simp add: gpio_write_reg_def trigger_irq_eq gpio_log_def gpio_odr_next_def gpio_drives_def
          bit_and_iff bit_or_iff bit_ucast_iff bit_ffff_int bit_not_iff bit_drop_bit_eq Let_def cong: conj_cong)
  next
    case 3
    then show ?thesis
      using gpio_trigger_spec [where offset = offset and v = v and p = "ucast (v AND 0xffff) AND dir_mask s"
          and w = "GPIOx_ODR s AND ucast (NOT v AND 0xffff)", OF assms(1)]
      by (simp add: gpio_write_reg_def trigger_irq_eq gpio_log_def gpio_odr_next_def gpio_drives_def
          bit_and_iff bit_or_iff bit_ucast_iff bit_ffff_int bit_not_iff Let_def cong: conj_cong)
  qed
qed


definition gpio_cr_next :: "nat \<Rightarrow> u64 \<Rightarrow> u32 list \<Rightarrow> u32 list" where
  "gpio_cr_next offset v crs =
     (if offset = GPIOx_CRL_OFFSET then crs[0 := ucast v]
      else if offset = GPIOx_CRH_OFFSET then crs[1 := ucast v] else crs)"

lemma gpio_no_events [simp]: "gpio_events s (\<lambda>pin. False) = []"
  by (simp add: gpio_events_def)

lemma gpio_write_reg_spec:
  assumes "gpio_wf s" "offset \<in> set gpio_registers"
  shows "\<exists>s'. gpio_write_reg offset v s = Ok s' (gpio_log offset v @
      gpio_events s' (\<lambda>pin. gpio_drives offset v (GPIOx_ODR s) pin \<and> gpio_pin_output (GPIOx_CRy s) pin))
    \<and> gpio_wf s'
    \<and> s' = s\<lparr>GPIOx_ODR := GPIOx_ODR s', GPIOx_CRy := gpio_cr_next offset v (GPIOx_CRy s), dir_mask := dir_mask s'\<rparr>
    \<and> (\<forall>pin<16. bit (GPIOx_ODR s') pin = gpio_odr_next offset v (GPIOx_ODR s) pin)"
proof -
  consider (cfg) i where "i = 0 \<or> i = 1" "offset = 4 * i" | (idr) "offset = GPIOx_IDR_OFFSET"
    | (odr) "offset \<in> {GPIOx_ODR_OFFSET, GPIOx_BSRR_OFFSET, GPIOx_BRR_OFFSET}"
    using assms(2) by (auto simp: gpio_registers_def)
  then show ?thesis
  proof cases
    case cfg
    obtain d where "stm32_gpio_update_dir i (s\<lparr>GPIOx_CRy := (GPIOx_CRy s)[i := ucast v]\<rparr>)
        = Ok (s\<lparr>GPIOx_CRy := (GPIOx_CRy s)[i := ucast v], dir_mask := d\<rparr>) []"
      "gpio_wf (s\<lparr>GPIOx_CRy := (GPIOx_CRy s)[i := ucast v], dir_mask := d\<rparr>)"
      using gpio_write_config [OF assms(1) cfg(1)] by blast
    then show ?thesis
      using cfg
      by (intro exI [of _ "s\<lparr>GPIOx_CRy := (GPIOx_CRy s)[i := ucast v], dir_mask := d\<rparr>"])
        (auto simp: gpio_write_reg_def gpio_drives_def gpio_odr_next_def gpio_log_def gpio_cr_next_def)
  next
    case idr
    then show ?thesis
      using assms(1)
      by (simp add: gpio_write_reg_def gpio_drives_def gpio_odr_next_def gpio_log_def gpio_cr_next_def)
  next
    case odr
    obtain s' where s': "gpio_write_reg offset v s = Ok s' (gpio_log offset v @
        gpio_events s' (\<lambda>pin. gpio_drives offset v (GPIOx_ODR s) pin \<and> gpio_pin_output (GPIOx_CRy s) pin))"
      "gpio_wf s'" "s' = s\<lparr>GPIOx_ODR := GPIOx_ODR s'\<rparr>"
      "\<forall>pin<16. bit (GPIOx_ODR s') pin = gpio_odr_next offset v (GPIOx_ODR s) pin"
      using gpio_write_odr_regs [OF assms(1) odr] by blast
    have "dir_mask s' = dir_mask s" by (subst s'(3)) simp
    then have "s' = s\<lparr>GPIOx_ODR := GPIOx_ODR s', GPIOx_CRy := gpio_cr_next offset v (GPIOx_CRy s), dir_mask := dir_mask s'\<rparr>"
      using odr by (subst s'(3)) (auto simp: gpio_cr_next_def)
    then show ?thesis using s'(1,2,4) by blast
  qed
qed

lemma gpio_write_reg_bad:
  assumes "offset \<notin> set gpio_registers"
  shows "\<exists>m. gpio_write_reg offset v s = Stop (HwError m) []"
  using assms by (simp add: gpio_registers_def gpio_write_reg_def reg_error_defs)

lemma gpio_write_keeps:
  assumes "gpio_wf s"
  shows "run_sat (\<lambda>s' _. gpio_wf s') (stm32_gpio_write rcc s offset v sz)"
proof (cases "offset \<in> set gpio_registers")
  case True
  then show ?thesis
    using gpio_write_reg_spec [OF assms True, of v]
    by (cases "stm32_rcc_check_periph_clk rcc (gpio_periph s)") (auto simp: stm32_gpio_write_def)
next
  case False
  then show ?thesis
    using gpio_write_reg_bad [OF False, of v s]
    by (cases "stm32_rcc_check_periph_clk rcc (gpio_periph s)") (auto simp: stm32_gpio_write_def)
qed

interpretation gpio_dev: mmio_device gpio_wf "pure_read stm32_gpio_read" "stm32_gpio_write rcc" for rcc
  by unfold_locales (rule pure_read_keeps, assumption, rule gpio_write_keeps)


section \<open>What a listener sees\<close>

lemma line_level_warnings: "list_all is_warning es \<Longrightarrow> line_level irq es l = l"
proof (induction es arbitrary: l)
  case (Cons e es)
  then show ?case by (cases e) simp_all
qed simp

lemma line_level_log [simp]: "line_level irq (gpio_log offset v) l = l"
  by (simp add: gpio_log_def STM32_WARN_RO_REG_def)

definition gpio_connected :: "Stm32Gpio \<Rightarrow> nat \<Rightarrow> bool" where
  "gpio_connected s pin \<longleftrightarrow> gpio_out_irq s ! pin \<noteq> IrqNull \<and>
     (\<forall>q<16. q \<noteq> pin \<longrightarrow> gpio_out_irq s ! q \<noteq> gpio_out_irq s ! pin)"

lemma gpio_events_level:
  assumes "pin < 16" "gpio_connected s pin"
  shows "line_level (gpio_out_irq s ! pin) (gpio_events s P) l
    = (if P pin then if bit (GPIOx_ODR s) pin then 1 else 0 else l)"
proof -
  let ?ev = "\<lambda>q. if gpio_out_irq s ! q = IrqNull then []
       else [SetIrq (gpio_out_irq s ! q) (if bit (GPIOx_ODR s) q then 1 else 0)]"
  have other: "line_level (gpio_out_irq s ! pin) (concat (map ?ev (filter P ps))) l = l"
    if "\<forall>q\<in>set ps. q < 16 \<and> q \<noteq> pin" for ps l
    using that assms(2) by (induction ps arbitrary: l) (auto simp: gpio_connected_def line_level_append)
  have split: "[0 ..< 16] = [0 ..< pin] @ pin # [Suc pin ..< 16]"
    using assms(1) by (metis le_add_diff_inverse less_imp_le_nat upt_add_eq_append upt_conv_Cons zero_le)
  have "line_level (gpio_out_irq s ! pin) (?ev pin) l = (if bit (GPIOx_ODR s) pin then 1 else 0)" for l
    using assms(2) by (simp add: gpio_connected_def)
  then show ?thesis
    unfolding gpio_events_def split
    using assms(1) by (simp add: line_level_append other del: upt_rec_numeral)
qed


end
