(* ===== verification/Gpio_Props.thy ===== *)
theory Gpio_Props
  imports Gpio_Ops
begin

text \<open>
  The properties of the I/O port: what a register write does, what a listener on an output line sees,
  what the input register shows of the history of the pins, and which accesses stop the emulator.
\<close>

section \<open>Properties\<close>

lemma gpio_write_checked:
  assumes "rcc_wf rcc" "rcc_has_clk (gpio_periph s)"
  shows "stm32_gpio_write rcc s offset v 4 = run_emit (rcc_clk_warning rcc (gpio_periph s)) (gpio_write_reg offset v s)"
  using rcc_clk.after_check [of rcc "gpio_periph s"] assms
  by (simp add: stm32_gpio_write_def rcc_clk_warning_def)

text \<open>
  C30: a four byte write to a register of the port returns; the configuration registers hold the value
  written, each bit of the output register is the one the register's meaning gives (set by ODR, set or
  reset by BSRR with the set winning, reset by BRR, kept otherwise), the input pins are untouched, and
  the lines driven are, in ascending order, those of the output pins the write addresses, each at its
  new level.
\<close>

theorem gpio_write_spec:
  assumes "gpio_wf s" "rcc_wf rcc" "rcc_has_clk (gpio_periph s)" "offset \<in> set gpio_registers"
  shows "\<exists>s'. stm32_gpio_write rcc s offset v 4 = Ok s' (rcc_clk_warning rcc (gpio_periph s) @ gpio_log offset v @
      gpio_events s' (\<lambda>pin. gpio_drives offset v (GPIOx_ODR s) pin \<and> gpio_pin_output (GPIOx_CRy s) pin))
    \<and> gpio_wf s' \<and> GPIOx_CRy s' = gpio_cr_next offset v (GPIOx_CRy s) \<and> in_pins s' = in_pins s
    \<and> gpio_out_irq s' = gpio_out_irq s
    \<and> (\<forall>pin<16. bit (GPIOx_ODR s') pin = gpio_odr_next offset v (GPIOx_ODR s) pin)"
proof -
  obtain s' where s': "gpio_write_reg offset v s = Ok s' (gpio_log offset v @
      gpio_events s' (\<lambda>pin. gpio_drives offset v (GPIOx_ODR s) pin \<and> gpio_pin_output (GPIOx_CRy s) pin))"
    "gpio_wf s'"
    "s' = s\<lparr>GPIOx_ODR := GPIOx_ODR s', GPIOx_CRy := gpio_cr_next offset v (GPIOx_CRy s), dir_mask := dir_mask s'\<rparr>"
    "\<forall>pin<16. bit (GPIOx_ODR s') pin = gpio_odr_next offset v (GPIOx_ODR s) pin"
    using gpio_write_reg_spec [OF assms(1,4), of v] by blast
  have "GPIOx_CRy s' = gpio_cr_next offset v (GPIOx_CRy s)" "in_pins s' = in_pins s"
    "gpio_out_irq s' = gpio_out_irq s"
    by (subst s'(3), simp)+
  then show ?thesis using s'(1,2,4) gpio_write_checked [OF assms(2,3)] by auto
qed

lemma gpio_cfg0_input: "list_all (\<lambda>pin. \<not> gpio_pin_output [0x44444444, 0x44444444] pin) [0 ..< 16]"
  "list_all (\<lambda>pin. \<not> gpio_pin_output [0, 0] pin) [0 ..< 16]"
  by code_simp+

lemma gpio_init_wf: "gpio_wf (stm32_gpio_init p)"
  using gpio_cfg0_input(2)
  by (auto simp: gpio_wf_def gpio_shape_def stm32_gpio_init_def list_all_iff simp del: upt_rec_numeral)

text \<open>A port with pin 12 configured as an output, low, and connected to the board.\<close>

definition gpio_example :: Stm32Gpio where
  "gpio_example = (stm32_gpio_init STM32_GPIOC)
     \<lparr>GPIOx_CRy := [0, 0x10000], dir_mask := 0x1000, gpio_out_irq := (replicate 16 IrqNull)[12 := IrqBoardOut 3]\<rparr>"

lemma gpio_example_wf: "gpio_wf gpio_example" "rcc_has_clk (gpio_periph gpio_example)"
proof -
  have "list_all (\<lambda>pin. bit (0x1000 :: u16) pin = gpio_pin_output [0, 0x10000] pin) [0 ..< 16]" by code_simp
  then show "gpio_wf gpio_example"
    by (auto simp: gpio_wf_def gpio_shape_def gpio_example_def stm32_gpio_init_def list_all_iff simp del: upt_rec_numeral)
qed (simp add: gpio_example_def stm32_gpio_init_def rcc_has_clk_def)

lemma gpio_example_pins:
  "gpio_pin_output (GPIOx_CRy gpio_example) 12" "gpio_connected gpio_example 12" "GPIOx_ODR gpio_example = 0"
  "gpio_out_irq gpio_example ! 12 = IrqBoardOut 3"
proof -
  have "list_all (\<lambda>q. q \<noteq> 12 \<longrightarrow> (replicate 16 IrqNull)[12 := IrqBoardOut 3] ! q \<noteq> IrqBoardOut 3) [0 ..< 16]" by code_simp
  then show "gpio_connected gpio_example 12"
    by (auto simp: gpio_connected_def gpio_example_def list_all_iff simp del: upt_rec_numeral)
  show "gpio_pin_output (GPIOx_CRy gpio_example) 12" by code_simp
qed (simp_all add: gpio_example_def stm32_gpio_init_def)

theorem gpio_write_spec_witness:
  "\<exists>rcc es. stm32_rcc_boot 8000000 32768 = Ok rcc es \<and> (\<exists>s' es'.
     stm32_gpio_write rcc gpio_example GPIOx_BSRR_OFFSET 0x1000 4 = Ok s' es' \<and>
     line_level (IrqBoardOut 3) es' 0 = 1 \<and> bit (GPIOx_ODR s') 12)"
proof (rule rcc_boot_ex)
  fix rcc
  assume wf: "rcc_wf rcc"
  have on: "bit (0x1000 :: u64) 12" by code_simp
  have reg: "GPIOx_BSRR_OFFSET \<in> set gpio_registers" by (simp add: gpio_registers_def)
  from gpio_write_spec [OF gpio_example_wf(1) wf gpio_example_wf(2) reg, of "0x1000"]
  obtain s' where s': "stm32_gpio_write rcc gpio_example GPIOx_BSRR_OFFSET 0x1000 4 =
      Ok s' (rcc_clk_warning rcc (gpio_periph gpio_example) @ gpio_log GPIOx_BSRR_OFFSET 0x1000 @
      gpio_events s' (\<lambda>pin. gpio_drives GPIOx_BSRR_OFFSET 0x1000 (GPIOx_ODR gpio_example) pin \<and>
        gpio_pin_output (GPIOx_CRy gpio_example) pin))"
    "bit (GPIOx_ODR s') 12" "gpio_out_irq s' = gpio_out_irq gpio_example"
    using on by (auto simp: gpio_odr_next_def)
  have "gpio_connected s' 12" using gpio_example_pins(2) s'(3) by (simp add: gpio_connected_def)
  from gpio_events_level [OF _ this]
  have lv: "line_level (IrqBoardOut 3) (gpio_events s' P) 0 = (if P 12 then 1 else 0)" for P
    using s'(2) by (simp add: s'(3) gpio_example_pins(4))
  have "line_level (IrqBoardOut 3) (rcc_clk_warning rcc (gpio_periph gpio_example)) 0 = 0"
    using rcc_clk.check_warns [of rcc "gpio_periph gpio_example"] wf gpio_example_wf(2)
    by (simp add: rcc_clk_warning_def line_level_warnings)
  then have "line_level (IrqBoardOut 3) (rcc_clk_warning rcc (gpio_periph gpio_example) @ gpio_log GPIOx_BSRR_OFFSET 0x1000 @
      gpio_events s' (\<lambda>pin. gpio_drives GPIOx_BSRR_OFFSET 0x1000 (GPIOx_ODR gpio_example) pin \<and>
        gpio_pin_output (GPIOx_CRy gpio_example) pin)) 0 = 1"
    using on by (simp add: line_level_append lv gpio_drives_def gpio_example_pins(1))
  then show "\<exists>s' es'. stm32_gpio_write rcc gpio_example GPIOx_BSRR_OFFSET 0x1000 4 = Ok s' es' \<and>
     line_level (IrqBoardOut 3) es' 0 = 1 \<and> bit (GPIOx_ODR s') 12"
    using s'(1,2) by blast
qed


lemma gpio_drive_follows:
  assumes "pin < 16" "gpio_connected s pin" "gpio_pin_output (GPIOx_CRy s) pin"
    and "bit (GPIOx_ODR s') pin = gpio_odr_next offset v (GPIOx_ODR s) pin" "gpio_out_irq s' = gpio_out_irq s"
  shows "line_level (gpio_out_irq s ! pin) (gpio_events s' (\<lambda>pin. gpio_drives offset v (GPIOx_ODR s) pin \<and>
       gpio_pin_output (GPIOx_CRy s) pin)) (if bit (GPIOx_ODR s) pin then 1 else 0)
       = (if bit (GPIOx_ODR s') pin then 1 else 0)
     \<longleftrightarrow> \<not> (offset = GPIOx_BSRR_OFFSET \<and> bit v (16 + pin) \<and> \<not> bit v pin \<and> bit (GPIOx_ODR s) pin)"
proof -
  have "gpio_connected s' pin" using assms(2,5) by (simp add: gpio_connected_def)
  from gpio_events_level [OF assms(1) this]
  have "line_level (gpio_out_irq s ! pin) (gpio_events s' P) l
      = (if P pin then if bit (GPIOx_ODR s') pin then 1 else 0 else l)" for P l
    by (simp add: assms(5))
  then show ?thesis
    using assms(3) by (simp add: assms(4) gpio_odr_next_def gpio_drives_def)
qed

text \<open>
  C12: a listener connected to the line of an output pin, whose view agrees with the output register
  before a write, agrees with it afterwards, for every register and value, with exactly one exception:
  a BSRR write that resets a high pin through its upper half changes the register and leaves the line up.
\<close>

theorem gpio_line_follows_odr:
  assumes "gpio_wf s" "rcc_wf rcc" "rcc_has_clk (gpio_periph s)"
    and "pin < 16" "gpio_connected s pin" "gpio_pin_output (GPIOx_CRy s) pin"
    and "stm32_gpio_write rcc s offset v 4 = Ok s' es"
  shows "line_level (gpio_out_irq s ! pin) es (if bit (GPIOx_ODR s) pin then 1 else 0)
      = (if bit (GPIOx_ODR s') pin then 1 else 0)
    \<longleftrightarrow> \<not> (offset = GPIOx_BSRR_OFFSET \<and> bit v (16 + pin) \<and> \<not> bit v pin \<and> bit (GPIOx_ODR s) pin)"
proof -
  have wr: "stm32_gpio_write rcc s offset v 4 = run_emit (rcc_clk_warning rcc (gpio_periph s)) (gpio_write_reg offset v s)"
    by (rule gpio_write_checked [OF assms(2,3)])
  have "offset \<in> set gpio_registers"
  proof (rule ccontr)
    assume "offset \<notin> set gpio_registers"
    then show False using gpio_write_reg_bad [of offset v s] assms(7) wr by auto
  qed
  from gpio_write_reg_spec [OF assms(1) this, of v] obtain t where
    t: "gpio_write_reg offset v s = Ok t (gpio_log offset v @
      gpio_events t (\<lambda>pin. gpio_drives offset v (GPIOx_ODR s) pin \<and> gpio_pin_output (GPIOx_CRy s) pin))"
    "t = s\<lparr>GPIOx_ODR := GPIOx_ODR t, GPIOx_CRy := gpio_cr_next offset v (GPIOx_CRy s), dir_mask := dir_mask t\<rparr>"
    "bit (GPIOx_ODR t) pin = gpio_odr_next offset v (GPIOx_ODR s) pin"
    using assms(4) by blast
  have out: "gpio_out_irq t = gpio_out_irq s" by (subst t(2)) simp
  have "list_all is_warning (rcc_clk_warning rcc (gpio_periph s))"
    using rcc_clk.check_warns [of rcc "gpio_periph s"] assms(2,3) by (simp add: rcc_clk_warning_def)
  then show ?thesis
    using gpio_drive_follows [OF assms(4-6) t(3) out] assms(7) wr t(1)
    by (auto simp: line_level_append line_level_warnings)
qed


theorem gpio_line_follows_odr_witness:
  "\<exists>rcc es. stm32_rcc_boot 8000000 32768 = Ok rcc es \<and> (\<exists>s' es'.
     stm32_gpio_write rcc (gpio_example\<lparr>GPIOx_ODR := 0x1000\<rparr>) GPIOx_BSRR_OFFSET 0x10000000 4 = Ok s' es' \<and>
     line_level (IrqBoardOut 3) es' 1 \<noteq> (if bit (GPIOx_ODR s') 12 then 1 else 0))"
proof (rule rcc_boot_ex)
  fix rcc
  assume wf: "rcc_wf rcc"
  let ?s = "gpio_example\<lparr>GPIOx_ODR := 0x1000\<rparr>"
  have "gpio_wf ?s" using gpio_wf_odr [OF gpio_example_wf(1), of "0x1000"] by simp
  moreover have clk: "rcc_has_clk (gpio_periph ?s)" using gpio_example_wf(2) by simp
  ultimately obtain s' es' where w: "stm32_gpio_write rcc ?s GPIOx_BSRR_OFFSET 0x10000000 4 = Ok s' es'"
    using gpio_write_reg_spec [of ?s GPIOx_BSRR_OFFSET "0x10000000"] gpio_write_checked [OF wf clk]
    by (auto simp: gpio_registers_def)
  have bits: "bit (0x10000000 :: u64) (16 + 12)" "\<not> bit (0x10000000 :: u64) 12" "bit (GPIOx_ODR ?s) 12"
    by code_simp+
  have pins: "gpio_connected ?s 12" "gpio_pin_output (GPIOx_CRy ?s) 12"
    using gpio_example_pins(1,2) by (simp_all add: gpio_connected_def)
  have "line_level (gpio_out_irq ?s ! 12) es' (if bit (GPIOx_ODR ?s) 12 then 1 else 0) \<noteq> (if bit (GPIOx_ODR s') 12 then 1 else 0)"
    using gpio_line_follows_odr [OF \<open>gpio_wf ?s\<close> wf clk _ pins w] bits by simp
  then have "line_level (IrqBoardOut 3) es' 1 \<noteq> (if bit (GPIOx_ODR s') 12 then 1 else 0)"
    using bits(3) gpio_example_pins(4) by simp
  then show "\<exists>s' es'. stm32_gpio_write rcc ?s GPIOx_BSRR_OFFSET 0x10000000 4 = Ok s' es' \<and>
     line_level (IrqBoardOut 3) es' 1 \<noteq> (if bit (GPIOx_ODR s') 12 then 1 else 0)"
    using w by blast
qed

section \<open>Reachable ports\<close>

text \<open>The history of a port: creation, wiring, resets, guest writes under any state of the clocks, and
  changes of the input pins. The second component is the last level seen on each input pin.\<close>

inductive gpio_reach :: "Stm32Gpio \<Rightarrow> (nat \<Rightarrow> bool) \<Rightarrow> bool" where
  gr_init: "gpio_reach (stm32_gpio_init periph) (\<lambda>pin. False)"
| gr_out: "gpio_reach s lv \<Longrightarrow> qdev_connect_gpio_out n irq (gpio_out_irq s) = Ok outs es \<Longrightarrow>
    gpio_reach (s\<lparr>gpio_out_irq := outs\<rparr>) lv"
| gr_in: "gpio_reach s lv \<Longrightarrow> sysbus_connect_irq n irq (gpio_in_irq s) = Ok ins es \<Longrightarrow>
    gpio_reach (s\<lparr>gpio_in_irq := ins\<rparr>) lv"
| gr_reset: "gpio_reach s lv \<Longrightarrow> stm32_gpio_reset s = Ok s' es \<Longrightarrow> gpio_reach s' lv"
| gr_write: "gpio_reach s lv \<Longrightarrow> stm32_gpio_write rcc s offset v sz = Ok s' es \<Longrightarrow> gpio_reach s' lv"
| gr_trigger: "gpio_reach s lv \<Longrightarrow> stm32_gpio_in_trigger pin level s = Ok s' es \<Longrightarrow>
    gpio_reach s' (lv(pin := level \<noteq> 0))"

lemma gpio_reset_eq:
  "stm32_gpio_reset s = Ok (s\<lparr>GPIOx_CRy := [0x44444444, 0x44444444], GPIOx_ODR := 0, dir_mask := 0\<rparr>)
     (concat (map (\<lambda>pin. if gpio_out_irq s ! pin = IrqNull then [] else [SetIrq (gpio_out_irq s ! pin) 0]) [0 ..< 16]))"
  unfolding stm32_gpio_reset_def by (rule run_for_frame) (simp add: irq_defs)

lemma gpio_reset_wf:
  "gpio_wf s \<Longrightarrow> gpio_wf (s\<lparr>GPIOx_CRy := [0x44444444, 0x44444444], GPIOx_ODR := 0, dir_mask := 0\<rparr>)"
  using gpio_cfg0_input(1)
  by (auto simp: gpio_wf_def gpio_shape_def list_all_iff simp del: upt_rec_numeral)

lemma gpio_trigger_eq:
  assumes "stm32_gpio_in_trigger pin level s = Ok s' es"
  obtains w where "pin < 16" "s' = s\<lparr>in_pins := w\<rparr>"
    "\<forall>n. bit w n = (if n = pin then level \<noteq> 0 else bit (in_pins s) n)"
proof -
  define w where "w = (in_pins s AND NOT (push_bit pin 1) OR push_bit pin (if level \<noteq> 0 then 1 else 0))"
  have "pin < 16" "s' = s\<lparr>in_pins := w\<rparr>"
    using assms by (auto simp: stm32_gpio_in_trigger_def qemu_set_irq_def w_def split: if_split_asm)
  moreover have "bit w n = (if n = pin then level \<noteq> 0 else bit (in_pins s) n)" for n
    using \<open>pin < 16\<close> unfolding w_def bit_assign by simp
  ultimately show ?thesis using that by blast
qed

lemma gpio_write_in_pins:
  assumes "gpio_wf s" "stm32_gpio_write rcc s offset v sz = Ok s' es"
  shows "in_pins s' = in_pins s"
proof -
  obtain es' where ok: "gpio_write_reg offset v s = Ok s' es'"
    using assms(2) by (auto simp: stm32_gpio_write_def run_bind_eq_Ok split: if_splits)
  then have "offset \<in> set gpio_registers" using gpio_write_reg_bad [of offset v s] by (metis run.distinct(1))
  from gpio_write_reg_spec [OF assms(1) this, of v] obtain t es where
    t: "gpio_write_reg offset v s = Ok t es"
    "t = s\<lparr>GPIOx_ODR := GPIOx_ODR t, GPIOx_CRy := gpio_cr_next offset v (GPIOx_CRy s), dir_mask := dir_mask t\<rparr>"
    by blast
  have "in_pins t = in_pins s" by (subst t(2)) simp
  then show ?thesis using ok t(1) by simp
qed

lemma gpio_wf_frame:
  "gpio_wf s \<Longrightarrow> gpio_wf (s\<lparr>in_pins := w\<rparr>)"
  "gpio_wf s \<Longrightarrow> length outs = 16 \<Longrightarrow> gpio_wf (s\<lparr>gpio_out_irq := outs\<rparr>)"
  "gpio_wf s \<Longrightarrow> length ins = 16 \<Longrightarrow> gpio_wf (s\<lparr>gpio_in_irq := ins\<rparr>)"
  unfolding gpio_wf_def gpio_shape_def by simp_all

lemma gpio_wf_lengths: "gpio_wf s \<Longrightarrow> length (gpio_out_irq s) = 16 \<and> length (gpio_in_irq s) = 16"
  unfolding gpio_wf_def gpio_shape_def by simp

lemma connect_length:
  "qdev_connect_gpio_out n irq xs = Ok ys es \<Longrightarrow> length ys = length xs"
  "sysbus_connect_irq n irq xs = Ok ys es \<Longrightarrow> length ys = length xs"
  by (auto simp: qdev_connect_gpio_out_def sysbus_connect_irq_def split: if_split_asm)

lemma gpio_reach_inv: "gpio_reach s lv \<Longrightarrow> gpio_wf s \<and> (\<forall>n. bit (in_pins s) n = (n < 16 \<and> lv n))"
proof (induction rule: gpio_reach.induct)
  case (gr_init periph)
  show ?case using gpio_init_wf by (simp add: stm32_gpio_init_def)
next
  case (gr_out s lv n irq outs es)
  then show ?case using gpio_wf_lengths [of s] connect_length(1) [of n irq _ outs es] by (simp add: gpio_wf_frame)
next
  case (gr_in s lv n irq ins es)
  then show ?case using gpio_wf_lengths [of s] connect_length(2) [of n irq _ ins es] by (simp add: gpio_wf_frame)
next
  case (gr_write s lv rcc offset v sz s' es)
  then have "gpio_wf s'" using gpio_write_keeps [of s rcc offset v sz] by simp
  moreover have "in_pins s' = in_pins s" using gr_write gpio_write_in_pins [of s rcc offset v sz s' es] by blast
  ultimately show ?case using gr_write.IH by simp
next
  case (gr_trigger s lv pin level s' es)
  from gr_trigger.hyps(2) obtain w where w: "pin < 16" "s' = s\<lparr>in_pins := w\<rparr>"
    "\<forall>n. bit w n = (if n = pin then level \<noteq> 0 else bit (in_pins s) n)"
    by (rule gpio_trigger_eq)
  then show ?case using gr_trigger.IH gpio_wf_frame(1) [of s w] by simp
next
  case (gr_reset s lv s' es)
  then have "s' = s\<lparr>GPIOx_CRy := [0x44444444, 0x44444444], GPIOx_ODR := 0, dir_mask := 0\<rparr>"
    unfolding gpio_reset_eq by blast
  then show ?case using gr_reset.IH gpio_reset_wf [of s] by simp
qed

text \<open>
  On every port that was created, wired, reset, written by the guest and fed with input changes in
  any order, the direction mask is what the configuration registers say, the output register has no bit
  above 15, and reading IDR returns the last level of each input pin and zeros above.
\<close>

theorem gpio_reach_idr:
  assumes "gpio_reach s lv"
  shows "gpio_wf s \<and> (\<exists>w. stm32_gpio_read s GPIOx_IDR_OFFSET 4 = Ok w [] \<and> (\<forall>n. bit w n = (n < 16 \<and> lv n)))"
proof -
  have "stm32_gpio_read s GPIOx_IDR_OFFSET 4 = Ok (ucast (in_pins s)) []"
    by (simp add: stm32_gpio_read_def)
  moreover have "bit (ucast (in_pins s) :: u64) n = (n < 16 \<and> lv n)" for n
  proof -
    have "bit (ucast (in_pins s) :: u64) n \<longleftrightarrow> n < 64 \<and> bit (in_pins s) n" by (simp add: bit_ucast_iff)
    also have "\<dots> \<longleftrightarrow> n < 64 \<and> n < 16 \<and> lv n" using gpio_reach_inv [OF assms] by blast
    finally show ?thesis by linarith
  qed
  ultimately show ?thesis using gpio_reach_inv [OF assms] by blast
qed

theorem gpio_reach_idr_witness:
  "\<exists>s es w. stm32_gpio_in_trigger 5 1 (stm32_gpio_init STM32_GPIOA) = Ok s es \<and>
     stm32_gpio_read s GPIOx_IDR_OFFSET 4 = Ok w [] \<and> (\<forall>n. bit w n = (n = 5))"
proof -
  have "gpio_reach (stm32_gpio_init STM32_GPIOA) (\<lambda>pin. False)" by (rule gr_init)
  moreover obtain s es where s: "stm32_gpio_in_trigger 5 1 (stm32_gpio_init STM32_GPIOA) = Ok s es"
    by (simp add: stm32_gpio_in_trigger_def qemu_set_irq_def)
  ultimately have "gpio_reach s ((\<lambda>pin. False)(5 := (1 :: int) \<noteq> 0))" by (rule gr_trigger)
  then obtain w where "stm32_gpio_read s GPIOx_IDR_OFFSET 4 = Ok w []"
    "\<forall>n. bit w n = (n < 16 \<and> ((\<lambda>pin. False)(5 := (1 :: int) \<noteq> 0)) n)"
    using gpio_reach_idr by blast
  moreover have "n < 16 \<and> ((\<lambda>pin. False)(5 := (1 :: int) \<noteq> 0)) n \<longleftrightarrow> n = 5" for n :: nat
    by (cases "n = 5") simp_all
  ultimately show ?thesis using s by metis
qed

lemma ucast_ucast_low: "ucast (ucast v :: u32) = v AND 0xffffffff" for v :: u64
proof -
  have "v AND 0xffffffff = take_bit 32 v" by (simp add: take_bit_eq_mask mask_eq_exp_minus_1)
  then show ?thesis by (simp add: bit_eq_iff bit_ucast_iff bit_take_bit_iff)
qed

text \<open>
  A register reads back what was written: the configuration registers all 32 bits, the output
  register its low half; and the read itself changes nothing.
\<close>

theorem gpio_read_back:
  assumes "gpio_wf s" "stm32_gpio_write rcc s offset v 4 = Ok s' es"
    and "offset \<in> {GPIOx_CRL_OFFSET, GPIOx_CRH_OFFSET, GPIOx_ODR_OFFSET}"
  shows "stm32_gpio_read s' offset 4 = Ok (v AND (if offset = GPIOx_ODR_OFFSET then 0xffff else 0xffffffff)) []"
proof -
  obtain es' where ok: "gpio_write_reg offset v s = Ok s' es'"
    using assms(2) by (auto simp: stm32_gpio_write_def run_bind_eq_Ok)
  have "offset \<in> set gpio_registers" using assms(3) by (auto simp: gpio_registers_def)
  from gpio_write_reg_spec [OF assms(1) this, of v] ok
  have s': "s' = s\<lparr>GPIOx_ODR := GPIOx_ODR s', GPIOx_CRy := gpio_cr_next offset v (GPIOx_CRy s), dir_mask := dir_mask s'\<rparr>"
    "gpio_wf s'" "\<forall>pin<16. bit (GPIOx_ODR s') pin = gpio_odr_next offset v (GPIOx_ODR s) pin" by auto
  have cr: "GPIOx_CRy s' = gpio_cr_next offset v (GPIOx_CRy s)" by (subst s'(1)) simp
  have len: "length (GPIOx_CRy s) = 2" using assms(1) by (simp add: gpio_wf_def gpio_shape_def)
  have low: "ucast (ucast v :: u32) = v AND 0xffffffff" by (rule ucast_ucast_low)
  show ?thesis
  proof (cases "offset = GPIOx_ODR_OFFSET")
    case True
    have "ucast (GPIOx_ODR s') = v AND 0xffff"
    proof (rule bit_eqI)
      fix n
      show "bit (ucast (GPIOx_ODR s') :: u64) n = bit (v AND 0xffff) n"
        using s'(2,3) True unfolding bit_ucast_iff bit_ffff
        by (cases "n < 16") (auto simp: gpio_wf_def gpio_shape_def gpio_odr_next_def)
    qed
    then show ?thesis using True by (simp add: stm32_gpio_read_def)
  next
    case False
    then show ?thesis
      using assms(3) cr len low by (auto simp: stm32_gpio_read_def gpio_cr_next_def)
  qed
qed

theorem gpio_read_back_witness:
  "\<exists>rcc es. stm32_rcc_boot 8000000 32768 = Ok rcc es \<and> (\<exists>s' es'.
     stm32_gpio_write rcc gpio_example GPIOx_CRH_OFFSET 0x12345678 4 = Ok s' es' \<and>
     stm32_gpio_read s' GPIOx_CRH_OFFSET 4 = Ok 0x12345678 [])"
proof (rule rcc_boot_ex)
  fix rcc
  assume wf: "rcc_wf rcc"
  obtain s' es' where w: "stm32_gpio_write rcc gpio_example GPIOx_CRH_OFFSET 0x12345678 4 = Ok s' es'"
    using gpio_write_reg_spec [OF gpio_example_wf(1), of GPIOx_CRH_OFFSET "0x12345678"]
      gpio_write_checked [OF wf gpio_example_wf(2)]
    by (auto simp: gpio_registers_def)
  then show "\<exists>s' es'. stm32_gpio_write rcc gpio_example GPIOx_CRH_OFFSET 0x12345678 4 = Ok s' es' \<and>
     stm32_gpio_read s' GPIOx_CRH_OFFSET 4 = Ok 0x12345678 []"
    using gpio_read_back [OF gpio_example_wf(1) w] by simp
qed

text \<open>
  A write of the wrong size, to the lock register or outside the register map stops the emulator;
  no other write to a clocked port does.
\<close>

theorem gpio_write_stops_iff:
  assumes "gpio_wf s" "rcc_wf rcc" "rcc_has_clk (gpio_periph s)"
  shows "(\<exists>x es. stm32_gpio_write rcc s offset v sz = Stop x es) \<longleftrightarrow> sz \<noteq> 4 \<or> offset \<notin> set gpio_registers"
proof (cases "sz = 4")
  case True
  then show ?thesis
    using gpio_write_checked [OF assms(2,3), of offset v] gpio_write_reg_spec [OF assms(1), of offset v]
      gpio_write_reg_bad [of offset v s] by (cases "offset \<in> set gpio_registers") auto
qed (simp add: stm32_gpio_write_def)

theorem gpio_write_stops_iff_witness:
  "\<exists>rcc es. stm32_rcc_boot 8000000 32768 = Ok rcc es \<and>
     (\<exists>x es. stm32_gpio_write rcc gpio_example GPIOx_LCKR_OFFSET 1 4 = Stop x es) \<and>
     \<not> (\<exists>x es. stm32_gpio_write rcc gpio_example GPIOx_ODR_OFFSET 1 4 = Stop x es)"
proof (rule rcc_boot_ex)
  fix rcc
  assume wf: "rcc_wf rcc"
  have "GPIOx_LCKR_OFFSET \<notin> set gpio_registers" "GPIOx_ODR_OFFSET \<in> set gpio_registers"
    by (simp_all add: gpio_registers_def)
  then show "(\<exists>x es. stm32_gpio_write rcc gpio_example GPIOx_LCKR_OFFSET 1 4 = Stop x es) \<and>
     \<not> (\<exists>x es. stm32_gpio_write rcc gpio_example GPIOx_ODR_OFFSET 1 4 = Stop x es)"
    using gpio_write_stops_iff [OF gpio_example_wf(1) wf gpio_example_wf(2)] by blast
qed

end
