(* ===== verification/Exti.thy ===== *)
theory Exti
  imports Bitops Qdev Mmio
begin

text \<open>
  The external interrupt controller, \<open>hw/gpio/stm32_exti.c\<close>: one bit per line in each register, and ten
  output lines to the interrupt controller of the core, two of which are shared. The pointer to a
  trigger selection register that \<open>update_TSR_bit\<close> takes is a value of the type \<open>exti_tsr\<close>.
\<close>

section \<open>Registers and state\<close>

abbreviation (input) EXTI_IMR_OFFSET :: nat where "EXTI_IMR_OFFSET \<equiv> 0x0"
abbreviation (input) EXTI_EMR_OFFSET :: nat where "EXTI_EMR_OFFSET \<equiv> 0x4"
abbreviation (input) EXTI_RTSR_OFFSET :: nat where "EXTI_RTSR_OFFSET \<equiv> 0x8"
abbreviation (input) EXTI_FTSR_OFFSET :: nat where "EXTI_FTSR_OFFSET \<equiv> 0xc"
abbreviation (input) EXTI_SWIER_OFFSET :: nat where "EXTI_SWIER_OFFSET \<equiv> 0x10"
abbreviation (input) EXTI_PR_OFFSET :: nat where "EXTI_PR_OFFSET \<equiv> 0x14"
abbreviation (input) EXTI_LINE_COUNT :: nat where "EXTI_LINE_COUNT \<equiv> 20"
abbreviation (input) EXTI_IRQ_COUNT :: nat where "EXTI_IRQ_COUNT \<equiv> 10"

record Stm32Exti =
  EXTI_IMR :: u32
  EXTI_RTSR :: u32
  EXTI_FTSR :: u32
  EXTI_SWIER :: u32
  EXTI_PR :: u32
  exti_irq :: "qemu_irq list"

datatype exti_tsr = Rising | Falling

primrec exti_get_tsr :: "exti_tsr \<Rightarrow> Stm32Exti \<Rightarrow> u32" where
  "exti_get_tsr Rising s = EXTI_RTSR s"
| "exti_get_tsr Falling s = EXTI_FTSR s"

primrec exti_set_tsr :: "exti_tsr \<Rightarrow> u32 \<Rightarrow> Stm32Exti \<Rightarrow> Stm32Exti" where
  "exti_set_tsr Rising v s = s\<lparr>EXTI_RTSR := v\<rparr>"
| "exti_set_tsr Falling v s = s\<lparr>EXTI_FTSR := v\<rparr>"

section \<open>Pending register\<close>

definition exti_set_line :: "nat \<Rightarrow> int \<Rightarrow> Stm32Exti \<Rightarrow> Stm32Exti run" where
  "exti_set_line pos level s =
     (if pos \<le> 4 then qemu_set_irq (exti_irq s ! pos) level s
      else if pos \<le> 9 then qemu_set_irq (exti_irq s ! 5) level s
      else if pos \<le> 15 then qemu_set_irq (exti_irq s ! 6) level s
      else if pos = 16 then qemu_set_irq (exti_irq s ! 7) level s
      else if pos = 17 then qemu_set_irq (exti_irq s ! 8) level s
      else if pos = 18 then qemu_set_irq (exti_irq s ! 9) level s
      else Stop AssertFail [])"

definition stm32_exti_change_EXTI_PR_bit :: "nat \<Rightarrow> u32 \<Rightarrow> Stm32Exti \<Rightarrow> Stm32Exti run" where
  "stm32_exti_change_EXTI_PR_bit pos new_bit_value s =
     (if (new_bit_value = 0 \<or> new_bit_value = 1) \<and> pos < EXTI_LINE_COUNT
      then let old_bit_value = extract32 (EXTI_PR s) pos 1
           in if new_bit_value \<noteq> old_bit_value
              then run_seq
                [\<lambda>s. Ok (if new_bit_value = 0 then s\<lparr>EXTI_SWIER := EXTI_SWIER s AND NOT (BIT pos)\<rparr> else s) [],
                 exti_set_line pos (uint new_bit_value),
                 \<lambda>s. Ok (s\<lparr>EXTI_PR := deposit32 (EXTI_PR s) pos 1 new_bit_value\<rparr>) []] s
              else Ok s []
      else Stop AssertFail [])"

section \<open>Triggers\<close>

definition stm32_exti_trigger :: "nat \<Rightarrow> Stm32Exti \<Rightarrow> Stm32Exti run" where
  "stm32_exti_trigger line s =
     (if EXTI_IMR s AND BIT line \<noteq> 0 then stm32_exti_change_EXTI_PR_bit line 1 s else Ok s [])"

definition stm32_exti_gpio_in_handler :: "nat \<Rightarrow> int \<Rightarrow> Stm32Exti \<Rightarrow> Stm32Exti run" where
  "stm32_exti_gpio_in_handler pin level s =
     (if pin < STM32_GPIO_PIN_COUNT
      then if (level \<noteq> 0 \<and> EXTI_RTSR s AND BIT pin \<noteq> 0) \<or> (level = 0 \<and> EXTI_FTSR s AND BIT pin \<noteq> 0)
           then stm32_exti_trigger pin s else Ok s []
      else Stop AssertFail [])"

definition update_TSR_bit :: "exti_tsr \<Rightarrow> nat \<Rightarrow> u32 \<Rightarrow> Stm32Exti \<Rightarrow> Stm32Exti run" where
  "update_TSR_bit tsr_register pos new_bit_value s =
     (if (new_bit_value = 0 \<or> new_bit_value = 1) \<and> pos < EXTI_LINE_COUNT
      then run_seq
        [\<lambda>s. if new_bit_value \<noteq> extract32 (exti_get_tsr tsr_register s) pos 1
             then stm32_exti_change_EXTI_PR_bit pos 0 s else Ok s [],
         \<lambda>s. Ok (exti_set_tsr tsr_register
               (deposit32 (exti_get_tsr tsr_register s) pos 1 new_bit_value) s) []] s
      else Stop AssertFail [])"

section \<open>Register access\<close>

definition stm32_exti_read :: "Stm32Exti \<Rightarrow> nat \<Rightarrow> nat \<Rightarrow> u64 run" where
  "stm32_exti_read s offset sz =
     (if sz = 4 then
        if offset = EXTI_IMR_OFFSET then Ok (ucast (EXTI_IMR s)) []
        else if offset = EXTI_EMR_OFFSET then Ok 0 []
        else if offset = EXTI_RTSR_OFFSET then Ok (ucast (EXTI_RTSR s)) []
        else if offset = EXTI_FTSR_OFFSET then Ok (ucast (EXTI_FTSR s)) []
        else if offset = EXTI_SWIER_OFFSET then Ok (ucast (EXTI_SWIER s)) []
        else if offset = EXTI_PR_OFFSET then Ok (ucast (EXTI_PR s)) []
        else STM32_BAD_REG offset sz
      else Stop AssertFail [])"

definition exti_write_bit :: "nat \<Rightarrow> u64 \<Rightarrow> nat \<Rightarrow> Stm32Exti \<Rightarrow> Stm32Exti run" where
  "exti_write_bit offset value pos s =
     (let bit_value = extract32 (ucast value) pos 1
      in if offset = EXTI_RTSR_OFFSET then update_TSR_bit Rising pos bit_value s
         else if offset = EXTI_FTSR_OFFSET then update_TSR_bit Falling pos bit_value s
         else if offset = EXTI_SWIER_OFFSET
         then if bit_value = 1 \<and> EXTI_SWIER s AND BIT pos = 0
              then stm32_exti_trigger pos (s\<lparr>EXTI_SWIER := EXTI_SWIER s OR BIT pos\<rparr>) else Ok s []
         else if offset = EXTI_PR_OFFSET
         then if bit_value = 1 then stm32_exti_change_EXTI_PR_bit pos 0 s else Ok s []
         else STM32_BAD_REG offset 4)"

definition stm32_exti_write :: "Stm32Exti \<Rightarrow> nat \<Rightarrow> u64 \<Rightarrow> nat \<Rightarrow> Stm32Exti run" where
  "stm32_exti_write s offset value sz =
     (if sz = 4 then
        if offset \<le> EXTI_EMR_OFFSET then
          if offset = EXTI_IMR_OFFSET then Ok (s\<lparr>EXTI_IMR := ucast value\<rparr>) []
          else if offset = EXTI_EMR_OFFSET then Ok s []
          else STM32_BAD_REG offset sz
        else run_for [0 ..< EXTI_LINE_COUNT] (exti_write_bit offset value) s
      else Stop AssertFail [])"

section \<open>Reset and initialization\<close>

definition stm32_exti_reset :: "Stm32Exti \<Rightarrow> Stm32Exti run" where
  "stm32_exti_reset s =
     Ok (s\<lparr>EXTI_IMR := 0, EXTI_RTSR := 0, EXTI_FTSR := 0, EXTI_SWIER := 0, EXTI_PR := 0\<rparr>) []"

definition stm32_exti_init :: Stm32Exti where
  "stm32_exti_init =
     \<lparr>EXTI_IMR = 0, EXTI_RTSR = 0, EXTI_FTSR = 0, EXTI_SWIER = 0, EXTI_PR = 0,
      exti_irq = replicate EXTI_IRQ_COUNT IrqNull\<rparr>"

end
