(* ===== verification/Exti_Ops.thy ===== *)
theory Exti_Ops
  imports Exti
begin

text \<open>
  The external interrupt controller line by line. Each line has five bits; the specification gives the
  new bits of a line for a bit written to a register, and the lemmas show that the register loops of
  the code do this to every line independently, raising or lowering the output of a line exactly when
  its pending bit changes.
\<close>

record exti_line =
  ln_imr :: bool
  ln_rt :: bool
  ln_ft :: bool
  ln_sw :: bool
  ln_pr :: bool

definition exti_line_of :: "Stm32Exti \<Rightarrow> nat \<Rightarrow> exti_line" where
  "exti_line_of s n = \<lparr>ln_imr = bit (EXTI_IMR s) n, ln_rt = bit (EXTI_RTSR s) n, ln_ft = bit (EXTI_FTSR s) n,
     ln_sw = bit (EXTI_SWIER s) n, ln_pr = bit (EXTI_PR s) n\<rparr>"

definition ln_pend :: "bool \<Rightarrow> exti_line \<Rightarrow> exti_line" where
  "ln_pend b ln = (if ln_pr ln = b then ln else ln\<lparr>ln_pr := b, ln_sw := ln_sw ln \<and> b\<rparr>)"

definition ln_trigger :: "exti_line \<Rightarrow> exti_line" where
  "ln_trigger ln = (if ln_imr ln then ln_pend True ln else ln)"

definition ln_write :: "nat \<Rightarrow> bool \<Rightarrow> exti_line \<Rightarrow> exti_line" where
  "ln_write offset b ln =
     (if offset = EXTI_IMR_OFFSET then ln\<lparr>ln_imr := b\<rparr>
      else if offset = EXTI_RTSR_OFFSET then (if b \<noteq> ln_rt ln then ln_pend False ln else ln)\<lparr>ln_rt := b\<rparr>
      else if offset = EXTI_FTSR_OFFSET then (if b \<noteq> ln_ft ln then ln_pend False ln else ln)\<lparr>ln_ft := b\<rparr>
      else if offset = EXTI_SWIER_OFFSET then if b \<and> \<not> ln_sw ln then ln_trigger (ln\<lparr>ln_sw := True\<rparr>) else ln
      else if offset = EXTI_PR_OFFSET then if b then ln_pend False ln else ln
      else ln)"

text \<open>The NVIC output of a line, and what is sent to it when the pending bit changes.\<close>

definition exti_nvic :: "nat \<Rightarrow> nat" where
  "exti_nvic n = (if n \<le> 4 then n else if n \<le> 9 then 5 else if n \<le> 15 then 6 else n - 9)"

definition exti_event :: "qemu_irq list \<Rightarrow> nat \<Rightarrow> bool \<Rightarrow> bool \<Rightarrow> effect list" where
  "exti_event irqs n old new =
     (if old = new \<or> irqs ! exti_nvic n = IrqNull then []
      else [SetIrq (irqs ! exti_nvic n) (if new then 1 else 0)])"

definition exti_moves :: "(exti_line \<Rightarrow> exti_line) \<Rightarrow> nat \<Rightarrow> Stm32Exti \<Rightarrow> Stm32Exti run \<Rightarrow> bool" where
  "exti_moves f pos s r \<longleftrightarrow> (\<exists>s'. r = Ok s' (exti_event (exti_irq s) pos (bit (EXTI_PR s) pos) (bit (EXTI_PR s') pos))
     \<and> exti_irq s' = exti_irq s
     \<and> (\<forall>n. exti_line_of s' n = (if n = pos then f (exti_line_of s pos) else exti_line_of s n)))"

lemma exti_set_line_eq:
  assumes "pos < 19"
  shows "exti_set_line pos level s
     = Ok s (if exti_irq s ! exti_nvic pos = IrqNull then [] else [SetIrq (exti_irq s ! exti_nvic pos) level])"
proof -
  consider "pos \<le> 4" | "4 < pos" "pos \<le> 9" | "9 < pos" "pos \<le> 15" | "pos = 16" | "pos = 17" | "pos = 18"
    using assms by linarith
  then show ?thesis by cases (simp_all add: exti_set_line_def exti_nvic_def qemu_set_irq_def)
qed

lemma bit_deposit_bit:
  "pos < 32 \<Longrightarrow> bit (deposit32 w pos 1 (if b then 1 else 0)) n \<longleftrightarrow> (if n = pos then b else bit w n)"
  by (auto simp: bit_deposit32 bitfield_ok_def bit_1_iff)

lemma bit_clear_BIT: "bit (w AND NOT (BIT pos)) n \<longleftrightarrow> bit w n \<and> n \<noteq> pos" for w :: u32
  by (auto simp: bit_and_iff bit_not_iff bit_BIT dest: bit_imp_le_length)

lemma bit_set_BIT: "pos < 32 \<Longrightarrow> bit (w OR BIT pos) n \<longleftrightarrow> bit w n \<or> n = pos" for w :: u32
  by (auto simp: bit_or_iff bit_BIT)

lemma exti_pend:
  assumes "pos < 20" and "pos = 19 \<longrightarrow> bit (EXTI_PR s) 19 = b"
  shows "exti_moves (ln_pend b) pos s (stm32_exti_change_EXTI_PR_bit pos (if b then 1 else 0) s)"
proof (cases "bit (EXTI_PR s) pos = b")
  case True
  then have "stm32_exti_change_EXTI_PR_bit pos (if b then 1 else 0) s = Ok s []"
    using assms(1) by (simp add: stm32_exti_change_EXTI_PR_bit_def extract32_bit del: One_nat_def)
  then show ?thesis using True by (auto simp: exti_moves_def exti_event_def ln_pend_def exti_line_of_def)
next
  case False
  then have "pos < 19" using assms by (cases "pos = 19") auto
  let ?t = "if b then s else s\<lparr>EXTI_SWIER := EXTI_SWIER s AND NOT (BIT pos)\<rparr>"
  let ?s' = "?t\<lparr>EXTI_PR := deposit32 (EXTI_PR ?t) pos 1 (if b then 1 else 0)\<rparr>"
  have "stm32_exti_change_EXTI_PR_bit pos (if b then 1 else 0) s =
      Ok ?s' (exti_event (exti_irq s) pos (bit (EXTI_PR s) pos) b)"
    using False assms(1)
    by (simp add: stm32_exti_change_EXTI_PR_bit_def extract32_bit exti_set_line_eq [OF \<open>pos < 19\<close>] exti_event_def del: One_nat_def)
  moreover have "bit (EXTI_PR ?s') pos = b" using \<open>pos < 19\<close> by (simp add: bit_deposit_bit del: One_nat_def)
  moreover have "exti_line_of ?s' n = (if n = pos then ln_pend b (exti_line_of s pos) else exti_line_of s n)" for n
    using \<open>pos < 19\<close> False by (auto simp: exti_line_of_def ln_pend_def bit_deposit_bit bit_clear_BIT simp del: One_nat_def)
  ultimately show ?thesis unfolding exti_moves_def by (intro exI [of _ ?s']) auto
qed

lemma exti_movesI:
  assumes "exti_moves f pos s r" "f (exti_line_of s pos) = g (exti_line_of s pos)"
  shows "exti_moves g pos s r"
  using assms(1) unfolding exti_moves_def assms(2) .

lemma exti_moves_none: "exti_moves (\<lambda>ln. ln) pos s (Ok s [])"
  by (auto simp: exti_moves_def exti_event_def)

lemma exti_trigger:
  assumes "pos < 20" "pos = 19 \<longrightarrow> \<not> bit (EXTI_IMR s) 19 \<or> bit (EXTI_PR s) 19"
  shows "exti_moves ln_trigger pos s (stm32_exti_trigger pos s)"
proof (cases "bit (EXTI_IMR s) pos")
  case True
  then have "stm32_exti_trigger pos s = stm32_exti_change_EXTI_PR_bit pos (if True then 1 else 0) s"
    by (simp add: stm32_exti_trigger_def and_BIT_eq_0)
  moreover have "exti_moves (ln_pend True) pos s (stm32_exti_change_EXTI_PR_bit pos (if True then 1 else 0) s)"
    by (rule exti_pend) (use assms True in auto)
  ultimately show ?thesis
    using True by (auto intro!: exti_movesI [of "ln_pend True"] simp: ln_trigger_def exti_line_of_def)
next
  case False
  then show ?thesis
    by (auto intro!: exti_movesI [OF exti_moves_none] simp: stm32_exti_trigger_def and_BIT_eq_0 ln_trigger_def exti_line_of_def)
qed

text \<open>A later store to a selection bit of the same line, and an earlier one to its software bit.\<close>

definition exti_store_tsr :: "exti_tsr \<Rightarrow> nat \<Rightarrow> bool \<Rightarrow> Stm32Exti \<Rightarrow> Stm32Exti" where
  "exti_store_tsr r pos b s = exti_set_tsr r (deposit32 (exti_get_tsr r s) pos 1 (if b then 1 else 0)) s"

primrec ln_set_tsr :: "exti_tsr \<Rightarrow> bool \<Rightarrow> exti_line \<Rightarrow> exti_line" where
  "ln_set_tsr Rising b ln = ln\<lparr>ln_rt := b\<rparr>"
| "ln_set_tsr Falling b ln = ln\<lparr>ln_ft := b\<rparr>"

primrec ln_tsr :: "exti_tsr \<Rightarrow> exti_line \<Rightarrow> bool" where
  "ln_tsr Rising ln = ln_rt ln"
| "ln_tsr Falling ln = ln_ft ln"

lemma exti_store_tsr_line:
  "pos < 20 \<Longrightarrow> exti_line_of (exti_store_tsr r pos b s) n =
     (if n = pos then ln_set_tsr r b (exti_line_of s n) else exti_line_of s n)"
  "exti_irq (exti_store_tsr r pos b s) = exti_irq s" "EXTI_PR (exti_store_tsr r pos b s) = EXTI_PR s"
  by (cases r; simp add: exti_store_tsr_def exti_line_of_def bit_deposit_bit del: One_nat_def)+

lemma exti_update_TSR:
  assumes "pos < 20" "pos = 19 \<longrightarrow> \<not> bit (EXTI_PR s) 19"
  shows "exti_moves (\<lambda>ln. ln_set_tsr r b (if b \<noteq> ln_tsr r ln then ln_pend False ln else ln)) pos s
    (update_TSR_bit r pos (if b then 1 else 0) s)"
proof -
  have tsr: "extract32 (exti_get_tsr r s) pos 1 = (if ln_tsr r (exti_line_of s pos) then 1 else 0)"
    using assms(1) by (cases r) (simp_all add: extract32_bit exti_line_of_def del: One_nat_def)
  define q where "q = (if b \<noteq> ln_tsr r (exti_line_of s pos) then stm32_exti_change_EXTI_PR_bit pos (if False then 1 else 0) s else Ok s [])"
  have eq: "update_TSR_bit r pos (if b then 1 else 0) s = run_map (exti_store_tsr r pos b) q"
    using assms(1) tsr
    by (cases q) (auto simp: update_TSR_bit_def q_def exti_store_tsr_def simp del: One_nat_def split: if_splits)
  have "exti_moves (\<lambda>ln. if b \<noteq> ln_tsr r ln then ln_pend False ln else ln) pos s q"
  proof (cases "b \<noteq> ln_tsr r (exti_line_of s pos)")
    case True
    then show ?thesis using exti_pend [of pos s False] assms by (auto simp: q_def intro: exti_movesI)
  next
    case False
    then show ?thesis by (auto simp: q_def intro: exti_movesI [OF exti_moves_none])
  qed
  then show ?thesis
    unfolding eq exti_moves_def using exti_store_tsr_line(1) [OF assms(1)] exti_store_tsr_line(2,3) by auto
qed

section \<open>Register writes\<close>

definition exti_bit_registers :: "nat list" where
  "exti_bit_registers = [EXTI_RTSR_OFFSET, EXTI_FTSR_OFFSET, EXTI_SWIER_OFFSET, EXTI_PR_OFFSET]"

text \<open>Line 19 has no output: the code asserts when its pending bit would be set.\<close>

definition exti_fault :: "nat \<Rightarrow> u64 \<Rightarrow> Stm32Exti \<Rightarrow> bool" where
  "exti_fault offset v s \<longleftrightarrow> offset = EXTI_SWIER_OFFSET \<and> bit v 19 \<and> bit (EXTI_IMR s) 19 \<and> \<not> bit (EXTI_SWIER s) 19"

lemma extract32_ucast_bit: "pos < 32 \<Longrightarrow> extract32 (ucast v) pos 1 = (if bit v pos then 1 else 0)" for v :: u64
  by (simp add: extract32_bit bit_ucast_iff del: One_nat_def)

lemma exti_swier_bit:
  assumes "pos < 20" "pos = 19 \<longrightarrow> \<not> bit (EXTI_PR s) 19 \<and> \<not> bit (EXTI_IMR s) 19" "\<not> bit (EXTI_SWIER s) pos"
  shows "exti_moves (\<lambda>ln. ln_trigger (ln\<lparr>ln_sw := True\<rparr>)) pos s
     (stm32_exti_trigger pos (s\<lparr>EXTI_SWIER := EXTI_SWIER s OR BIT pos\<rparr>))"
proof -
  let ?t = "s\<lparr>EXTI_SWIER := EXTI_SWIER s OR BIT pos\<rparr>"
  have "exti_moves ln_trigger pos ?t (stm32_exti_trigger pos ?t)"
    by (rule exti_trigger) (use assms in auto)
  moreover have "exti_line_of ?t n = (if n = pos then (exti_line_of s n)\<lparr>ln_sw := True\<rparr> else exti_line_of s n)" for n
    using assms(1) by (simp add: exti_line_of_def bit_set_BIT)
  ultimately show ?thesis unfolding exti_moves_def by fastforce
qed

lemma exti_write_bit_moves:
  assumes "pos < 20" "offset \<in> set exti_bit_registers" "\<not> bit (EXTI_PR s) 19" "pos = 19 \<longrightarrow> \<not> exti_fault offset v s"
  shows "exti_moves (ln_write offset (bit v pos)) pos s (exti_write_bit offset v pos s)"
proof -
  have ex: "extract32 (ucast v) pos 1 = (if bit v pos then 1 else 0)"
    using assms(1) by (simp add: extract32_ucast_bit del: One_nat_def)
  consider (r) "offset = EXTI_RTSR_OFFSET" | (f) "offset = EXTI_FTSR_OFFSET" | (w) "offset = EXTI_SWIER_OFFSET"
    | (p) "offset = EXTI_PR_OFFSET"
    using assms(2) by (auto simp: exti_bit_registers_def)
  then show ?thesis
  proof cases
    case r
    then have "exti_write_bit offset v pos s = update_TSR_bit Rising pos (if bit v pos then 1 else 0) s"
      by (simp add: exti_write_bit_def ex del: One_nat_def)
    then show ?thesis
      using exti_update_TSR [of pos s Rising "bit v pos"] assms(1,3) r
      by (auto simp: ln_write_def intro: exti_movesI)
  next
    case f
    then have "exti_write_bit offset v pos s = update_TSR_bit Falling pos (if bit v pos then 1 else 0) s"
      by (simp add: exti_write_bit_def ex del: One_nat_def)
    then show ?thesis
      using exti_update_TSR [of pos s Falling "bit v pos"] assms(1,3) f
      by (auto simp: ln_write_def intro: exti_movesI)
  next
    case w
    show ?thesis
    proof (cases "bit v pos \<and> \<not> bit (EXTI_SWIER s) pos")
      case True
      then have "exti_write_bit offset v pos s = stm32_exti_trigger pos (s\<lparr>EXTI_SWIER := EXTI_SWIER s OR BIT pos\<rparr>)"
        using w by (simp add: exti_write_bit_def ex and_BIT_eq_0 del: One_nat_def)
      moreover have "pos = 19 \<longrightarrow> \<not> bit (EXTI_PR s) 19 \<and> \<not> bit (EXTI_IMR s) 19"
        using assms(3,4) True w by (auto simp: exti_fault_def)
      then have "exti_moves (\<lambda>ln. ln_trigger (ln\<lparr>ln_sw := True\<rparr>)) pos s
          (stm32_exti_trigger pos (s\<lparr>EXTI_SWIER := EXTI_SWIER s OR BIT pos\<rparr>))"
        using True by (intro exti_swier_bit assms(1)) blast+
      ultimately show ?thesis
        using True w by (auto simp: ln_write_def exti_line_of_def elim!: exti_movesI)
    next
      case False
      then have "exti_write_bit offset v pos s = Ok s []"
        using w by (auto simp: exti_write_bit_def ex and_BIT_eq_0 simp del: One_nat_def)
      then show ?thesis
        using False w by (auto simp: ln_write_def exti_line_of_def intro: exti_movesI [OF exti_moves_none])
    qed
  next
    case p
    show ?thesis
    proof (cases "bit v pos")
      case True
      then have "exti_write_bit offset v pos s = stm32_exti_change_EXTI_PR_bit pos (if False then 1 else 0) s"
        using p by (simp add: exti_write_bit_def ex del: One_nat_def)
      then show ?thesis
        using exti_pend [of pos s False] assms(1,3) True p by (auto simp: ln_write_def intro: exti_movesI)
    next
      case False
      then have "exti_write_bit offset v pos s = Ok s []"
        using p by (simp add: exti_write_bit_def ex del: One_nat_def)
      then show ?thesis using False p by (auto simp: ln_write_def intro: exti_movesI [OF exti_moves_none])
    qed
  qed
qed

text \<open>The loop over the lines: every line moves on its own, and the events come in the order of the lines.\<close>

lemma exti_moves_Ok:
  assumes "exti_moves f pos s r"
  obtains s' where "r = Ok s' (exti_event (exti_irq s) pos (bit (EXTI_PR s) pos) (bit (EXTI_PR s') pos))"
    "exti_irq s' = exti_irq s"
    "\<forall>n. exti_line_of s' n = (if n = pos then f (exti_line_of s pos) else exti_line_of s n)"
  using assms unfolding exti_moves_def by blast

lemma exti_line_of_sel:
  "ln_imr (exti_line_of s n) = bit (EXTI_IMR s) n" "ln_sw (exti_line_of s n) = bit (EXTI_SWIER s) n"
  "ln_pr (exti_line_of s n) = bit (EXTI_PR s) n"
  "ln_rt (exti_line_of s n) = bit (EXTI_RTSR s) n" "ln_ft (exti_line_of s n) = bit (EXTI_FTSR s) n"
  by (simp_all add: exti_line_of_def)

lemma exti_same_line:
  assumes "exti_line_of s' n = exti_line_of s n"
  shows "bit (EXTI_IMR s') n = bit (EXTI_IMR s) n" "bit (EXTI_SWIER s') n = bit (EXTI_SWIER s) n"
    "bit (EXTI_PR s') n = bit (EXTI_PR s) n"
  using assms by (simp_all add: exti_line_of_def)

definition ln_quiet :: "nat \<Rightarrow> bool \<Rightarrow> exti_line \<Rightarrow> bool" where
  "ln_quiet offset b ln \<longleftrightarrow> \<not> ln_pr ln \<and> \<not> (offset = EXTI_SWIER_OFFSET \<and> b \<and> ln_imr ln \<and> \<not> ln_sw ln)"

lemma ln_quiet_write: "ln_quiet offset b ln \<Longrightarrow> ln_quiet offset b (ln_write offset b ln)"
  by (auto simp: ln_quiet_def ln_write_def ln_pend_def ln_trigger_def)

lemma ln_quiet_19: "ln_quiet offset (bit v 19) (exti_line_of s 19) \<longleftrightarrow> \<not> bit (EXTI_PR s) 19 \<and> \<not> exti_fault offset v s"
  by (auto simp: ln_quiet_def exti_fault_def exti_line_of_sel)

lemma exti_write_loop:
  assumes "\<forall>p\<in>set ps. p < 20" "distinct ps" "offset \<in> set exti_bit_registers" "\<not> bit (EXTI_PR s) 19"
    and "\<not> exti_fault offset v s"
  shows "\<exists>s'. run_for ps (exti_write_bit offset v) s =
      Ok s' (concat (map (\<lambda>n. exti_event (exti_irq s) n (bit (EXTI_PR s) n) (bit (EXTI_PR s') n)) ps))
    \<and> exti_irq s' = exti_irq s
    \<and> (\<forall>n. exti_line_of s' n = (if n \<in> set ps then ln_write offset (bit v n) (exti_line_of s n) else exti_line_of s n))"
  using assms
proof (induction ps arbitrary: s)
  case Nil
  show ?case by simp
next
  case (Cons p ps)
  have "exti_moves (ln_write offset (bit v p)) p s (exti_write_bit offset v p s)"
    by (rule exti_write_bit_moves) (use Cons.prems in auto)
  then obtain t where t: "exti_write_bit offset v p s =
      Ok t (exti_event (exti_irq s) p (bit (EXTI_PR s) p) (bit (EXTI_PR t) p))" "exti_irq t = exti_irq s"
    "\<forall>n. exti_line_of t n = (if n = p then ln_write offset (bit v p) (exti_line_of s p) else exti_line_of s n)"
    by (rule exti_moves_Ok)
  have "ln_quiet offset (bit v 19) (exti_line_of s 19)" using Cons.prems(4,5) by (simp add: ln_quiet_19)
  then have "ln_quiet offset (bit v 19) (exti_line_of t 19)"
    using t(3) ln_quiet_write by (cases "p = 19") auto
  then have "\<not> bit (EXTI_PR t) 19 \<and> \<not> exti_fault offset v t" by (rule ln_quiet_19 [THEN iffD1])
  then obtain s' where s': "run_for ps (exti_write_bit offset v) t =
      Ok s' (concat (map (\<lambda>n. exti_event (exti_irq t) n (bit (EXTI_PR t) n) (bit (EXTI_PR s') n)) ps))"
    "exti_irq s' = exti_irq t"
    "\<forall>n. exti_line_of s' n = (if n \<in> set ps then ln_write offset (bit v n) (exti_line_of t n) else exti_line_of t n)"
    using Cons.IH [of t] Cons.prems by auto
  have same: "bit (EXTI_PR t) n = bit (EXTI_PR s) n" if "n \<in> set ps" for n
    using t(3) Cons.prems(2) that by (intro exti_same_line(3)) auto
  have "bit (EXTI_PR s') p = bit (EXTI_PR t) p"
    using s'(3) Cons.prems(2) by (intro exti_same_line(3)) auto
  moreover have "map (\<lambda>n. exti_event (exti_irq t) n (bit (EXTI_PR t) n) (bit (EXTI_PR s') n)) ps
      = map (\<lambda>n. exti_event (exti_irq s) n (bit (EXTI_PR s) n) (bit (EXTI_PR s') n)) ps"
    using same t(2) by simp
  then have "run_for ps (exti_write_bit offset v) t =
      Ok s' (concat (map (\<lambda>n. exti_event (exti_irq s) n (bit (EXTI_PR s) n) (bit (EXTI_PR s') n)) ps))"
    using s'(1) by (simp only:)
  ultimately show ?case
    using t s'(2,3) Cons.prems(2) by (intro exI [of _ s']) auto
qed

definition exti_registers :: "nat list" where
  "exti_registers = EXTI_IMR_OFFSET # EXTI_EMR_OFFSET # exti_bit_registers"

definition exti_wf :: "Stm32Exti \<Rightarrow> bool" where
  "exti_wf s \<longleftrightarrow> length (exti_irq s) = EXTI_IRQ_COUNT \<and> \<not> bit (EXTI_PR s) 19"

lemma ln_write_keeps_pr: "offset \<notin> set exti_bit_registers \<Longrightarrow> ln_pr (ln_write offset b ln) = ln_pr ln"
  by (simp add: ln_write_def exti_bit_registers_def)

lemma exti_write_spec:
  assumes "exti_wf s" "offset \<in> set exti_registers" "\<not> exti_fault offset v s"
  shows "\<exists>s'. stm32_exti_write s offset v 4 =
      Ok s' (concat (map (\<lambda>n. exti_event (exti_irq s) n (bit (EXTI_PR s) n) (bit (EXTI_PR s') n)) [0 ..< 20]))
    \<and> exti_irq s' = exti_irq s \<and> exti_wf s'
    \<and> (\<forall>n<20. exti_line_of s' n = ln_write offset (bit v n) (exti_line_of s n))"
proof (cases "offset \<in> set exti_bit_registers")
  case True
  have pr: "\<not> bit (EXTI_PR s) 19" using assms(1) by (simp add: exti_wf_def)
  obtain s' where s': "run_for [0 ..< 20] (exti_write_bit offset v) s =
      Ok s' (concat (map (\<lambda>n. exti_event (exti_irq s) n (bit (EXTI_PR s) n) (bit (EXTI_PR s') n)) [0 ..< 20]))"
    "exti_irq s' = exti_irq s"
    "\<forall>n. exti_line_of s' n = (if n \<in> set [0 ..< 20] then ln_write offset (bit v n) (exti_line_of s n) else exti_line_of s n)"
    using exti_write_loop [OF _ _ True pr assms(3), of "[0 ..< 20]"] by (auto simp del: upt_rec_numeral)
  have "ln_quiet offset (bit v 19) (exti_line_of s 19)" using pr assms(3) by (simp add: ln_quiet_19)
  then have "ln_quiet offset (bit v 19) (exti_line_of s' 19)"
    using s'(3) ln_quiet_write by (simp del: upt_rec_numeral)
  then have "\<not> bit (EXTI_PR s') 19" unfolding ln_quiet_19 by blast
  then have "exti_wf s'" using assms(1) s'(2) by (simp add: exti_wf_def)
  moreover have "stm32_exti_write s offset v 4 = run_for [0 ..< 20] (exti_write_bit offset v) s"
    using True by (auto simp: stm32_exti_write_def exti_bit_registers_def simp del: upt_rec_numeral)
  ultimately show ?thesis using s' by (intro exI [of _ s']) (simp del: upt_rec_numeral)
next
  case False
  then have off: "offset = EXTI_IMR_OFFSET \<or> offset = EXTI_EMR_OFFSET"
    using assms(2) by (auto simp: exti_registers_def)
  let ?s' = "if offset = EXTI_IMR_OFFSET then s\<lparr>EXTI_IMR := ucast v\<rparr> else s"
  have none: "concat (map (\<lambda>n. exti_event (exti_irq s) n (bit (EXTI_PR s) n) (bit (EXTI_PR s) n)) [0 ..< 20]) = []"
    by (simp add: exti_event_def)
  have "stm32_exti_write s offset v 4 = Ok ?s' []"
    using off by (auto simp: stm32_exti_write_def)
  moreover have "exti_line_of ?s' n = ln_write offset (bit v n) (exti_line_of s n)" if "n < 20" for n
    using off that by (auto simp: exti_line_of_def ln_write_def bit_ucast_iff)
  ultimately show ?thesis
    using assms(1) none by (intro exI [of _ ?s']) (auto simp: exti_wf_def simp del: upt_rec_numeral)
qed

section \<open>Faults\<close>

lemma exti_write_bad:
  assumes "sz \<noteq> 4 \<or> offset \<notin> set exti_registers"
  shows "\<exists>x. stm32_exti_write s offset v sz = Stop x []"
proof (cases "sz = 4 \<and> EXTI_EMR_OFFSET < offset")
  case True
  then have "exti_write_bit offset v 0 s = STM32_BAD_REG offset 4"
    using assms by (auto simp: exti_write_bit_def exti_registers_def exti_bit_registers_def)
  then show ?thesis
    using True by (simp add: stm32_exti_write_def reg_error_defs upt_rec [of 0])
qed (use assms in \<open>auto simp: stm32_exti_write_def exti_registers_def reg_error_defs\<close>)

lemma exti_fault_stops:
  assumes "exti_wf s" "exti_fault offset v s"
  shows "\<exists>es. stm32_exti_write s offset v 4 = Stop AssertFail es"
proof -
  have off: "offset = EXTI_SWIER_OFFSET" using assms(2) by (simp add: exti_fault_def)
  have pr: "\<not> bit (EXTI_PR s) 19" using assms(1) by (simp add: exti_wf_def)
  let ?v = "v AND NOT (BIT 19)"
  have bits: "bit ?v n \<longleftrightarrow> bit v n \<and> n \<noteq> 19" for n
    by (auto simp: bit_and_iff bit_not_iff bit_BIT dest: bit_imp_le_length)
  have same: "exti_write_bit offset v p = exti_write_bit offset ?v p" if "p < 19" for p
    using that by (auto simp: exti_write_bit_def extract32_ucast_bit bits fun_eq_iff simp del: One_nat_def)
  have "run_for ps (exti_write_bit offset v) t = run_for ps (exti_write_bit offset ?v) t"
    if "\<forall>p\<in>set ps. p < 19" for ps t
    using that
  proof (induction ps arbitrary: t)
    case (Cons p ps)
    then show ?case using same [of p] by (cases "exti_write_bit offset ?v p t") auto
  qed simp
  then have lower: "run_for [0 ..< 19] (exti_write_bit offset v) s = run_for [0 ..< 19] (exti_write_bit offset ?v) s"
    by (simp del: upt_rec_numeral)
  have "\<not> exti_fault offset ?v s" using bits by (simp add: exti_fault_def)
  then obtain t es where t: "run_for [0 ..< 19] (exti_write_bit offset ?v) s = Ok t es"
    "exti_line_of t 19 = exti_line_of s 19"
    using exti_write_loop [of "[0 ..< 19]" offset s ?v] pr off
    by (auto simp: exti_bit_registers_def simp del: upt_rec_numeral)
  note line = exti_same_line [OF t(2)]
  have "exti_write_bit offset v 19 t = Stop AssertFail []"
    using assms(2) pr line off
    by (simp add: exti_write_bit_def exti_fault_def extract32_ucast_bit and_BIT_eq_0 stm32_exti_trigger_def
        stm32_exti_change_EXTI_PR_bit_def extract32_bit exti_set_line_def bit_ucast_iff del: One_nat_def)
  moreover have "[0 ..< 20] = [0 ..< 19] @ [19]" by (simp add: upt_conv_Cons)
  ultimately show ?thesis
    using off lower t(1) by (simp add: stm32_exti_write_def run_for_append del: upt_rec_numeral)
qed

end
