(* ===== verification/Exti_Props.thy ===== *)
theory Exti_Props
  imports Exti_Ops
begin

text \<open>
  The properties of the external interrupt controller: register writes line by line, edges of the
  input pins, the accesses that stop the emulator, and how the outputs to the interrupt controller of
  the core follow the pending bits.
\<close>

section \<open>Register writes\<close>

lemma exti_write_keeps:
  assumes "exti_wf s"
  shows "run_sat (\<lambda>s' _. exti_wf s') (stm32_exti_write s offset v sz)"
proof (cases "sz = 4 \<and> offset \<in> set exti_registers")
  case True
  then show ?thesis
    using exti_write_spec [OF assms, of offset v] exti_fault_stops [OF assms, of offset v]
    by (cases "exti_fault offset v s") auto
next
  case False
  then show ?thesis using exti_write_bad [of sz offset s v] by auto
qed

interpretation exti_dev: mmio_device exti_wf "pure_read stm32_exti_read" stm32_exti_write
  by unfold_locales (rule pure_read_keeps, assumption, rule exti_write_keeps)

text \<open>
  C10: a write to a register of the controller treats each of the twenty lines independently, as the
  per-line specification says: masks are stored, a changed edge selection clears the pending bit, a new
  software bit makes an unmasked line pending, a one written to the pending register clears pending and
  software bit. The output of a line is driven, in the order of the lines, exactly when its pending bit
  changes.
\<close>

theorem exti_write_refines:
  assumes "exti_wf s" "offset \<in> set exti_registers" "\<not> exti_fault offset v s"
  shows "\<exists>s'. stm32_exti_write s offset v 4 =
      Ok s' (concat (map (\<lambda>n. exti_event (exti_irq s) n (bit (EXTI_PR s) n) (bit (EXTI_PR s') n)) [0 ..< EXTI_LINE_COUNT]))
    \<and> exti_wf s'
    \<and> (\<forall>n<EXTI_LINE_COUNT. exti_line_of s' n = ln_write offset (bit v n) (exti_line_of s n))"
  using exti_write_spec [OF assms] by blast

text \<open>A controller wired to the NVIC, with line 5 unmasked.\<close>

definition exti_example :: Stm32Exti where
  "exti_example = stm32_exti_init\<lparr>EXTI_IMR := 0x20, EXTI_RTSR := 0x20, exti_irq := map IrqNvic [0 ..< 10]\<rparr>"

lemma exti_example_wf: "exti_wf exti_example"
  by (simp add: exti_example_def stm32_exti_init_def exti_wf_def)

lemma exti_example_bits:
  "bit (EXTI_IMR exti_example) 5" "bit (EXTI_RTSR exti_example) 5" "\<not> bit (EXTI_IMR exti_example) 0"
  "\<not> bit (EXTI_IMR exti_example) 19" "EXTI_PR exti_example = 0" "EXTI_SWIER exti_example = 0"
  by code_simp+

theorem exti_write_refines_witness:
  "\<exists>s' es. stm32_exti_write exti_example EXTI_SWIER_OFFSET 0x21 4 = Ok s' es \<and>
     bit (EXTI_SWIER s') 0 \<and> \<not> bit (EXTI_PR s') 0 \<and> bit (EXTI_PR s') 5"
proof -
  have v: "bit (0x21 :: u64) 0" "bit (0x21 :: u64) 5" by code_simp+
  have "EXTI_SWIER_OFFSET \<in> set exti_registers" by (simp add: exti_registers_def exti_bit_registers_def)
  moreover have "\<not> exti_fault EXTI_SWIER_OFFSET 0x21 exti_example"
    using exti_example_bits(4) by (simp add: exti_fault_def)
  ultimately obtain s' es where s': "stm32_exti_write exti_example EXTI_SWIER_OFFSET 0x21 4 = Ok s' es"
    "\<forall>n<EXTI_LINE_COUNT. exti_line_of s' n = ln_write EXTI_SWIER_OFFSET (bit (0x21 :: u64) n) (exti_line_of exti_example n)"
    using exti_write_refines [OF exti_example_wf] by blast
  have "exti_line_of s' 0 = ln_write EXTI_SWIER_OFFSET True (exti_line_of exti_example 0)"
    "exti_line_of s' 5 = ln_write EXTI_SWIER_OFFSET True (exti_line_of exti_example 5)"
    using s'(2) v by simp_all
  then have "bit (EXTI_SWIER s') 0 \<and> \<not> bit (EXTI_PR s') 0 \<and> bit (EXTI_PR s') 5"
    unfolding exti_line_of_sel [symmetric] using exti_example_bits
    by (simp add: ln_write_def ln_trigger_def ln_pend_def exti_line_of_sel)
  then show ?thesis using s'(1) by blast
qed

text \<open>
  C31: a write stops the emulator exactly when its size is not four, its offset is no register, or it
  requests a software interrupt on the unmasked line 19, which has no output.
\<close>

theorem exti_write_stops_iff:
  assumes "exti_wf s"
  shows "(\<exists>x es. stm32_exti_write s offset v sz = Stop x es)
    \<longleftrightarrow> sz \<noteq> 4 \<or> offset \<notin> set exti_registers \<or> exti_fault offset v s"
proof (cases "sz = 4 \<and> offset \<in> set exti_registers")
  case True
  then show ?thesis
    using exti_write_spec [OF assms, of offset v] exti_fault_stops [OF assms, of offset v]
    by (cases "exti_fault offset v s") auto
next
  case False
  then show ?thesis using exti_write_bad [of sz offset s v] by auto
qed

theorem exti_write_stops_iff_witness:
  "(\<exists>x es. stm32_exti_write (exti_example\<lparr>EXTI_IMR := 0x80000\<rparr>) EXTI_SWIER_OFFSET 0x80000 4 = Stop x es) \<and>
   \<not> (\<exists>x es. stm32_exti_write exti_example EXTI_SWIER_OFFSET 0x80000 4 = Stop x es)"
proof -
  have wf: "exti_wf (exti_example\<lparr>EXTI_IMR := 0x80000\<rparr>)" using exti_example_wf by (simp add: exti_wf_def)
  have "bit (0x80000 :: u64) 19" "bit (0x80000 :: u32) 19" by code_simp+
  then have "exti_fault EXTI_SWIER_OFFSET 0x80000 (exti_example\<lparr>EXTI_IMR := 0x80000\<rparr>)"
    "\<not> exti_fault EXTI_SWIER_OFFSET 0x80000 exti_example"
    using exti_example_bits(4,6) by (simp_all add: exti_fault_def)
  moreover have "EXTI_SWIER_OFFSET \<in> set exti_registers" by (simp add: exti_registers_def exti_bit_registers_def)
  ultimately show ?thesis
    using exti_write_stops_iff [OF wf, of EXTI_SWIER_OFFSET "0x80000" 4]
      exti_write_stops_iff [OF exti_example_wf, of EXTI_SWIER_OFFSET "0x80000" 4] by blast
qed

section \<open>Edges\<close>

definition ln_edge :: "int \<Rightarrow> exti_line \<Rightarrow> exti_line" where
  "ln_edge level ln = (if if level \<noteq> 0 then ln_rt ln else ln_ft ln then ln_trigger ln else ln)"

lemma exti_edge_moves:
  assumes "pin < 16"
  shows "exti_moves (ln_edge level) pin s (stm32_exti_gpio_in_handler pin level s)"
proof (cases "if level \<noteq> 0 then bit (EXTI_RTSR s) pin else bit (EXTI_FTSR s) pin")
  case True
  then have "stm32_exti_gpio_in_handler pin level s = stm32_exti_trigger pin s"
    using assms by (auto simp: stm32_exti_gpio_in_handler_def and_BIT_eq_0 split: if_splits)
  then show ?thesis
    using exti_trigger [of pin s] assms True
    by (auto elim!: exti_movesI simp: ln_edge_def exti_line_of_sel split: if_splits)
next
  case False
  then have "stm32_exti_gpio_in_handler pin level s = Ok s []"
    using assms by (auto simp: stm32_exti_gpio_in_handler_def and_BIT_eq_0 split: if_splits)
  then show ?thesis
    using False by (auto intro!: exti_movesI [OF exti_moves_none] simp: ln_edge_def exti_line_of_sel split: if_splits)
qed

text \<open>
  A change of an input pin touches only its own line; the line becomes pending exactly when it
  already was, or it is unmasked and the edge is selected; and its output is raised exactly when it was
  not pending before.
\<close>

theorem exti_edge:
  assumes "pin < STM32_GPIO_PIN_COUNT"
  shows "\<exists>s'. stm32_exti_gpio_in_handler pin level s =
      Ok s' (exti_event (exti_irq s) pin (bit (EXTI_PR s) pin) (bit (EXTI_PR s') pin))
    \<and> (bit (EXTI_PR s') pin \<longleftrightarrow> bit (EXTI_PR s) pin \<or>
         bit (EXTI_IMR s) pin \<and> (if level \<noteq> 0 then bit (EXTI_RTSR s) pin else bit (EXTI_FTSR s) pin))
    \<and> (\<forall>n. n \<noteq> pin \<longrightarrow> exti_line_of s' n = exti_line_of s n)"
proof -
  obtain s' where s': "stm32_exti_gpio_in_handler pin level s =
      Ok s' (exti_event (exti_irq s) pin (bit (EXTI_PR s) pin) (bit (EXTI_PR s') pin))"
    "\<forall>n. exti_line_of s' n = (if n = pin then ln_edge level (exti_line_of s pin) else exti_line_of s n)"
    using exti_edge_moves [OF assms, of level s] by (rule exti_moves_Ok)
  have "ln_pr (exti_line_of s' pin) = ln_pr (ln_edge level (exti_line_of s pin))" using s'(2) by simp
  then have "bit (EXTI_PR s') pin \<longleftrightarrow> bit (EXTI_PR s) pin \<or>
      bit (EXTI_IMR s) pin \<and> (if level \<noteq> 0 then bit (EXTI_RTSR s) pin else bit (EXTI_FTSR s) pin)"
    by (auto simp: exti_line_of_sel ln_edge_def ln_trigger_def ln_pend_def split: if_splits)
  then show ?thesis using s' by auto
qed

theorem exti_edge_witness:
  "\<exists>s' es. stm32_exti_gpio_in_handler 5 1 exti_example = Ok s' es \<and> bit (EXTI_PR s') 5"
  using exti_edge [of 5 1 exti_example] exti_example_bits(1,2) by auto

section \<open>Outputs\<close>

text \<open>The ten outputs are connected to different inputs of the interrupt controller.\<close>

definition exti_wired :: "Stm32Exti \<Rightarrow> bool" where
  "exti_wired s \<longleftrightarrow> length (exti_irq s) = EXTI_IRQ_COUNT \<and> distinct (exti_irq s) \<and> IrqNull \<notin> set (exti_irq s)"

text \<open>Levels of the ten outputs after some effects.\<close>

definition exti_levels :: "Stm32Exti \<Rightarrow> effect list \<Rightarrow> (nat \<Rightarrow> int) \<Rightarrow> nat \<Rightarrow> int" where
  "exti_levels s es lv k = (if k < EXTI_IRQ_COUNT then line_level (exti_irq s ! k) es (lv k) else lv k)"


lemma exti_nvic_less: "n < 19 \<Longrightarrow> exti_nvic n < 10"
  by (auto simp: exti_nvic_def)


lemma exti_levels_event:
  assumes "exti_wired s" "n < 19"
  shows "exti_levels s (exti_event (exti_irq s) n old new) lv =
    (if old = new then lv else lv(exti_nvic n := if new then 1 else 0))"
proof
  fix k
  have "k < 10 \<Longrightarrow> exti_irq s ! exti_nvic n = exti_irq s ! k \<longleftrightarrow> k = exti_nvic n"
    using assms exti_nvic_less [OF assms(2)] by (auto simp: exti_wired_def nth_eq_iff_index_eq)
  moreover have "exti_irq s ! exti_nvic n \<noteq> IrqNull"
    using assms exti_nvic_less [OF assms(2)] by (metis exti_wired_def nth_mem)
  ultimately show "exti_levels s (exti_event (exti_irq s) n old new) lv k =
      (if old = new then lv else lv(exti_nvic n := if new then 1 else 0)) k"
    using exti_nvic_less [OF assms(2)] by (auto simp: exti_levels_def exti_event_def)
qed

lemma exti_levels_Nil [simp]: "exti_levels s [] lv = lv"
  by (auto simp: exti_levels_def)





lemma exti_levels_cong: "exti_irq s = exti_irq t \<Longrightarrow> exti_levels s = exti_levels t"
  by (simp add: fun_eq_iff exti_levels_def)









lemma exti_example_wired: "exti_wired exti_example"
  by (auto simp: exti_wired_def exti_example_def distinct_map inj_on_def simp del: upt_rec_numeral)


lemma concat_map_single:
  assumes "n < k" "\<And>i. i < k \<Longrightarrow> i \<noteq> n \<Longrightarrow> f i = []"
  shows "concat (map f [0 ..< k]) = f n"
proof -
  have "[0 ..< k] = [0 ..< n] @ n # [Suc n ..< k]"
    using assms(1) by (metis le_add_diff_inverse less_imp_le_nat upt_add_eq_append upt_conv_Cons zero_le)
  moreover have "concat (map f [0 ..< n]) = []" "concat (map f [Suc n ..< k]) = []"
    using assms by auto
  ultimately show ?thesis by (simp del: concat_eq_Nil_conv)
qed

text \<open>
  C33: when two lines that share an output are pending, acknowledging one of them lowers the shared
  output although the other line stays pending, and further edges on that other line do not raise it.
\<close>

theorem exti_shared_line_lost:
  assumes "exti_wf s" "exti_wired s" "n < 16" "m < 16" "n \<noteq> m" "exti_nvic n = exti_nvic m"
    and "bit (EXTI_PR s) n" "bit (EXTI_PR s) m"
  shows "\<exists>s' es. stm32_exti_write s EXTI_PR_OFFSET (BIT n) 4 = Ok s' es \<and> bit (EXTI_PR s') m
    \<and> exti_levels s es lv (exti_nvic m) = 0 \<and> stm32_exti_gpio_in_handler m level s' = Ok s' []"
proof -
  have "EXTI_PR_OFFSET \<in> set exti_registers" "\<not> exti_fault EXTI_PR_OFFSET (BIT n) s"
    by (simp_all add: exti_registers_def exti_bit_registers_def exti_fault_def)
  then obtain s' where s': "stm32_exti_write s EXTI_PR_OFFSET (BIT n) 4 =
      Ok s' (concat (map (\<lambda>n. exti_event (exti_irq s) n (bit (EXTI_PR s) n) (bit (EXTI_PR s') n)) [0 ..< 20]))"
    "\<forall>i<20. exti_line_of s' i = ln_write EXTI_PR_OFFSET (bit (BIT n :: u64) i) (exti_line_of s i)"
    using exti_write_spec [OF assms(1)] by blast
  have others: "bit (EXTI_PR s') i = bit (EXTI_PR s) i" if "i < 20" "i \<noteq> n" for i
    using s'(2) that by (intro exti_same_line(3)) (simp add: bit_BIT ln_write_def)
  have "ln_pr (exti_line_of s' n) = ln_pr (ln_write EXTI_PR_OFFSET True (exti_line_of s n))"
    using s'(2) assms(3) by (simp add: bit_BIT)
  then have n: "\<not> bit (EXTI_PR s') n" by (simp add: ln_write_def ln_pend_def exti_line_of_sel split: if_splits)
  have m: "bit (EXTI_PR s') m" using others [of m] assms(4,5,8) by simp
  let ?es = "concat (map (\<lambda>n. exti_event (exti_irq s) n (bit (EXTI_PR s) n) (bit (EXTI_PR s') n)) [0 ..< 20])"
  have "?es = exti_event (exti_irq s) n (bit (EXTI_PR s) n) (bit (EXTI_PR s') n)"
    by (rule concat_map_single) (use assms(3) others in \<open>auto simp: exti_event_def\<close>)
  then have "exti_levels s ?es lv (exti_nvic m) = 0"
    using exti_levels_event [OF assms(2), of n _ _ lv] assms(3,6,7) n by simp
  moreover have "stm32_exti_gpio_in_handler m level s' = Ok s' []"
    using m assms(4)
    by (simp add: stm32_exti_gpio_in_handler_def stm32_exti_trigger_def stm32_exti_change_EXTI_PR_bit_def extract32_bit del: One_nat_def)
  ultimately show ?thesis using s'(1) m by blast
qed

theorem exti_shared_line_lost_witness:
  "\<exists>s' es. stm32_exti_write (exti_example\<lparr>EXTI_PR := 0x60\<rparr>) EXTI_PR_OFFSET (BIT 5) 4 = Ok s' es \<and> bit (EXTI_PR s') 6
    \<and> exti_levels exti_example es (\<lambda>k. 1) 5 = 0 \<and> stm32_exti_gpio_in_handler 6 1 s' = Ok s' []"
proof -
  let ?s = "exti_example\<lparr>EXTI_PR := 0x60\<rparr>"
  have bits: "bit (0x60 :: u32) 5" "bit (0x60 :: u32) 6" "\<not> bit (0x60 :: u32) 19" by code_simp+
  have "exti_wf ?s" using exti_example_wf bits(3) by (simp add: exti_wf_def)
  moreover have "exti_wired ?s" using exti_example_wired by (simp add: exti_wired_def)
  moreover have "exti_nvic 5 = exti_nvic 6" "exti_nvic 6 = 5" by (simp_all add: exti_nvic_def)
  moreover have "exti_levels ?s = exti_levels exti_example" by (rule exti_levels_cong) simp
  ultimately show ?thesis
    using exti_shared_line_lost [of ?s 5 6 "\<lambda>k. 1" 1] bits by simp
qed

end
