(* ===== verification/Afio.thy ===== *)
theory Afio
  imports Gpio
begin

text \<open>
  The alternate function I/O block, \<open>hw/gpio/stm32_afio.c\<close>. It selects which port drives each line of
  the external interrupt controller by connecting the input relay of that port's pin to the controller.
  Its functions therefore act on the record of the block together with the array \<open>gpio\<close> of ports it
  points to; the inputs of the controller it connects are the ones \<open>stm32_exti_init\<close> creates, one per
  pin number.
\<close>

section \<open>Registers and state\<close>

abbreviation (input) AFIO_EVCR_OFFSET :: nat where "AFIO_EVCR_OFFSET \<equiv> 0x0"
abbreviation (input) AFIO_MAPR_OFFSET :: nat where "AFIO_MAPR_OFFSET \<equiv> 0x4"
abbreviation (input) AFIO_MAPR_USART3_REMAP_START :: nat where "AFIO_MAPR_USART3_REMAP_START \<equiv> 4"
abbreviation (input) AFIO_MAPR_USART2_REMAP_BIT :: nat where "AFIO_MAPR_USART2_REMAP_BIT \<equiv> 3"
abbreviation (input) AFIO_MAPR_USART1_REMAP_BIT :: nat where "AFIO_MAPR_USART1_REMAP_BIT \<equiv> 2"
abbreviation (input) AFIO_EXTICR_START :: nat where "AFIO_EXTICR_START \<equiv> 0x8"
abbreviation (input) AFIO_EXTICR_COUNT :: nat where "AFIO_EXTICR_COUNT \<equiv> 4"
abbreviation (input) AFIO_EXTICR1_OFFSET :: nat where "AFIO_EXTICR1_OFFSET \<equiv> 0x8"
abbreviation (input) AFIO_EXTICR2_OFFSET :: nat where "AFIO_EXTICR2_OFFSET \<equiv> 0xc"
abbreviation (input) AFIO_EXTICR3_OFFSET :: nat where "AFIO_EXTICR3_OFFSET \<equiv> 0x10"
abbreviation (input) AFIO_EXTICR4_OFFSET :: nat where "AFIO_EXTICR4_OFFSET \<equiv> 0x14"
abbreviation (input) AFIO_EXTI_PER_CR :: nat where "AFIO_EXTI_PER_CR \<equiv> 4"
abbreviation (input) AFIO_MAPR_USART3_REMAP_MASK :: u32 where "AFIO_MAPR_USART3_REMAP_MASK \<equiv> 0x30"

record Stm32Afio =
  USART1_REMAP :: u32
  USART2_REMAP :: u32
  USART3_REMAP :: u32
  UART5_REMAP :: u32
  AFIO_MAPR :: u32
  AFIO_EXTICR :: "u32 list"

type_synonym afio_state = "Stm32Afio \<times> Stm32Gpio list"

text \<open>The GPIO inputs of the external interrupt controller.\<close>

definition exti_gpio_in :: "qemu_irq list" where
  "exti_gpio_in = map IrqExtiIn [0 ..< STM32_GPIO_PIN_COUNT]"

section \<open>Remap register\<close>

definition stm32_afio_AFIO_MAPR_read :: "Stm32Afio \<Rightarrow> u32" where
  "stm32_afio_AFIO_MAPR_read s =
     push_bit AFIO_MAPR_USART1_REMAP_BIT (USART1_REMAP s) OR
     push_bit AFIO_MAPR_USART2_REMAP_BIT (USART2_REMAP s) OR
     push_bit AFIO_MAPR_USART3_REMAP_START (USART3_REMAP s)"

definition stm32_afio_AFIO_MAPR_write :: "u32 \<Rightarrow> Stm32Afio \<Rightarrow> Stm32Afio" where
  "stm32_afio_AFIO_MAPR_write new_value s =
     s\<lparr>USART1_REMAP := extract32 (AFIO_MAPR s) AFIO_MAPR_USART1_REMAP_BIT 1,
       USART2_REMAP := extract32 (AFIO_MAPR s) AFIO_MAPR_USART2_REMAP_BIT 1,
       USART3_REMAP := drop_bit AFIO_MAPR_USART3_REMAP_START (new_value AND AFIO_MAPR_USART3_REMAP_MASK)\<rparr>"

section \<open>Interrupt line selection\<close>

definition afio_connect :: "nat \<Rightarrow> nat \<Rightarrow> qemu_irq \<Rightarrow> Stm32Gpio list \<Rightarrow> Stm32Gpio list run" where
  "afio_connect gpio_index exti_line irq gpio =
     (if gpio_index < length gpio
      then run_map (\<lambda>irqs. gpio[gpio_index := (gpio ! gpio_index)\<lparr>gpio_in_irq := irqs\<rparr>])
             (sysbus_connect_irq exti_line irq (gpio_in_irq (gpio ! gpio_index)))
      else Stop OutOfBounds [])"

definition afio_exticr_line :: "bool \<Rightarrow> u32 \<Rightarrow> u32 \<Rightarrow> nat \<Rightarrow> nat \<Rightarrow> Stm32Gpio list \<Rightarrow> Stm32Gpio list run" where
  "afio_exticr_line init old_value new_value index i =
     (let exti_line = index * AFIO_EXTI_PER_CR + i; start = i * 4
      in run_seq
        [\<lambda>gpio. if \<not> init
           then let old_gpio_index = unat (drop_bit start old_value AND 0xf)
                in afio_connect old_gpio_index exti_line IrqNull gpio
           else Ok gpio [],
         \<lambda>gpio. let new_gpio_index = unat (drop_bit start new_value AND 0xf)
           in run_bind (qdev_get_gpio_in exti_line exti_gpio_in)
                (\<lambda>irq. afio_connect new_gpio_index exti_line irq gpio)])"

definition stm32_afio_AFIO_EXTICR_write :: "nat \<Rightarrow> u32 \<Rightarrow> bool \<Rightarrow> afio_state \<Rightarrow> afio_state run" where
  "stm32_afio_AFIO_EXTICR_write index new_value init = (\<lambda>(s, gpio).
     if index < AFIO_EXTICR_COUNT
     then run_map (\<lambda>gpio. (s\<lparr>AFIO_EXTICR := (AFIO_EXTICR s)[index := new_value]\<rparr>, gpio))
            (run_for [0 ..< AFIO_EXTI_PER_CR] (afio_exticr_line init (AFIO_EXTICR s ! index) new_value index) gpio)
     else Stop AssertFail [])"

section \<open>Register access\<close>

definition stm32_afio_read :: "Stm32Rcc \<Rightarrow> Stm32Afio \<Rightarrow> nat \<Rightarrow> nat \<Rightarrow> u64 run" where
  "stm32_afio_read rcc s offset sz =
     run_bind (stm32_rcc_check_periph_clk rcc STM32_AFIO_PERIPH) (\<lambda>_.
       if offset = AFIO_EVCR_OFFSET then STM32_NOT_IMPL_REG offset sz
       else if offset = AFIO_MAPR_OFFSET then Ok (ucast (stm32_afio_AFIO_MAPR_read s)) []
       else if offset = AFIO_EXTICR1_OFFSET then Ok (ucast (AFIO_EXTICR s ! 0)) []
       else if offset = AFIO_EXTICR2_OFFSET then Ok (ucast (AFIO_EXTICR s ! 1)) []
       else if offset = AFIO_EXTICR3_OFFSET then Ok (ucast (AFIO_EXTICR s ! 2)) []
       else if offset = AFIO_EXTICR4_OFFSET then Ok (ucast (AFIO_EXTICR s ! 3)) []
       else STM32_BAD_REG offset sz)"

definition stm32_afio_write :: "Stm32Rcc \<Rightarrow> afio_state \<Rightarrow> nat \<Rightarrow> u64 \<Rightarrow> nat \<Rightarrow> afio_state run" where
  "stm32_afio_write rcc st offset value sz =
     run_bind (stm32_rcc_check_periph_clk rcc STM32_AFIO_PERIPH) (\<lambda>_.
       if offset = AFIO_EVCR_OFFSET then STM32_NOT_IMPL_REG offset sz
       else if offset = AFIO_MAPR_OFFSET
       then Ok (stm32_afio_AFIO_MAPR_write (ucast value) (fst st), snd st) []
       else if offset = AFIO_EXTICR1_OFFSET then stm32_afio_AFIO_EXTICR_write 0 (ucast value) False st
       else if offset = AFIO_EXTICR2_OFFSET then stm32_afio_AFIO_EXTICR_write 1 (ucast value) False st
       else if offset = AFIO_EXTICR3_OFFSET then stm32_afio_AFIO_EXTICR_write 2 (ucast value) False st
       else if offset = AFIO_EXTICR4_OFFSET then stm32_afio_AFIO_EXTICR_write 3 (ucast value) False st
       else STM32_BAD_REG offset sz)"

section \<open>Reset, initialization and queries\<close>

definition stm32_afio_reset :: "afio_state \<Rightarrow> afio_state run" where
  "stm32_afio_reset = run_seq
     [\<lambda>(s, gpio). Ok (stm32_afio_AFIO_MAPR_write 0 s, gpio) [],
      stm32_afio_AFIO_EXTICR_write 0 0 True,
      stm32_afio_AFIO_EXTICR_write 1 0 True,
      stm32_afio_AFIO_EXTICR_write 2 0 True,
      stm32_afio_AFIO_EXTICR_write 3 0 True]"

definition stm32_afio_get_periph_map :: "Stm32Afio \<Rightarrow> nat \<Rightarrow> u32 run" where
  "stm32_afio_get_periph_map s periph =
     (if periph = STM32_UART1 then Ok (USART1_REMAP s) []
      else if periph = STM32_UART2 then Ok (USART2_REMAP s) []
      else if periph = STM32_UART3 then Ok (USART3_REMAP s) []
      else if periph = STM32_UART5 then Ok (of_nat STM32_UART5) []
      else Stop (HwError ''Invalid peripheral'') [])"

definition stm32_afio_init :: Stm32Afio where
  "stm32_afio_init =
     \<lparr>USART1_REMAP = 0, USART2_REMAP = 0, USART3_REMAP = 0, UART5_REMAP = 0, AFIO_MAPR = 0,
      AFIO_EXTICR = replicate AFIO_EXTICR_COUNT 0\<rparr>"

end
