(* ===== verification/Afio_Ops.thy ===== *)
theory Afio_Ops
  imports Afio Gpio_Props
begin

text \<open>
  Correctness of the alternate function block: which port drives each line of the external interrupt
  controller, which writes stop the emulator, and what becomes of the remap fields.
\<close>

section \<open>Links between ports and interrupt lines\<close>

definition nibble :: "u32 \<Rightarrow> nat \<Rightarrow> nat" where
  "nibble v i = unat (drop_bit (i * 4) v AND 0xf)"

definition ports_wf :: "Stm32Gpio list \<Rightarrow> bool" where
  "ports_wf gs \<longleftrightarrow> length gs = STM32_GPIO_COUNT \<and> (\<forall>g\<in>set gs. gpio_wf g)"

definition port_link :: "Stm32Gpio list \<Rightarrow> nat \<Rightarrow> nat \<Rightarrow> qemu_irq" where
  "port_link gs p line = gpio_in_irq (gs ! p) ! line"

text \<open>The port selected for a line by the configuration registers.\<close>

definition afio_source :: "Stm32Afio \<Rightarrow> nat \<Rightarrow> nat" where
  "afio_source s line = nibble (AFIO_EXTICR s ! (line div 4)) (line mod 4)"

definition afio_routed :: "afio_state \<Rightarrow> bool" where
  "afio_routed = (\<lambda>(s, gs). length (AFIO_EXTICR s) = AFIO_EXTICR_COUNT \<and> ports_wf gs \<and>
     (\<forall>line<16. afio_source s line < STM32_GPIO_COUNT) \<and>
     (\<forall>line<16. \<forall>p<STM32_GPIO_COUNT. port_link gs p line = (if p = afio_source s line then IrqExtiIn line else IrqNull)))"

lemma gpio_count: "STM32_GPIO_COUNT = 7"
  by (simp add: STM32_GPIO_COUNT_def)

lemma ports_in_len: "ports_wf gs \<Longrightarrow> p < 7 \<Longrightarrow> length (gpio_in_irq (gs ! p)) = 16"
  using gpio_wf_lengths by (auto simp: ports_wf_def gpio_count)

lemma afio_connect_Ok:
  assumes "ports_wf gs" "gi < 7" "line < 16"
  obtains gs' where "afio_connect gi line irq gs = Ok gs' []" "ports_wf gs'"
    "\<forall>p l. port_link gs' p l = (if p = gi \<and> l = line then irq else port_link gs p l)"
    "\<forall>p. (gs' ! p)\<lparr>gpio_in_irq := []\<rparr> = (gs ! p)\<lparr>gpio_in_irq := []\<rparr>"
proof -
  let ?g = "(gs ! gi)\<lparr>gpio_in_irq := (gpio_in_irq (gs ! gi))[line := irq]\<rparr>"
  have len: "length gs = 7" "length (gpio_in_irq (gs ! gi)) = 16"
    using assms ports_in_len by (simp_all add: ports_wf_def gpio_count)
  have "gpio_wf ?g"
    using assms(1,2) len by (intro gpio_wf_frame) (auto simp: ports_wf_def)
  then have "ports_wf (gs[gi := ?g])"
    using assms(1) by (auto simp: ports_wf_def dest!: set_update_subset_insert [THEN subsetD])
  moreover have "afio_connect gi line irq gs = Ok (gs[gi := ?g]) []"
    using assms len by (simp add: afio_connect_def sysbus_connect_irq_def)
  moreover have "port_link (gs[gi := ?g]) p l = (if p = gi \<and> l = line then irq else port_link gs p l)" for p l
    using assms(2,3) len by (cases "p = gi") (simp_all add: port_link_def nth_list_update)
  moreover have "(gs[gi := ?g] ! p)\<lparr>gpio_in_irq := []\<rparr> = (gs ! p)\<lparr>gpio_in_irq := []\<rparr>" for p
    using assms(2) len by (cases "p = gi") simp_all
  ultimately show ?thesis using that by blast
qed

text \<open>One line of a register: disconnect the old port, connect the new one.\<close>

lemma exticr_line_eq:
  assumes "index < 4" "i < 4"
  shows "afio_exticr_line init old new index i gs =
    run_bind (if init then Ok gs [] else afio_connect (nibble old i) (index * 4 + i) IrqNull gs)
      (afio_connect (nibble new i) (index * 4 + i) (IrqExtiIn (index * 4 + i)))"
proof -
  have line: "index * 4 + i < 16" using assms by simp
  then have "qdev_get_gpio_in (index * 4 + i) exti_gpio_in = Ok (IrqExtiIn (index * 4 + i)) []"
    by (simp add: qdev_get_gpio_in_def exti_gpio_in_def del: upt_rec_numeral)
  then show ?thesis by (simp add: afio_exticr_line_def nibble_def Let_def)
qed

definition exticr_moves :: "bool \<Rightarrow> u32 \<Rightarrow> u32 \<Rightarrow> nat \<Rightarrow> nat set \<Rightarrow> Stm32Gpio list \<Rightarrow> Stm32Gpio list \<Rightarrow> bool" where
  "exticr_moves init old new index I gs gs' \<longleftrightarrow> ports_wf gs' \<and>
     (\<forall>p l. port_link gs' p l =
       (if l div 4 = index \<and> l mod 4 \<in> I
        then if p = nibble new (l mod 4) then IrqExtiIn l
             else if \<not> init \<and> p = nibble old (l mod 4) then IrqNull else port_link gs p l
        else port_link gs p l)) \<and>
     (\<forall>p. (gs' ! p)\<lparr>gpio_in_irq := []\<rparr> = (gs ! p)\<lparr>gpio_in_irq := []\<rparr>)"

lemma line_index: "i < 4 \<Longrightarrow> l = index * 4 + i \<longleftrightarrow> l div 4 = index \<and> l mod 4 = i" for l index i :: nat
  by auto

lemma exticr_line_Ok:
  assumes "ports_wf gs" "index < 4" "i < 4" "nibble new i < 7" "init \<or> nibble old i < 7"
  shows "\<exists>gs'. afio_exticr_line init old new index i gs = Ok gs' [] \<and> exticr_moves init old new index {i} gs gs'"
proof -
  have line: "index * 4 + i < 16" using assms by simp
  obtain g1 where g1: "(if init then Ok gs [] else afio_connect (nibble old i) (index * 4 + i) IrqNull gs) = Ok g1 []"
    "ports_wf g1"
    "\<forall>p l. port_link g1 p l = (if \<not> init \<and> p = nibble old i \<and> l = index * 4 + i then IrqNull else port_link gs p l)"
    "\<forall>p. (g1 ! p)\<lparr>gpio_in_irq := []\<rparr> = (gs ! p)\<lparr>gpio_in_irq := []\<rparr>"
  proof (cases init)
    case False
    show ?thesis
      by (rule afio_connect_Ok [OF assms(1) _ line, of "nibble old i" IrqNull]) (use assms(5) False that in auto)
  qed (use assms(1) that in auto)
  obtain g2 where g2: "afio_connect (nibble new i) (index * 4 + i) (IrqExtiIn (index * 4 + i)) g1 = Ok g2 []" "ports_wf g2"
    "\<forall>p l. port_link g2 p l = (if p = nibble new i \<and> l = index * 4 + i then IrqExtiIn (index * 4 + i) else port_link g1 p l)"
    "\<forall>p. (g2 ! p)\<lparr>gpio_in_irq := []\<rparr> = (g1 ! p)\<lparr>gpio_in_irq := []\<rparr>"
    by (rule afio_connect_Ok [OF g1(2) assms(4) line])
  have "exticr_moves init old new index {i} gs g2"
    unfolding exticr_moves_def
  proof (intro conjI allI)
    fix p l
    show "port_link g2 p l = (if l div 4 = index \<and> l mod 4 \<in> {i}
        then if p = nibble new (l mod 4) then IrqExtiIn l
             else if \<not> init \<and> p = nibble old (l mod 4) then IrqNull else port_link gs p l
        else port_link gs p l)"
      using line_index [OF assms(3), of l index] g1(3) g2(3) by auto
  qed (use g1 g2 in auto)
  then show ?thesis using g1(1) g2(1) by (simp add: exticr_line_eq [OF assms(2,3)])
qed

lemma exticr_line_bad:
  assumes "ports_wf gs" "index < 4" "i < 4" "7 \<le> nibble new i" "init \<or> nibble old i < 7"
  shows "afio_exticr_line init old new index i gs = Stop OutOfBounds []"
proof -
  have line: "index * 4 + i < 16" using assms by simp
  have bad: "afio_connect (nibble new i) l irq g = Stop OutOfBounds []" if "ports_wf g" for g l irq
    using that assms(4) by (simp add: afio_connect_def ports_wf_def gpio_count)
  show ?thesis
  proof (cases init)
    case False
    then have "nibble old i < 7" using assms(5) by simp
    then obtain g1 where "afio_connect (nibble old i) (index * 4 + i) IrqNull gs = Ok g1 []" "ports_wf g1"
      by (rule afio_connect_Ok [OF assms(1) _ line])
    then show ?thesis using bad False by (simp add: exticr_line_eq [OF assms(2,3)])
  qed (use bad [OF assms(1)] in \<open>simp add: exticr_line_eq [OF assms(2,3)]\<close>)
qed

lemma exticr_moves_join:
  assumes "exticr_moves init old new index I gs g1" "exticr_moves init old new index J g1 g2" "I \<inter> J = {}"
  shows "exticr_moves init old new index (I \<union> J) gs g2"
  unfolding exticr_moves_def
proof (intro conjI allI)
  fix p l
  show "port_link g2 p l = (if l div 4 = index \<and> l mod 4 \<in> I \<union> J
      then if p = nibble new (l mod 4) then IrqExtiIn l
           else if \<not> init \<and> p = nibble old (l mod 4) then IrqNull else port_link gs p l
      else port_link gs p l)"
    using assms unfolding exticr_moves_def by (cases "l mod 4 \<in> I") auto
qed (use assms in \<open>auto simp: exticr_moves_def\<close>)

lemma exticr_loop:
  assumes "ports_wf gs" "index < 4" "\<forall>i\<in>set is. i < 4" "distinct is" "init \<or> (\<forall>i\<in>set is. nibble old i < 7)"
  shows "if \<forall>i\<in>set is. nibble new i < 7
    then \<exists>gs'. run_for is (afio_exticr_line init old new index) gs = Ok gs' [] \<and> exticr_moves init old new index (set is) gs gs'
    else run_for is (afio_exticr_line init old new index) gs = Stop OutOfBounds []"
  using assms
proof (induction "is" arbitrary: gs)
  case Nil
  then show ?case by (simp add: exticr_moves_def)
next
  case (Cons i "is")
  have i: "i < 4" "init \<or> nibble old i < 7" using Cons.prems by auto
  show ?case
  proof (cases "nibble new i < 7")
    case True
    obtain g1 where g1: "afio_exticr_line init old new index i gs = Ok g1 []" "exticr_moves init old new index {i} gs g1"
      using exticr_line_Ok [OF Cons.prems(1,2) i(1) True i(2)] by blast
    then have g1_wf: "ports_wf g1" by (simp add: exticr_moves_def)
    have rest: "\<forall>i\<in>set is. i < 4" "distinct is" "init \<or> (\<forall>i\<in>set is. nibble old i < 7)"
      using Cons.prems by auto
    note IH = Cons.IH [OF g1_wf Cons.prems(2) rest]
    show ?thesis
    proof (cases "\<forall>j\<in>set is. nibble new j < 7")
      case all: True
      with IH obtain gs' where gs': "run_for is (afio_exticr_line init old new index) g1 = Ok gs' []"
        "exticr_moves init old new index (set is) g1 gs'" by auto
      then show ?thesis
        using g1 True all exticr_moves_join [OF g1(2) gs'(2)] Cons.prems(4) by auto
    next
      case False
      then show ?thesis using IH g1(1) by auto
    qed
  next
    case False
    then show ?thesis using exticr_line_bad [OF Cons.prems(1,2) i(1) _ i(2)] by auto
  qed
qed

lemma nibbles_4: "(\<forall>i\<in>set [0 ..< 4]. P i) \<longleftrightarrow> (\<forall>i<4. P i)" for P :: "nat \<Rightarrow> bool"
  by auto

lemma exticr_write:
  assumes "ports_wf gs" "index < 4" "init \<or> (\<forall>i<4. nibble (AFIO_EXTICR s ! index) i < 7)"
  shows "if \<forall>i<4. nibble v i < 7
    then \<exists>gs'. stm32_afio_AFIO_EXTICR_write index v init (s, gs) = Ok (s\<lparr>AFIO_EXTICR := (AFIO_EXTICR s)[index := v]\<rparr>, gs') []
      \<and> exticr_moves init (AFIO_EXTICR s ! index) v index {0 ..< 4} gs gs'
    else stm32_afio_AFIO_EXTICR_write index v init (s, gs) = Stop OutOfBounds []"
proof -
  have "if \<forall>i\<in>set [0 ..< 4]. nibble v i < 7
    then \<exists>gs'. run_for [0 ..< 4] (afio_exticr_line init (AFIO_EXTICR s ! index) v index) gs = Ok gs' []
      \<and> exticr_moves init (AFIO_EXTICR s ! index) v index (set [0 ..< 4]) gs gs'
    else run_for [0 ..< 4] (afio_exticr_line init (AFIO_EXTICR s ! index) v index) gs = Stop OutOfBounds []"
    by (rule exticr_loop) (use assms in \<open>auto simp del: upt_rec_numeral\<close>)
  then show ?thesis
    unfolding nibbles_4 using assms(2)
    by (auto simp: stm32_afio_AFIO_EXTICR_write_def simp del: upt_rec_numeral split: if_splits)
qed

lemma afio_source_update:
  "index < length (AFIO_EXTICR s) \<Longrightarrow> afio_source (s\<lparr>AFIO_EXTICR := (AFIO_EXTICR s)[index := v]\<rparr>) line =
     (if line div 4 = index then nibble v (line mod 4) else afio_source s line)"
  by (auto simp: afio_source_def nth_list_update)

lemma exticr_routed:
  assumes "afio_routed (s, gs)" "index < 4" "\<forall>i<4. nibble v i < 7"
    and "exticr_moves False (AFIO_EXTICR s ! index) v index {0 ..< 4} gs gs'"
  shows "afio_routed (s\<lparr>AFIO_EXTICR := (AFIO_EXTICR s)[index := v]\<rparr>, gs')"
proof -
  have len: "length (AFIO_EXTICR s) = 4" using assms(1) by (simp add: afio_routed_def)
  note src = afio_source_update [of index s v]
  have old: "line div 4 = index \<Longrightarrow> nibble (AFIO_EXTICR s ! index) (line mod 4) = afio_source s line" for line
    by (auto simp: afio_source_def)
  have "port_link gs' p line = (if p = afio_source (s\<lparr>AFIO_EXTICR := (AFIO_EXTICR s)[index := v]\<rparr>) line
      then IrqExtiIn line else IrqNull)" if "line < 16" "p < 7" for line p
    using assms(1,4) that old [of line] assms(2) len
    by (cases "line div 4 = index") (simp_all add: src exticr_moves_def afio_routed_def gpio_count)
  then show ?thesis
    using assms(1-4) len src by (auto simp: afio_routed_def gpio_count exticr_moves_def)
qed

section \<open>Accesses and reset\<close>

definition afio_exticr_regs :: "nat list" where
  "afio_exticr_regs = [AFIO_EXTICR1_OFFSET, AFIO_EXTICR2_OFFSET, AFIO_EXTICR3_OFFSET, AFIO_EXTICR4_OFFSET]"

text \<open>The invariant of the block: the links are those of the registers, and the fields of the first two
  UARTs never leave zero.\<close>

definition afio_inv :: "afio_state \<Rightarrow> bool" where
  "afio_inv st \<longleftrightarrow> afio_routed st \<and> AFIO_MAPR (fst st) = 0 \<and> USART1_REMAP (fst st) = 0 \<and> USART2_REMAP (fst st) = 0"

definition afio_write_reg :: "nat \<Rightarrow> u64 \<Rightarrow> afio_state \<Rightarrow> afio_state run" where
  "afio_write_reg offset v st =
     (if offset = AFIO_MAPR_OFFSET then Ok (stm32_afio_AFIO_MAPR_write (ucast v) (fst st), snd st) []
      else if offset \<in> set afio_exticr_regs
      then stm32_afio_AFIO_EXTICR_write ((offset - AFIO_EXTICR_START) div 4) (ucast v) False st
      else Stop (HwError (if offset = AFIO_EVCR_OFFSET then ''Not implemented yet'' else ''Bad register'')) [])"

lemma afio_write_eq:
  "stm32_afio_write rcc st offset v sz =
     run_bind (stm32_rcc_check_periph_clk rcc STM32_AFIO_PERIPH) (\<lambda>_. afio_write_reg offset v st)"
  unfolding stm32_afio_write_def afio_write_reg_def afio_exticr_regs_def
  by (rule arg_cong [where f = "run_bind _"]) (simp add: fun_eq_iff reg_error_defs)

lemma afio_exticr_index: "offset \<in> set afio_exticr_regs \<Longrightarrow> (offset - AFIO_EXTICR_START) div 4 < 4"
  by (auto simp: afio_exticr_regs_def)

lemma afio_exticr_write_inv:
  assumes "afio_inv st" "index < 4"
  shows "if \<forall>i<4. nibble v i < 7
    then \<exists>st'. stm32_afio_AFIO_EXTICR_write index v False st = Ok st' [] \<and> afio_inv st'
      \<and> AFIO_EXTICR (fst st') = (AFIO_EXTICR (fst st))[index := v]
      \<and> (\<forall>p. (snd st' ! p)\<lparr>gpio_in_irq := []\<rparr> = (snd st ! p)\<lparr>gpio_in_irq := []\<rparr>)
    else stm32_afio_AFIO_EXTICR_write index v False st = Stop OutOfBounds []"
proof -
  obtain s gs where st: "st = (s, gs)" by (cases st)
  have r: "afio_routed (s, gs)" using assms(1) by (simp add: afio_inv_def st)
  have "nibble (AFIO_EXTICR s ! index) i < 7" if "i < 4" for i
  proof -
    have "index * 4 + i < 16" "(index * 4 + i) div 4 = index" "(index * 4 + i) mod 4 = i" using that assms(2) by simp_all
    then show ?thesis using r by (auto simp: afio_routed_def afio_source_def gpio_count)
  qed
  then have w: "if \<forall>i<4. nibble v i < 7
    then \<exists>gs'. stm32_afio_AFIO_EXTICR_write index v False (s, gs) = Ok (s\<lparr>AFIO_EXTICR := (AFIO_EXTICR s)[index := v]\<rparr>, gs') []
      \<and> exticr_moves False (AFIO_EXTICR s ! index) v index {0 ..< 4} gs gs'
    else stm32_afio_AFIO_EXTICR_write index v False (s, gs) = Stop OutOfBounds []"
    using r assms(2) by (intro exticr_write) (auto simp: afio_routed_def)
  show ?thesis
  proof (cases "\<forall>i<4. nibble v i < 7")
    case True
    with w obtain gs' where gs': "stm32_afio_AFIO_EXTICR_write index v False (s, gs) =
        Ok (s\<lparr>AFIO_EXTICR := (AFIO_EXTICR s)[index := v]\<rparr>, gs') []"
      "exticr_moves False (AFIO_EXTICR s ! index) v index {0 ..< 4} gs gs'" by auto
    have "afio_routed (s\<lparr>AFIO_EXTICR := (AFIO_EXTICR s)[index := v]\<rparr>, gs')"
      by (rule exticr_routed [OF r assms(2) True gs'(2)])
    moreover have "\<forall>p. (gs' ! p)\<lparr>gpio_in_irq := []\<rparr> = (gs ! p)\<lparr>gpio_in_irq := []\<rparr>" using gs'(2) by (simp add: exticr_moves_def)
    ultimately show ?thesis using True gs'(1) assms(1) by (simp add: st afio_inv_def)
  next
    case False
    then show ?thesis using w st by auto
  qed
qed

lemma extract32_0: "extract32 0 a b = 0"
  by (simp add: extract32_def)

lemma afio_mapr_inv: "afio_inv st \<Longrightarrow> afio_inv (stm32_afio_AFIO_MAPR_write v (fst st), snd st)"
  by (cases st) (simp add: afio_inv_def stm32_afio_AFIO_MAPR_write_def extract32_0 afio_routed_def afio_source_def)

lemma afio_write_keeps:
  assumes "afio_inv st"
  shows "run_sat (\<lambda>st' _. afio_inv st') (stm32_afio_write rcc st offset v sz)"
proof -
  have "run_sat (\<lambda>st' _. afio_inv st') (afio_write_reg offset v st)"
    using afio_exticr_write_inv [OF assms afio_exticr_index, of offset "ucast v"] afio_mapr_inv [OF assms, of "ucast v"]
    by (auto simp: afio_write_reg_def split: if_split_asm)
  then show ?thesis
    by (cases "stm32_rcc_check_periph_clk rcc STM32_AFIO_PERIPH") (simp_all add: afio_write_eq)
qed

interpretation afio_dev: mmio_device afio_inv "pure_read (\<lambda>st. stm32_afio_read rcc (fst st))" "stm32_afio_write rcc" for rcc
  by unfold_locales (rule pure_read_keeps, assumption, rule afio_write_keeps)

lemma exticr_reset_step:
  assumes "ports_wf gs" "index < 4"
  obtains gs' where "stm32_afio_AFIO_EXTICR_write index 0 True (s, gs) = Ok (s\<lparr>AFIO_EXTICR := (AFIO_EXTICR s)[index := 0]\<rparr>, gs') []"
    "ports_wf gs'" "\<forall>p l. port_link gs' p l = (if l div 4 = index \<and> p = 0 then IrqExtiIn l else port_link gs p l)"
proof -
  have z: "nibble 0 i = 0" for i by (simp add: nibble_def)
  then obtain gs' where "stm32_afio_AFIO_EXTICR_write index 0 True (s, gs) = Ok (s\<lparr>AFIO_EXTICR := (AFIO_EXTICR s)[index := 0]\<rparr>, gs') []"
    "exticr_moves True (AFIO_EXTICR s ! index) 0 index {0 ..< 4} gs gs'"
    using exticr_write [OF assms, of True s 0] by auto
  then show ?thesis using that z by (auto simp: exticr_moves_def)
qed

lemma afio_reset_links:
  assumes "ports_wf gs" "length (AFIO_EXTICR s) = 4" "AFIO_MAPR s = 0"
  obtains s' gs' where "stm32_afio_reset (s, gs) = Ok (s', gs') []" "ports_wf gs'" "AFIO_EXTICR s' = [0, 0, 0, 0]"
    "\<forall>p l. port_link gs' p l = (if l < 16 \<and> p = 0 then IrqExtiIn l else port_link gs p l)"
    "AFIO_MAPR s' = 0" "USART1_REMAP s' = 0" "USART2_REMAP s' = 0"
proof -
  let ?s = "stm32_afio_AFIO_MAPR_write 0 s"
  let ?z = "\<lambda>i s. s\<lparr>AFIO_EXTICR := (AFIO_EXTICR s)[i := 0]\<rparr>"
  obtain g0 where g0: "stm32_afio_AFIO_EXTICR_write 0 0 True (?s, gs) = Ok (?z 0 ?s, g0) []" "ports_wf g0"
    "\<forall>p l. port_link g0 p l = (if l div 4 = 0 \<and> p = 0 then IrqExtiIn l else port_link gs p l)"
    by (rule exticr_reset_step [OF assms(1), of 0 ?s]) simp_all
  obtain g1 where g1: "stm32_afio_AFIO_EXTICR_write 1 0 True (?z 0 ?s, g0) = Ok (?z 1 (?z 0 ?s), g1) []" "ports_wf g1"
    "\<forall>p l. port_link g1 p l = (if l div 4 = 1 \<and> p = 0 then IrqExtiIn l else port_link g0 p l)"
    by (rule exticr_reset_step [OF g0(2), of 1 "?z 0 ?s"]) simp_all
  obtain g2 where g2: "stm32_afio_AFIO_EXTICR_write 2 0 True (?z 1 (?z 0 ?s), g1) = Ok (?z 2 (?z 1 (?z 0 ?s)), g2) []" "ports_wf g2"
    "\<forall>p l. port_link g2 p l = (if l div 4 = 2 \<and> p = 0 then IrqExtiIn l else port_link g1 p l)"
    by (rule exticr_reset_step [OF g1(2), of 2 "?z 1 (?z 0 ?s)"]) simp_all
  obtain g3 where g3: "stm32_afio_AFIO_EXTICR_write 3 0 True (?z 2 (?z 1 (?z 0 ?s)), g2) = Ok (?z 3 (?z 2 (?z 1 (?z 0 ?s))), g3) []"
    "ports_wf g3"
    "\<forall>p l. port_link g3 p l = (if l div 4 = 3 \<and> p = 0 then IrqExtiIn l else port_link g2 p l)"
    by (rule exticr_reset_step [OF g2(2), of 3 "?z 2 (?z 1 (?z 0 ?s))"]) simp_all
  obtain a b c d where "AFIO_EXTICR s = [a, b, c, d]"
    using assms(2) by (auto simp: numeral_eq_Suc length_Suc_conv)
  then have cr: "AFIO_EXTICR (?z 3 (?z 2 (?z 1 (?z 0 ?s)))) = [0, 0, 0, 0]"
    by (simp add: stm32_afio_AFIO_MAPR_write_def)
  have "l < 16 \<longleftrightarrow> l div 4 = 0 \<or> l div 4 = 1 \<or> l div 4 = 2 \<or> l div 4 = 3" for l :: nat by auto
  then have "\<forall>p l. port_link g3 p l = (if l < 16 \<and> p = 0 then IrqExtiIn l else port_link gs p l)"
    using g0(3) g1(3) g2(3) g3(3) by simp
  then show ?thesis
    using that [of "?z 3 (?z 2 (?z 1 (?z 0 ?s)))" g3] g0(1) g1(1) g2(1) g3(1,2) cr assms(3)
    by (simp add: stm32_afio_reset_def) (simp add: stm32_afio_AFIO_MAPR_write_def extract32_0)
qed

end
