(* ===== verification/Afio_Props.thy ===== *)
theory Afio_Props
  imports Afio_Ops
begin

text \<open>
  The properties of the alternate function block: an input pin reaches the external interrupt
  controller exactly when the block selects its port, the accesses that stop the emulator, the remap
  fields that cannot be set, and the links that survive a reset.
\<close>

section \<open>Routing\<close>

text \<open>Ports whose input relays are not connected yet.\<close>

definition ports_fresh :: "Stm32Gpio list \<Rightarrow> bool" where
  "ports_fresh gs \<longleftrightarrow> ports_wf gs \<and> (\<forall>p<STM32_GPIO_COUNT. \<forall>l<16. port_link gs p l = IrqNull)"

lemma afio_boot_inv:
  assumes "ports_fresh gs" "stm32_afio_reset (stm32_afio_init, gs) = Ok st es"
  shows "afio_inv st"
proof -
  have "ports_wf gs" using assms(1) by (simp add: ports_fresh_def)
  moreover have "length (AFIO_EXTICR stm32_afio_init) = 4" "AFIO_MAPR stm32_afio_init = 0"
    by (simp_all add: stm32_afio_init_def)
  ultimately obtain s' gs' where r: "stm32_afio_reset (stm32_afio_init, gs) = Ok (s', gs') []" "ports_wf gs'"
    "AFIO_EXTICR s' = [0, 0, 0, 0]"
    "\<forall>p l. port_link gs' p l = (if l < 16 \<and> p = 0 then IrqExtiIn l else port_link gs p l)"
    "AFIO_MAPR s' = 0" "USART1_REMAP s' = 0" "USART2_REMAP s' = 0"
    by (rule afio_reset_links)
  have "[0, 0, 0, 0 :: u32] ! i = 0" if "i < 4" for i
    using that by (auto simp: less_Suc_eq numeral_eq_Suc)
  then have "afio_source s' l = 0" if "l < 16" for l
    using that by (simp add: afio_source_def r(3) nibble_def)
  then show ?thesis
    using r assms by (auto simp: afio_inv_def afio_routed_def ports_fresh_def gpio_count)
qed

lemma gpio_trigger_effects:
  "pin < 16 \<Longrightarrow> run_effects (stm32_gpio_in_trigger pin level g) =
     (if gpio_in_irq g ! pin = IrqNull then [] else [SetIrq (gpio_in_irq g ! pin) level])"
  by (simp add: stm32_gpio_in_trigger_def qemu_set_irq_def)

text \<open>
  C11: after a reset of the block on unconnected ports and any accesses to its registers, a change of
  pin \<open>pin\<close> of port \<open>p\<close> is forwarded to line \<open>pin\<close> of the external interrupt controller exactly when the
  field of that line selects \<open>p\<close>.
\<close>

theorem afio_routes_edges:
  assumes "ports_fresh gs" "stm32_afio_reset (stm32_afio_init, gs) = Ok st0 es0"
    and "mmio_run (pure_read (\<lambda>st. stm32_afio_read rcc (fst st))) (stm32_afio_write rcc) accs st0 = Ok (s, gs') es"
    and "p < STM32_GPIO_COUNT" "pin < STM32_GPIO_PIN_COUNT"
  shows "run_effects (stm32_gpio_in_trigger pin level (gs' ! p)) =
    (if afio_source s pin = p then [SetIrq (IrqExtiIn pin) level] else [])"
proof -
  have "afio_inv (s, gs')"
    using afio_boot_inv [OF assms(1,2)] assms(3) by (rule afio_dev.accesses_keepD)
  then have "gpio_in_irq (gs' ! p) ! pin = (if p = afio_source s pin then IrqExtiIn pin else IrqNull)"
    using assms(4,5) by (simp add: afio_inv_def afio_routed_def port_link_def)
  then show ?thesis using gpio_trigger_effects [OF assms(5)] by auto
qed

lemma ports_fresh_init: "ports_fresh (map stm32_gpio_init [STM32_GPIOA ..< STM32_GPIOG + 1])"
proof -
  have "length (map stm32_gpio_init [STM32_GPIOA ..< STM32_GPIOG + 1]) = 7" by simp
  moreover have "gpio_in_irq (map stm32_gpio_init [STM32_GPIOA ..< STM32_GPIOG + 1] ! p) ! l = IrqNull" if "p < 7" "l < 16" for p l
    using that by (simp add: stm32_gpio_init_def del: upt_rec_numeral)
  ultimately show ?thesis
    using gpio_init_wf by (auto simp: ports_fresh_def ports_wf_def port_link_def gpio_count simp del: upt_rec_numeral)
qed

lemma afio_example:
  obtains st es where "stm32_afio_reset (stm32_afio_init, map stm32_gpio_init [STM32_GPIOA ..< STM32_GPIOG + 1]) = Ok st es"
    "afio_inv st"
proof -
  let ?gs = "map stm32_gpio_init [STM32_GPIOA ..< STM32_GPIOG + 1]"
  have "ports_wf ?gs" using ports_fresh_init by (simp add: ports_fresh_def del: upt_rec_numeral)
  moreover have "length (AFIO_EXTICR stm32_afio_init) = 4" "AFIO_MAPR stm32_afio_init = 0"
    by (simp_all add: stm32_afio_init_def)
  ultimately obtain s' gs' where "stm32_afio_reset (stm32_afio_init, ?gs) = Ok (s', gs') []"
    by (rule afio_reset_links)
  then show ?thesis using that afio_boot_inv [OF ports_fresh_init] by blast
qed

definition afio_select_C :: "mmio_access list" where
  "afio_select_C = [MmioWrite AFIO_MAPR_OFFSET 0xc 4, MmioWrite AFIO_EXTICR1_OFFSET 2 4]"

lemma afio_example_select:
  assumes "rcc_wf rcc"
  obtains st0 es0 s gs es where "stm32_afio_reset (stm32_afio_init, map stm32_gpio_init [STM32_GPIOA ..< STM32_GPIOG + 1]) = Ok st0 es0"
    "mmio_run (pure_read (\<lambda>st. stm32_afio_read rcc (fst st))) (stm32_afio_write rcc) afio_select_C st0 = Ok (s, gs) es"
    "afio_source s 0 = 2" "afio_inv (s, gs)"
proof -
  obtain st0 es0 where st0: "stm32_afio_reset (stm32_afio_init, map stm32_gpio_init [STM32_GPIOA ..< STM32_GPIOG + 1]) = Ok st0 es0"
    "afio_inv st0" by (rule afio_example)
  obtain ws where ws: "stm32_rcc_check_periph_clk rcc STM32_AFIO_PERIPH = Ok () ws"
    using rcc_clk.check_returns [of rcc STM32_AFIO_PERIPH] assms by (auto simp: rcc_has_clk_def)
  have nib: "list_all (\<lambda>i. nibble 2 i < 7) [0 ..< 4]" "nibble 2 0 = 2" by code_simp+
  then have small: "\<forall>i<4. nibble 2 i < 7" by (auto simp: list_all_iff simp del: upt_rec_numeral)
  let ?st1 = "(stm32_afio_AFIO_MAPR_write (ucast (0xc :: u64)) (fst st0), snd st0)"
  have inv1: "afio_inv ?st1" by (rule afio_mapr_inv [OF st0(2)])
  obtain st where st: "stm32_afio_AFIO_EXTICR_write 0 2 False ?st1 = Ok st []" "afio_inv st"
    "AFIO_EXTICR (fst st) = (AFIO_EXTICR (fst ?st1))[0 := 2]"
    using afio_exticr_write_inv [OF inv1, of 0 2] small by auto
  have "length (AFIO_EXTICR (fst ?st1)) = 4"
    using inv1 by (cases ?st1) (simp only: afio_inv_def afio_routed_def case_prod_conv fst_conv)
  then have "afio_source (fst st) 0 = 2" using st(3) nib(2) by (simp add: afio_source_def)
  moreover have "\<exists>es. mmio_run (pure_read (\<lambda>st. stm32_afio_read rcc (fst st))) (stm32_afio_write rcc) afio_select_C st0 = Ok st es"
    using st(1) ws by (simp add: mmio_run_def afio_select_C_def afio_write_eq afio_write_reg_def afio_exticr_regs_def)
  ultimately show ?thesis using that [of st0 es0 "fst st" "snd st"] st0(1) st(2) by auto
qed

theorem afio_routes_edges_witness:
  "\<exists>rcc es. stm32_rcc_boot 8000000 32768 = Ok rcc es \<and> (\<exists>st0 es0 s gs es.
     stm32_afio_reset (stm32_afio_init, map stm32_gpio_init [STM32_GPIOA ..< STM32_GPIOG + 1]) = Ok st0 es0 \<and>
     mmio_run (pure_read (\<lambda>st. stm32_afio_read rcc (fst st))) (stm32_afio_write rcc) afio_select_C st0 = Ok (s, gs) es \<and>
     run_effects (stm32_gpio_in_trigger 0 1 (gs ! 2)) = [SetIrq (IrqExtiIn 0) 1] \<and>
     run_effects (stm32_gpio_in_trigger 0 1 (gs ! 0)) = [])"
proof (rule rcc_boot_ex)
  fix rcc
  assume "rcc_wf rcc"
  then obtain st0 es0 s gs es where
    ex: "stm32_afio_reset (stm32_afio_init, map stm32_gpio_init [STM32_GPIOA ..< STM32_GPIOG + 1]) = Ok st0 es0"
    "mmio_run (pure_read (\<lambda>st. stm32_afio_read rcc (fst st))) (stm32_afio_write rcc) afio_select_C st0 = Ok (s, gs) es"
    "afio_source s 0 = 2" "afio_inv (s, gs)" by (rule afio_example_select)
  note routed = afio_routes_edges [OF ports_fresh_init ex(1,2)]
  have "run_effects (stm32_gpio_in_trigger 0 1 (gs ! 2)) = [SetIrq (IrqExtiIn 0) 1]"
    "run_effects (stm32_gpio_in_trigger 0 1 (gs ! 0)) = []"
    using routed [of 2 0 1] routed [of 0 0 1] ex(3) by (simp_all add: gpio_count)
  then show "\<exists>st0 es0 s gs es.
     stm32_afio_reset (stm32_afio_init, map stm32_gpio_init [STM32_GPIOA ..< STM32_GPIOG + 1]) = Ok st0 es0 \<and>
     mmio_run (pure_read (\<lambda>st. stm32_afio_read rcc (fst st))) (stm32_afio_write rcc) afio_select_C st0 = Ok (s, gs) es \<and>
     run_effects (stm32_gpio_in_trigger 0 1 (gs ! 2)) = [SetIrq (IrqExtiIn 0) 1] \<and>
     run_effects (stm32_gpio_in_trigger 0 1 (gs ! 0)) = []" using ex(1,2) by blast
qed



text \<open>
  C35: whatever the guest writes after a reset, the remap fields of UART 1 and UART 2 stay zero: the code
  takes them from a register variable nobody writes.
\<close>

theorem afio_remap_lost:
  assumes "ports_fresh gs" "stm32_afio_reset (stm32_afio_init, gs) = Ok st0 es0"
    and "mmio_run (pure_read (\<lambda>st. stm32_afio_read rcc (fst st))) (stm32_afio_write rcc) accs st0 = Ok st es"
  shows "stm32_afio_get_periph_map (fst st) STM32_UART1 = Ok STM32_USART1_NO_REMAP [] \<and>
    stm32_afio_get_periph_map (fst st) STM32_UART2 = Ok STM32_USART2_NO_REMAP []"
proof -
  have "afio_inv st" using afio_boot_inv [OF assms(1,2)] assms(3) by (rule afio_dev.accesses_keepD)
  then show ?thesis by (simp add: afio_inv_def stm32_afio_get_periph_map_def)
qed

theorem afio_remap_lost_witness:
  "\<exists>rcc es. stm32_rcc_boot 8000000 32768 = Ok rcc es \<and> (\<exists>st0 es0 st es.
     stm32_afio_reset (stm32_afio_init, map stm32_gpio_init [STM32_GPIOA ..< STM32_GPIOG + 1]) = Ok st0 es0 \<and>
     mmio_run (pure_read (\<lambda>st. stm32_afio_read rcc (fst st))) (stm32_afio_write rcc) afio_select_C st0 = Ok st es \<and>
     stm32_afio_get_periph_map (fst st) STM32_UART1 = Ok 0 [])"
proof (rule rcc_boot_ex)
  fix rcc
  assume "rcc_wf rcc"
  then obtain st0 es0 s gs es where
    ex: "stm32_afio_reset (stm32_afio_init, map stm32_gpio_init [STM32_GPIOA ..< STM32_GPIOG + 1]) = Ok st0 es0"
    "mmio_run (pure_read (\<lambda>st. stm32_afio_read rcc (fst st))) (stm32_afio_write rcc) afio_select_C st0 = Ok (s, gs) es"
    by (rule afio_example_select)
  then show "\<exists>st0 es0 st es.
     stm32_afio_reset (stm32_afio_init, map stm32_gpio_init [STM32_GPIOA ..< STM32_GPIOG + 1]) = Ok st0 es0 \<and>
     mmio_run (pure_read (\<lambda>st. stm32_afio_read rcc (fst st))) (stm32_afio_write rcc) afio_select_C st0 = Ok st es \<and>
     stm32_afio_get_periph_map (fst st) STM32_UART1 = Ok 0 []"
    using afio_remap_lost [OF ports_fresh_init ex] by blast
qed

text \<open>
  C36: a reset clears the selection of every line but leaves the link of the port selected before: both
  that port and port A then drive the line.
\<close>

theorem afio_reset_stale_link:
  assumes "afio_inv (s, gs)" "line < 16" "afio_source s line = p" "p \<noteq> 0"
  shows "\<exists>s' gs'. stm32_afio_reset (s, gs) = Ok (s', gs') [] \<and> afio_source s' line = 0 \<and>
    run_effects (stm32_gpio_in_trigger line level (gs' ! 0)) = [SetIrq (IrqExtiIn line) level] \<and>
    run_effects (stm32_gpio_in_trigger line level (gs' ! p)) = [SetIrq (IrqExtiIn line) level]"
proof -
  have inv: "ports_wf gs" "length (AFIO_EXTICR s) = 4" "AFIO_MAPR s = 0" "p < 7" "port_link gs p line = IrqExtiIn line"
    using assms by (auto simp: afio_inv_def afio_routed_def gpio_count)
  obtain s' gs' where r: "stm32_afio_reset (s, gs) = Ok (s', gs') []" "AFIO_EXTICR s' = [0, 0, 0, 0]"
    "\<forall>p l. port_link gs' p l = (if l < 16 \<and> p = 0 then IrqExtiIn l else port_link gs p l)"
    by (rule afio_reset_links [OF inv(1-3)])
  have "[0, 0, 0, 0 :: u32] ! i = 0" if "i < 4" for i
    using that by (auto simp: less_Suc_eq numeral_eq_Suc)
  then have "afio_source s' line = 0" using assms(2) by (simp add: afio_source_def r(2) nibble_def)
  then show ?thesis
    using r(1,3) inv(5) assms(2,4) gpio_trigger_effects [OF assms(2)] by (auto simp: port_link_def)
qed

theorem afio_reset_stale_link_witness:
  "\<exists>rcc es. stm32_rcc_boot 8000000 32768 = Ok rcc es \<and> (\<exists>st0 es0 st es s' gs'.
     stm32_afio_reset (stm32_afio_init, map stm32_gpio_init [STM32_GPIOA ..< STM32_GPIOG + 1]) = Ok st0 es0 \<and>
     mmio_run (pure_read (\<lambda>st. stm32_afio_read rcc (fst st))) (stm32_afio_write rcc) afio_select_C st0 = Ok st es \<and>
     stm32_afio_reset st = Ok (s', gs') [] \<and> afio_source s' 0 = 0 \<and>
     run_effects (stm32_gpio_in_trigger 0 1 (gs' ! 2)) = [SetIrq (IrqExtiIn 0) 1])"
proof (rule rcc_boot_ex)
  fix rcc
  assume "rcc_wf rcc"
  then obtain st0 es0 s gs es where
    ex: "stm32_afio_reset (stm32_afio_init, map stm32_gpio_init [STM32_GPIOA ..< STM32_GPIOG + 1]) = Ok st0 es0"
    "mmio_run (pure_read (\<lambda>st. stm32_afio_read rcc (fst st))) (stm32_afio_write rcc) afio_select_C st0 = Ok (s, gs) es"
    "afio_source s 0 = 2" "afio_inv (s, gs)" by (rule afio_example_select)
  then show "\<exists>st0 es0 st es s' gs'.
     stm32_afio_reset (stm32_afio_init, map stm32_gpio_init [STM32_GPIOA ..< STM32_GPIOG + 1]) = Ok st0 es0 \<and>
     mmio_run (pure_read (\<lambda>st. stm32_afio_read rcc (fst st))) (stm32_afio_write rcc) afio_select_C st0 = Ok st es \<and>
     stm32_afio_reset st = Ok (s', gs') [] \<and> afio_source s' 0 = 0 \<and>
     run_effects (stm32_gpio_in_trigger 0 1 (gs' ! 2)) = [SetIrq (IrqExtiIn 0) 1]"
    using afio_reset_stale_link [OF ex(4) _ ex(3), of 1] by fastforce
qed

end
