(* ===== verification/Uart.thy ===== *)
theory Uart
  imports Afio
begin

text \<open>
  The UARTs, \<open>hw/char/stm32_uart.c\<close>, in the configuration of the build: baud rate delays are simulated
  and overrun is disabled (neither \<open>STM32_UART_NO_BAUD_DELAY\<close> nor \<open>STM32_UART_ENABLE_OVERRUN\<close> is
  defined). The devices a UART points to and the virtual time are the argument \<open>uart_env\<close> of the
  functions that look at them. A QEMU timer is the optional time at which it expires; \<open>timer_mod\<close> sets
  it. \<open>ns_per_char\<close>, an \<open>int64_t\<close> that holds at most ten times \<open>1000000000\<close>, is kept as a 64-bit word. The
  character device is present or not.
\<close>

section \<open>Registers and state\<close>

abbreviation (input) USART_SR_OFFSET :: nat where "USART_SR_OFFSET \<equiv> 0x0"
abbreviation (input) USART_SR_TXE_BIT :: nat where "USART_SR_TXE_BIT \<equiv> 7"
abbreviation (input) USART_SR_TC_BIT :: nat where "USART_SR_TC_BIT \<equiv> 6"
abbreviation (input) USART_SR_RXNE_BIT :: nat where "USART_SR_RXNE_BIT \<equiv> 5"
abbreviation (input) USART_SR_ORE_BIT :: nat where "USART_SR_ORE_BIT \<equiv> 3"
abbreviation (input) USART_DR_OFFSET :: nat where "USART_DR_OFFSET \<equiv> 0x4"
abbreviation (input) USART_BRR_OFFSET :: nat where "USART_BRR_OFFSET \<equiv> 0x8"
abbreviation (input) USART_CR1_OFFSET :: nat where "USART_CR1_OFFSET \<equiv> 0xc"
abbreviation (input) USART_CR1_UE_BIT :: nat where "USART_CR1_UE_BIT \<equiv> 13"
abbreviation (input) USART_CR1_M_BIT :: nat where "USART_CR1_M_BIT \<equiv> 12"
abbreviation (input) USART_CR1_PCE_BIT :: nat where "USART_CR1_PCE_BIT \<equiv> 10"
abbreviation (input) USART_CR1_PS_BIT :: nat where "USART_CR1_PS_BIT \<equiv> 9"
abbreviation (input) USART_CR1_TXEIE_BIT :: nat where "USART_CR1_TXEIE_BIT \<equiv> 7"
abbreviation (input) USART_CR1_TCIE_BIT :: nat where "USART_CR1_TCIE_BIT \<equiv> 6"
abbreviation (input) USART_CR1_RXNEIE_BIT :: nat where "USART_CR1_RXNEIE_BIT \<equiv> 5"
abbreviation (input) USART_CR1_TE_BIT :: nat where "USART_CR1_TE_BIT \<equiv> 3"
abbreviation (input) USART_CR1_RE_BIT :: nat where "USART_CR1_RE_BIT \<equiv> 2"
abbreviation (input) USART_CR2_OFFSET :: nat where "USART_CR2_OFFSET \<equiv> 0x10"
abbreviation (input) USART_CR2_STOP_START :: nat where "USART_CR2_STOP_START \<equiv> 12"
abbreviation (input) USART_CR3_OFFSET :: nat where "USART_CR3_OFFSET \<equiv> 0x14"
abbreviation (input) USART_CR3_CTSE_BIT :: nat where "USART_CR3_CTSE_BIT \<equiv> 9"
abbreviation (input) USART_CR3_RTSE_BIT :: nat where "USART_CR3_RTSE_BIT \<equiv> 8"
abbreviation (input) USART_GTPR_OFFSET :: nat where "USART_GTPR_OFFSET \<equiv> 0x18"
abbreviation (input) USART_CR2_STOP_MASK :: u32 where "USART_CR2_STOP_MASK \<equiv> 0x3000"

record Stm32Uart =
  uart_periph :: nat
  bits_per_sec :: u32
  ns_per_char :: u64
  USART_RDR :: u32
  USART_TDR :: u32
  USART_BRR :: u32
  USART_CR1 :: u32
  USART_CR2 :: u32
  USART_CR3 :: u32
  USART_SR_TXE :: u32
  USART_SR_TC :: u32
  USART_SR_RXNE :: u32
  USART_SR_ORE :: u32
  USART_CR1_UE :: u32
  USART_CR1_TXEIE :: u32
  USART_CR1_TCIE :: u32
  USART_CR1_RXNEIE :: u32
  USART_CR1_TE :: u32
  USART_CR1_RE :: u32
  sr_read_since_ore_set :: bool
  receiving :: bool
  rx_timer :: "u64 option"
  tx_timer :: "u64 option"
  uart_chr :: bool
  afio_board_map :: u32
  uart_irq :: qemu_irq
  curr_irq_level :: int

record uart_env =
  ue_rcc :: Stm32Rcc
  ue_gpio :: "Stm32Gpio list"
  ue_afio :: Stm32Afio
  ue_now :: u64

section \<open>Baud rate and interrupt line\<close>

definition stm32_uart_baud_update :: "uart_env \<Rightarrow> Stm32Uart \<Rightarrow> Stm32Uart run" where
  "stm32_uart_baud_update e s =
     run_bind (stm32_rcc_get_periph_freq (ue_rcc e) (uart_periph s)) (\<lambda>clk_freq.
       if USART_BRR s = 0 \<or> clk_freq = 0 then Ok (s\<lparr>bits_per_sec := 0\<rparr>) []
       else let bps = clk_freq div USART_BRR s
            in if bps = 0 then Stop DivByZero []
               else let ns_per_bit = 1000000000 div ucast bps
                    in Ok (s\<lparr>bits_per_sec := bps, ns_per_char := ns_per_bit * 10\<rparr>) [])"

definition stm32_uart_clk_irq_handler :: "uart_env \<Rightarrow> nat \<Rightarrow> int \<Rightarrow> Stm32Uart \<Rightarrow> Stm32Uart run" where
  "stm32_uart_clk_irq_handler e n level s =
     (if n = 0 then if level \<noteq> 0 then stm32_uart_baud_update e s else Ok s [] else Stop AssertFail [])"

definition stm32_uart_update_irq :: "Stm32Uart \<Rightarrow> Stm32Uart run" where
  "stm32_uart_update_irq s =
     (let new_irq_level = sint ((USART_CR1_TCIE s AND USART_SR_TC s) OR
            (USART_CR1_TXEIE s AND USART_SR_TXE s) OR
            (USART_CR1_RXNEIE s AND (USART_SR_ORE s OR USART_SR_RXNE s)))
      in if new_irq_level XOR curr_irq_level s \<noteq> 0
         then run_bind (qemu_set_irq (uart_irq s) new_irq_level s)
                (\<lambda>s. Ok (s\<lparr>curr_irq_level := new_irq_level\<rparr>) [])
         else Ok s [])"

section \<open>Transmitter\<close>

definition stm32_uart_start_tx :: "uart_env \<Rightarrow> u32 \<Rightarrow> Stm32Uart \<Rightarrow> Stm32Uart run" where
  "stm32_uart_start_tx e value s =
     (let curr_time = ue_now e; ch = ucast value
      in run_seq
        [\<lambda>s. Ok (s\<lparr>USART_SR_TC := 0\<rparr>) [],
         \<lambda>s. Ok s (if uart_chr s then [ChrWrite ch] else []),
         \<lambda>s. Ok (s\<lparr>tx_timer := Some (curr_time + ns_per_char s)\<rparr>) []] s)"

definition stm32_uart_tx_complete :: "uart_env \<Rightarrow> Stm32Uart \<Rightarrow> Stm32Uart run" where
  "stm32_uart_tx_complete e s =
     (if USART_SR_TXE s = 1
      then stm32_uart_update_irq (s\<lparr>USART_SR_TC := 1\<rparr>)
      else run_seq
        [\<lambda>s. Ok (s\<lparr>USART_SR_TXE := 1\<rparr>) [],
         stm32_uart_update_irq,
         \<lambda>s. stm32_uart_start_tx e (USART_TDR s) s] s)"

definition uart_tx_pin :: "uart_env \<Rightarrow> nat \<Rightarrow> (nat \<times> nat) run" where
  "uart_tx_pin e periph =
     (if periph = STM32_UART1
      then run_bind (stm32_afio_get_periph_map (ue_afio e) periph) (\<lambda>m.
        if m = STM32_USART1_NO_REMAP then Ok (STM32_GPIOA, 9) []
        else if m = STM32_USART1_REMAP then Ok (STM32_GPIOB, 6) []
        else Stop AssertFail [])
      else if periph = STM32_UART2
      then run_bind (stm32_afio_get_periph_map (ue_afio e) periph) (\<lambda>m.
        if m = STM32_USART2_NO_REMAP then Ok (STM32_GPIOA, 2) []
        else if m = STM32_USART2_REMAP then Ok (STM32_GPIOD, 5) []
        else Stop AssertFail [])
      else if periph = STM32_UART3
      then run_bind (stm32_afio_get_periph_map (ue_afio e) periph) (\<lambda>m.
        if m = STM32_USART3_NO_REMAP then Ok (STM32_GPIOB, 10) []
        else if m = STM32_USART3_PARTIAL_REMAP then Ok (STM32_GPIOC, 10) []
        else if m = STM32_USART3_FULL_REMAP then Ok (STM32_GPIOD, 8) []
        else Stop AssertFail [])
      else Stop AssertFail [])"

definition stm32_uart_check_tx_pin :: "uart_env \<Rightarrow> Stm32Uart \<Rightarrow> unit run" where
  "stm32_uart_check_tx_pin e s =
     (if uart_periph s = STM32_UART5 then Ok () []
      else run_bind (uart_tx_pin e (uart_periph s)) (\<lambda>(tx_periph, tx_pin).
        let gpio_dev = ue_gpio e ! STM32_GPIO_INDEX_FROM_PERIPH tx_periph
        in run_bind (stm32_gpio_get_mode_bits gpio_dev tx_pin) (\<lambda>mode.
          if mode = STM32_GPIO_MODE_IN
          then Stop (HwError ''UART TX pin needs to be configured as output'') []
          else run_bind (stm32_gpio_get_config_bits gpio_dev tx_pin) (\<lambda>config.
            if config \<noteq> STM32_GPIO_OUT_ALT_PUSHPULL \<and> config \<noteq> STM32_GPIO_OUT_ALT_OPEN
            then Stop (HwError ''UART TX pin needs to be configured as alternate function output'') []
            else Ok () []))))"

section \<open>Timers\<close>

definition stm32_uart_rx_timer_expire :: "Stm32Uart \<Rightarrow> Stm32Uart run" where
  "stm32_uart_rx_timer_expire s = Ok (s\<lparr>receiving := False\<rparr>) []"

definition stm32_uart_tx_timer_expire :: "uart_env \<Rightarrow> Stm32Uart \<Rightarrow> Stm32Uart run" where
  "stm32_uart_tx_timer_expire e s = stm32_uart_tx_complete e s"

section \<open>Character device\<close>

definition stm32_uart_can_receive :: "Stm32Uart \<Rightarrow> int" where
  "stm32_uart_can_receive s =
     (if USART_CR1_UE s \<noteq> 0 \<and> USART_CR1_RE s \<noteq> 0
      then if receiving s then 0 else if USART_SR_RXNE s \<noteq> 0 then 0 else 1
      else 1)"

definition stm32_uart_event :: "int \<Rightarrow> Stm32Uart \<Rightarrow> Stm32Uart run" where
  "stm32_uart_event event s = Ok s []"

definition stm32_uart_receive :: "uart_env \<Rightarrow> u8 list \<Rightarrow> Stm32Uart \<Rightarrow> Stm32Uart run" where
  "stm32_uart_receive e buf s =
     (let curr_time = ue_now e
      in if 0 < length buf
         then run_seq
           [\<lambda>s. if USART_CR1_UE s \<noteq> 0 \<and> USART_CR1_RE s \<noteq> 0
              then run_seq
                [\<lambda>s. if USART_SR_RXNE s \<noteq> 0
                   then stm32_uart_update_irq (s\<lparr>USART_SR_ORE := 1, sr_read_since_ore_set := False\<rparr>)
                   else Ok s [],
                 \<lambda>s. stm32_uart_update_irq (s\<lparr>USART_RDR := ucast (hd buf), USART_SR_RXNE := 1\<rparr>)] s
              else Ok s [],
            \<lambda>s. Ok (s\<lparr>receiving := True, rx_timer := Some (curr_time + ns_per_char s)\<rparr>) []] s
         else Stop AssertFail [])"

section \<open>Register implementation\<close>

definition stm32_uart_USART_SR_read :: "Stm32Uart \<Rightarrow> Stm32Uart \<times> u32" where
  "stm32_uart_USART_SR_read s =
     (let s = (if USART_SR_ORE s \<noteq> 0 then s\<lparr>sr_read_since_ore_set := True\<rparr> else s)
      in (s, push_bit USART_SR_TXE_BIT (USART_SR_TXE s) OR
             push_bit USART_SR_TC_BIT (USART_SR_TC s) OR
             push_bit USART_SR_RXNE_BIT (USART_SR_RXNE s) OR
             push_bit USART_SR_ORE_BIT (USART_SR_ORE s)))"

definition stm32_uart_USART_SR_write :: "u32 \<Rightarrow> Stm32Uart \<Rightarrow> Stm32Uart run" where
  "stm32_uart_USART_SR_write new_value s =
     (let new_TC = extract32 new_value USART_SR_TC_BIT 1;
          new_RXNE = extract32 new_value USART_SR_RXNE_BIT 1
      in if new_TC \<noteq> 0 then Stop (HwError ''Software attempted to set USART TC bit'') []
         else if new_RXNE \<noteq> 0 then Stop (HwError ''Software attempted to set USART RXNE bit'') []
         else stm32_uart_update_irq (s\<lparr>USART_SR_TC := new_TC, USART_SR_RXNE := new_RXNE\<rparr>))"

definition stm32_uart_USART_DR_read :: "Stm32Uart \<Rightarrow> (Stm32Uart \<times> u32) run" where
  "stm32_uart_USART_DR_read s =
     (let s = (if USART_SR_ORE s \<noteq> 0 \<and> sr_read_since_ore_set s then s\<lparr>USART_SR_ORE := 0\<rparr> else s)
      in if USART_CR1_UE s = 0
         then Stop (HwError ''Attempted to read from USART_DR while UART was disabled.'') []
         else if USART_CR1_RE s = 0
         then Stop (HwError ''Attempted to read from USART_DR while UART receiver was disabled.'') []
         else if USART_SR_RXNE s \<noteq> 0
         then run_map (\<lambda>s'. (s', USART_RDR s)) (stm32_uart_update_irq (s\<lparr>USART_SR_RXNE := 0\<rparr>))
         else Stop (HwError ''Read value from USART_DR while it was empty.'') [])"

definition stm32_uart_USART_DR_write :: "uart_env \<Rightarrow> u32 \<Rightarrow> Stm32Uart \<Rightarrow> Stm32Uart run" where
  "stm32_uart_USART_DR_write e new_value s =
     (let write_value = new_value AND 0x000001ff
      in if USART_CR1_UE s = 0
         then Stop (HwError ''Attempted to write to USART_DR while UART was disabled.'') []
         else if USART_CR1_TE s = 0
         then Stop (HwError ''Attempted to write to USART_DR while UART transmitter was disabled.'') []
         else run_bind (stm32_uart_check_tx_pin e s) (\<lambda>_. run_seq
           [\<lambda>s. if USART_SR_TC s \<noteq> 0 then stm32_uart_start_tx e write_value s
              else if USART_SR_TXE s \<noteq> 0 then Ok (s\<lparr>USART_TDR := write_value, USART_SR_TXE := 0\<rparr>) []
              else Stop (HwError ''Wrote new value to USART_DR while it was non-empty.'') [],
            stm32_uart_update_irq] s))"

definition stm32_uart_USART_BRR_write :: "uart_env \<Rightarrow> u32 \<Rightarrow> Stm32Uart \<Rightarrow> Stm32Uart run" where
  "stm32_uart_USART_BRR_write e new_value s =
     stm32_uart_baud_update e (s\<lparr>USART_BRR := new_value AND 0x0000ffff\<rparr>)"

definition stm32_uart_USART_CR1_write :: "uart_env \<Rightarrow> u32 \<Rightarrow> Stm32Uart \<Rightarrow> Stm32Uart run" where
  "stm32_uart_USART_CR1_write e new_value = run_seq
     [\<lambda>s. Ok (s\<lparr>USART_CR1_UE := extract32 new_value USART_CR1_UE_BIT 1\<rparr>) [],
      \<lambda>s. if USART_CR1_UE s \<noteq> 0
         then run_bind (stm32_afio_get_periph_map (ue_afio e) (uart_periph s)) (\<lambda>m.
           if afio_board_map s \<noteq> m
           then run_bind (stm32_periph_name (uart_periph s)) (\<lambda>nm. Stop (HwError (''Bad AFIO mapping for '' @ nm)) [])
           else Ok s [])
         else Ok s [],
      \<lambda>s. stm32_uart_update_irq
         (s\<lparr>USART_CR1_TXEIE := extract32 new_value USART_CR1_TXEIE_BIT 1,
            USART_CR1_TCIE := extract32 new_value USART_CR1_TCIE_BIT 1,
            USART_CR1_RXNEIE := extract32 new_value USART_CR1_RXNEIE_BIT 1,
            USART_CR1_TE := extract32 new_value USART_CR1_TE_BIT 1,
            USART_CR1_RE := extract32 new_value USART_CR1_RE_BIT 1,
            USART_CR1 := new_value AND 0x00003fff\<rparr>)]"

definition stm32_uart_USART_CR2_write :: "u32 \<Rightarrow> Stm32Uart \<Rightarrow> Stm32Uart run" where
  "stm32_uart_USART_CR2_write new_value s = Ok (s\<lparr>USART_CR2 := new_value AND 0x00007f7f\<rparr>) []"

definition stm32_uart_USART_CR3_write :: "u32 \<Rightarrow> Stm32Uart \<Rightarrow> Stm32Uart run" where
  "stm32_uart_USART_CR3_write new_value s = Ok (s\<lparr>USART_CR3 := new_value AND 0x000007ff\<rparr>) []"

definition stm32_uart_reset :: "uart_env \<Rightarrow> Stm32Uart \<Rightarrow> Stm32Uart run" where
  "stm32_uart_reset e = run_seq
     [\<lambda>s. Ok (s\<lparr>USART_SR_TXE := 1, USART_SR_TC := 1, USART_SR_RXNE := 0, USART_SR_ORE := 0\<rparr>) [],
      stm32_uart_USART_BRR_write e 0,
      stm32_uart_USART_CR1_write e 0,
      stm32_uart_USART_CR2_write 0,
      stm32_uart_USART_CR3_write 0,
      stm32_uart_update_irq]"

section \<open>Register access\<close>

abbreviation (input) MONITOR_ACK_READ :: u64 where "MONITOR_ACK_READ \<equiv> 0x1ff"

definition uart_extract :: "u32 \<Rightarrow> nat \<Rightarrow> nat \<Rightarrow> u64 run" where
  "uart_extract value offset sz =
     (let start = offset mod 4 * 8; len = sz * 8
      in if bitfield_ok 64 start len then Ok (extract64 (ucast value) start len) [] else Stop AssertFail [])"

definition stm32_uart_read :: "Stm32Uart \<Rightarrow> nat \<Rightarrow> nat \<Rightarrow> (Stm32Uart \<times> u64) run" where
  "stm32_uart_read s offset sz =
     (let reg = offset mod 2 ^ 32 - offset mod 4
      in if reg = USART_SR_OFFSET
         then let (s', v) = stm32_uart_USART_SR_read s in run_map (Pair s') (uart_extract v offset sz)
         else if reg = USART_DR_OFFSET
         then if uart_periph s = STM32_UART5 then Ok (s, MONITOR_ACK_READ) [WaitAck]
              else run_bind (stm32_uart_USART_DR_read s)
                     (\<lambda>(s', v). run_map (Pair s') (uart_extract v offset sz))
         else if reg = USART_BRR_OFFSET then run_map (Pair s) (uart_extract (USART_BRR s) offset sz)
         else if reg = USART_CR1_OFFSET then run_map (Pair s) (uart_extract (USART_CR1 s) offset sz)
         else if reg = USART_CR2_OFFSET then run_map (Pair s) (uart_extract (USART_CR2 s) offset sz)
         else if reg = USART_CR3_OFFSET then run_map (Pair s) (uart_extract (USART_CR3 s) offset sz)
         else if reg = USART_GTPR_OFFSET then STM32_NOT_IMPL_REG offset sz
         else STM32_BAD_REG offset sz)"

definition uart_deposit :: "u32 \<Rightarrow> nat \<Rightarrow> nat \<Rightarrow> u64 \<Rightarrow> u32 run" where
  "uart_deposit old offset sz value =
     (let start = offset mod 4 * 8; len = sz * 8
      in if bitfield_ok 64 start len then Ok (ucast (deposit64 (ucast old) start len value)) [] else Stop AssertFail [])"

definition uart_write_reg :: "uart_env \<Rightarrow> nat \<Rightarrow> u64 \<Rightarrow> nat \<Rightarrow> Stm32Uart \<Rightarrow> Stm32Uart run" where
  "uart_write_reg e offset value sz s =
     (let reg = offset mod 2 ^ 32 - offset mod 4
      in if reg = USART_SR_OFFSET
         then let (s', v) = stm32_uart_USART_SR_read s
              in run_bind (uart_deposit v offset sz value) (\<lambda>w. stm32_uart_USART_SR_write w s')
         else if reg = USART_DR_OFFSET
         then run_bind (uart_deposit 0 offset sz value) (\<lambda>w. stm32_uart_USART_DR_write e w s)
         else if reg = USART_BRR_OFFSET
         then run_bind (uart_deposit (USART_BRR s) offset sz value) (\<lambda>w. stm32_uart_USART_BRR_write e w s)
         else if reg = USART_CR1_OFFSET
         then run_bind (uart_deposit (USART_CR1 s) offset sz value) (\<lambda>w. stm32_uart_USART_CR1_write e w s)
         else if reg = USART_CR2_OFFSET
         then run_bind (uart_deposit (USART_CR2 s) offset sz value) (\<lambda>w. stm32_uart_USART_CR2_write w s)
         else if reg = USART_CR3_OFFSET
         then run_bind (uart_deposit (USART_CR3 s) offset sz value) (\<lambda>w. stm32_uart_USART_CR3_write w s)
         else if reg = USART_GTPR_OFFSET then STM32_NOT_IMPL_REG offset 2
         else STM32_BAD_REG offset 2)"

definition stm32_uart_write :: "uart_env \<Rightarrow> Stm32Uart \<Rightarrow> nat \<Rightarrow> u64 \<Rightarrow> nat \<Rightarrow> Stm32Uart run" where
  "stm32_uart_write e s offset value sz =
     (if uart_periph s = STM32_UART5 then Ok s [PostEvent (ucast value)]
      else run_bind (stm32_rcc_check_periph_clk (ue_rcc e) (uart_periph s))
             (\<lambda>_. uart_write_reg e offset value sz s))"

section \<open>Connection and initialization\<close>

definition stm32_uart_connect :: "bool \<Rightarrow> u32 \<Rightarrow> Stm32Uart \<Rightarrow> Stm32Uart" where
  "stm32_uart_connect chr board_map s = s\<lparr>uart_chr := chr, afio_board_map := board_map\<rparr>"

text \<open>The object is allocated with zeros. Initialization registers the clock handler of UART number
  \<open>idx\<close> with the RCC and resets the device.\<close>

definition uart_zero :: "nat \<Rightarrow> Stm32Uart" where
  "uart_zero periph =
     \<lparr>uart_periph = periph, bits_per_sec = 0, ns_per_char = 0, USART_RDR = 0, USART_TDR = 0, USART_BRR = 0,
      USART_CR1 = 0, USART_CR2 = 0, USART_CR3 = 0, USART_SR_TXE = 0, USART_SR_TC = 0, USART_SR_RXNE = 0,
      USART_SR_ORE = 0, USART_CR1_UE = 0, USART_CR1_TXEIE = 0, USART_CR1_TCIE = 0, USART_CR1_RXNEIE = 0,
      USART_CR1_TE = 0, USART_CR1_RE = 0, sr_read_since_ore_set = False, receiving = False,
      rx_timer = None, tx_timer = None, uart_chr = False, afio_board_map = 0, uart_irq = IrqNull,
      curr_irq_level = 0\<rparr>"

definition stm32_uart_init :: "uart_env \<Rightarrow> nat \<Rightarrow> nat \<Rightarrow> (Stm32Uart \<times> Stm32Rcc) run" where
  "stm32_uart_init e idx periph =
     run_bind (stm32_rcc_set_periph_clk_irq periph (IrqUartClk idx) (ue_rcc e)) (\<lambda>rcc.
       run_map (\<lambda>s. (s, rcc)) (stm32_uart_reset (e\<lparr>ue_rcc := rcc\<rparr>) (uart_zero periph)))"

end
