(* ===== verification/Uart_Ops.thy ===== *)
theory Uart_Ops
  imports Uart Rcc_Clients
begin

text \<open>
  The invariant of a UART and its operations: the flag fields are single bits, the transmit buffer is
  only used while a transmission is in progress, and the interrupt line is at the level the flags and
  their enable bits give.
\<close>

section \<open>Flags and the interrupt line\<close>

definition is_flag :: "u32 \<Rightarrow> bool" where
  "is_flag w \<longleftrightarrow> w = 0 \<or> w = 1"

definition uart_flags :: "Stm32Uart \<Rightarrow> bool" where
  "uart_flags s \<longleftrightarrow> is_flag (USART_SR_TXE s) \<and> is_flag (USART_SR_TC s) \<and> is_flag (USART_SR_RXNE s) \<and>
     is_flag (USART_SR_ORE s) \<and> is_flag (USART_CR1_UE s) \<and> is_flag (USART_CR1_TXEIE s) \<and>
     is_flag (USART_CR1_TCIE s) \<and> is_flag (USART_CR1_RXNEIE s) \<and> is_flag (USART_CR1_TE s) \<and> is_flag (USART_CR1_RE s)"

definition uart_level :: "Stm32Uart \<Rightarrow> int" where
  "uart_level s = (if USART_CR1_TCIE s = 1 \<and> USART_SR_TC s = 1 \<or> USART_CR1_TXEIE s = 1 \<and> USART_SR_TXE s = 1 \<or>
     USART_CR1_RXNEIE s = 1 \<and> (USART_SR_ORE s = 1 \<or> USART_SR_RXNE s = 1) then 1 else 0)"

definition uart_wf :: "Stm32Uart \<Rightarrow> bool" where
  "uart_wf s \<longleftrightarrow> uart_flags s \<and> (USART_SR_TC s = 1 \<longrightarrow> USART_SR_TXE s = 1) \<and> curr_irq_level s = uart_level s"

lemma flag_and: "is_flag a \<Longrightarrow> is_flag b \<Longrightarrow> a AND b = (if a = 1 \<and> b = 1 then 1 else 0)"
  by (auto simp: is_flag_def)

lemma flag_or: "is_flag a \<Longrightarrow> is_flag b \<Longrightarrow> a OR b = (if a = 1 \<or> b = 1 then 1 else 0)"
  by (auto simp: is_flag_def)

lemma flag_if [simp]: "is_flag (if b then 1 else 0)" "is_flag 0" "is_flag 1"
  by (simp_all add: is_flag_def)

lemma flag_extract: "n < 32 \<Longrightarrow> is_flag (extract32 v n 1)"
  by (simp add: extract32_bit del: One_nat_def)

lemma xor_int_eq_0: "a XOR b = 0 \<longleftrightarrow> a = b" for a b :: int
  by (auto simp: bit_eq_iff bit_xor_iff)

lemma uart_new_level:
  assumes "uart_flags s"
  shows "sint ((USART_CR1_TCIE s AND USART_SR_TC s) OR (USART_CR1_TXEIE s AND USART_SR_TXE s) OR
    (USART_CR1_RXNEIE s AND (USART_SR_ORE s OR USART_SR_RXNE s))) = uart_level s"
proof -
  have fl: "is_flag (USART_SR_TXE s)" "is_flag (USART_SR_TC s)" "is_flag (USART_SR_RXNE s)" "is_flag (USART_SR_ORE s)"
    "is_flag (USART_CR1_TXEIE s)" "is_flag (USART_CR1_TCIE s)" "is_flag (USART_CR1_RXNEIE s)"
    using assms by (simp_all add: uart_flags_def)
  show ?thesis
    by (simp add: flag_and flag_or fl uart_level_def)
qed

definition uart_irq_event :: "Stm32Uart \<Rightarrow> effect list" where
  "uart_irq_event s = (if uart_level s = curr_irq_level s \<or> uart_irq s = IrqNull then [] else [SetIrq (uart_irq s) (uart_level s)])"

lemma uart_update_irq_eq:
  assumes "uart_flags s"
  shows "stm32_uart_update_irq s = Ok (s\<lparr>curr_irq_level := uart_level s\<rparr>) (uart_irq_event s)"
  unfolding stm32_uart_update_irq_def uart_new_level [OF assms] Let_def xor_int_eq_0
  by (cases "uart_level s = curr_irq_level s") (simp_all add: uart_irq_event_def qemu_set_irq_def)

section \<open>What an operation does\<close>

fun chr_bytes :: "effect list \<Rightarrow> u8 list" where
  "chr_bytes [] = []"
| "chr_bytes (ChrWrite c # es) = c # chr_bytes es"
| "chr_bytes (e # es) = chr_bytes es"

lemma chr_bytes_append [simp]: "chr_bytes (es @ fs) = chr_bytes es @ chr_bytes fs"
proof (induction es)
  case (Cons e es)
  then show ?case by (cases e) simp_all
qed simp

text \<open>The byte waiting in the transmit buffer, and the claim that a transmission in progress ends.\<close>

definition uart_buffer :: "Stm32Uart \<Rightarrow> u8 list" where
  "uart_buffer s = (if USART_SR_TXE s = 0 then [ucast (USART_TDR s)] else [])"

definition uart_live :: "Stm32Uart \<Rightarrow> bool" where
  "uart_live s \<longleftrightarrow> (USART_SR_TC s = 0 \<longrightarrow> tx_timer s \<noteq> None)"

text \<open>An operation that accepts the bytes \<open>acc\<close> for transmission: it keeps the invariant, drives the
  line to its new level, and sends and buffers exactly what was buffered and accepted. With \<open>l\<close> it also
  keeps the transmitter alive.\<close>

definition uart_moves :: "bool \<Rightarrow> Stm32Uart \<Rightarrow> u8 list \<Rightarrow> Stm32Uart \<Rightarrow> effect list \<Rightarrow> bool" where
  "uart_moves l s acc s' es \<longleftrightarrow> uart_wf s' \<and>
     uart_irq s' = uart_irq s \<and> uart_chr s' = uart_chr s \<and> uart_periph s' = uart_periph s \<and>
     (uart_irq s \<noteq> IrqNull \<longrightarrow> line_level (uart_irq s) es (curr_irq_level s) = curr_irq_level s') \<and>
     (uart_chr s \<longrightarrow> chr_bytes es @ uart_buffer s' = uart_buffer s @ acc) \<and>
     (l \<and> uart_live s \<longrightarrow> uart_live s')"

lemma uart_irq_event_level:
  "uart_irq s \<noteq> IrqNull \<Longrightarrow> line_level (uart_irq s) (uart_irq_event s) (curr_irq_level s) = uart_level s"
  by (simp add: uart_irq_event_def)

lemma uart_irq_event_bytes [simp]: "chr_bytes (uart_irq_event s) = []"
  by (simp add: uart_irq_event_def)

text \<open>A change of flags followed by the update of the line.\<close>

lemma uart_update_moves:
  assumes "uart_flags t" "USART_SR_TC t = 1 \<longrightarrow> USART_SR_TXE t = 1"
    and "uart_irq t = uart_irq s" "uart_chr t = uart_chr s" "uart_periph t = uart_periph s" "curr_irq_level t = curr_irq_level s"
    and "uart_chr s \<longrightarrow> uart_buffer t = uart_buffer s @ acc" "l \<and> uart_live s \<longrightarrow> uart_live t"
  shows "run_total (uart_moves l s acc) (stm32_uart_update_irq t)"
proof -
  let ?t = "t\<lparr>curr_irq_level := uart_level t\<rparr>"
  have "uart_level ?t = uart_level t" "uart_flags ?t = uart_flags t" "uart_buffer ?t = uart_buffer t" "uart_live ?t = uart_live t"
    by (simp_all add: uart_level_def uart_flags_def uart_buffer_def uart_live_def)
  then show ?thesis
    using assms uart_irq_event_level [of t]
    by (simp add: uart_update_irq_eq uart_moves_def uart_wf_def)
qed

text \<open>A change of fields that no flag depends on.\<close>

lemma uart_idle_moves:
  assumes "uart_wf s" "uart_flags t = uart_flags s" "uart_level t = uart_level s"
    and "USART_SR_TC t = USART_SR_TC s" "USART_SR_TXE t = USART_SR_TXE s" "USART_TDR t = USART_TDR s" "tx_timer t = tx_timer s"
    and "uart_irq t = uart_irq s" "uart_chr t = uart_chr s" "uart_periph t = uart_periph s" "curr_irq_level t = curr_irq_level s"
  shows "uart_moves l s [] t []"
  using assms by (simp add: uart_moves_def uart_wf_def uart_buffer_def uart_live_def)

lemma uart_wfD:
  assumes "uart_wf s"
  shows "uart_flags s" "USART_SR_TC s = 1 \<Longrightarrow> USART_SR_TXE s = 1" "curr_irq_level s = uart_level s"
    "USART_SR_TC s = 0 \<or> USART_SR_TC s = 1" "USART_SR_TXE s = 0 \<or> USART_SR_TXE s = 1"
  using assms by (simp_all add: uart_wf_def uart_flags_def is_flag_def)

lemma uart_moves_join:
  assumes "uart_moves l s a t es" "uart_moves l t b s' fs"
  shows "uart_moves l s (a @ b) s' (es @ fs)"
proof -
  have "chr_bytes (es @ fs) @ uart_buffer s' = uart_buffer s @ a @ b" if "uart_chr s"
  proof -
    have "chr_bytes fs @ uart_buffer s' = uart_buffer t @ b" "chr_bytes es @ uart_buffer t = uart_buffer s @ a"
      using assms that by (auto simp: uart_moves_def)
    then show ?thesis by (metis append_assoc chr_bytes_append)
  qed
  then show ?thesis using assms by (auto simp: uart_moves_def line_level_append)
qed

lemma uart_moves_bind:
  assumes "run_sat (uart_moves l s a) r" "\<And>t es. uart_moves l s a t es \<Longrightarrow> run_sat (uart_moves l t b) (f t)"
  shows "run_sat (uart_moves l s (a @ b)) (run_bind r f)"
proof (cases r)
  case (Ok t es)
  then have "run_sat (uart_moves l t b) (f t)" "uart_moves l s a t es" using assms by auto
  then show ?thesis using Ok by (auto intro: uart_moves_join elim!: run_sat_mono)
qed simp

lemma uart_moves_then:
  assumes "run_sat (uart_moves l s []) r" "\<And>t. uart_wf t \<Longrightarrow> run_sat (uart_moves l t b) (f t)"
  shows "run_sat (uart_moves l s b) (run_bind r f)"
  using uart_moves_bind [OF assms(1), of b f] assms(2) by (simp add: uart_moves_def del: run_sat_bind)

lemmas uart_state_defs = uart_wf_def uart_flags_def uart_level_def

lemma uart_baud_moves:
  assumes "uart_wf s"
  shows "run_sat (uart_moves l s []) (stm32_uart_baud_update e s)"
proof (cases "stm32_rcc_get_periph_freq (ue_rcc e) (uart_periph s)")
  case (Ok f es)
  then have "es = []" by (auto simp: stm32_rcc_get_periph_freq_def split: option.splits)
  then show ?thesis
    using Ok by (auto simp: stm32_uart_baud_update_def Let_def uart_state_defs intro!: uart_idle_moves assms)
qed (simp add: stm32_uart_baud_update_def)

lemma uart_BRR_moves:
  assumes "uart_wf s"
  shows "run_sat (uart_moves l s []) (stm32_uart_USART_BRR_write e v s)"
proof -
  let ?t = "s\<lparr>USART_BRR := v AND 0xffff\<rparr>"
  have "uart_moves l s [] ?t []" by (rule uart_idle_moves [OF assms]) (simp_all add: uart_state_defs)
  moreover from this have "run_sat (uart_moves l ?t []) (stm32_uart_baud_update e ?t)"
    by (intro uart_baud_moves) (simp add: uart_moves_def)
  ultimately show ?thesis
    unfolding stm32_uart_USART_BRR_write_def
    using uart_moves_join [of l s "[]" ?t "[]" "[]"] by (auto elim!: run_sat_mono)
qed

section \<open>Transmitter\<close>

lemma uart_start_tx_eq:
  "stm32_uart_start_tx e v s =
     Ok (s\<lparr>USART_SR_TC := 0, tx_timer := Some (ue_now e + ns_per_char s)\<rparr>) (if uart_chr s then [ChrWrite (ucast v)] else [])"
  by (simp add: stm32_uart_start_tx_def)

lemma uart_tx_complete_moves:
  assumes "uart_wf s"
  shows "run_total (uart_moves True (s\<lparr>tx_timer := t\<rparr>) []) (stm32_uart_tx_complete e s)"
proof (cases "USART_SR_TXE s = 1")
  case True
  have "run_total (uart_moves True (s\<lparr>tx_timer := t\<rparr>) []) (stm32_uart_update_irq (s\<lparr>USART_SR_TC := 1\<rparr>))"
    by (rule uart_update_moves) (use assms True in \<open>simp_all add: uart_state_defs uart_buffer_def uart_live_def\<close>)
  then show ?thesis using True by (simp add: stm32_uart_tx_complete_def)
next
  case False
  let ?s1 = "s\<lparr>USART_SR_TXE := 1\<rparr>"
  let ?s2 = "?s1\<lparr>curr_irq_level := uart_level ?s1\<rparr>"
  let ?s3 = "?s2\<lparr>USART_SR_TC := 0, tx_timer := Some (ue_now e + ns_per_char s)\<rparr>"
  have txe: "USART_SR_TXE s = 0" using False uart_wfD(5) [OF assms] by simp
  then have tc: "USART_SR_TC s = 0" using uart_wfD(2,4) [OF assms] by auto
  have fl: "uart_flags ?s1" using assms by (simp add: uart_state_defs)
  have eq: "stm32_uart_tx_complete e s = Ok ?s3 (uart_irq_event ?s1 @ (if uart_chr s then [ChrWrite (ucast (USART_TDR s))] else []))"
    using False by (simp add: stm32_uart_tx_complete_def uart_update_irq_eq [OF fl] uart_start_tx_eq)
  have "uart_level ?s3 = uart_level ?s1" using tc by (simp add: uart_level_def)
  then have "uart_wf ?s3" using assms by (simp add: uart_wf_def uart_flags_def)
  then show ?thesis
    using eq uart_irq_event_level [of ?s1] txe
    by (simp add: uart_moves_def uart_buffer_def uart_live_def line_level_append)
qed

lemma bit_1ff: "bit (0x1ff :: u32) n \<longleftrightarrow> n < 9"
proof -
  have "(0x1ff :: u32) = mask 9" by (simp add: mask_eq_exp_minus_1)
  then have "bit (0x1ff :: u32) n \<longleftrightarrow> bit (mask 9 :: u32) n" by (rule arg_cong)
  then show ?thesis unfolding bit_mask_iff by auto
qed

lemma ucast_low_byte: "ucast (v AND 0x1ff) = (ucast v :: u8)" for v :: u32
proof (rule bit_word_eqI)
  fix n
  assume "n < LENGTH(8)"
  then have "n < 8" by simp
  then show "bit (ucast (v AND 0x1ff) :: u8) n = bit (ucast v :: u8) n"
    unfolding bit_ucast_iff bit_and_iff bit_1ff by auto
qed

lemma uart_DR_write_moves:
  assumes "uart_wf s"
  shows "run_sat (uart_moves True s [ucast v]) (stm32_uart_USART_DR_write e v s)"
proof (cases "stm32_uart_check_tx_pin e s")
  case (Ok u es)
  have none: "es = []"
    using Ok by (auto simp: stm32_uart_check_tx_pin_def uart_tx_pin_def stm32_afio_get_periph_map_def Let_def
        stm32_gpio_get_mode_bits_def stm32_gpio_get_config_bits_def stm32_gpio_get_pin_config_def run_bind_eq_Ok split: if_splits)
  have low: "ucast (v AND 0x1ff) = (ucast v :: u8)" by (rule ucast_low_byte)
  show ?thesis
  proof (cases "USART_SR_TC s = 0")
    case True
    then have "run_total (uart_moves True s [ucast v])
        (stm32_uart_update_irq (s\<lparr>USART_TDR := v AND 0x1ff, USART_SR_TXE := 0\<rparr>))" if "USART_SR_TXE s \<noteq> 0"
      by (intro uart_update_moves) (use assms that low in \<open>simp_all add: uart_state_defs uart_buffer_def uart_live_def\<close>)
    then show ?thesis
      using True Ok none by (auto simp: stm32_uart_USART_DR_write_def Let_def intro: run_total_imp_sat)
  next
    case False
    let ?t = "s\<lparr>USART_SR_TC := 0, tx_timer := Some (ue_now e + ns_per_char s)\<rparr>"
    have txe: "USART_SR_TXE s = 1" using False uart_wfD(2,4) [OF assms] by auto
    have fl: "uart_flags ?t" using assms by (simp add: uart_state_defs)
    have lv: "uart_level (?t\<lparr>curr_irq_level := uart_level ?t\<rparr>) = uart_level ?t" by (simp add: uart_level_def)
    have "run_sat (uart_moves True s [ucast v])
        (Ok (?t\<lparr>curr_irq_level := uart_level ?t\<rparr>) ((if uart_chr s then [ChrWrite (ucast v)] else []) @ uart_irq_event ?t))"
      using uart_irq_event_level [of ?t] fl lv txe
      by (simp add: uart_moves_def uart_wf_def uart_flags_def uart_buffer_def uart_live_def line_level_append)
    then show ?thesis
      using False Ok none low
      by (cases "uart_chr s") (simp_all add: stm32_uart_USART_DR_write_def Let_def uart_start_tx_eq uart_update_irq_eq [OF fl])
  qed
qed (simp add: stm32_uart_USART_DR_write_def Let_def)

section \<open>Receiver and control registers\<close>

lemma uart_SR_read_moves:
  "uart_wf s \<Longrightarrow> uart_moves l s [] (fst (stm32_uart_USART_SR_read s)) []"
  by (auto simp: stm32_uart_USART_SR_read_def Let_def uart_state_defs intro!: uart_idle_moves)

lemma uart_SR_write_moves:
  assumes "uart_wf s"
  shows "run_sat (uart_moves False s []) (stm32_uart_USART_SR_write v s)"
proof -
  have "run_total (uart_moves False s []) (stm32_uart_update_irq (s\<lparr>USART_SR_TC := 0, USART_SR_RXNE := 0\<rparr>))"
    by (rule uart_update_moves) (use assms in \<open>simp_all add: uart_state_defs uart_buffer_def\<close>)
  then show ?thesis by (auto simp: stm32_uart_USART_SR_write_def Let_def intro: run_total_imp_sat)
qed

lemma uart_DR_read_moves:
  assumes "uart_wf s"
  shows "run_sat (\<lambda>(s', v). uart_moves True s [] s') (stm32_uart_USART_DR_read s)"
proof -
  let ?t = "if USART_SR_ORE s \<noteq> 0 \<and> sr_read_since_ore_set s then s\<lparr>USART_SR_ORE := 0\<rparr> else s"
  have "run_total (uart_moves True s []) (stm32_uart_update_irq (?t\<lparr>USART_SR_RXNE := 0\<rparr>))"
    by (rule uart_update_moves) (use assms in \<open>simp_all add: uart_state_defs uart_buffer_def uart_live_def\<close>)
  then show ?thesis
    unfolding stm32_uart_USART_DR_read_def Let_def
    by (cases "stm32_uart_update_irq (?t\<lparr>USART_SR_RXNE := 0\<rparr>)") auto
qed

lemma uart_receive_moves:
  assumes "uart_wf s"
  shows "run_sat (uart_moves True s []) (stm32_uart_receive e buf s)"
proof -
  have ore: "run_sat (uart_moves True s []) (if USART_SR_RXNE s \<noteq> 0
      then stm32_uart_update_irq (s\<lparr>USART_SR_ORE := 1, sr_read_since_ore_set := False\<rparr>) else Ok s [])"
    if "uart_wf s" for s
    using that
    by (auto intro!: run_total_imp_sat uart_update_moves uart_idle_moves
        simp: uart_state_defs uart_buffer_def uart_live_def)
  have rxne: "run_sat (uart_moves True s []) (stm32_uart_update_irq (s\<lparr>USART_RDR := v, USART_SR_RXNE := 1\<rparr>))"
    if "uart_wf s" for s v
    by (rule run_total_imp_sat, rule uart_update_moves)
      (use that in \<open>simp_all add: uart_state_defs uart_buffer_def uart_live_def\<close>)
  have tail: "run_sat (uart_moves True s []) (Ok (s\<lparr>receiving := True, rx_timer := x\<rparr>) [])" if "uart_wf s" for s x
    using that by (auto intro!: uart_idle_moves simp: uart_state_defs)
  show ?thesis
  proof (cases "USART_CR1_UE s \<noteq> 0 \<and> USART_CR1_RE s \<noteq> 0 \<and> buf \<noteq> []")
    case True
    then have eq: "stm32_uart_receive e buf s =
      run_bind (if USART_SR_RXNE s \<noteq> 0
        then stm32_uart_update_irq (s\<lparr>USART_SR_ORE := 1, sr_read_since_ore_set := False\<rparr>) else Ok s [])
      (\<lambda>s. run_bind (stm32_uart_update_irq (s\<lparr>USART_RDR := ucast (hd buf), USART_SR_RXNE := 1\<rparr>))
      (\<lambda>s. Ok (s\<lparr>receiving := True, rx_timer := Some (ue_now e + ns_per_char s)\<rparr>) []))"
      by (simp add: stm32_uart_receive_def Let_def run_bind_assoc)
    show ?thesis unfolding eq by (intro uart_moves_then ore rxne tail assms)
  next
    case False
    then show ?thesis
      using tail [OF assms] by (auto simp: stm32_uart_receive_def Let_def)
  qed
qed

lemma uart_CR1_moves:
  assumes "uart_wf s"
  shows "run_sat (uart_moves True s []) (stm32_uart_USART_CR1_write e v s)"
proof -
  let ?s1 = "s\<lparr>USART_CR1_UE := extract32 v USART_CR1_UE_BIT 1\<rparr>"
  let ?f = "\<lambda>s. s\<lparr>USART_CR1_TXEIE := extract32 v USART_CR1_TXEIE_BIT 1,
            USART_CR1_TCIE := extract32 v USART_CR1_TCIE_BIT 1,
            USART_CR1_RXNEIE := extract32 v USART_CR1_RXNEIE_BIT 1,
            USART_CR1_TE := extract32 v USART_CR1_TE_BIT 1,
            USART_CR1_RE := extract32 v USART_CR1_RE_BIT 1,
            USART_CR1 := v AND 0x00003fff\<rparr>"
  let ?c = "(if USART_CR1_UE ?s1 \<noteq> 0
         then run_bind (stm32_afio_get_periph_map (ue_afio e) (uart_periph ?s1)) (\<lambda>m.
           if afio_board_map ?s1 \<noteq> m
           then run_bind (stm32_periph_name (uart_periph ?s1)) (\<lambda>nm. Stop (HwError (''Bad AFIO mapping for '' @ nm)) [])
           else Ok ?s1 [])
         else Ok ?s1 [])"
  have check: "run_sat (\<lambda>t es. t = ?s1 \<and> es = []) ?c"
    by (auto simp: stm32_afio_get_periph_map_def stm32_periph_name_def)
  have eq: "stm32_uart_USART_CR1_write e v s = run_bind ?c (\<lambda>s. stm32_uart_update_irq (?f s))"
    by (simp add: stm32_uart_USART_CR1_write_def del: One_nat_def)
  have "run_total (uart_moves True s []) (stm32_uart_update_irq (?f ?s1))"
    by (rule uart_update_moves)
      (use assms in \<open>simp_all add: uart_state_defs uart_buffer_def uart_live_def flag_extract del: One_nat_def\<close>)
  then show ?thesis
    using check unfolding eq by (cases ?c) (auto intro: run_total_imp_sat simp del: One_nat_def)
qed

lemma uart_CR23_moves:
  "uart_wf s \<Longrightarrow> run_sat (uart_moves l s []) (stm32_uart_USART_CR2_write v s)"
  "uart_wf s \<Longrightarrow> run_sat (uart_moves l s []) (stm32_uart_USART_CR3_write v s)"
  by (auto simp: stm32_uart_USART_CR2_write_def stm32_uart_USART_CR3_write_def uart_state_defs intro!: uart_idle_moves)

section \<open>Register accesses\<close>

definition uart_reg :: "nat \<Rightarrow> nat" where
  "uart_reg offset = offset mod 2 ^ 32 - offset mod 4"

text \<open>The byte a write hands to the transmitter.\<close>

definition uart_accepts :: "Stm32Uart \<Rightarrow> nat \<Rightarrow> u64 \<Rightarrow> nat \<Rightarrow> u8 list" where
  "uart_accepts s offset value sz =
     (if uart_periph s \<noteq> STM32_UART5 \<and> uart_reg offset = USART_DR_OFFSET
      then case uart_deposit 0 offset sz value of Ok w es \<Rightarrow> [ucast w] | Stop x es \<Rightarrow> []
      else [])"

lemma uart_deposit_silent: "uart_deposit old offset sz value = Ok w es \<Longrightarrow> es = []"
  by (auto simp: uart_deposit_def Let_def split: if_splits)

lemma uart_deposit_sat:
  "(\<And>w. uart_deposit old offset sz value = Ok w [] \<Longrightarrow> run_sat P (f w)) \<Longrightarrow>
     run_sat P (run_bind (uart_deposit old offset sz value) f)"
  by (cases "uart_deposit old offset sz value") (auto dest: uart_deposit_silent)

lemma uart_write_reg_moves:
  assumes "uart_wf s" "uart_periph s \<noteq> STM32_UART5"
  shows "run_sat (uart_moves (uart_reg offset \<noteq> USART_SR_OFFSET) s (uart_accepts s offset v sz))
    (uart_write_reg e offset v sz s)"
proof (cases "uart_reg offset = USART_SR_OFFSET")
  case True
  obtain s' v where sr: "stm32_uart_USART_SR_read s = (s', v)" by (cases "stm32_uart_USART_SR_read s")
  have m: "uart_moves False s [] s' []" using uart_SR_read_moves [OF assms(1), of False] sr by simp
  then have sw: "run_sat (uart_moves False s' []) (stm32_uart_USART_SR_write w s')" for w
    by (intro uart_SR_write_moves) (simp add: uart_moves_def)
  have "run_sat (uart_moves False s []) (stm32_uart_USART_SR_write w s')" for w
    by (rule run_sat_mono [OF sw]) (use uart_moves_join [OF m, of "[]"] in simp)
  then show ?thesis
    using True sr unfolding uart_write_reg_def
    by (auto simp: uart_reg_def uart_accepts_def Let_def simp del: run_sat_bind intro!: uart_deposit_sat)
next
  case False
  have "run_sat (uart_moves True s (uart_accepts s offset v sz)) (uart_write_reg e offset v sz s)"
  proof (cases "uart_reg offset = USART_DR_OFFSET")
    case True
    then show ?thesis
      using uart_DR_write_moves [OF assms(1)] assms(2) unfolding uart_write_reg_def
      by (auto simp: uart_reg_def uart_accepts_def Let_def simp del: run_sat_bind intro!: uart_deposit_sat)
  next
    case dr: False
    show ?thesis
      using False dr assms unfolding uart_write_reg_def uart_reg_def [symmetric]
      by (auto simp: uart_accepts_def Let_def reg_error_defs simp del: run_sat_bind
          intro!: uart_deposit_sat uart_BRR_moves uart_CR1_moves uart_CR23_moves)
  qed
  then show ?thesis using False by simp
qed

lemma uart_moves_prefix:
  assumes "list_all is_warning ws" "uart_moves l s acc s' es"
  shows "uart_moves l s acc s' (ws @ es)"
proof -
  have "chr_bytes ws = []"
    using assms(1)
  proof (induction ws)
    case (Cons w ws)
    then show ?case by (cases w) simp_all
  qed simp
  moreover have "line_level irq ws x = x" for irq x
    using assms(1)
  proof (induction ws arbitrary: x)
    case (Cons w ws)
    then show ?case by (cases w) simp_all
  qed simp
  ultimately show ?thesis using assms(2) by (simp add: uart_moves_def line_level_append)
qed

lemma rcc_check_warns: "stm32_rcc_check_periph_clk rcc p = Ok u ws \<Longrightarrow> list_all is_warning ws"
  by (auto simp: stm32_rcc_check_periph_clk_def stm32_hw_warn_def stm32_periph_name_def run_bind_eq_Ok
      split: option.splits if_splits)

lemma uart_write_moves:
  assumes "uart_wf s"
  shows "run_sat (uart_moves (uart_reg offset \<noteq> USART_SR_OFFSET) s (uart_accepts s offset v sz))
    (stm32_uart_write e s offset v sz)"
proof (cases "uart_periph s = STM32_UART5")
  case True
  have "uart_moves l s [] s [PostEvent c]" for l c
    using uart_idle_moves [OF assms refl refl refl refl refl refl refl refl refl refl, of l] by (simp add: uart_moves_def)
  then show ?thesis using True by (simp add: stm32_uart_write_def uart_accepts_def)
next
  case False
  then show ?thesis
    using uart_write_reg_moves [OF assms False, of offset v sz e]
    by (cases "stm32_rcc_check_periph_clk (ue_rcc e) (uart_periph s)")
      (auto simp: stm32_uart_write_def intro: uart_moves_prefix dest: rcc_check_warns elim!: run_sat_mono)
qed

lemma uart_read_moves:
  assumes "uart_wf s"
  shows "run_sat (\<lambda>(s', v). uart_moves True s [] s') (stm32_uart_read s offset sz)"
proof -
  have stay: "uart_moves True s [] s []" "uart_moves True s [] s [WaitAck]"
    using uart_idle_moves [OF assms refl refl refl refl refl refl refl refl refl refl, of True] by (simp_all add: uart_moves_def)
  have ex: "run_sat (\<lambda>(s', v). uart_moves True s [] s') (run_map (Pair t) (uart_extract w offset sz))"
    if "uart_moves True s [] t []" for t w
    using that by (auto simp: uart_extract_def Let_def)
  have ex': "run_sat (\<lambda>a fs. (case a of (s', v) \<Rightarrow> uart_moves True s [] s') (es @ fs)) (run_map (Pair t) (uart_extract w offset sz))"
    if "uart_moves True s [] t es" for t w es
    using that by (auto simp: uart_extract_def Let_def)
  have sr: "run_sat (\<lambda>(s', v). uart_moves True s [] s')
      (let (s', v) = stm32_uart_USART_SR_read s in run_map (Pair s') (uart_extract v offset sz))"
    using uart_SR_read_moves [OF assms, of True] ex by (cases "stm32_uart_USART_SR_read s") simp
  have dr: "run_sat (\<lambda>(s', v). uart_moves True s [] s')
      (run_bind (stm32_uart_USART_DR_read s) (\<lambda>(s', v). run_map (Pair s') (uart_extract v offset sz)))"
    using uart_DR_read_moves [OF assms] ex' by (cases "stm32_uart_USART_DR_read s") (auto split: prod.splits)
  show ?thesis
    unfolding stm32_uart_read_def Let_def [of "offset mod 2 ^ 32 - offset mod 4"]
    using stay sr dr ex by (auto simp: reg_error_defs simp del: run_sat_bind)
qed

interpretation uart_dev: mmio_device uart_wf stm32_uart_read "stm32_uart_write e" for e
proof unfold_locales
  fix s offset sz v
  assume "uart_wf s"
  then show "run_sat (\<lambda>(s', v) _. uart_wf s') (stm32_uart_read s offset sz)"
    by (rule run_sat_mono [OF uart_read_moves]) (auto simp: uart_moves_def)
  show "run_sat (\<lambda>s' _. uart_wf s') (stm32_uart_write e s offset v sz)"
    by (rule run_sat_mono [OF uart_write_moves [OF \<open>uart_wf s\<close>]]) (simp add: uart_moves_def)
qed

end
