(* ===== verification/Uart_Props.thy ===== *)
theory Uart_Props
  imports Uart_Ops Gpio_Props
begin

text \<open>
  The properties of a UART: bytes leave in the order in which the guest wrote them and none is lost or
  repeated, a transmission in progress ends, the interrupt line follows the flags, the received byte is
  the one the guest reads, and the ways in which a guest can stop or wedge the device.
\<close>

section \<open>Histories\<close>

definition uart_tx_fire :: "uart_env \<Rightarrow> Stm32Uart \<Rightarrow> Stm32Uart run" where
  "uart_tx_fire e s =
     (if tx_timer s = None then Ok s [] else stm32_uart_tx_timer_expire e (s\<lparr>tx_timer := None\<rparr>))"

definition uart_rx_fire :: "Stm32Uart \<Rightarrow> Stm32Uart run" where
  "uart_rx_fire s = (if rx_timer s = None then Ok s [] else stm32_uart_rx_timer_expire (s\<lparr>rx_timer := None\<rparr>))"

text \<open>
  What can happen to a UART that has a character device: \<open>out\<close> are the bytes it has sent, \<open>acc\<close> the
  bytes it has accepted and not dropped by a reset, \<open>lv\<close> is the level of its interrupt line, and \<open>sr\<close>
  says whether the guest ever wrote to the status register.
\<close>

inductive uart_run :: "Stm32Uart \<Rightarrow> u8 list \<Rightarrow> u8 list \<Rightarrow> int \<Rightarrow> bool \<Rightarrow> bool" where
  ur_boot: "stm32_uart_reset e ((uart_zero periph)\<lparr>uart_chr := True, uart_irq := irq, afio_board_map := m\<rparr>) = Ok s es \<Longrightarrow>
    uart_run s [] [] 0 False"
| ur_write: "uart_run s out acc lv sr \<Longrightarrow> stm32_uart_write e s offset v sz = Ok s' es \<Longrightarrow>
    uart_run s' (out @ chr_bytes es) (acc @ uart_accepts s offset v sz) (line_level (uart_irq s) es lv)
      (sr \<or> uart_reg offset = USART_SR_OFFSET)"
| ur_read: "uart_run s out acc lv sr \<Longrightarrow> stm32_uart_read s offset sz = Ok (s', v) es \<Longrightarrow>
    uart_run s' (out @ chr_bytes es) acc (line_level (uart_irq s) es lv) sr"
| ur_receive: "uart_run s out acc lv sr \<Longrightarrow> stm32_uart_receive e buf s = Ok s' es \<Longrightarrow>
    uart_run s' (out @ chr_bytes es) acc (line_level (uart_irq s) es lv) sr"
| ur_clk: "uart_run s out acc lv sr \<Longrightarrow> stm32_uart_clk_irq_handler e n level s = Ok s' es \<Longrightarrow>
    uart_run s' (out @ chr_bytes es) acc (line_level (uart_irq s) es lv) sr"
| ur_tx: "uart_run s out acc lv sr \<Longrightarrow> uart_tx_fire e s = Ok s' es \<Longrightarrow>
    uart_run s' (out @ chr_bytes es) acc (line_level (uart_irq s) es lv) sr"
| ur_rx: "uart_run s out acc lv sr \<Longrightarrow> uart_rx_fire s = Ok s' es \<Longrightarrow>
    uart_run s' (out @ chr_bytes es) acc (line_level (uart_irq s) es lv) sr"
| ur_reset: "uart_run s out acc lv sr \<Longrightarrow> stm32_uart_reset e s = Ok s' es \<Longrightarrow>
    uart_run s' (out @ chr_bytes es) out (line_level (uart_irq s) es lv) False"

lemma uart_tx_fire_moves:
  assumes "uart_wf s"
  shows "run_total (uart_moves True s []) (uart_tx_fire e s)"
proof (cases "tx_timer s")
  case None
  then show ?thesis
    using uart_idle_moves [OF assms refl refl refl refl refl refl refl refl refl refl, of True] by (simp add: uart_tx_fire_def)
next
  case (Some t)
  have "uart_wf (s\<lparr>tx_timer := None\<rparr>)" using assms by (simp add: uart_state_defs)
  then have "run_total (uart_moves True (s\<lparr>tx_timer := None, tx_timer := Some t\<rparr>) []) (stm32_uart_tx_complete e (s\<lparr>tx_timer := None\<rparr>))"
    by (rule uart_tx_complete_moves)
  moreover have "s\<lparr>tx_timer := None, tx_timer := Some t\<rparr> = s" by (simp flip: Some)
  ultimately have "run_total (uart_moves True s []) (stm32_uart_tx_complete e (s\<lparr>tx_timer := None\<rparr>))" by (simp only:)
  then show ?thesis using Some by (simp add: uart_tx_fire_def stm32_uart_tx_timer_expire_def)
qed

lemma uart_rx_fire_moves:
  assumes "uart_wf s"
  shows "run_sat (uart_moves True s []) (uart_rx_fire s)"
proof -
  have "uart_moves True s [] s []" "uart_moves True s [] (s\<lparr>rx_timer := None, receiving := False\<rparr>) []"
    by (rule uart_idle_moves [OF assms]; simp add: uart_state_defs)+
  then show ?thesis by (simp add: uart_rx_fire_def stm32_uart_rx_timer_expire_def)
qed

lemma uart_clk_moves:
  assumes "uart_wf s"
  shows "run_sat (uart_moves True s []) (stm32_uart_clk_irq_handler e n level s)"
  using uart_baud_moves [OF assms] uart_idle_moves [OF assms refl refl refl refl refl refl refl refl refl refl]
  by (simp add: stm32_uart_clk_irq_handler_def)

text \<open>A reset clears every flag and enable bit, and lowers the line.\<close>

definition uart_reset_flags :: "Stm32Uart \<Rightarrow> Stm32Uart" where
  "uart_reset_flags s = s\<lparr>USART_SR_TXE := 1, USART_SR_TC := 1, USART_SR_RXNE := 0, USART_SR_ORE := 0,
     USART_BRR := 0, bits_per_sec := 0, USART_CR1_UE := 0, USART_CR1_TXEIE := 0, USART_CR1_TCIE := 0,
     USART_CR1_RXNEIE := 0, USART_CR1_TE := 0, USART_CR1_RE := 0, USART_CR1 := 0\<rparr>"

lemma uart_reset_flags_facts:
  "uart_flags (uart_reset_flags s)" "uart_level (uart_reset_flags s) = 0"
  "uart_irq (uart_reset_flags s) = uart_irq s" "curr_irq_level (uart_reset_flags s) = curr_irq_level s"
  by (simp_all add: uart_reset_flags_def uart_flags_def uart_level_def)

lemma uart_reset_eq:
  assumes "stm32_rcc_get_periph_freq (ue_rcc e) (uart_periph s) = Ok f []"
  shows "stm32_uart_reset e s =
    Ok ((uart_reset_flags s)\<lparr>curr_irq_level := 0, USART_CR2 := 0, USART_CR3 := 0\<rparr>) (uart_irq_event (uart_reset_flags s))"
proof -
  let ?u = "(uart_reset_flags s)\<lparr>curr_irq_level := 0, USART_CR2 := 0, USART_CR3 := 0\<rparr>"
  have u: "uart_flags ?u" "uart_level ?u = 0"
    by (simp_all add: uart_reset_flags_def uart_flags_def uart_level_def)
  have last: "stm32_uart_update_irq ?u = Ok ?u []"
    using uart_update_irq_eq [OF u(1)] u(2) by (simp add: uart_irq_event_def)
  have first: "stm32_uart_update_irq (uart_reset_flags s) = Ok ((uart_reset_flags s)\<lparr>curr_irq_level := 0\<rparr>) (uart_irq_event (uart_reset_flags s))"
    using uart_update_irq_eq [OF uart_reset_flags_facts(1)] by (simp add: uart_reset_flags_facts(2))
  have "extract32 0 n 1 = 0" for n by (simp add: extract32_def)
  then show ?thesis
    using first last assms
    by (simp add: stm32_uart_reset_def stm32_uart_USART_BRR_write_def stm32_uart_baud_update_def
        stm32_uart_USART_CR1_write_def stm32_uart_USART_CR2_write_def stm32_uart_USART_CR3_write_def
        uart_reset_flags_def del: One_nat_def)
qed

lemma uart_reset_run:
  assumes "stm32_uart_reset e s = Ok s' es"
  shows "uart_wf s'" "uart_buffer s' = []" "uart_live s'" "uart_irq s' = uart_irq s" "uart_chr s' = uart_chr s"
    "chr_bytes es = []" "uart_irq s \<noteq> IrqNull \<Longrightarrow> line_level (uart_irq s) es (curr_irq_level s) = 0" "curr_irq_level s' = 0"
proof -
  obtain f where f: "stm32_rcc_get_periph_freq (ue_rcc e) (uart_periph s) = Ok f []"
  proof (cases "stm32_rcc_get_periph_freq (ue_rcc e) (uart_periph s)")
    case (Ok f fs)
    then have "fs = []" by (auto simp: stm32_rcc_get_periph_freq_def split: option.splits)
    then show ?thesis using Ok that by simp
  next
    case (Stop x fs)
    then show ?thesis
      using assms by (simp add: stm32_uart_reset_def stm32_uart_USART_BRR_write_def stm32_uart_baud_update_def)
  qed
  let ?u = "(uart_reset_flags s)\<lparr>curr_irq_level := 0, USART_CR2 := 0, USART_CR3 := 0\<rparr>"
  have r: "s' = ?u" "es = uart_irq_event (uart_reset_flags s)" using assms uart_reset_eq [OF f] by auto
  show "uart_wf s'" "uart_buffer s' = []" "uart_live s'" "uart_irq s' = uart_irq s" "uart_chr s' = uart_chr s"
    "curr_irq_level s' = 0"
    by (simp_all add: r uart_reset_flags_def uart_state_defs uart_buffer_def uart_live_def)
  show "chr_bytes es = []" by (simp add: r)
  show "line_level (uart_irq s) es (curr_irq_level s) = 0" if "uart_irq s \<noteq> IrqNull"
    using uart_irq_event_level [of "uart_reset_flags s"] that by (simp add: r uart_reset_flags_facts)
qed

definition uart_run_inv :: "Stm32Uart \<Rightarrow> u8 list \<Rightarrow> u8 list \<Rightarrow> int \<Rightarrow> bool \<Rightarrow> bool" where
  "uart_run_inv s out acc lv sr \<longleftrightarrow> uart_wf s \<and> uart_chr s \<and> out @ uart_buffer s = acc \<and>
     (uart_irq s \<noteq> IrqNull \<longrightarrow> lv = curr_irq_level s) \<and> (\<not> sr \<longrightarrow> uart_live s)"

lemma uart_run_step:
  assumes "uart_run_inv s out acc lv sr" "uart_moves l s a s' es"
  shows "uart_run_inv s' (out @ chr_bytes es) (acc @ a) (line_level (uart_irq s) es lv) (sr \<or> \<not> l)"
  using assms by (auto simp: uart_run_inv_def uart_moves_def)

lemma uart_run_invariant: "uart_run s out acc lv sr \<Longrightarrow> uart_run_inv s out acc lv sr"
proof (induction rule: uart_run.induct)
  case (ur_boot e periph irq m s es)
  note r = uart_reset_run [OF ur_boot]
  show ?case using r by (simp add: uart_run_inv_def uart_zero_def)
next
  case (ur_write s out acc lv sr e offset v sz s' es)
  then have "uart_moves (uart_reg offset \<noteq> USART_SR_OFFSET) s (uart_accepts s offset v sz) s' es"
    using uart_write_moves [of s offset v sz e] by (simp add: uart_run_inv_def)
  from uart_run_step [OF ur_write.IH this] show ?case by simp
next
  case (ur_read s out acc lv sr offset sz s' v es)
  then have "uart_moves True s [] s' es" using uart_read_moves [of s offset sz] by (simp add: uart_run_inv_def)
  from uart_run_step [OF ur_read.IH this] show ?case by simp
next
  case (ur_receive s out acc lv sr e buf s' es)
  then have "uart_moves True s [] s' es" using uart_receive_moves [of s e buf] by (simp add: uart_run_inv_def)
  from uart_run_step [OF ur_receive.IH this] show ?case by simp
next
  case (ur_clk s out acc lv sr e n level s' es)
  then have "uart_moves True s [] s' es" using uart_clk_moves [of s e n level] by (simp add: uart_run_inv_def)
  from uart_run_step [OF ur_clk.IH this] show ?case by simp
next
  case (ur_tx s out acc lv sr e s' es)
  then have "uart_moves True s [] s' es" using uart_tx_fire_moves [of s e] by (simp add: uart_run_inv_def)
  from uart_run_step [OF ur_tx.IH this] show ?case by simp
next
  case (ur_rx s out acc lv sr s' es)
  then have "uart_moves True s [] s' es" using uart_rx_fire_moves [of s] by (simp add: uart_run_inv_def)
  from uart_run_step [OF ur_rx.IH this] show ?case by simp
next
  case (ur_reset s out acc lv sr e s' es)
  note r = uart_reset_run [OF ur_reset.hyps(2)]
  show ?case using r ur_reset.IH by (auto simp: uart_run_inv_def)
qed

section \<open>An example\<close>

text \<open>The second UART with its pin PA2 configured as an alternate function output, and a guest that
  enables the transmitter and writes two bytes.\<close>

definition uart_example_env :: "Stm32Rcc \<Rightarrow> uart_env" where
  "uart_example_env rcc = \<lparr>ue_rcc = rcc,
     ue_gpio = (stm32_gpio_init STM32_GPIOA)\<lparr>GPIOx_CRy := [0xb00, 0]\<rparr> # map stm32_gpio_init [STM32_GPIOB ..< STM32_GPIOG + 1],
     ue_afio = stm32_afio_init, ue_now = 0\<rparr>"

definition uart_example :: Stm32Uart where
  "uart_example = (uart_zero STM32_UART2)\<lparr>uart_chr := True, uart_irq := IrqNvic 38, afio_board_map := 0\<rparr>"

lemma uart_example_deposits:
  "uart_deposit 0 USART_CR1_OFFSET 4 0x2088 = Ok 0x2088 []"
  "uart_deposit 0 USART_DR_OFFSET 4 0x41 = Ok 0x41 []" "uart_deposit 0 USART_DR_OFFSET 4 0x42 = Ok 0x42 []"
  "extract32 0x2088 USART_CR1_UE_BIT 1 = 1" "extract32 0x2088 USART_CR1_TE_BIT 1 = 1"
  "extract32 0x2088 USART_CR1_TXEIE_BIT 1 = 1" "extract32 0x2088 USART_CR1_TCIE_BIT 1 = 0"
  "extract32 0x2088 USART_CR1_RXNEIE_BIT 1 = 0" "extract32 0x2088 USART_CR1_RE_BIT 1 = 0"
  by code_simp+

lemma uart_example_pin:
  "uart_periph s = STM32_UART2 \<Longrightarrow> stm32_uart_check_tx_pin (uart_example_env rcc) s = Ok () []"
proof -
  assume p: "uart_periph s = STM32_UART2"
  let ?g = "(stm32_gpio_init STM32_GPIOA)\<lparr>GPIOx_CRy := [0xb00, 0]\<rparr>"
  have "ucast (extract64 (push_bit 32 (ucast (0 :: u32)) OR ucast (0xb00 :: u32)) 8 4) = (0xb :: u8)" by code_simp
  then have "stm32_gpio_get_pin_config ?g 2 = Ok 0xb []"
    by (simp add: stm32_gpio_get_pin_config_def bitfield_ok_def)
  moreover have "(0xb :: u8) AND 3 = 3" "drop_bit 2 (0xb :: u8) AND 3 = 2" by code_simp+
  ultimately have "stm32_gpio_get_mode_bits ?g 2 = Ok 3 []" "stm32_gpio_get_config_bits ?g 2 = Ok 2 []"
    by (simp_all add: stm32_gpio_get_mode_bits_def stm32_gpio_get_config_bits_def)
  then show ?thesis
    using p by (simp add: stm32_uart_check_tx_pin_def uart_tx_pin_def stm32_afio_get_periph_map_def
        uart_example_env_def stm32_afio_init_def STM32_GPIO_INDEX_FROM_PERIPH_def)
qed

lemma uart_example_write:
  assumes "rcc_wf rcc" "uart_periph s = STM32_UART2"
  shows "\<exists>ws. list_all is_warning ws \<and> stm32_uart_write (uart_example_env rcc) s offset v sz =
    run_emit ws (uart_write_reg (uart_example_env rcc) offset v sz s)"
proof -
  have "rcc_wf rcc \<and> rcc_has_clk STM32_UART2" using assms(1) by (simp add: rcc_has_clk_def)
  then show ?thesis
    using rcc_clk.after_check rcc_clk.check_warns assms(2)
    by (intro exI [of _ "run_effects (stm32_rcc_check_periph_clk rcc STM32_UART2)"])
      (simp add: stm32_uart_write_def uart_example_env_def)
qed

lemma uart_example_boot:
  assumes "rcc_wf rcc"
  obtains s es where "stm32_uart_reset (uart_example_env rcc) uart_example = Ok s es"
    "s = (uart_reset_flags uart_example)\<lparr>curr_irq_level := 0, USART_CR2 := 0, USART_CR3 := 0\<rparr>"
proof -
  have "rcc_wf rcc \<and> rcc_has_clk STM32_UART2" using assms by (simp add: rcc_has_clk_def)
  then obtain f where "stm32_rcc_get_periph_freq rcc STM32_UART2 = Ok f []" using rcc_clk.freq_returns by blast
  then have "stm32_rcc_get_periph_freq (ue_rcc (uart_example_env rcc)) (uart_periph uart_example) = Ok f []"
    by (simp add: uart_example_env_def uart_example_def uart_zero_def)
  from uart_reset_eq [OF this] that show ?thesis by blast
qed

lemma uart_accepts_DR:
  "uart_periph s = STM32_UART2 \<Longrightarrow> uart_deposit 0 USART_DR_OFFSET 4 v = Ok w [] \<Longrightarrow>
     uart_accepts s USART_DR_OFFSET v 4 = [ucast w]"
  by (simp add: uart_accepts_def uart_reg_def)

lemma uart_example_run:
  assumes "rcc_wf rcc"
  obtains s out lv where "uart_run s out [0x41, 0x42] lv False" "out = [0x41]" "uart_irq s = IrqNvic 38" "tx_timer s \<noteq> None"
proof -
  let ?e = "uart_example_env rcc"
  obtain s0 es0 where s0: "stm32_uart_reset ?e uart_example = Ok s0 es0"
    "s0 = (uart_reset_flags uart_example)\<lparr>curr_irq_level := 0, USART_CR2 := 0, USART_CR3 := 0\<rparr>"
    by (rule uart_example_boot [OF assms])
  let ?s1 = "s0\<lparr>USART_CR1_UE := 1, USART_CR1_TE := 1, USART_CR1_TXEIE := 1, USART_CR1_TCIE := 0, USART_CR1_RXNEIE := 0,
      USART_CR1_RE := 0, USART_CR1 := 0x2088, curr_irq_level := 1\<rparr>"
  let ?s2 = "?s1\<lparr>USART_SR_TC := 0, tx_timer := Some (ns_per_char s0)\<rparr>"
  let ?s3 = "?s2\<lparr>USART_TDR := 0x42, USART_SR_TXE := 0, curr_irq_level := 0\<rparr>"
  have f: "USART_SR_TC s0 = 1" "USART_SR_TXE s0 = 1" "USART_SR_RXNE s0 = 0" "USART_SR_ORE s0 = 0" "curr_irq_level s0 = 0"
    "uart_periph s0 = STM32_UART2" "uart_irq s0 = IrqNvic 38" "uart_chr s0" "USART_CR1 s0 = 0" "afio_board_map s0 = 0"
    by (simp_all add: s0(2) uart_reset_flags_def uart_example_def uart_zero_def)
  have m: "stm32_afio_get_periph_map (ue_afio ?e) STM32_UART2 = Ok 0 []" "ue_now ?e = 0"
    by (simp_all add: uart_example_env_def stm32_afio_get_periph_map_def stm32_afio_init_def)
  have masks: "0x2088 AND 0x3fff = (0x2088 :: u32)" "0x41 AND 0x1ff = (0x41 :: u32)" "0x42 AND 0x1ff = (0x42 :: u32)"
    "ucast (0x41 :: u32) = (0x41 :: u8)" "ucast (0x42 :: u32) = (0x42 :: u8)" by code_simp+
  have "uart_write_reg ?e USART_CR1_OFFSET 0x2088 4 s0 = Ok ?s1 [SetIrq (IrqNvic 38) 1]"
    using f m masks uart_example_deposits
    by (simp add: uart_write_reg_def stm32_uart_USART_CR1_write_def stm32_uart_update_irq_def qemu_set_irq_def xor_int_eq_0 del: One_nat_def)
  moreover have "uart_write_reg ?e USART_DR_OFFSET 0x41 4 ?s1 = Ok ?s2 [ChrWrite 0x41]"
    using f m masks uart_example_deposits uart_example_pin [of ?s1 rcc]
    by (simp add: uart_write_reg_def stm32_uart_USART_DR_write_def uart_start_tx_eq stm32_uart_update_irq_def xor_int_eq_0 del: One_nat_def)
  moreover have "uart_write_reg ?e USART_DR_OFFSET 0x42 4 ?s2 = Ok ?s3 [SetIrq (IrqNvic 38) 0]"
    using f m masks uart_example_deposits uart_example_pin [of ?s2 rcc]
    by (simp add: uart_write_reg_def stm32_uart_USART_DR_write_def stm32_uart_update_irq_def qemu_set_irq_def xor_int_eq_0 del: One_nat_def)
  ultimately obtain w1 w2 w3 where w: "list_all is_warning w1" "list_all is_warning w2" "list_all is_warning w3"
    "stm32_uart_write ?e s0 USART_CR1_OFFSET 0x2088 4 = Ok ?s1 (w1 @ [SetIrq (IrqNvic 38) 1])"
    "stm32_uart_write ?e ?s1 USART_DR_OFFSET 0x41 4 = Ok ?s2 (w2 @ [ChrWrite 0x41])"
    "stm32_uart_write ?e ?s2 USART_DR_OFFSET 0x42 4 = Ok ?s3 (w3 @ [SetIrq (IrqNvic 38) 0])"
    using uart_example_write [OF assms, of s0 USART_CR1_OFFSET "0x2088" 4]
      uart_example_write [OF assms, of ?s1 USART_DR_OFFSET "0x41" 4]
      uart_example_write [OF assms, of ?s2 USART_DR_OFFSET "0x42" 4] f(6) by fastforce
  have silent: "list_all is_warning ws \<Longrightarrow> chr_bytes ws = []" for ws
  proof (induction ws)
    case (Cons x xs)
    then show ?case by (cases x) simp_all
  qed simp
  have "uart_run s0 [] [] 0 False" using s0(1) unfolding uart_example_def by (rule ur_boot)
  from ur_write [OF ur_write [OF ur_write [OF this w(4)] w(5)] w(6)]
  obtain lv where "uart_run ?s3 [0x41] [0x41, 0x42] lv False"
    using silent [OF w(1)] silent [OF w(2)] silent [OF w(3)] f(6) masks uart_example_deposits
    by (simp add: uart_accepts_def uart_reg_def)
  then show ?thesis using that f(7) by simp
qed

section \<open>Transmission\<close>

text \<open>
  C7: whatever registers the guest accesses, whatever bytes arrive and whenever the timers expire, the
  bytes sent to the character device followed by the byte in the transmit buffer are the bytes the guest
  wrote to the data register, in order: none is lost, repeated or reordered.
\<close>

theorem uart_fifo:
  assumes "uart_run s out acc lv sr"
  shows "out @ uart_buffer s = acc"
  using uart_run_invariant [OF assms] by (simp add: uart_run_inv_def)

theorem uart_fifo_witness:
  "\<exists>rcc es. stm32_rcc_boot 8000000 32768 = Ok rcc es \<and>
     (\<exists>s out lv. uart_run s out [0x41, 0x42] lv False \<and> out @ uart_buffer s = [0x41, 0x42])"
proof (rule rcc_boot_ex)
  fix rcc
  assume "rcc_wf rcc"
  then obtain s out lv where "uart_run s out [0x41, 0x42] lv False" by (rule uart_example_run)
  then show "\<exists>s out lv. uart_run s out [0x41, 0x42] lv False \<and> out @ uart_buffer s = [0x41, 0x42]"
    using uart_fifo by blast
qed

lemma uart_fire_progress:
  assumes "uart_wf s" "uart_live s"
  shows "\<exists>s' es. uart_tx_fire e s = Ok s' es \<and> uart_wf s' \<and> uart_live s' \<and> USART_SR_TXE s' = 1 \<and>
    (USART_SR_TXE s = 1 \<longrightarrow> USART_SR_TC s' = 1) \<and> uart_chr s' = uart_chr s \<and>
    (uart_chr s \<longrightarrow> chr_bytes es = uart_buffer s)"
proof -
  obtain s' es where s': "uart_tx_fire e s = Ok s' es" "uart_moves True s [] s' es"
    using uart_tx_fire_moves [OF assms(1), of e] by (rule run_totalE)
  have txe: "USART_SR_TXE s' = 1 \<and> (USART_SR_TXE s = 1 \<longrightarrow> USART_SR_TC s' = 1)"
  proof (cases "tx_timer s")
    case None
    then have "USART_SR_TC s = 1" using assms uart_wfD(4) [OF assms(1)] by (auto simp: uart_live_def)
    then show ?thesis using s'(1) None uart_wfD(2) [OF assms(1)] by (simp add: uart_tx_fire_def)
  next
    case (Some t)
    have fl: "uart_flags (s\<lparr>tx_timer := None, USART_SR_TC := 1\<rparr>)" "uart_flags (s\<lparr>tx_timer := None, USART_SR_TXE := 1\<rparr>)"
      using assms(1) by (simp_all add: uart_state_defs)
    show ?thesis
      using s'(1) Some
      by (cases "USART_SR_TXE s = 1")
        (auto simp: uart_tx_fire_def stm32_uart_tx_timer_expire_def stm32_uart_tx_complete_def
          uart_update_irq_eq [OF fl(1)] uart_update_irq_eq [OF fl(2)] uart_start_tx_eq)
  qed
  then show ?thesis using s' assms(2) by (auto simp: uart_moves_def uart_buffer_def)
qed

text \<open>
  C37: while the guest does not write the status register, the transmitter always finishes: after at most
  two expirations of its timer both the shift register and the buffer are empty and every byte the guest
  wrote has been sent.
\<close>

theorem uart_drains:
  assumes "uart_run s out acc lv False"
  shows "\<exists>s' es. run_for [e1, e2] uart_tx_fire s = Ok s' es \<and> USART_SR_TC s' = 1 \<and> USART_SR_TXE s' = 1 \<and>
    out @ chr_bytes es = acc"
proof -
  have inv: "uart_wf s" "uart_live s" "uart_chr s" "out @ uart_buffer s = acc"
    using uart_run_invariant [OF assms] by (auto simp: uart_run_inv_def)
  obtain s1 es1 where 1: "uart_tx_fire e1 s = Ok s1 es1" "uart_wf s1" "uart_live s1" "USART_SR_TXE s1 = 1"
    "uart_chr s1 = uart_chr s" "uart_chr s \<longrightarrow> chr_bytes es1 = uart_buffer s"
    using uart_fire_progress [OF inv(1,2)] by blast
  obtain s2 es2 where 2: "uart_tx_fire e2 s1 = Ok s2 es2" "USART_SR_TXE s2 = 1" "USART_SR_TC s2 = 1"
    "uart_chr s1 \<longrightarrow> chr_bytes es2 = uart_buffer s1"
    using uart_fire_progress [OF 1(2,3)] 1(4) by blast
  have "uart_buffer s1 = []" using 1(4) by (simp add: uart_buffer_def)
  then show ?thesis using 1 2 inv(3,4) by auto
qed

theorem uart_drains_witness:
  "\<exists>rcc es. stm32_rcc_boot 8000000 32768 = Ok rcc es \<and>
     (\<exists>s out lv s' es. uart_run s out [0x41, 0x42] lv False \<and>
        run_for [uart_example_env rcc, uart_example_env rcc] uart_tx_fire s = Ok s' es \<and> out @ chr_bytes es = [0x41, 0x42])"
proof (rule rcc_boot_ex)
  fix rcc
  assume "rcc_wf rcc"
  then obtain s out lv where "uart_run s out [0x41, 0x42] lv False" by (rule uart_example_run)
  then show "\<exists>s out lv s' es. uart_run s out [0x41, 0x42] lv False \<and>
      run_for [uart_example_env rcc, uart_example_env rcc] uart_tx_fire s = Ok s' es \<and> out @ chr_bytes es = [0x41, 0x42]"
    using uart_drains [of s out "[0x41, 0x42]" lv "uart_example_env rcc" "uart_example_env rcc"] by blast
qed

lemma uart_deposit_full:
  assumes "offset mod 4 = 0"
  shows "uart_deposit old offset 4 v = Ok (ucast v) []"
proof -
  have "ucast (deposit64 (ucast old) 0 32 v) = (ucast v :: u32)"
  proof (rule bit_word_eqI)
    fix n
    assume "n < LENGTH(32)"
    then show "bit (ucast (deposit64 (ucast old) 0 32 v) :: u32) n = bit (ucast v :: u32) n"
      by (simp add: bit_ucast_iff bit_deposit64 bitfield_ok_def)
  qed
  then show ?thesis using assms by (simp add: uart_deposit_def bitfield_ok_def)
qed

lemma uart_check_pin_cong: "uart_periph t = uart_periph s \<Longrightarrow> stm32_uart_check_tx_pin e t = stm32_uart_check_tx_pin e s"
  by (simp add: stm32_uart_check_tx_pin_def)

lemma uart_write_checked:
  assumes "rcc_wf (ue_rcc e)" "rcc_has_clk (uart_periph s)" "uart_periph s \<noteq> STM32_UART5"
  shows "\<exists>ws. list_all is_warning ws \<and> chr_bytes ws = [] \<and>
    stm32_uart_write e s offset v sz = run_emit ws (uart_write_reg e offset v sz s)"
proof -
  have ready: "rcc_wf (ue_rcc e) \<and> rcc_has_clk (uart_periph s)" using assms(1,2) by blast
  have "list_all is_warning ws \<Longrightarrow> chr_bytes ws = []" for ws
  proof (induction ws)
    case (Cons x xs)
    then show ?case by (cases x) simp_all
  qed simp
  then show ?thesis
    using rcc_clk.after_check [OF ready] rcc_clk.check_warns [OF ready] assms(3)
    by (intro exI [of _ "run_effects (stm32_rcc_check_periph_clk (ue_rcc e) (uart_periph s))"])
      (simp add: stm32_uart_write_def)
qed

text \<open>
  C38: a guest that clears the transmission complete flag of an idle transmitter, as drivers do before
  they use it, wedges it: the next byte is accepted but neither sent nor is the timer started, and the
  byte after it stops the emulator.
\<close>

theorem uart_sr_write_wedges:
  assumes "uart_wf s" "USART_SR_TC s = 1" "tx_timer s = None" "USART_CR1_UE s = 1" "USART_CR1_TE s = 1"
    and "uart_periph s \<noteq> STM32_UART5" "stm32_uart_check_tx_pin e s = Ok () []"
    and "rcc_wf (ue_rcc e)" "rcc_has_clk (uart_periph s)"
  shows "\<exists>s1 es1 s2 es2. stm32_uart_write e s USART_SR_OFFSET 0 4 = Ok s1 es1 \<and>
    stm32_uart_write e s1 USART_DR_OFFSET v 4 = Ok s2 es2 \<and> chr_bytes es2 = [] \<and> tx_timer s2 = None \<and>
    (\<exists>x es. stm32_uart_write e s2 USART_DR_OFFSET w 4 = Stop (HwError x) es)"
proof -
  let ?s0 = "fst (stm32_uart_USART_SR_read s)"
  let ?a = "?s0\<lparr>USART_SR_TC := 0, USART_SR_RXNE := 0\<rparr>"
  let ?s1 = "?a\<lparr>curr_irq_level := uart_level ?a\<rparr>"
  let ?b = "?s1\<lparr>USART_TDR := ucast v AND 0x1ff, USART_SR_TXE := 0\<rparr>"
  let ?s2 = "?b\<lparr>curr_irq_level := uart_level ?b\<rparr>"
  have s0: "uart_flags ?s0" "uart_periph ?s0 = uart_periph s" "tx_timer ?s0 = None" "USART_CR1_UE ?s0 = 1" "USART_CR1_TE ?s0 = 1"
    "USART_SR_TXE ?s0 = 1"
    using assms(1-5) by (auto simp: stm32_uart_USART_SR_read_def Let_def uart_state_defs)
  have fl: "uart_flags ?a" "uart_flags ?b" using s0(1) by (simp_all add: uart_flags_def)
  have z: "extract32 0 n 1 = 0" for n by (simp add: extract32_def)
  have "uart_write_reg e USART_SR_OFFSET 0 4 s = Ok ?s1 (uart_irq_event ?a)"
    using uart_update_irq_eq [OF fl(1)] z
    by (simp add: uart_write_reg_def uart_deposit_full case_prod_beta stm32_uart_USART_SR_write_def Let_def del: One_nat_def)
  moreover have "stm32_uart_check_tx_pin e t = Ok () []" if "uart_periph t = uart_periph s" for t
    using uart_check_pin_cong [OF that] assms(7) by simp
  moreover from this have "uart_write_reg e USART_DR_OFFSET v 4 ?s1 = Ok ?s2 (uart_irq_event ?b)"
    using uart_update_irq_eq [OF fl(2)] s0
    by (simp add: uart_write_reg_def uart_deposit_full stm32_uart_USART_DR_write_def Let_def)
  moreover from calculation(2) have "\<exists>x. uart_write_reg e USART_DR_OFFSET w 4 ?s2 = Stop (HwError x) []"
    using s0 by (simp add: uart_write_reg_def uart_deposit_full stm32_uart_USART_DR_write_def Let_def)
  ultimately show ?thesis
    using uart_write_checked [OF assms(8,9,6), of USART_SR_OFFSET 0 4]
      uart_write_checked [of e ?s1 USART_DR_OFFSET v 4] uart_write_checked [of e ?s2 USART_DR_OFFSET w 4] assms(6,8,9) s0(2,3)
    by auto
qed

definition uart_idle :: Stm32Uart where
  "uart_idle = uart_example\<lparr>USART_SR_TXE := 1, USART_SR_TC := 1, USART_CR1_UE := 1, USART_CR1_TE := 1, USART_CR1_RE := 1\<rparr>"

lemma uart_idle_wf: "uart_wf uart_idle" "uart_periph uart_idle = STM32_UART2"
  by (simp_all add: uart_idle_def uart_example_def uart_zero_def uart_state_defs)

theorem uart_sr_write_wedges_witness:
  "\<exists>rcc es. stm32_rcc_boot 8000000 32768 = Ok rcc es \<and>
     (\<exists>s1 es1 s2 es2. stm32_uart_write (uart_example_env rcc) uart_idle USART_SR_OFFSET 0 4 = Ok s1 es1 \<and>
       stm32_uart_write (uart_example_env rcc) s1 USART_DR_OFFSET 0x41 4 = Ok s2 es2 \<and> chr_bytes es2 = [] \<and> tx_timer s2 = None \<and>
       (\<exists>x es. stm32_uart_write (uart_example_env rcc) s2 USART_DR_OFFSET 0x42 4 = Stop (HwError x) es))"
proof (rule rcc_boot_ex)
  fix rcc
  assume "rcc_wf rcc"
  then have "rcc_wf (ue_rcc (uart_example_env rcc))" by (simp add: uart_example_env_def)
  moreover have "USART_SR_TC uart_idle = 1" "tx_timer uart_idle = None" "USART_CR1_UE uart_idle = 1" "USART_CR1_TE uart_idle = 1"
    "uart_periph uart_idle \<noteq> STM32_UART5" "rcc_has_clk (uart_periph uart_idle)"
    by (simp_all add: uart_idle_def uart_example_def uart_zero_def rcc_has_clk_def)
  ultimately show "\<exists>s1 es1 s2 es2. stm32_uart_write (uart_example_env rcc) uart_idle USART_SR_OFFSET 0 4 = Ok s1 es1 \<and>
       stm32_uart_write (uart_example_env rcc) s1 USART_DR_OFFSET 0x41 4 = Ok s2 es2 \<and> chr_bytes es2 = [] \<and> tx_timer s2 = None \<and>
       (\<exists>x es. stm32_uart_write (uart_example_env rcc) s2 USART_DR_OFFSET 0x42 4 = Stop (HwError x) es)"
    using uart_example_pin [OF uart_idle_wf(2), of rcc] by (intro uart_sr_write_wedges uart_idle_wf(1))
qed

section \<open>Flags and interrupts\<close>



lemma bit_flag_shift: "is_flag w \<Longrightarrow> k < 32 \<Longrightarrow> bit (push_bit k w) n \<longleftrightarrow> n = k \<and> w = 1"
  by (auto simp: is_flag_def bit_push_bit_iff bit_1_iff)

text \<open>
  Every status and control flag of a UART is a single bit, the complete flag implies the buffer empty
  flag, and the value the guest reads from the status register has exactly the bits of the set flags.
\<close>

theorem uart_status_type:
  assumes "uart_run s out acc lv sr"
  shows "uart_flags s \<and> (USART_SR_TC s = 1 \<longrightarrow> USART_SR_TXE s = 1) \<and>
    (\<forall>n. bit (snd (stm32_uart_USART_SR_read s)) n \<longleftrightarrow>
      n = USART_SR_TXE_BIT \<and> USART_SR_TXE s = 1 \<or> n = USART_SR_TC_BIT \<and> USART_SR_TC s = 1 \<or>
      n = USART_SR_RXNE_BIT \<and> USART_SR_RXNE s = 1 \<or> n = USART_SR_ORE_BIT \<and> USART_SR_ORE s = 1)"
proof -
  have wf: "uart_wf s" using uart_run_invariant [OF assms] by (simp add: uart_run_inv_def)
  then have "is_flag (USART_SR_TXE s)" "is_flag (USART_SR_TC s)" "is_flag (USART_SR_RXNE s)" "is_flag (USART_SR_ORE s)"
    by (simp_all add: uart_wf_def uart_flags_def)
  then show ?thesis
    using uart_wfD(1,2) [OF wf]
    by (simp add: stm32_uart_USART_SR_read_def Let_def bit_or_iff bit_flag_shift)
qed

theorem uart_status_type_witness:
  "\<exists>rcc es. stm32_rcc_boot 8000000 32768 = Ok rcc es \<and>
     (\<exists>s out lv. uart_run s out [0x41, 0x42] lv False \<and> \<not> bit (snd (stm32_uart_USART_SR_read s)) 0)"
proof (rule rcc_boot_ex)
  fix rcc
  assume "rcc_wf rcc"
  then obtain s out lv where "uart_run s out [0x41, 0x42] lv False" by (rule uart_example_run)
  then show "\<exists>s out lv. uart_run s out [0x41, 0x42] lv False \<and> \<not> bit (snd (stm32_uart_USART_SR_read s)) 0"
    using uart_status_type [of s out "[0x41, 0x42]" lv False]
    by (intro exI [of _ s] exI [of _ out] exI [of _ lv]) simp
qed

section \<open>Reception\<close>

text \<open>
  A byte that arrives while the receiver is enabled and its buffer empty makes the device refuse
  further bytes, is the value of the next read of the data register, which empties the buffer, and once
  the receive delay has passed the device accepts the next byte.
\<close>

theorem uart_receive_read:
  assumes "uart_wf s" "USART_CR1_UE s = 1" "USART_CR1_RE s = 1" "USART_SR_RXNE s = 0" "uart_periph s \<noteq> STM32_UART5"
  shows "\<exists>s1 es1 s2 es2 s3 es3. stm32_uart_receive e [c] s = Ok s1 es1 \<and> stm32_uart_can_receive s1 = 0 \<and>
    stm32_uart_read s1 USART_DR_OFFSET 4 = Ok (s2, ucast c) es2 \<and> USART_SR_RXNE s2 = 0 \<and>
    uart_rx_fire s2 = Ok s3 es3 \<and> stm32_uart_can_receive s3 = 1"
proof -
  let ?a = "s\<lparr>USART_RDR := ucast c, USART_SR_RXNE := 1\<rparr>"
  let ?s1 = "?a\<lparr>curr_irq_level := uart_level ?a, receiving := True, rx_timer := Some (ue_now e + ns_per_char s)\<rparr>"
  have fl: "uart_flags ?a" using assms(1) by (simp add: uart_state_defs)
  have r: "stm32_uart_receive e [c] s = Ok ?s1 (uart_irq_event ?a)"
    using assms(2-4) uart_update_irq_eq [OF fl] by (simp add: stm32_uart_receive_def Let_def)
  define b where "b = (if USART_SR_ORE ?s1 \<noteq> 0 \<and> sr_read_since_ore_set ?s1 then ?s1\<lparr>USART_SR_ORE := 0\<rparr> else ?s1)"
  have b: "uart_flags (b\<lparr>USART_SR_RXNE := 0\<rparr>)" "USART_CR1_UE b = 1" "USART_CR1_RE b = 1" "USART_SR_RXNE b = 1"
    "USART_RDR b = ucast c" "rx_timer b \<noteq> None"
    using assms by (simp_all add: b_def uart_state_defs)
  define s2 where "s2 = b\<lparr>USART_SR_RXNE := 0, curr_irq_level := uart_level (b\<lparr>USART_SR_RXNE := 0\<rparr>)\<rparr>"
  have dr: "stm32_uart_USART_DR_read ?s1 = Ok (s2, ucast c) (uart_irq_event (b\<lparr>USART_SR_RXNE := 0\<rparr>))"
    unfolding stm32_uart_USART_DR_read_def b_def [symmetric] Let_def
    using b uart_update_irq_eq [OF b(1)] by (simp add: s2_def)
  have "extract64 (ucast (ucast c :: u32)) 0 32 = (ucast (ucast c :: u32) :: u64)" by (rule extract64_full32)
  also have "\<dots> = ucast c"
    by (rule bit_word_eqI) (auto simp: bit_ucast_iff dest: bit_imp_le_length)
  finally have rd: "stm32_uart_read ?s1 USART_DR_OFFSET 4 = Ok (s2, ucast c) (uart_irq_event (b\<lparr>USART_SR_RXNE := 0\<rparr>))"
    using dr assms(5) by (simp add: stm32_uart_read_def uart_extract_def bitfield_ok_def)
  have "uart_rx_fire s2 = Ok (s2\<lparr>rx_timer := None, receiving := False\<rparr>) []"
    using b(6) by (auto simp: uart_rx_fire_def stm32_uart_rx_timer_expire_def s2_def)
  moreover have "stm32_uart_can_receive ?s1 = 0" "stm32_uart_can_receive (s2\<lparr>rx_timer := None, receiving := False\<rparr>) = 1"
    "USART_SR_RXNE s2 = 0"
    using assms(2,3) b(2,3) by (simp_all add: stm32_uart_can_receive_def s2_def)
  ultimately show ?thesis using r rd by blast
qed

theorem uart_receive_read_witness:
  "\<exists>rcc es. stm32_rcc_boot 8000000 32768 = Ok rcc es \<and> (\<exists>s1 es1 s2 es2.
     stm32_uart_receive (uart_example_env rcc) [0x5a] uart_idle = Ok s1 es1 \<and> stm32_uart_read s1 USART_DR_OFFSET 4 = Ok (s2, 0x5a) es2)"
proof (rule rcc_boot_ex)
  fix rcc
  have "USART_CR1_UE uart_idle = 1" "USART_CR1_RE uart_idle = 1" "USART_SR_RXNE uart_idle = 0" "uart_periph uart_idle \<noteq> STM32_UART5"
    by (simp_all add: uart_idle_def uart_example_def uart_zero_def)
  moreover have "ucast (0x5a :: u8) = (0x5a :: u64)" by code_simp
  ultimately show "\<exists>s1 es1 s2 es2. stm32_uart_receive (uart_example_env rcc) [0x5a] uart_idle = Ok s1 es1 \<and>
      stm32_uart_read s1 USART_DR_OFFSET 4 = Ok (s2, 0x5a) es2"
    using uart_receive_read [OF uart_idle_wf(1), of "uart_example_env rcc" "0x5a"] by (simp only:) blast
qed

section \<open>Baud rate\<close>

text \<open>
  Writing the baud rate register divides by zero exactly when the clock runs slower than the
  divisor; otherwise the bit rate is the quotient of the two, and the time of a character is ten times
  the nanoseconds of a bit and at most 10000000000.
\<close>

theorem uart_baud_update_bounds:
  assumes "stm32_rcc_get_periph_freq (ue_rcc e) (uart_periph s) = Ok clk []" "clk \<noteq> 0" "v AND 0xffff \<noteq> 0"
  shows "if clk < v AND 0xffff then stm32_uart_USART_BRR_write e v s = Stop DivByZero []
    else \<exists>s'. stm32_uart_USART_BRR_write e v s = Ok s' [] \<and>
      unat (bits_per_sec s') = unat clk div unat (v AND 0xffff) \<and>
      unat (ns_per_char s') = 1000000000 div (unat clk div unat (v AND 0xffff)) * 10 \<and>
      unat (ns_per_char s') \<le> 10000000000"
proof -
  let ?w = "v AND 0xffff"
  have w: "0 < unat ?w" using assms(3) by (simp add: unat_gt_0)
  have bps: "unat (clk div ?w) = unat clk div unat ?w" by (rule unat_div)
  then have z: "clk div ?w = 0 \<longleftrightarrow> clk < ?w"
    using w by (simp add: unat_eq_zero [symmetric] div_eq_0_iff word_less_nat_alt)
  have eq: "stm32_uart_USART_BRR_write e v s = (if clk div ?w = 0 then Stop DivByZero []
      else Ok (s\<lparr>USART_BRR := ?w, bits_per_sec := clk div ?w, ns_per_char := 1000000000 div ucast (clk div ?w) * 10\<rparr>) [])"
    using assms by (simp add: stm32_uart_USART_BRR_write_def stm32_uart_baud_update_def Let_def)
  define q where "q = 1000000000 div (unat clk div unat ?w)"
  have ns: "unat (1000000000 div ucast (clk div ?w) :: u64) = q"
    by (simp add: unat_div bps q_def)
  have le: "q \<le> 1000000000" unfolding q_def by (rule div_le_dividend)
  then have "unat (1000000000 div ucast (clk div ?w) * 10 :: u64) = q * 10"
    by (subst unat_mult_lem [THEN iffD1]) (simp_all add: ns)
  then show ?thesis using eq z bps le unfolding q_def [symmetric] by auto
qed

text \<open>After a reset of the RCC and the enabling of its clock, the second UART runs at 8 MHz.\<close>

lemma uart2_clock:
  "\<exists>s es s' es'. stm32_rcc_boot 8000000 32768 = Ok s es \<and> stm32_rcc_RCC_APB1ENR_write 0x20000 False s = Ok s' es' \<and>
     stm32_rcc_get_periph_freq s' STM32_UART2 = Ok 8000000 []"
proof -
  let ?g = "rcc_reset_cfg (rcc_cfg0 8000000 32768)"
  let ?h = "rcc_apb1_cfg 0x20000 ?g"
  obtain s es where s: "stm32_rcc_boot 8000000 32768 = Ok s es" "rcc_at (?g, rcc_fields s) s"
    using rcc_boot_at [of 8000000 32768] by (elim run_totalE) simp
  obtain s' es' where s': "stm32_rcc_RCC_APB1ENR_write 0x20000 False s = Ok s' es'"
    "rcc_at (?h, (rcc_fields s)\<lparr>RCC_APB1ENR := 0x20000 AND 0x5e7d\<rparr>) s'"
    using rcc_doesD [OF rcc_does_APB1(1) s(2)] by (rule run_totalE)
  have sel: "rcc_selected ?h" by (simp add: rcc_selected_def rcc_apb1_cfg_def rcc_reset_cfg_def)
  have on: "cfg_periph ?h ! 9" "freq_pclk1 ?h = 8000000" by code_simp+
  have "stm32_rcc_get_periph_freq s' STM32_UART2 = Ok 8000000 []"
    using rcc_get_periph_freq [OF s'(2) sel, of STM32_UART2] on by simp
  then show ?thesis using s(1) s'(1) by blast
qed

theorem uart_baud_update_bounds_witness:
  "\<exists>rcc s es. stm32_rcc_get_periph_freq rcc STM32_UART2 = Ok 8000000 [] \<and>
     stm32_uart_USART_BRR_write (uart_example_env rcc) 0x341 uart_example = Ok s es \<and> unat (bits_per_sec s) = 9603 \<and>
     unat (ns_per_char s) = 1041340"
proof -
  obtain rcc where rcc: "stm32_rcc_get_periph_freq rcc STM32_UART2 = Ok 8000000 []" using uart2_clock by blast
  then have "stm32_rcc_get_periph_freq (ue_rcc (uart_example_env rcc)) (uart_periph uart_example) = Ok 8000000 []"
    by (simp add: uart_example_env_def uart_example_def uart_zero_def)
  from uart_baud_update_bounds [OF this, of "0x341"] rcc show ?thesis by auto
qed

end
