(* ===== verification/Qsimpleq.thy ===== *)
theory Qsimpleq
  imports Prelude
begin

text \<open>
  The singly-linked tail queues of \<open>include/qemu/queue.h\<close> (\<open>QSIMPLEQ_*\<close>), over an explicit store.

  A store maps the addresses of the allocated elements to their contents; an access through any
  other address is the fault \<open>BadPointer\<close>, one through \<open>NULL\<close> is \<open>NullDeref\<close>. The member \<open>sqh_last\<close>
  of a head points to the cell that the next insertion fills: either the head's own \<open>sqh_first\<close> or
  the \<open>sqe_next\<close> of an element. The relation \<open>qrep\<close> says that a head represents a list of addresses,
  and the lemmas show that each macro does on the represented list what its name says, that no macro
  touches the data of an element, and that the search loop of \<open>QSIMPLEQ_REMOVE\<close> ends.
\<close>

section \<open>Store and macros\<close>

type_synonym addr = nat

record 'd qelem =
  sqe_next :: "addr option"
  sqe_data :: 'd

datatype qcell = FirstOfHead | NextOf addr

record qhead =
  sqh_first :: "addr option"
  sqh_last :: qcell

type_synonym 'd qstore = "addr \<rightharpoonup> 'd qelem"

definition qderef :: "addr option \<Rightarrow> 'd qstore \<Rightarrow> 'd qelem run" where
  "qderef p h = (case p of None \<Rightarrow> Stop NullDeref []
                 | Some a \<Rightarrow> (case h a of None \<Rightarrow> Stop BadPointer [] | Some e \<Rightarrow> Ok e []))"

definition qset_next :: "addr \<Rightarrow> addr option \<Rightarrow> 'd qstore \<Rightarrow> 'd qstore run" where
  "qset_next a p h = run_bind (qderef (Some a) h) (\<lambda>e. Ok (h(a \<mapsto> e\<lparr>sqe_next := p\<rparr>)) [])"

text \<open>The assignment \<open>*(head)->sqh_last = p\<close>.\<close>

fun qstore_last :: "addr option \<Rightarrow> 'd qstore \<times> qhead \<Rightarrow> ('d qstore \<times> qhead) run" where
  "qstore_last p (h, q) =
     (case sqh_last q of
        FirstOfHead \<Rightarrow> Ok (h, q\<lparr>sqh_first := p\<rparr>) []
      | NextOf a \<Rightarrow> run_map (\<lambda>h'. (h', q)) (qset_next a p h))"

definition QSIMPLEQ_INIT :: "qhead" where
  "QSIMPLEQ_INIT = \<lparr>sqh_first = None, sqh_last = FirstOfHead\<rparr>"

definition QSIMPLEQ_EMPTY :: "qhead \<Rightarrow> bool" where
  "QSIMPLEQ_EMPTY q \<longleftrightarrow> sqh_first q = None"

definition QSIMPLEQ_FIRST :: "qhead \<Rightarrow> addr option" where
  "QSIMPLEQ_FIRST q = sqh_first q"

definition QSIMPLEQ_NEXT :: "addr \<Rightarrow> 'd qstore \<Rightarrow> addr option run" where
  "QSIMPLEQ_NEXT a h = run_map sqe_next (qderef (Some a) h)"

fun QSIMPLEQ_INSERT_HEAD :: "addr \<Rightarrow> 'd qstore \<times> qhead \<Rightarrow> ('d qstore \<times> qhead) run" where
  "QSIMPLEQ_INSERT_HEAD a (h, q) =
     run_bind (qset_next a (sqh_first q) h) (\<lambda>h'.
       Ok (h', (if sqh_first q = None then q\<lparr>sqh_last := NextOf a\<rparr> else q)\<lparr>sqh_first := Some a\<rparr>) [])"

fun QSIMPLEQ_INSERT_TAIL :: "addr \<Rightarrow> 'd qstore \<times> qhead \<Rightarrow> ('d qstore \<times> qhead) run" where
  "QSIMPLEQ_INSERT_TAIL a (h, q) =
     run_bind (qset_next a None h) (\<lambda>h'.
       run_bind (qstore_last (Some a) (h', q)) (\<lambda>(h'', q'). Ok (h'', q'\<lparr>sqh_last := NextOf a\<rparr>) []))"

fun QSIMPLEQ_INSERT_AFTER :: "addr \<Rightarrow> addr \<Rightarrow> 'd qstore \<times> qhead \<Rightarrow> ('d qstore \<times> qhead) run" where
  "QSIMPLEQ_INSERT_AFTER b a (h, q) =
     run_bind (QSIMPLEQ_NEXT b h) (\<lambda>p.
       run_bind (qset_next a p h) (\<lambda>h'.
         run_bind (qset_next b (Some a) h') (\<lambda>h''.
           Ok (h'', if p = None then q\<lparr>sqh_last := NextOf a\<rparr> else q) [])))"

fun QSIMPLEQ_REMOVE_HEAD :: "'d qstore \<times> qhead \<Rightarrow> ('d qstore \<times> qhead) run" where
  "QSIMPLEQ_REMOVE_HEAD (h, q) =
     run_bind (qderef (sqh_first q) h) (\<lambda>e.
       Ok (h, (if sqe_next e = None then q\<lparr>sqh_last := FirstOfHead\<rparr> else q)\<lparr>sqh_first := sqe_next e\<rparr>) [])"

text \<open>The loop \<open>while (curelm->field.sqe_next != (elm))\<close>: it does not return on a queue that is
  circular, which is the value \<open>None\<close>.\<close>

partial_function (option) qsimpleq_find :: "addr \<Rightarrow> addr option \<Rightarrow> 'd qstore \<Rightarrow> addr run option" where
  "qsimpleq_find a cur h =
     (case cur of
        None \<Rightarrow> Some (Stop NullDeref [])
      | Some c \<Rightarrow>
          (case h c of
             None \<Rightarrow> Some (Stop BadPointer [])
           | Some e \<Rightarrow> if sqe_next e = Some a then Some (Ok c []) else qsimpleq_find a (sqe_next e) h))"

declare qsimpleq_find.simps [code]

fun QSIMPLEQ_REMOVE :: "addr \<Rightarrow> 'd qstore \<times> qhead \<Rightarrow> ('d qstore \<times> qhead) run option" where
  "QSIMPLEQ_REMOVE a (h, q) =
     (if sqh_first q = Some a then Some (QSIMPLEQ_REMOVE_HEAD (h, q))
      else map_option (\<lambda>r. run_bind r (\<lambda>c.
             run_bind (QSIMPLEQ_NEXT a h) (\<lambda>p.
               run_bind (qset_next c p h) (\<lambda>h'.
                 Ok (h', if p = None then q\<lparr>sqh_last := NextOf c\<rparr> else q) []))))
             (qsimpleq_find a (sqh_first q) h))"

fun QSIMPLEQ_CONCAT :: "'d qstore \<times> qhead \<times> qhead \<Rightarrow> ('d qstore \<times> qhead \<times> qhead) run" where
  "QSIMPLEQ_CONCAT (h, q1, q2) =
     (if \<not> QSIMPLEQ_EMPTY q2 then
        run_bind (qstore_last (sqh_first q2) (h, q1)) (\<lambda>(h', q1').
          Ok (h', q1'\<lparr>sqh_last := sqh_last q2\<rparr>, QSIMPLEQ_INIT) [])
      else Ok (h, q1, q2) [])"

text \<open>\<open>QSIMPLEQ_LAST\<close> computes the element whose \<open>sqe_next\<close> the head points to; on a head whose
  pointer is its own first cell the subtraction gives no element.\<close>

definition QSIMPLEQ_LAST :: "qhead \<Rightarrow> addr option run" where
  "QSIMPLEQ_LAST q =
     (if QSIMPLEQ_EMPTY q then Ok None []
      else case sqh_last q of NextOf a \<Rightarrow> Ok (Some a) [] | FirstOfHead \<Rightarrow> Stop BadPointer [])"

section \<open>The represented list\<close>

text \<open>\<open>qseg h p xs r\<close>: following \<open>sqe_next\<close> from \<open>p\<close> visits \<open>xs\<close> and arrives at \<open>r\<close>.\<close>

fun qseg :: "'d qstore \<Rightarrow> addr option \<Rightarrow> addr list \<Rightarrow> addr option \<Rightarrow> bool" where
  "qseg h p [] r \<longleftrightarrow> p = r"
| "qseg h p (a # xs) r \<longleftrightarrow>
     p = Some a \<and> (case h a of None \<Rightarrow> False | Some e \<Rightarrow> qseg h (sqe_next e) xs r)"

definition qend :: "addr list \<Rightarrow> qcell" where
  "qend xs = (if xs = [] then FirstOfHead else NextOf (last xs))"

fun qrep :: "'d qstore \<times> qhead \<Rightarrow> addr list \<Rightarrow> bool" where
  "qrep (h, q) xs \<longleftrightarrow> distinct xs \<and> qseg h (sqh_first q) xs None \<and> sqh_last q = qend xs"

text \<open>The data of a store, which no macro changes.\<close>

definition qdata :: "'d qstore \<Rightarrow> addr \<Rightarrow> 'd option" where
  "qdata h a = map_option sqe_data (h a)"

named_theorems queue_simps \<open>evaluation of the queue macros\<close>

lemmas queue_defs [queue_simps] =
  qderef_def qset_next_def QSIMPLEQ_NEXT_def QSIMPLEQ_EMPTY_def QSIMPLEQ_FIRST_def

lemma qseg_upd [simp]: "a \<notin> set xs \<Longrightarrow> qseg (h(a := v)) p xs r = qseg h p xs r"
  by (induction xs arbitrary: p) (auto split: option.splits)

lemma qseg_dom: "qseg h p xs r \<Longrightarrow> set xs \<subseteq> dom h"
  by (induction xs arbitrary: p) (auto split: option.splits)

lemma qseg_append: "qseg h p (xs @ ys) r \<longleftrightarrow> (\<exists>m. qseg h p xs m \<and> qseg h m ys r)"
  by (induction xs arbitrary: p) (auto split: option.splits)

lemma qseg_cong: "qseg h p xs r \<Longrightarrow> (\<And>a. a \<in> set xs \<Longrightarrow> h' a = h a) \<Longrightarrow> qseg h' p xs r"
  by (induction xs arbitrary: p) (auto split: option.splits)

lemma qseg_None: "qseg h None xs None \<longleftrightarrow> xs = []"
  by (cases xs) auto

lemma qseg_redirect:
  assumes "qseg h p (xs @ [c]) r" and "distinct (xs @ [c])"
  shows "\<exists>e. h c = Some e \<and> sqe_next e = r \<and> qseg (h(c \<mapsto> e\<lparr>sqe_next := r'\<rparr>)) p (xs @ [c]) r'"
  using assms by (auto simp: qseg_append split: option.splits)

lemma qdata_upd [simp]:
  "h a = Some e \<Longrightarrow> qdata (h(a \<mapsto> e\<lparr>sqe_next := p\<rparr>)) = qdata h"
  by (auto simp: qdata_def fun_eq_iff)

lemma qend_simps [simp]: "qend [] = FirstOfHead" "qend [a] = NextOf a" "qend (xs @ [a]) = NextOf a" "xs \<noteq> [] \<Longrightarrow> qend (a # xs) = qend xs"
  by (simp_all add: qend_def)

lemma qrep_INIT: "qrep (h, QSIMPLEQ_INIT) []"
  by (simp add: QSIMPLEQ_INIT_def)

lemma qrep_FIRST: "qrep (h, q) xs \<Longrightarrow> QSIMPLEQ_FIRST q = (case xs of [] \<Rightarrow> None | a # _ \<Rightarrow> Some a)"
  by (cases xs) (auto simp: QSIMPLEQ_FIRST_def)

lemma qrep_EMPTY: "qrep (h, q) xs \<Longrightarrow> QSIMPLEQ_EMPTY q \<longleftrightarrow> xs = []"
  by (cases xs) (auto simp: QSIMPLEQ_EMPTY_def)

lemma qrep_LAST: "qrep (h, q) xs \<Longrightarrow> QSIMPLEQ_LAST q = Ok (if xs = [] then None else Some (last xs)) []"
  by (cases xs) (auto simp: QSIMPLEQ_LAST_def QSIMPLEQ_EMPTY_def qend_def)

lemma qrep_dom: "qrep (h, q) xs \<Longrightarrow> set xs \<subseteq> dom h"
  by (auto dest!: qseg_dom)

text \<open>An element that is not in the queue may be allocated, freed or overwritten.\<close>

lemma qrep_frame: "a \<notin> set xs \<Longrightarrow> qrep (h(a := v), q) xs = qrep (h, q) xs"
  by simp

lemma qrep_INSERT_HEAD:
  assumes "qrep (h, q) xs" and "a \<notin> set xs" and "a \<in> dom h"
  shows "\<exists>h' q'. QSIMPLEQ_INSERT_HEAD a (h, q) = Ok (h', q') [] \<and> qrep (h', q') (a # xs) \<and>
    dom h' = dom h \<and> qdata h' = qdata h"
proof -
  obtain e where "h a = Some e" using assms(3) by auto
  then show ?thesis
    using assms by (cases xs) (auto simp: queue_simps qend_def split: option.splits)
qed

lemma qrep_INSERT_TAIL:
  assumes "qrep (h, q) xs" and "a \<notin> set xs" and "a \<in> dom h"
  shows "\<exists>h' q'. QSIMPLEQ_INSERT_TAIL a (h, q) = Ok (h', q') [] \<and> qrep (h', q') (xs @ [a]) \<and>
    dom h' = dom h \<and> qdata h' = qdata h"
proof -
  obtain e where e: "h a = Some e" using assms(3) by auto
  let ?h = "h(a \<mapsto> e\<lparr>sqe_next := None\<rparr>)"
  show ?thesis
  proof (cases xs rule: rev_cases)
    case Nil
    then show ?thesis using assms e by (auto simp: queue_simps)
  next
    case (snoc ys c)
    then have "qseg ?h (sqh_first q) (ys @ [c]) None" and ne: "c \<noteq> a" and d: "distinct (ys @ [c])"
      using assms by auto
    from qseg_redirect [OF this(1) d, of "Some a"] obtain f where
      f: "?h c = Some f" "qseg (?h(c \<mapsto> f\<lparr>sqe_next := Some a\<rparr>)) (sqh_first q) (ys @ [c]) (Some a)"
      by blast
    have "qseg (?h(c \<mapsto> f\<lparr>sqe_next := Some a\<rparr>)) (sqh_first q) ((ys @ [c]) @ [a]) None"
      using f(2) ne by (subst qseg_append) auto
    then show ?thesis using assms e f(1) ne snoc by (auto simp: queue_simps qend_def)
  qed
qed

lemma qrep_INSERT_AFTER:
  assumes "qrep (h, q) (xs @ b # ys)" and "a \<notin> set (xs @ b # ys)" and "a \<in> dom h"
  shows "\<exists>h' q'. QSIMPLEQ_INSERT_AFTER b a (h, q) = Ok (h', q') [] \<and> qrep (h', q') (xs @ b # a # ys) \<and>
    dom h' = dom h \<and> qdata h' = qdata h"
proof -
  obtain e where e: "h a = Some e" using assms(3) by auto
  obtain f where f: "h b = Some f" "qseg h (sqh_first q) xs (Some b)" "qseg h (sqe_next f) ys None"
    using assms(1) by (auto simp: qseg_append split: option.splits)
  show ?thesis
    using assms e f by (cases ys) (auto simp: queue_simps qseg_append qend_def split: option.splits)
qed

lemma qrep_REMOVE_HEAD:
  assumes "qrep (h, q) (a # xs)"
  shows "\<exists>q'. QSIMPLEQ_REMOVE_HEAD (h, q) = Ok (h, q') [] \<and> qrep (h, q') xs"
  using assms by (cases xs) (auto simp: queue_simps qend_def split: option.splits)

lemma REMOVE_HEAD_empty: "QSIMPLEQ_EMPTY q \<Longrightarrow> QSIMPLEQ_REMOVE_HEAD (h, q) = Stop NullDeref []"
  by (simp add: queue_simps)

text \<open>The search ends, at the predecessor.\<close>

lemma qsimpleq_find_pred:
  assumes "qseg h p (xs @ c # a # ys) None" and "distinct (xs @ c # a # ys)"
  shows "qsimpleq_find a p h = Some (Ok c [])"
  using assms
proof (induction xs arbitrary: p)
  case Nil
  then show ?case by (subst qsimpleq_find.simps) (auto split: option.splits)
next
  case (Cons x xs)
  then obtain e where e: "p = Some x" "h x = Some e" "qseg h (sqe_next e) (xs @ c # a # ys) None"
    by (auto split: option.splits)
  have "sqe_next e \<noteq> Some a"
    using e(3) Cons.prems(2) by (cases xs) auto
  moreover have "qsimpleq_find a (sqe_next e) h = Some (Ok c [])"
    using Cons.IH e(3) Cons.prems(2) by simp
  ultimately show ?case
    using e by (subst qsimpleq_find.simps) simp
qed

text \<open>On a queue without the element the search runs off the end.\<close>

lemma qsimpleq_find_absent:
  assumes "qseg h p xs None" and "a \<notin> set xs"
  shows "qsimpleq_find a p h = Some (Stop NullDeref [])"
  using assms
proof (induction xs arbitrary: p)
  case (Cons x xs)
  then obtain e where e: "p = Some x" "h x = Some e" "qseg h (sqe_next e) xs None"
    by (auto split: option.splits)
  have "sqe_next e \<noteq> Some a"
    using e(3) Cons.prems(2) by (cases xs) auto
  then show ?case
    using e Cons by (subst qsimpleq_find.simps) simp
qed (subst qsimpleq_find.simps, simp)

lemma qrep_REMOVE:
  assumes "qrep (h, q) (xs @ a # ys)"
  shows "\<exists>h' q'. QSIMPLEQ_REMOVE a (h, q) = Some (Ok (h', q') []) \<and> qrep (h', q') (xs @ ys) \<and>
    dom h' = dom h \<and> qdata h' = qdata h"
proof (cases xs rule: rev_cases)
  case Nil
  then have "sqh_first q = Some a" using assms by simp
  then show ?thesis using assms qrep_REMOVE_HEAD [of h q a ys] Nil by auto
next
  case (snoc zs c)
  then have s: "qseg h (sqh_first q) (zs @ c # a # ys) None" and d: "distinct (zs @ c # a # ys)"
    using assms by auto
  have first: "sqh_first q \<noteq> Some a"
    using s d by (cases zs) auto
  obtain e f where ef: "h c = Some e" "h a = Some f" "qseg h (sqh_first q) zs (Some c)"
      "qseg h (sqe_next f) ys None"
    using s by (auto simp: qseg_append split: option.splits)
  have find: "qsimpleq_find a (sqh_first q) h = Some (Ok c [])"
    by (rule qsimpleq_find_pred [OF s d])
  show ?thesis
    using assms snoc d ef first by (cases ys) (auto simp: find queue_simps qseg_append qend_def split: option.splits)
qed

lemma qrep_CONCAT:
  assumes "qrep (h, q1) xs" and "qrep (h, q2) ys" and "set xs \<inter> set ys = {}"
  shows "\<exists>h' q1' q2'. QSIMPLEQ_CONCAT (h, q1, q2) = Ok (h', q1', q2') [] \<and> qrep (h', q1') (xs @ ys) \<and>
    qrep (h', q2') [] \<and> dom h' = dom h \<and> qdata h' = qdata h"
proof (cases ys)
  case Nil
  then show ?thesis using assms by (auto simp: queue_simps)
next
  case (Cons y zs)
  note ys = this
  show ?thesis
  proof (cases xs rule: rev_cases)
    case Nil
    then show ?thesis using assms ys by (auto simp: queue_simps QSIMPLEQ_INIT_def)
  next
    case (snoc us c)
    have d: "distinct (us @ [c])" and s: "qseg h (sqh_first q1) (us @ [c]) None"
      using assms snoc by auto
    obtain f where f: "h c = Some f"
        "qseg (h(c \<mapsto> f\<lparr>sqe_next := Some y\<rparr>)) (sqh_first q1) (us @ [c]) (Some y)"
      using qseg_redirect [OF s d, of "Some y"] by blast
    have "qseg (h(c \<mapsto> f\<lparr>sqe_next := Some y\<rparr>)) (sqh_first q1) ((us @ [c]) @ ys) None"
      using f(2) assms ys snoc by (subst qseg_append) (auto split: option.splits)
    moreover have "sqh_first q2 = Some y" using assms(2) ys by simp
    ultimately show ?thesis
      using assms ys snoc f(1) by (auto simp: queue_simps QSIMPLEQ_INIT_def qend_def)
  qed
qed

section \<open>The contract of a first-in first-out queue\<close>

text \<open>
  What the command queue of the board emulation needs of the macros: a client inserts at the tail
  and removes the head. The lemma shows for every sequence of insertions and removals that the
  elements come out in the order in which they went in.
\<close>

locale tail_queue =
  fixes rep :: "'m \<Rightarrow> 'a list \<Rightarrow> bool"
    and fresh :: "'m \<Rightarrow> 'a \<Rightarrow> bool"
    and put :: "'a \<Rightarrow> 'm \<Rightarrow> 'm run"
    and first :: "'m \<Rightarrow> 'a option"
    and pop :: "'m \<Rightarrow> 'm run"
  assumes put_law: "rep m xs \<Longrightarrow> fresh m a \<Longrightarrow> a \<notin> set xs \<Longrightarrow>
      run_total (\<lambda>m' es. rep m' (xs @ [a]) \<and> fresh m' = fresh m \<and> es = []) (put a m)"
    and first_law: "rep m xs \<Longrightarrow> first m = (case xs of [] \<Rightarrow> None | a # _ \<Rightarrow> Some a)"
    and pop_law: "rep m (a # xs) \<Longrightarrow>
      run_total (\<lambda>m' es. rep m' xs \<and> fresh m' = fresh m \<and> es = []) (pop m)"
begin

lemma puts_order:
  assumes "rep m xs" and "distinct (xs @ as)" and "list_all (fresh m) as"
  shows "run_total (\<lambda>m' es. rep m' (xs @ as) \<and> es = []) (run_for as put m)"
  using assms
proof (induction as arbitrary: m xs)
  case (Cons a as)
  obtain m1 where m1: "put a m = Ok m1 []" "rep m1 (xs @ [a])" "fresh m1 = fresh m"
    using put_law [of m xs a] Cons.prems by (auto elim: run_totalE)
  show ?case using Cons.IH [OF m1(2)] Cons.prems m1 by simp
qed simp

lemma pops_order:
  assumes "rep m (as @ xs)"
  shows "run_total (\<lambda>m' es. rep m' xs \<and> es = []) (run_for as (\<lambda>a m. if first m = Some a then pop m else Stop AssertFail []) m)"
  using assms
proof (induction as arbitrary: m)
  case (Cons a as)
  obtain m1 where m1: "pop m = Ok m1 []" "rep m1 (as @ xs)"
    using pop_law [of m a "as @ xs"] Cons.prems by (auto elim: run_totalE)
  have "first m = Some a" using first_law Cons.prems by simp
  then show ?case using Cons.IH [OF m1(2)] m1(1) by simp
qed simp

end

interpretation simpleq: tail_queue qrep "\<lambda>m a. a \<in> dom (fst m)" QSIMPLEQ_INSERT_TAIL
    "\<lambda>m. QSIMPLEQ_FIRST (snd m)" QSIMPLEQ_REMOVE_HEAD
proof unfold_locales
  fix m :: "'d qstore \<times> qhead" and xs a
  assume "qrep m xs" and "a \<in> dom (fst m)" and "a \<notin> set xs"
  then show "run_total (\<lambda>m' es. qrep m' (xs @ [a]) \<and> (\<lambda>a. a \<in> dom (fst m')) = (\<lambda>a. a \<in> dom (fst m)) \<and> es = [])
      (QSIMPLEQ_INSERT_TAIL a m)"
    using qrep_INSERT_TAIL [of "fst m" "snd m" xs a]
    by (cases m) (auto simp del: QSIMPLEQ_INSERT_TAIL.simps)
next
  fix m :: "'d qstore \<times> qhead" and xs
  assume "qrep m xs"
  then show "QSIMPLEQ_FIRST (snd m) = (case xs of [] \<Rightarrow> None | a # _ \<Rightarrow> Some a)"
    using qrep_FIRST [of "fst m" "snd m" xs] by (cases m) (simp del: qrep.simps)
next
  fix m :: "'d qstore \<times> qhead" and a xs
  assume "qrep m (a # xs)"
  then show "run_total (\<lambda>m' es. qrep m' xs \<and> (\<lambda>a. a \<in> dom (fst m')) = (\<lambda>a. a \<in> dom (fst m)) \<and> es = [])
      (QSIMPLEQ_REMOVE_HEAD m)"
    using qrep_REMOVE_HEAD [of "fst m" "snd m" a xs]
    by (cases m) (auto simp del: QSIMPLEQ_REMOVE_HEAD.simps)
qed

end
