(* ===== verification/P103_Emul.thy ===== *)
theory P103_Emul
  imports Qdev Qsimpleq
begin

text \<open>
  The TCP gateway of the P103 board (\<open>hw/arm/stm32_p103_emul.c\<close>).

  Four threads share \<open>p103_state\<close>: the CPU thread posts commands and waits for acknowledgements, the
  \<open>cmd\<close> thread sends the queued commands to the monitor, the \<open>evt\<close> thread reads the monitor's
  messages, and the main thread may shut the gateway down. A thread is a program counter, a step is
  what one thread does up to the next point at which another one can see a difference: a section
  between lock and unlock is one step, and so is each access to shared data outside of the locks (the
  reading of \<open>cmd_list_size\<close>, the test for an empty queue, the debug print of a command that is
  already queued, the release of a command). A condition variable wakes a thread that waits on it and
  is lost otherwise; POSIX also allows a wait to return without a signal. What the sockets answer is
  an argument of the step.
\<close>

section \<open>Messages\<close>

datatype EventId = DIGITAL_OUT | C_EVENT | SCALA_DIGITAL_IN | SCALA_ACK_EVT

fun event_code :: "EventId \<Rightarrow> u8" where
  "event_code DIGITAL_OUT = 0x00"
| "event_code C_EVENT = 0x10"
| "event_code SCALA_DIGITAL_IN = 0x56"
| "event_code SCALA_ACK_EVT = 0x41"

record P103CmdData =
  data_id :: EventId
  data_port :: u8
  data_pin :: u8
  data_value :: u32

text \<open>The conversions \<open>%d\<close> and \<open>%04d\<close> of an \<open>int\<close>.\<close>

definition zero_pad :: "nat \<Rightarrow> string \<Rightarrow> string" where
  "zero_pad w s = replicate (w - length s) (CHR ''0'') @ s"

definition fmt_d :: "int \<Rightarrow> string" where
  "fmt_d i = (if i < 0 then CHR ''-'' # dec_string (nat (- i)) else dec_string (nat i))"

definition fmt_04d :: "int \<Rightarrow> string" where
  "fmt_04d i = (if i < 0 then CHR ''-'' # zero_pad 3 (dec_string (nat (- i))) else zero_pad 4 (dec_string (nat i)))"

definition CMD_PERIPH :: "int \<Rightarrow> u8 \<Rightarrow> int \<Rightarrow> int \<Rightarrow> string" where
  "CMD_PERIPH msg port pin v =
     ''{\"msgId\":'' @ fmt_d msg @ '',\"pin\":{\"port\":\"'' @ [char_of (unat port)] @ ''\",\"nbr\":'' @
     fmt_d pin @ ''},\"value\":'' @ fmt_d v @ ''}'' @ [CHR 0x0A]"

definition CMD_EVENT :: "int \<Rightarrow> int \<Rightarrow> string" where
  "CMD_EVENT msg v = ''{\"msgId\":'' @ fmt_d msg @ '',\"value\":'' @ fmt_d v @ ''}'' @ [CHR 0x0A]"

definition DBG :: "string \<Rightarrow> effect" where
  "DBG s = Printf (''stm32p103'' @ s)"

definition ERR :: "string \<Rightarrow> effect" where
  "ERR s = Stderr (''stm32p103'' @ s)"

definition print_cmd_periph :: "P103CmdData \<Rightarrow> string" where
  "print_cmd_periph d =
     CMD_PERIPH (uint (event_code (data_id d))) (data_port d) (uint (data_pin d)) (sint (data_value d))"

definition print_cmd_event :: "P103CmdData \<Rightarrow> string" where
  "print_cmd_event d = CMD_EVENT (uint (event_code (data_id d))) (sint (data_value d))"

text \<open>\<open>snprintf\<close> into a buffer: what the buffer holds before the terminating zero, and the length the
  text would have.\<close>

definition snprintf :: "nat \<Rightarrow> string \<Rightarrow> string \<times> nat" where
  "snprintf n s = (take (n - 1) s, length s)"

definition HOST_PATTERN :: "nat \<Rightarrow> string" where
  "HOST_PATTERN port = ''localhost:'' @ dec_string port"

abbreviation (input) TCP_CMD_PORT :: nat where "TCP_CMD_PORT \<equiv> 14001"
abbreviation (input) TCP_EVT_PORT :: nat where "TCP_EVT_PORT \<equiv> 14002"

section \<open>State\<close>

record Stm32P103 =
  btn0_irq :: qemu_irq
  btn1_irq :: qemu_irq
  btn2_irq :: qemu_irq
  btn3_irq :: qemu_irq

text \<open>The points between the steps of the threads. A pointer or a number a thread holds in a local
  variable is an argument of its program counter.\<close>

datatype cpu_pc =
    CpuRun
  | CpuAdd P103CmdData u32      \<comment> \<open>in \<open>stm32p103_emul_event_post\<close>, \<open>size\<close> read\<close>
  | CpuPrint addr EventId u32   \<comment> \<open>command queued, before the debug print\<close>
  | CpuCheck u32                \<comment> \<open>before the test of \<open>size\<close>\<close>
  | CpuWaitAck                  \<comment> \<open>in \<open>event_wait_ack\<close>\<close>

datatype cmd_pc =
    CmdStart
  | CmdLock                     \<comment> \<open>before \<open>qemu_mutex_lock\<close> and \<open>qemu_cond_wait\<close>\<close>
  | CmdWaiting
  | CmdWoken
  | CmdTest                     \<comment> \<open>before the test of the inner \<open>while\<close>\<close>
  | CmdSend
  | CmdFree addr
  | CmdFailed addr
  | CmdDone

datatype evt_pc = EvtStart | EvtRead | EvtDone

datatype main_pc = MainRun | MainJoinCmd | MainJoinEvt | MainDone

record P103EmulState =
  stm_state :: Stm32P103
  cmd_store :: "P103CmdData qstore"
  cmd_list :: qhead
  cmd_list_size :: u32
  cmd_thread_terminate :: u32
  cmd_sock_out :: string        \<comment> \<open>bytes written to \<open>cmd_sock\<close>\<close>
  cmd_str :: string
  cmd_count :: nat
  at_cpu :: cpu_pc
  at_cmd :: cmd_pc
  at_evt :: evt_pc
  at_main :: main_pc

definition stm32p103_emul_init :: "Stm32P103 \<Rightarrow> P103EmulState \<Rightarrow> P103EmulState run" where
  "stm32p103_emul_init b s =
     Ok (s\<lparr>stm_state := b, cmd_list := QSIMPLEQ_INIT, cmd_list_size := 0, cmd_thread_terminate := 0,
           at_cmd := CmdStart, at_evt := EvtStart\<rparr>)
        [DBG (''_emul: stm32p103_emul_init'' @ [CHR 0x0A])]"

text \<open>\<open>qemu_cond_signal\<close> on the two condition variables.\<close>

definition signal_cmd_cond :: "P103EmulState \<Rightarrow> P103EmulState" where
  "signal_cmd_cond s = (if at_cmd s = CmdWaiting then s\<lparr>at_cmd := CmdWoken\<rparr> else s)"

definition signal_evt_ack_cond :: "P103EmulState \<Rightarrow> P103EmulState" where
  "signal_evt_ack_cond s = (if at_cpu s = CpuWaitAck then s\<lparr>at_cpu := CpuRun\<rparr> else s)"

section \<open>Posting: the CPU thread\<close>

definition event_queue_add :: "addr \<Rightarrow> P103EmulState \<Rightarrow> P103EmulState run" where
  "event_queue_add a s =
     run_bind (QSIMPLEQ_INSERT_TAIL a (cmd_store s, cmd_list s)) (\<lambda>(h, q).
       Ok (signal_cmd_cond (s\<lparr>cmd_store := h, cmd_list := q, cmd_list_size := cmd_list_size s + 1\<rparr>)) [])"

text \<open>\<open>stm32p103_emul_event_post\<close>: the reading of the size; the allocation (at an address the
  allocator chooses) and the insertion; the debug print; the test of the size.\<close>

definition event_post_begin :: "EventId \<Rightarrow> u8 \<Rightarrow> u8 \<Rightarrow> u32 \<Rightarrow> P103EmulState \<Rightarrow> P103EmulState run" where
  "event_post_begin i port pin v s =
     Ok (s\<lparr>at_cpu := CpuAdd \<lparr>data_id = i, data_port = port, data_pin = pin, data_value = v\<rparr>
                      (cmd_list_size s)\<rparr>) []"

definition event_post_add :: "addr \<Rightarrow> P103CmdData \<Rightarrow> u32 \<Rightarrow> P103EmulState \<Rightarrow> P103EmulState run" where
  "event_post_add a d sz s =
     run_bind (event_queue_add a (s\<lparr>cmd_store := (cmd_store s)(a \<mapsto> \<lparr>sqe_next = None, sqe_data = d\<rparr>)\<rparr>))
       (\<lambda>s'. Ok (s'\<lparr>at_cpu := CpuPrint a (data_id d) sz\<rparr>) [])"

definition event_post_print :: "addr \<Rightarrow> EventId \<Rightarrow> u32 \<Rightarrow> P103EmulState \<Rightarrow> P103EmulState run" where
  "event_post_print a i sz s =
     run_emit [DBG ''_emul: cmd queued: '']
       (run_bind (qderef (Some a) (cmd_store s)) (\<lambda>e.
          Ok (s\<lparr>at_cpu := CpuCheck sz\<rparr>)
             [Printf (if i = C_EVENT then print_cmd_event (sqe_data e) else print_cmd_periph (sqe_data e))]))"

definition event_post_check :: "u32 \<Rightarrow> P103EmulState \<Rightarrow> P103EmulState run" where
  "event_post_check sz s =
     (if sz > 1023 then
        Stop (ExitProcess (- 1))
          [ERR (''_emul: '' @ fmt_04d (sint sz) @ '' commands in the queue.'' @ [CHR 0x0A]),
           ERR (''_emul: Program exit !'' @ [CHR 0x0A, CHR 0x0A])]
      else if sz > 15 then
        Ok (s\<lparr>at_cpu := CpuRun\<rparr>)
          [DBG (''_emul: '' @ fmt_04d (sint sz) @ '' commands in the queue'' @ [CHR 0x0A])]
      else Ok (s\<lparr>at_cpu := CpuRun\<rparr>) [])"

text \<open>The post without interruption by another thread.\<close>

definition stm32p103_emul_event_post ::
    "addr \<Rightarrow> EventId \<Rightarrow> u8 \<Rightarrow> u8 \<Rightarrow> u32 \<Rightarrow> P103EmulState \<Rightarrow> P103EmulState run" where
  "stm32p103_emul_event_post a i port pin v s =
     (let sz = cmd_list_size s in
      run_seq [event_post_begin i port pin v,
               event_post_add a \<lparr>data_id = i, data_port = port, data_pin = pin, data_value = v\<rparr> sz,
               event_post_print a i sz, event_post_check sz] s)"

definition post_event_digital_out :: "u8 \<Rightarrow> u8 \<Rightarrow> u32 \<Rightarrow> P103EmulState \<Rightarrow> P103EmulState run" where
  "post_event_digital_out port pin v = event_post_begin DIGITAL_OUT port pin v"

definition post_event_c :: "u8 \<Rightarrow> P103EmulState \<Rightarrow> P103EmulState run" where
  "post_event_c eventId = event_post_begin C_EVENT 0 0 (ucast eventId)"

definition event_wait_ack :: "P103EmulState \<Rightarrow> P103EmulState run" where
  "event_wait_ack s = Ok (s\<lparr>at_cpu := CpuWaitAck\<rparr>) []"

section \<open>Sending: the cmd thread\<close>

datatype write_result = WriteError | WriteAll | WritePart nat

definition g_free :: "addr \<Rightarrow> P103EmulState \<Rightarrow> P103EmulState run" where
  "g_free a s = (if cmd_store s a = None then Stop BadPointer []
                 else Ok (s\<lparr>cmd_store := (cmd_store s)(a := None)\<rparr>) [])"

text \<open>The frame of a command; any other identifier leaves the buffer of the command before it.\<close>

definition cmd_format :: "P103CmdData \<Rightarrow> string \<times> nat \<Rightarrow> string \<times> nat" where
  "cmd_format d old =
     (if data_id d = C_EVENT then snprintf 128 (print_cmd_event d)
      else if data_id d = DIGITAL_OUT then snprintf 128 (print_cmd_periph d)
      else old)"

fun write_bytes :: "write_result \<Rightarrow> string \<Rightarrow> nat \<Rightarrow> string" where
  "write_bytes WriteError str n = []"
| "write_bytes WriteAll str n = take n str"
| "write_bytes (WritePart k) str n = take (min k n) str"

text \<open>The section under \<open>cmd_mutex\<close> of the inner loop.\<close>

definition cmd_send :: "write_result \<Rightarrow> P103EmulState \<Rightarrow> P103EmulState run" where
  "cmd_send res s =
     (case QSIMPLEQ_FIRST (cmd_list s) of
        None \<Rightarrow> Stop NullDeref []
      | Some cmd \<Rightarrow>
          run_bind (qderef (Some cmd) (cmd_store s)) (\<lambda>e.
            let (str, n) = cmd_format (sqe_data e) (cmd_str s, cmd_count s);
                s' = s\<lparr>cmd_str := str, cmd_count := n, cmd_sock_out := cmd_sock_out s @ write_bytes res str n\<rparr>
            in if res = WriteError then
                 Ok (s'\<lparr>at_cmd := CmdFailed cmd\<rparr>)
                   [ERR (''_emul: failed to send'' @ [CHR 0x0A]),
                    ERR (''_emul: stm32p103_emul_cmd_thread terminated'' @ [CHR 0x0A])]
               else
                 run_bind (QSIMPLEQ_REMOVE_HEAD (cmd_store s, cmd_list s)) (\<lambda>(h, q).
                   Ok (s'\<lparr>cmd_store := h, cmd_list := q, cmd_list_size := cmd_list_size s - 1,
                          at_cmd := CmdFree cmd\<rparr>) [])))"

definition stm32p103_emul_cmd_thread :: "bool \<Rightarrow> write_result \<Rightarrow> P103EmulState \<Rightarrow> P103EmulState run" where
  "stm32p103_emul_cmd_thread connected res s =
     (case at_cmd s of
        CmdStart \<Rightarrow>
          (let host_str = fst (snprintf 32 (HOST_PATTERN TCP_CMD_PORT)) in
           run_emit [DBG (''_emul: stm32p103_emul_cmd_thread started'' @ [CHR 0x0A])]
             (if \<not> connected then
                Ok (s\<lparr>at_cmd := CmdDone\<rparr>)
                  [ERR (''_emul: failed to connect to '' @ host_str @ [CHR 0x0A]),
                   ERR (''_emul: stm32p103_emul_cmd_thread terminated'' @ [CHR 0x0A, CHR 0x0A])]
              else
                Ok (s\<lparr>at_cmd := CmdLock\<rparr>)
                  [DBG (''_emul: connected to '' @ host_str @ [CHR 0x0A, CHR 0x0A])]))
      | CmdLock \<Rightarrow> Ok (s\<lparr>at_cmd := CmdWaiting\<rparr>) []
      | CmdWaiting \<Rightarrow> Ok s []
      | CmdWoken \<Rightarrow> Ok (s\<lparr>at_cmd := (if cmd_thread_terminate s \<noteq> 0 then CmdDone else CmdTest)\<rparr>) []
      | CmdTest \<Rightarrow> Ok (s\<lparr>at_cmd := (if \<not> QSIMPLEQ_EMPTY (cmd_list s) then CmdSend else CmdLock)\<rparr>) []
      | CmdSend \<Rightarrow> cmd_send res s
      | CmdFree cmd \<Rightarrow> run_bind (g_free cmd s) (\<lambda>s'. Ok (s'\<lparr>at_cmd := CmdTest\<rparr>) [])
      | CmdFailed cmd \<Rightarrow> run_bind (g_free cmd s) (\<lambda>s'. Ok (s'\<lparr>at_cmd := CmdDone\<rparr>) [])
      | CmdDone \<Rightarrow> Ok s [])"

section \<open>Receiving: the evt thread\<close>

text \<open>The union \<open>Value\<close> on the little-endian host: the four bytes read are the number \<open>nbr\<close>, least
  significant byte first; \<open>ntohl\<close> swaps them.\<close>

definition value_nbr :: "u8 \<Rightarrow> u8 \<Rightarrow> u8 \<Rightarrow> u8 \<Rightarrow> u32" where
  "value_nbr b0 b1 b2 b3 =
     ucast b0 OR push_bit 8 (ucast b1) OR push_bit 16 (ucast b2) OR push_bit 24 (ucast b3)"

definition value_byte :: "u32 \<Rightarrow> nat \<Rightarrow> u8" where
  "value_byte nbr i = ucast (drop_bit (8 * i) nbr)"

definition ntohl :: "u32 \<Rightarrow> u32" where
  "ntohl x = value_nbr (value_byte x 3) (value_byte x 2) (value_byte x 1) (value_byte x 0)"

definition button_irq :: "u8 \<Rightarrow> Stm32P103 \<Rightarrow> qemu_irq" where
  "button_irq btId b =
     (if btId = 0 then btn0_irq b else if btId = 1 then btn1_irq b
      else if btId = 2 then btn2_irq b else if btId = 3 then btn3_irq b else IrqNull)"

definition evt_message :: "u32 \<Rightarrow> P103EmulState \<Rightarrow> P103EmulState run" where
  "evt_message nbr s =
     (let evt = value_byte nbr 3 in
      if evt = event_code SCALA_DIGITAL_IN then
        (let btId = value_byte nbr 1;
             btIrq = button_irq btId (stm_state s);
             btValue = (if value_byte nbr 0 \<noteq> 0 then 1 else 0)
         in if btIrq \<noteq> IrqNull then
              run_emit [DBG (''_emul: Button number '' @ fmt_d (uint btId) @ '' set to '' @ [CHR 0x27] @
                             fmt_d btValue @ [CHR 0x27, CHR 0x0A])]
                (qemu_set_irq btIrq btValue s)
            else Ok s [])
      else if evt = event_code SCALA_ACK_EVT then
        Ok (signal_evt_ack_cond s) [DBG (''_emul: ACK event received.'' @ [CHR 0x0A])]
      else
        Ok s [DBG (''_emul: Unknown: [3]='' @ fmt_d (uint (value_byte nbr 3)) @
                   '', [2]='' @ fmt_d (uint (value_byte nbr 2)) @ '', [1]='' @ fmt_d (uint (value_byte nbr 1)) @
                   '', [0]='' @ fmt_d (uint (value_byte nbr 0)) @ [CHR 0x0A])])"

text \<open>One turn of the thread. A \<open>read\<close> returns -1 (\<open>None\<close>) or at most four bytes; the result is
  compared as a \<open>size_t\<close> and printed as an \<open>int\<close>.\<close>

definition stm32p103_emul_evt_handle :: "bool \<Rightarrow> u8 list option \<Rightarrow> P103EmulState \<Rightarrow> P103EmulState run" where
  "stm32p103_emul_evt_handle connected input s =
     (case at_evt s of
        EvtStart \<Rightarrow>
          (let host_str = fst (snprintf 255 (HOST_PATTERN TCP_EVT_PORT)) in
           run_emit [DBG (''_emul: stm32p103_emul_evt_handle started'' @ [CHR 0x0A])]
             (if \<not> connected then
                Ok (s\<lparr>at_evt := EvtDone\<rparr>)
                  [ERR (''_emul: failed to connect to '' @ host_str @ [CHR 0x0A]),
                   ERR (''_emul: stm32p103_emul_evt_handle terminated'' @ [CHR 0x0A, CHR 0x0A])]
              else
                Ok (s\<lparr>at_evt := EvtRead\<rparr>)
                  [DBG (''_emul: connected to '' @ host_str @ [CHR 0x0A, CHR 0x0A])]))
      | EvtRead \<Rightarrow>
          (case input of
             None \<Rightarrow> Ok s [DBG (''_emul: Read '' @ fmt_d (- 1) @ ''. End !'' @ [CHR 0x0A])]
           | Some [] \<Rightarrow> Ok (s\<lparr>at_evt := EvtDone\<rparr>) []
           | Some [b0, b1, b2, b3] \<Rightarrow> evt_message (ntohl (value_nbr b0 b1 b2 b3)) s
           | Some bs \<Rightarrow> Ok s [DBG (''_emul: Read '' @ fmt_d (int (length bs)) @ ''. End !'' @ [CHR 0x0A])])
      | EvtDone \<Rightarrow> Ok s [])"

section \<open>Shutting down: the main thread\<close>

text \<open>\<open>stm32p103_emul_exit\<close> up to each \<open>qemu_thread_join\<close>, and its return.\<close>

definition stm32p103_emul_exit :: "P103EmulState \<Rightarrow> P103EmulState run" where
  "stm32p103_emul_exit s =
     (case at_main s of
        MainRun \<Rightarrow> Ok ((signal_cmd_cond (s\<lparr>cmd_thread_terminate := 1\<rparr>))\<lparr>at_main := MainJoinCmd\<rparr>)
                     [DBG (''_emul: stm32p103_emul_exit'' @ [CHR 0x0A])]
      | MainJoinCmd \<Rightarrow> Ok (if at_cmd s = CmdDone then (signal_evt_ack_cond s)\<lparr>at_main := MainJoinEvt\<rparr> else s) []
      | MainJoinEvt \<Rightarrow> Ok (if at_evt s = EvtDone then s\<lparr>at_main := MainDone\<rparr> else s) []
      | MainDone \<Rightarrow> Ok s [])"

section \<open>Interleavings\<close>

datatype emul_label =
    PostDigital u8 u8 u32
  | PostC u8
  | PostAdd addr
  | PostPrint
  | PostCheck
  | WaitForAck
  | CmdStep bool write_result
  | EvtStep bool "u8 list option"
  | MainStep
  | WakeCmd
  | WakeAck

text \<open>When a thread can take a step, and what the step does. The last two are returns from a wait
  without a signal.\<close>

fun emul_enabled :: "emul_label \<Rightarrow> P103EmulState \<Rightarrow> bool" where
  "emul_enabled (PostDigital port pin v) s \<longleftrightarrow> at_cpu s = CpuRun"
| "emul_enabled (PostC c) s \<longleftrightarrow> at_cpu s = CpuRun"
| "emul_enabled (PostAdd a) s \<longleftrightarrow> (case at_cpu s of CpuAdd d n \<Rightarrow> cmd_store s a = None | _ \<Rightarrow> False)"
| "emul_enabled PostPrint s \<longleftrightarrow> (case at_cpu s of CpuPrint a i n \<Rightarrow> True | _ \<Rightarrow> False)"
| "emul_enabled PostCheck s \<longleftrightarrow> (case at_cpu s of CpuCheck n \<Rightarrow> True | _ \<Rightarrow> False)"
| "emul_enabled WaitForAck s \<longleftrightarrow> at_cpu s = CpuRun"
| "emul_enabled (CmdStep c r) s \<longleftrightarrow> at_cmd s \<noteq> CmdWaiting \<and> at_cmd s \<noteq> CmdDone"
| "emul_enabled (EvtStep c i) s \<longleftrightarrow> at_evt s \<noteq> EvtDone"
| "emul_enabled MainStep s \<longleftrightarrow> (case at_main s of MainRun \<Rightarrow> True | MainJoinCmd \<Rightarrow> at_cmd s = CmdDone
      | MainJoinEvt \<Rightarrow> at_evt s = EvtDone | MainDone \<Rightarrow> False)"
| "emul_enabled WakeCmd s \<longleftrightarrow> at_cmd s = CmdWaiting"
| "emul_enabled WakeAck s \<longleftrightarrow> at_cpu s = CpuWaitAck"

fun emul_next :: "emul_label \<Rightarrow> P103EmulState \<Rightarrow> P103EmulState run" where
  "emul_next (PostDigital port pin v) s = post_event_digital_out port pin v s"
| "emul_next (PostC c) s = post_event_c c s"
| "emul_next (PostAdd a) s = (case at_cpu s of CpuAdd d n \<Rightarrow> event_post_add a d n s | _ \<Rightarrow> Ok s [])"
| "emul_next PostPrint s = (case at_cpu s of CpuPrint a i n \<Rightarrow> event_post_print a i n s | _ \<Rightarrow> Ok s [])"
| "emul_next PostCheck s = (case at_cpu s of CpuCheck n \<Rightarrow> event_post_check n s | _ \<Rightarrow> Ok s [])"
| "emul_next WaitForAck s = event_wait_ack s"
| "emul_next (CmdStep c r) s = stm32p103_emul_cmd_thread c r s"
| "emul_next (EvtStep c i) s = stm32p103_emul_evt_handle c i s"
| "emul_next MainStep s = stm32p103_emul_exit s"
| "emul_next WakeCmd s = Ok (signal_cmd_cond s) []"
| "emul_next WakeAck s = Ok (signal_evt_ack_cond s) []"

definition emul_zero :: P103EmulState where
  "emul_zero = \<lparr>stm_state = \<lparr>btn0_irq = IrqNull, btn1_irq = IrqNull, btn2_irq = IrqNull, btn3_irq = IrqNull\<rparr>,
     cmd_store = Map.empty, cmd_list = \<lparr>sqh_first = None, sqh_last = FirstOfHead\<rparr>, cmd_list_size = 0,
     cmd_thread_terminate = 0, cmd_sock_out = [], cmd_str = [], cmd_count = 0,
     at_cpu = CpuRun, at_cmd = CmdDone, at_evt = EvtDone, at_main = MainRun\<rparr>"

text \<open>The commands posted by a step.\<close>

fun emul_posts :: "emul_label \<Rightarrow> P103EmulState \<Rightarrow> P103CmdData list" where
  "emul_posts (PostAdd a) s = (case at_cpu s of CpuAdd d n \<Rightarrow> [d] | _ \<Rightarrow> [])"
| "emul_posts l s = []"

text \<open>The states after some interleaving of steps whose labels satisfy \<open>ok\<close>, with the commands
  posted so far.\<close>

inductive emul_reach :: "(emul_label \<Rightarrow> bool) \<Rightarrow> Stm32P103 \<Rightarrow> P103EmulState \<Rightarrow> P103CmdData list \<Rightarrow> bool"
  for ok b where
  start: "stm32p103_emul_init b emul_zero = Ok s es \<Longrightarrow> emul_reach ok b s []"
| step: "emul_reach ok b s ds \<Longrightarrow> ok l \<Longrightarrow> emul_enabled l s \<Longrightarrow> emul_next l s = Ok s' es \<Longrightarrow>
    emul_reach ok b s' (ds @ emul_posts l s)"

text \<open>Sockets that take whole messages.\<close>

fun write_reliable :: "emul_label \<Rightarrow> bool" where
  "write_reliable (CmdStep c r) \<longleftrightarrow> r = WriteAll"
| "write_reliable l \<longleftrightarrow> True"

end
