(* ===== verification/P103_Emul_Ops.thy ===== *)
theory P103_Emul_Ops
  imports P103_Emul
begin

text \<open>
  The invariant of the gateway and its preservation by every step of every thread.

  The invariant ties the linked queue to the list of posted commands: what was written to the socket
  followed by the frames of the queued commands is the frames of all posted commands. It also says
  which memory is allocated (the queued commands, and the one the \<open>cmd\<close> thread is about to release)
  and bounds the length of the queue by the size the CPU thread has read.
\<close>

section \<open>Frames fit the buffer\<close>

lemma length_digits_in: "n < b ^ k \<Longrightarrow> 0 < k \<Longrightarrow> length (digits_in b n) \<le> k"
proof (induction b n arbitrary: k rule: digits_in.induct)
  case (1 b n)
  show ?case
  proof (cases "b < 2 \<or> n < b")
    case True
    then show ?thesis using 1 by (subst digits_in.simps) auto
  next
    case False
    then obtain j where j: "k = Suc j" "0 < j"
      using "1.prems" by (cases k; cases "k - 1") auto
    have "n div b < b ^ j"
      using False "1.prems" j by (simp add: less_mult_imp_div_less mult.commute)
    then have "length (digits_in b (n div b)) \<le> j"
      using False j by (intro "1.IH") auto
    then show ?thesis using False j by (subst digits_in.simps) simp
  qed
qed

lemma length_fmt_d:
  assumes "\<bar>i\<bar> < 10 ^ k" and "0 < k"
  shows "length (fmt_d i) \<le> Suc k"
proof -
  have "nat \<bar>i\<bar> < 10 ^ k" using assms by (simp add: nat_less_iff)
  then show ?thesis
    using length_digits_in [of "nat \<bar>i\<bar>" 10 k] assms(2) by (auto simp: fmt_d_def dec_string_def)
qed

lemma fmt_d_sint: "length (fmt_d (sint (x :: u32))) \<le> 11"
proof -
  have "- (2 ^ 31) \<le> sint x" "sint x < 2 ^ 31"
    using sint_range_size [of x] by (simp_all add: word_size)
  then have "\<bar>sint x\<bar> < 10 ^ 10" by simp
  from length_fmt_d [OF this] show ?thesis by simp
qed

lemma fmt_d_uint: "length (fmt_d (uint (x :: u8))) \<le> 4"
proof -
  have "\<bar>uint x\<bar> < 10 ^ 3" using uint_lt2p [of x] by simp
  from length_fmt_d [OF this] show ?thesis by simp
qed

text \<open>The frame of a posted command, which both kinds of commands have whole in the buffer.\<close>

definition cmd_frame :: "P103CmdData \<Rightarrow> string" where
  "cmd_frame d = (if data_id d = C_EVENT then print_cmd_event d else print_cmd_periph d)"

definition posted_ok :: "P103CmdData \<Rightarrow> bool" where
  "posted_ok d \<longleftrightarrow> data_id d = C_EVENT \<or> data_id d = DIGITAL_OUT"

lemma length_cmd_frame: "length (cmd_frame d) \<le> 70"
  using fmt_d_uint [of "event_code (data_id d)"] fmt_d_uint [of "data_pin d"] fmt_d_sint [of "data_value d"]
  by (cases "data_id d") (simp_all add: cmd_frame_def print_cmd_event_def print_cmd_periph_def CMD_EVENT_def
      CMD_PERIPH_def)

lemma cmd_format_frame:
  "posted_ok d \<Longrightarrow> cmd_format d old = (cmd_frame d, length (cmd_frame d))"
  using length_cmd_frame [of d] by (auto simp: cmd_format_def posted_ok_def cmd_frame_def snprintf_def)

section \<open>The invariant\<close>

fun cmd_holds :: "cmd_pc \<Rightarrow> addr set" where
  "cmd_holds (CmdFree a) = {a}"
| "cmd_holds (CmdFailed a) = {a}"
| "cmd_holds pc = {}"

fun cmd_at_ok :: "cmd_pc \<Rightarrow> addr list \<Rightarrow> bool" where
  "cmd_at_ok CmdSend xs \<longleftrightarrow> xs \<noteq> []"
| "cmd_at_ok (CmdFailed a) xs \<longleftrightarrow> False"
| "cmd_at_ok pc xs \<longleftrightarrow> True"

text \<open>The commands in the queue, as seen by the CPU thread.\<close>

fun cpu_at_ok :: "cpu_pc \<Rightarrow> nat \<Rightarrow> bool" where
  "cpu_at_ok (CpuAdd d n) k \<longleftrightarrow> posted_ok d \<and> k \<le> unat n \<and> unat n \<le> 1024"
| "cpu_at_ok (CpuPrint a i n) k \<longleftrightarrow> k \<le> Suc (unat n) \<and> unat n \<le> 1024"
| "cpu_at_ok (CpuCheck n) k \<longleftrightarrow> k \<le> Suc (unat n) \<and> unat n \<le> 1024"
| "cpu_at_ok CpuRun k \<longleftrightarrow> k \<le> 1024"
| "cpu_at_ok CpuWaitAck k \<longleftrightarrow> k \<le> 1024"

definition emul_data :: "P103EmulState \<Rightarrow> addr list \<Rightarrow> P103CmdData list \<Rightarrow> P103CmdData list \<Rightarrow> bool" where
  "emul_data s xs qs ds \<longleftrightarrow>
     qrep (cmd_store s, cmd_list s) xs \<and> map (qdata (cmd_store s)) xs = map Some qs \<and>
     unat (cmd_list_size s) = length xs \<and> list_all posted_ok qs \<and>
     cmd_sock_out s @ concat (map cmd_frame qs) = concat (map cmd_frame ds)"

definition emul_inv :: "P103EmulState \<Rightarrow> addr list \<Rightarrow> P103CmdData list \<Rightarrow> P103CmdData list \<Rightarrow> bool" where
  "emul_inv s xs qs ds \<longleftrightarrow>
     emul_data s xs qs ds \<and> dom (cmd_store s) = set xs \<union> cmd_holds (at_cmd s) \<and>
     set xs \<inter> cmd_holds (at_cmd s) = {} \<and> cmd_at_ok (at_cmd s) xs \<and> cpu_at_ok (at_cpu s) (length xs)"

lemmas emul_inv_defs = emul_inv_def emul_data_def

lemma emul_data_frame [simp]:
  "emul_data (s\<lparr>at_cpu := c\<rparr>) = emul_data s" "emul_data (s\<lparr>at_cmd := t\<rparr>) = emul_data s"
  by (simp_all add: fun_eq_iff emul_data_def)

lemma cpu_at_ok_bound: "cpu_at_ok pc k \<Longrightarrow> k \<le> 1025"
  by (cases "(pc, k)" rule: cpu_at_ok.cases) auto

lemma cpu_at_ok_less: "cpu_at_ok pc k \<Longrightarrow> j \<le> k \<Longrightarrow> cpu_at_ok pc j"
  by (cases "(pc, k)" rule: cpu_at_ok.cases) auto

text \<open>Moves of a thread that leave the queue alone.\<close>

lemma emul_inv_cpu:
  "emul_inv s xs qs ds \<Longrightarrow> cpu_at_ok pc (length xs) \<Longrightarrow> emul_inv (s\<lparr>at_cpu := pc\<rparr>) xs qs ds"
  by (simp add: emul_inv_defs)

lemma emul_inv_cmd:
  "emul_inv s xs qs ds \<Longrightarrow> cmd_at_ok pc xs \<Longrightarrow> cmd_holds pc = {} \<Longrightarrow> cmd_holds (at_cmd s) = {} \<Longrightarrow>
   emul_inv (s\<lparr>at_cmd := pc\<rparr>) xs qs ds"
  by (simp add: emul_inv_defs)

lemma emul_inv_other:
  "emul_inv (s\<lparr>at_evt := e\<rparr>) xs qs ds = emul_inv s xs qs ds"
  "emul_inv (s\<lparr>at_main := m\<rparr>) xs qs ds = emul_inv s xs qs ds"
  "emul_inv (s\<lparr>cmd_thread_terminate := t\<rparr>) xs qs ds = emul_inv s xs qs ds"
  by (simp_all add: emul_inv_defs)

lemma emul_inv_signal_cmd: "emul_inv s xs qs ds \<Longrightarrow> emul_inv (signal_cmd_cond s) xs qs ds"
  by (auto simp: signal_cmd_cond_def intro: emul_inv_cmd)

lemma emul_inv_signal_ack: "emul_inv s xs qs ds \<Longrightarrow> emul_inv (signal_evt_ack_cond s) xs qs ds"
  by (auto simp: signal_evt_ack_cond_def emul_inv_def)

section \<open>The CPU thread\<close>

lemma emul_begin_inv:
  assumes "emul_inv s xs qs ds" and "at_cpu s = CpuRun" and "i = C_EVENT \<or> i = DIGITAL_OUT"
  shows "run_total (\<lambda>s' es. emul_inv s' xs qs ds) (event_post_begin i port pin v s)"
proof -
  have "length xs \<le> 1024" and "unat (cmd_list_size s) = length xs"
    using assms by (simp_all add: emul_inv_defs)
  then show ?thesis
    using assms by (auto simp: event_post_begin_def posted_ok_def intro!: emul_inv_cpu)
qed

lemma emul_add_inv:
  assumes inv: "emul_inv s xs qs ds" and at: "at_cpu s = CpuAdd d n" and fresh: "cmd_store s a = None"
  shows "run_total (\<lambda>s' es. emul_inv s' (xs @ [a]) (qs @ [d]) (ds @ [d]) \<and> es = [] \<and>
      at_cpu s' = CpuPrint a (data_id d) n) (event_post_add a d n s)"
proof -
  let ?h = "(cmd_store s)(a \<mapsto> \<lparr>sqe_next = None, sqe_data = d\<rparr>)"
  have a: "a \<notin> set xs" "a \<notin> cmd_holds (at_cmd s)"
    using inv fresh by (auto simp: emul_inv_defs)
  have rep: "qrep (?h, cmd_list s) xs"
    using inv a(1) by (simp add: emul_inv_defs)
  then obtain h' q' where ins: "QSIMPLEQ_INSERT_TAIL a (?h, cmd_list s) = Ok (h', q') []"
      "qrep (h', q') (xs @ [a])" "dom h' = dom ?h" "qdata h' = qdata ?h"
    using qrep_INSERT_TAIL [of ?h "cmd_list s" xs a] a(1) by auto
  have old: "map (qdata ?h) xs = map (qdata (cmd_store s)) xs"
    using a(1) by (auto simp: qdata_def)
  have new: "qdata ?h a = Some d" by (simp add: qdata_def)
  have sz: "unat (cmd_list_size s + 1) = Suc (length xs)"
    using inv at by (simp add: emul_inv_defs unat_word_ariths)
  let ?s = "s\<lparr>cmd_store := h', cmd_list := q', cmd_list_size := cmd_list_size s + 1,
      at_cpu := CpuPrint a (data_id d) n\<rparr>"
  have "emul_inv ?s (xs @ [a]) (qs @ [d]) (ds @ [d])"
    using inv at a ins(2-4) old new sz
    by (cases "at_cmd s") (auto simp: emul_inv_defs simp del: qrep.simps fun_upd_apply)
  moreover have "event_post_add a d n s = Ok ((signal_cmd_cond
      (s\<lparr>cmd_store := h', cmd_list := q', cmd_list_size := cmd_list_size s + 1\<rparr>))
      \<lparr>at_cpu := CpuPrint a (data_id d) n\<rparr>) []"
    using ins(1) by (simp add: event_post_add_def event_queue_add_def del: QSIMPLEQ_INSERT_TAIL.simps)
  moreover have "(signal_cmd_cond t)\<lparr>at_cpu := pc\<rparr> = signal_cmd_cond (t\<lparr>at_cpu := pc\<rparr>)" for t pc
    by (simp add: signal_cmd_cond_def)
  ultimately show ?thesis
    by (auto simp: signal_cmd_cond_def emul_inv_def)
qed

lemma emul_print_eq:
  "event_post_print a i n s =
     (case cmd_store s a of
        None \<Rightarrow> Stop BadPointer [DBG ''_emul: cmd queued: '']
      | Some e \<Rightarrow> Ok (s\<lparr>at_cpu := CpuCheck n\<rparr>) [DBG ''_emul: cmd queued: '',
          Printf (if i = C_EVENT then print_cmd_event (sqe_data e) else print_cmd_periph (sqe_data e))])"
  by (simp add: event_post_print_def qderef_def split: option.split)

lemma emul_check_inv:
  assumes "emul_inv s xs qs ds" and "at_cpu s = CpuCheck n"
  shows "run_sat (\<lambda>s' es. emul_inv s' xs qs ds) (event_post_check n s)"
proof (cases "n > 1023")
  case False
  then have "unat n \<le> 1023" by (simp add: word_less_nat_alt)
  then have "length xs \<le> 1024" using assms by (simp add: emul_inv_defs)
  then show ?thesis using False assms by (auto simp: event_post_check_def intro!: emul_inv_cpu)
qed (simp add: event_post_check_def)

section \<open>The cmd thread\<close>

lemma emul_send_inv:
  assumes inv: "emul_inv s xs qs ds" and at: "at_cmd s = CmdSend"
  shows "\<exists>a ys d ps s'. xs = a # ys \<and> qs = d # ps \<and> cmd_send WriteAll s = Ok s' [] \<and>
    emul_inv s' ys ps ds \<and> at_cmd s' = CmdFree a \<and> cmd_sock_out s' = cmd_sock_out s @ cmd_frame d \<and>
    cmd_thread_terminate s' = cmd_thread_terminate s"
proof -
  obtain a ys where xs: "xs = a # ys"
    using inv at by (cases xs) (auto simp: emul_inv_defs)
  have rep: "qrep (cmd_store s, cmd_list s) (a # ys)" and data: "map (qdata (cmd_store s)) (a # ys) = map Some qs"
    using inv xs by (simp_all add: emul_inv_defs)
  obtain d ps where qs: "qs = d # ps" "qdata (cmd_store s) a = Some d"
    using data by (cases qs) auto
  obtain e where e: "cmd_store s a = Some e" "sqe_data e = d"
    using qs(2) by (auto simp: qdata_def)
  obtain q' where q': "QSIMPLEQ_REMOVE_HEAD (cmd_store s, cmd_list s) = Ok (cmd_store s, q') []"
      "qrep (cmd_store s, q') ys"
    using qrep_REMOVE_HEAD [OF rep] by blast
  have d: "posted_ok d" using inv qs by (simp add: emul_inv_defs)
  have sz: "unat (cmd_list_size s - 1) = length ys"
    using inv xs unat_sub [of 1 "cmd_list_size s"] by (simp add: emul_inv_defs word_le_nat_alt)
  let ?s = "s\<lparr>cmd_str := cmd_frame d, cmd_count := length (cmd_frame d),
      cmd_sock_out := cmd_sock_out s @ cmd_frame d, cmd_list := q',
      cmd_list_size := cmd_list_size s - 1, at_cmd := CmdFree a\<rparr>"
  have "cmd_send WriteAll s = Ok ?s []"
    using qrep_FIRST [OF rep] e q'(1) cmd_format_frame [OF d]
    by (simp add: cmd_send_def qderef_def del: QSIMPLEQ_REMOVE_HEAD.simps)
  moreover have "emul_inv ?s ys ps ds"
    using inv at xs qs q'(2) sz cpu_at_ok_less [of "at_cpu s" "length xs" "length ys"]
    by (auto simp: emul_inv_defs)
  ultimately show ?thesis using xs qs by auto
qed

lemma emul_free_inv:
  assumes "emul_inv s xs qs ds" and "at_cmd s = CmdFree a"
  shows "\<exists>s'. stm32p103_emul_cmd_thread c r s = Ok s' [] \<and> emul_inv s' xs qs ds \<and> at_cmd s' = CmdTest \<and>
    cmd_thread_terminate s' = cmd_thread_terminate s \<and> cmd_sock_out s' = cmd_sock_out s"
proof -
  have a: "a \<notin> set xs" "cmd_store s a \<noteq> None"
    using assms by (auto simp: emul_inv_def)
  then have "map (qdata ((cmd_store s)(a := None))) xs = map Some qs"
    using assms by (simp add: emul_inv_defs) (metis (no_types, lifting) fun_upd_other map_cong qdata_def)
  then show ?thesis
    using assms a by (auto simp: stm32p103_emul_cmd_thread_def g_free_def emul_inv_defs)
qed

lemma emul_cmd_inv:
  assumes "emul_inv s xs qs ds"
  shows "run_total (\<lambda>s' es. \<exists>xs' qs'. emul_inv s' xs' qs' ds) (stm32p103_emul_cmd_thread c WriteAll s)"
proof (cases "at_cmd s")
  case CmdSend
  then show ?thesis
    using emul_send_inv [OF assms CmdSend] by (auto simp: stm32p103_emul_cmd_thread_def) blast
next
  case (CmdFree a)
  then show ?thesis using emul_free_inv [OF assms CmdFree, of c WriteAll] by (auto intro!: exI)
next
  case CmdTest
  then have "\<not> QSIMPLEQ_EMPTY (cmd_list s) \<Longrightarrow> xs \<noteq> []"
    using assms qrep_EMPTY [of "cmd_store s" "cmd_list s" xs] by (simp add: emul_inv_defs)
  then show ?thesis
    using assms CmdTest by (auto simp: stm32p103_emul_cmd_thread_def intro!: exI emul_inv_cmd)
next
  case (CmdFailed a)
  then show ?thesis using assms by (simp add: emul_inv_def)
qed (use assms in \<open>auto simp: stm32p103_emul_cmd_thread_def Let_def intro!: exI emul_inv_cmd\<close>)

section \<open>The evt and main threads\<close>

lemma emul_message_inv:
  assumes "emul_inv s xs qs ds"
  shows "run_total (\<lambda>s' es. emul_inv s' xs qs ds) (evt_message nbr s)"
  using assms by (simp add: evt_message_def Let_def qemu_set_irq_def emul_inv_signal_ack)

lemma emul_evt_inv:
  assumes "emul_inv s xs qs ds"
  shows "run_total (\<lambda>s' es. emul_inv s' xs qs ds) (stm32p103_emul_evt_handle c input s)"
  using assms emul_message_inv [OF assms]
  by (simp add: stm32p103_emul_evt_handle_def Let_def emul_inv_other
      split: evt_pc.split option.split list.split)

lemma emul_exit_inv:
  assumes "emul_inv s xs qs ds"
  shows "run_total (\<lambda>s' es. emul_inv s' xs qs ds) (stm32p103_emul_exit s)"
  using assms
  by (simp add: stm32p103_emul_exit_def emul_inv_other emul_inv_signal_cmd emul_inv_signal_ack
      split: main_pc.split)

section \<open>Every step\<close>

text \<open>The two ways in which a step of a reliable gateway stops the emulator.\<close>

definition emul_stops :: "emul_label \<Rightarrow> P103EmulState \<Rightarrow> fault option" where
  "emul_stops l s =
     (case (l, at_cpu s) of
        (PostPrint, CpuPrint a i n) \<Rightarrow> if cmd_store s a = None then Some BadPointer else None
      | (PostCheck, CpuCheck n) \<Rightarrow> if n > 1023 then Some (ExitProcess (- 1)) else None
      | _ \<Rightarrow> None)"

lemma emul_next_inv:
  assumes "emul_inv s xs qs ds" and "emul_enabled l s" and "write_reliable l"
  shows "case emul_next l s of
      Ok s' es \<Rightarrow> emul_stops l s = None \<and> (\<exists>xs' qs'. emul_inv s' xs' qs' (ds @ emul_posts l s))
    | Stop x es \<Rightarrow> emul_stops l s = Some x"
proof (cases l)
  case (PostDigital port pin v)
  then show ?thesis
    using emul_begin_inv [of s xs qs ds DIGITAL_OUT port pin v] assms
    by (auto simp: emul_stops_def post_event_digital_out_def elim!: run_totalE intro!: exI)
next
  case (PostC c)
  then show ?thesis
    using emul_begin_inv [of s xs qs ds C_EVENT 0 0 "ucast c"] assms
    by (auto simp: emul_stops_def post_event_c_def elim!: run_totalE intro!: exI)
next
  case (PostAdd a)
  then show ?thesis
    using emul_add_inv [of s xs qs ds _ _ a] assms
    by (fastforce simp: emul_stops_def split: cpu_pc.splits elim!: run_totalE intro!: exI)
next
  case PostPrint
  then show ?thesis
    using assms by (auto simp: emul_stops_def emul_print_eq emul_inv_def split: cpu_pc.splits option.split)
next
  case PostCheck
  then show ?thesis
    using emul_check_inv [of s xs qs ds] assms
    by (auto simp: emul_stops_def event_post_check_def split: cpu_pc.splits if_splits)
next
  case WaitForAck
  then show ?thesis
    using assms by (auto simp: emul_stops_def event_wait_ack_def emul_inv_def)
next
  case (CmdStep c r)
  then show ?thesis
    using emul_cmd_inv [OF assms(1), of c] assms by (auto simp: emul_stops_def elim!: run_totalE intro!: exI)
next
  case (EvtStep c i)
  then show ?thesis
    using emul_evt_inv [OF assms(1), of c i] assms by (auto simp: emul_stops_def elim!: run_totalE intro!: exI)
next
  case MainStep
  then show ?thesis
    using emul_exit_inv [OF assms(1)] assms by (auto simp: emul_stops_def elim!: run_totalE intro!: exI)
next
  case WakeCmd
  then show ?thesis using emul_inv_signal_cmd [OF assms(1)] by (auto simp: emul_stops_def)
next
  case WakeAck
  then show ?thesis using emul_inv_signal_ack [OF assms(1)] by (auto simp: emul_stops_def)
qed

lemma emul_reach_inv:
  "emul_reach write_reliable b s ds \<Longrightarrow> \<exists>xs qs. emul_inv s xs qs ds"
proof (induction rule: emul_reach.induct)
  case (start s es)
  then have "emul_inv s [] [] []"
    by (auto simp: stm32p103_emul_init_def emul_zero_def emul_inv_defs QSIMPLEQ_INIT_def)
  then show ?case by blast
next
  case (step s ds l s' es)
  then obtain xs qs where "emul_inv s xs qs ds" by blast
  from emul_next_inv [OF this step.hyps(3,2)] show ?case
    using step.hyps(4) by simp
qed

end
