(* ===== verification/P103_Emul_Props.thy ===== *)
theory P103_Emul_Props
  imports P103_Emul_Ops
begin

text \<open>
  What the gateway guarantees over all interleavings of its threads, and where it fails: frames leave
  in the order of the posts, the \<open>cmd\<close> thread empties the queue in a bounded number of turns, the only
  faults are the exit on a full queue and the debug print of a command that is already released, and a
  post that meets the \<open>cmd\<close> thread before its wait is not sent.
\<close>

section \<open>Runs\<close>

text \<open>The execution of a list of steps, with the commands they post.\<close>

fun emul_path :: "emul_label list \<Rightarrow> P103EmulState \<Rightarrow> (P103EmulState \<times> P103CmdData list) option" where
  "emul_path [] s = Some (s, [])"
| "emul_path (l # ls) s =
     (if emul_enabled l s then
        (case emul_next l s of
           Ok s' es \<Rightarrow> map_option (\<lambda>(t, ds). (t, emul_posts l s @ ds)) (emul_path ls s')
         | Stop x es \<Rightarrow> None)
      else None)"

lemma emul_path_reach:
  assumes "emul_path ls s = Some (t, ps)" and "emul_reach ok b s ds" and "list_all ok ls"
  shows "emul_reach ok b t (ds @ ps)"
  using assms
proof (induction ls arbitrary: s ds ps)
  case (Cons l ls)
  then obtain s' es qs where s': "emul_enabled l s" "emul_next l s = Ok s' es" "emul_path ls s' = Some (t, qs)"
      "ps = emul_posts l s @ qs"
    by (auto split: if_splits run.splits)
  have "emul_reach ok b s' (ds @ emul_posts l s)"
    using Cons.prems s' by (auto intro: emul_reach.step)
  from Cons.IH [OF s'(3) this] show ?case using Cons.prems(3) s'(4) by simp
qed simp

text \<open>The gateway just after its initialisation.\<close>

definition emul_booted :: "Stm32P103 \<Rightarrow> P103EmulState" where
  "emul_booted b = emul_zero\<lparr>stm_state := b, at_cmd := CmdStart, at_evt := EvtStart\<rparr>"

lemma emul_boot: "emul_reach ok b (emul_booted b) []"
  by (rule emul_reach.start [where es = "[DBG (''_emul: stm32p103_emul_init'' @ [CHR 0x0A])]"])
    (simp add: emul_booted_def emul_zero_def stm32p103_emul_init_def QSIMPLEQ_INIT_def)

lemmas emul_run_defs =
  emul_booted_def emul_zero_def stm32p103_emul_cmd_thread_def post_event_c_def post_event_digital_out_def
  event_post_begin_def event_post_add_def event_queue_add_def emul_print_eq event_post_check_def
  event_wait_ack_def signal_cmd_cond_def signal_evt_ack_cond_def g_free_def cmd_send_def queue_simps Let_def

section \<open>Order\<close>

text \<open>
  C6: Over all interleavings of the threads with a socket that takes whole messages, the linked
  queue is well formed, \<open>cmd_list_size\<close> is its length and at most 1025, and the bytes written to the
  socket followed by the frames of the queued commands are the frames of all posted commands, in the
  order of the posts. The allocated commands are the queued ones and the one about to be released.
\<close>

theorem emul_order:
  assumes "emul_reach write_reliable b s ds"
  shows "\<exists>xs qs. qrep (cmd_store s, cmd_list s) xs \<and> map (qdata (cmd_store s)) xs = map Some qs \<and>
    unat (cmd_list_size s) = length xs \<and> length xs \<le> 1025 \<and>
    cmd_sock_out s @ concat (map cmd_frame qs) = concat (map cmd_frame ds) \<and>
    dom (cmd_store s) = set xs \<union> cmd_holds (at_cmd s) \<and> set xs \<inter> cmd_holds (at_cmd s) = {}"
proof -
  obtain xs qs where "emul_inv s xs qs ds" using emul_reach_inv [OF assms] by blast
  then show ?thesis
    unfolding emul_inv_def emul_data_def using cpu_at_ok_bound by blast
qed

text \<open>Two posts, of which the first is sent: the state is evaluated.\<close>

definition emul_two :: "emul_label list" where
  "emul_two = [CmdStep True WriteAll, CmdStep True WriteAll, PostDigital 67 12 1, PostAdd 5, PostPrint, PostCheck,
     PostC 7, PostAdd 9, CmdStep True WriteAll, CmdStep True WriteAll, CmdStep True WriteAll]"

lemma emul_two_path:
  "\<exists>s. emul_path emul_two (emul_booted b) = Some (s,
     [\<lparr>data_id = DIGITAL_OUT, data_port = 67, data_pin = 12, data_value = 1\<rparr>,
      \<lparr>data_id = C_EVENT, data_port = 0, data_pin = 0, data_value = 7\<rparr>]) \<and>
     cmd_list_size s = 1 \<and> at_cmd s = CmdFree 5"
  by (simp add: emul_two_def emul_run_defs cmd_format_frame posted_ok_def)

definition emul_board :: Stm32P103 where
  "emul_board = \<lparr>btn0_irq = IrqGpioIn 2 6, btn1_irq = IrqGpioIn 2 0, btn2_irq = IrqGpioIn 2 1,
     btn3_irq = IrqGpioIn 2 2\<rparr>"

theorem emul_order_witness:
  "\<exists>s ds xs qs. emul_reach write_reliable emul_board s ds \<and> length ds = 2 \<and> cmd_list_size s = 1 \<and>
    cmd_sock_out s @ concat (map cmd_frame qs) = concat (map cmd_frame ds) \<and>
    map (qdata (cmd_store s)) xs = map Some qs \<and> qrep (cmd_store s, cmd_list s) xs \<and> length xs = 1"
proof -
  obtain s ds where s: "emul_path emul_two (emul_booted emul_board) = Some (s, ds)" "cmd_list_size s = 1"
      "length ds = 2"
    using emul_two_path [of emul_board] by auto
  have "list_all write_reliable emul_two" by (simp add: emul_two_def)
  from emul_path_reach [OF s(1) emul_boot this] have r: "emul_reach write_reliable emul_board s ds" by simp
  from emul_order [OF this] obtain xs qs where "qrep (cmd_store s, cmd_list s) xs"
      "map (qdata (cmd_store s)) xs = map Some qs" "unat (cmd_list_size s) = length xs"
      "cmd_sock_out s @ concat (map cmd_frame qs) = concat (map cmd_frame ds)"
    by blast
  then show ?thesis using r s(2,3) by (intro exI [of _ s] exI [of _ ds] exI [of _ xs] exI [of _ qs]) simp
qed

section \<open>Emptying the queue\<close>

text \<open>The \<open>cmd\<close> thread alone; a thread that waits stays where it is.\<close>

primrec cmd_turns :: "nat \<Rightarrow> P103EmulState \<Rightarrow> P103EmulState run" where
  "cmd_turns 0 s = Ok s []"
| "cmd_turns (Suc n) s = run_bind (stm32p103_emul_cmd_thread True WriteAll s) (cmd_turns n)"

lemma cmd_turns_waiting: "at_cmd s = CmdWaiting \<Longrightarrow> cmd_turns n s = Ok s []"
  by (induction n) (simp_all add: stm32p103_emul_cmd_thread_def)

definition emul_drained :: "P103CmdData list \<Rightarrow> P103EmulState run \<Rightarrow> bool" where
  "emul_drained ds = run_total (\<lambda>s es. at_cmd s = CmdWaiting \<and> QSIMPLEQ_EMPTY (cmd_list s) \<and>
     cmd_list_size s = 0 \<and> cmd_sock_out s = concat (map cmd_frame ds) \<and> es = [])"

lemma cmd_turns_test:
  assumes "emul_inv s xs qs ds" and "at_cmd s = CmdTest" and "3 * length xs + 2 \<le> n"
  shows "emul_drained ds (cmd_turns n s)"
  using assms
proof (induction xs arbitrary: s qs n)
  case Nil
  then obtain m where n: "n = Suc (Suc m)" by (cases n; cases "n - 1") auto
  have empty: "QSIMPLEQ_EMPTY (cmd_list s)" and "unat (cmd_list_size s) = 0" "qs = []"
    using Nil.prems(1) qrep_EMPTY [of "cmd_store s" "cmd_list s" "[]"] by (auto simp: emul_inv_defs)
  then show ?case
    using Nil.prems n
    by (simp add: emul_drained_def stm32p103_emul_cmd_thread_def cmd_turns_waiting emul_inv_defs unat_eq_0)
next
  case (Cons a ys)
  then obtain m where n: "n = Suc (Suc (Suc m))" and m: "3 * length ys + 2 \<le> m"
    using that [of "n - 3"] by simp
  have "\<not> QSIMPLEQ_EMPTY (cmd_list s)"
    using Cons.prems(1) qrep_EMPTY [of "cmd_store s" "cmd_list s" "a # ys"] by (simp add: emul_inv_defs)
  then have 1: "stm32p103_emul_cmd_thread True WriteAll s = Ok (s\<lparr>at_cmd := CmdSend\<rparr>) []"
    using Cons.prems(2) by (simp add: stm32p103_emul_cmd_thread_def)
  have "emul_inv (s\<lparr>at_cmd := CmdSend\<rparr>) (a # ys) qs ds"
    using Cons.prems by (intro emul_inv_cmd) auto
  from emul_send_inv [OF this] obtain ps s2 where
    2: "cmd_send WriteAll (s\<lparr>at_cmd := CmdSend\<rparr>) = Ok s2 []" "emul_inv s2 ys ps ds" "at_cmd s2 = CmdFree a"
    by auto
  from emul_free_inv [OF 2(2,3), of True WriteAll] obtain s3 where
    3: "stm32p103_emul_cmd_thread True WriteAll s2 = Ok s3 []" "emul_inv s3 ys ps ds" "at_cmd s3 = CmdTest"
    by auto
  have "stm32p103_emul_cmd_thread True WriteAll (s\<lparr>at_cmd := CmdSend\<rparr>) = Ok s2 []"
    using 2(1) by (simp add: stm32p103_emul_cmd_thread_def)
  then have "cmd_turns n s = cmd_turns m s3"
    using n 1 3(1) by simp
  then show ?case using Cons.IH [OF 3(2,3) m] by simp
qed

text \<open>
  C22: Once woken and not told to terminate, the \<open>cmd\<close> thread reaches its wait again after at most
  \<open>3k + 3\<close> turns for \<open>k\<close> queued commands, without a fault; then the queue is empty and the socket has
  the frame of every posted command.
\<close>

theorem emul_drains:
  assumes "emul_reach write_reliable b s ds"
    and "at_cmd s = CmdWoken" and "cmd_thread_terminate s = 0"
    and "3 * unat (cmd_list_size s) + 3 \<le> n"
  shows "emul_drained ds (cmd_turns n s)"
proof -
  obtain xs qs where inv: "emul_inv s xs qs ds" using emul_reach_inv [OF assms(1)] by blast
  obtain m where n: "n = Suc m" "3 * length xs + 2 \<le> m"
    using assms(4) inv by (cases n) (auto simp: emul_inv_defs)
  have "emul_inv (s\<lparr>at_cmd := CmdTest\<rparr>) xs qs ds"
    using inv assms(2) by (intro emul_inv_cmd) auto
  from cmd_turns_test [OF this _ n(2)] show ?thesis
    using assms(2,3) n(1) by (simp add: stm32p103_emul_cmd_thread_def)
qed

theorem emul_drains_witness:
  "\<exists>s ds. emul_reach write_reliable emul_board s ds \<and> length ds = 1 \<and> emul_drained ds (cmd_turns 6 s)"
proof -
  let ?ls = "[CmdStep True WriteAll, CmdStep True WriteAll, PostC 7, PostAdd 0]"
  obtain s d where s: "emul_path ?ls (emul_booted emul_board) = Some (s, [d])" "at_cmd s = CmdWoken"
      "cmd_thread_terminate s = 0" "cmd_list_size s = 1"
    by (simp add: emul_run_defs)
  have "list_all write_reliable ?ls" by simp
  from emul_path_reach [OF s(1) emul_boot this] have r: "emul_reach write_reliable emul_board s [d]" by simp
  from emul_drains [OF r s(2,3), of 6] show ?thesis using r s(4) by (intro exI [of _ s] exI [of _ "[d]"]) simp
qed

section \<open>Faults\<close>

text \<open>
  C24: With a socket that takes whole messages, a step of any thread stops the emulator in two cases
  only: the CPU thread found more than 1023 commands in the queue and exits, or it prints a command
  that the \<open>cmd\<close> thread has sent and released since it was queued. The witness reaches the second case.
\<close>

theorem emul_faults:
  assumes "emul_reach write_reliable b s ds" and "emul_enabled l s" and "write_reliable l"
  shows "case emul_next l s of
      Ok s' es \<Rightarrow> emul_stops l s = None
    | Stop x es \<Rightarrow> emul_stops l s = Some x"
proof -
  obtain xs qs where "emul_inv s xs qs ds" using emul_reach_inv [OF assms(1)] by blast
  from emul_next_inv [OF this assms(2,3)] show ?thesis by (auto split: run.splits)
qed

theorem emul_faults_witness:
  "\<exists>s ds es. emul_reach write_reliable emul_board s ds \<and> emul_enabled PostPrint s \<and>
    emul_next PostPrint s = Stop BadPointer es"
proof -
  let ?c = "CmdStep True WriteAll"
  let ?ls = "[?c, ?c, PostC 7, PostAdd 0, ?c, ?c, ?c, ?c]"
  obtain s d where s: "emul_path ?ls (emul_booted emul_board) = Some (s, [d])"
      "at_cpu s = CpuPrint 0 C_EVENT 0" "cmd_store s 0 = None"
    by (simp add: emul_run_defs cmd_format_frame posted_ok_def)
  have "list_all write_reliable ?ls" by simp
  from emul_path_reach [OF s(1) emul_boot this] have r: "emul_reach write_reliable emul_board s [d]" by simp
  have stops: "emul_enabled PostPrint s" "emul_stops PostPrint s = Some BadPointer"
    using s(2,3) by (simp_all add: emul_stops_def)
  from emul_faults [OF r this(1)] have "\<exists>es. emul_next PostPrint s = Stop BadPointer es"
    using stops(2) by (cases "emul_next PostPrint s") auto
  then show ?thesis using r stops(1) by blast
qed

text \<open>A failed \<open>write\<close> releases the command but leaves it at the head of the queue: the next post
  writes through the dangling pointer.\<close>

lemma emul_failed_send:
  assumes "emul_inv s [a] qs ds" and "at_cmd s = CmdSend"
  shows "run_total (\<lambda>s' es. at_cmd s' = CmdDone \<and> cmd_store s' = Map.empty \<and>
      QSIMPLEQ_FIRST (cmd_list s') = Some a \<and>
      (\<forall>d n c. c \<noteq> a \<longrightarrow> event_post_add c d n s' = Stop BadPointer []))
    (run_seq [cmd_send WriteError, stm32p103_emul_cmd_thread x r] s)"
proof -
  have q: "sqh_first (cmd_list s) = Some a" "sqh_last (cmd_list s) = NextOf a" "dom (cmd_store s) = {a}"
    using assms by (auto simp: emul_inv_defs qend_def)
  then obtain e where e: "cmd_store s = [a \<mapsto> e]"
    using dom_eq_singleton_conv [of "cmd_store s" a] by auto
  show ?thesis
    using q e by (auto simp: emul_run_defs split: prod.split)
qed

section \<open>A lost wake-up\<close>

text \<open>
  C23: Let the \<open>cmd\<close> thread have found the queue empty without having reached its wait. A debug event
  that the CPU thread posts now, with the wait for its acknowledgement, is queued but not sent: its
  signal is lost, and after it no thread can go on but on a message of the monitor (which has not seen
  the event), the exit of the emulator or a wait that returns without a signal.
\<close>

theorem emul_lost_wakeup:
  assumes "emul_reach write_reliable b s ds" and "at_cpu s = CpuRun" and "at_cmd s = CmdLock"
    and "QSIMPLEQ_EMPTY (cmd_list s)"
  shows "\<exists>s'. emul_reach write_reliable b s' (ds @ [\<lparr>data_id = C_EVENT, data_port = 0, data_pin = 0, data_value = ucast (c :: u8)\<rparr>]) \<and>
    cmd_list_size s' = 1 \<and> cmd_sock_out s' = cmd_sock_out s \<and>
    (\<forall>l. emul_enabled l s' \<longleftrightarrow> (l = MainStep \<and> emul_enabled l s) \<or> l = WakeCmd \<or> l = WakeAck \<or>
       (\<exists>k i. l = EvtStep k i \<and> at_evt s \<noteq> EvtDone))"
proof -
  obtain xs qs where inv: "emul_inv s xs qs ds" using emul_reach_inv [OF assms(1)] by blast
  have "xs = []"
    using inv assms(4) qrep_EMPTY [of "cmd_store s" "cmd_list s" xs] by (simp add: emul_inv_defs)
  then have q: "cmd_store s = Map.empty" "cmd_list s = QSIMPLEQ_INIT" "cmd_list_size s = 0"
    using inv assms(3) by (auto simp: emul_inv_defs QSIMPLEQ_INIT_def unat_eq_0)
  let ?path = "[PostC c, PostAdd 0, PostPrint, PostCheck, WaitForAck, CmdStep True WriteAll]"
  let ?d = "\<lparr>data_id = C_EVENT, data_port = 0, data_pin = 0, data_value = ucast c\<rparr>"
  obtain t where t: "emul_path ?path s = Some (t, [?d])" "cmd_list_size t = 1" "cmd_sock_out t = cmd_sock_out s"
      "at_cpu t = CpuWaitAck" "at_cmd t = CmdWaiting" "at_evt t = at_evt s" "at_main t = at_main s"
    using assms(2,3) q by (simp add: emul_run_defs QSIMPLEQ_INIT_def)
  have "emul_enabled l t \<longleftrightarrow> (l = MainStep \<and> emul_enabled l s) \<or> l = WakeCmd \<or> l = WakeAck \<or>
      (\<exists>k i. l = EvtStep k i \<and> at_evt s \<noteq> EvtDone)" for l
    using t(4-7) assms(3) by (cases l) (auto split: main_pc.split)
  then show ?thesis
    using emul_path_reach [OF t(1) assms(1)] t(2,3) by auto
qed

theorem emul_lost_wakeup_witness:
  "\<exists>s' d. emul_reach write_reliable emul_board s' [d] \<and> cmd_list_size s' = 1 \<and> cmd_sock_out s' = [] \<and>
    \<not> emul_enabled (CmdStep True WriteAll) s' \<and> \<not> emul_enabled (PostC 1) s'"
proof -
  obtain s where s: "emul_path [CmdStep True WriteAll] (emul_booted emul_board) = Some (s, [])"
      "at_cpu s = CpuRun" "at_cmd s = CmdLock" "QSIMPLEQ_EMPTY (cmd_list s)" "cmd_sock_out s = []"
    by (simp add: emul_run_defs)
  from emul_path_reach [OF s(1) emul_boot] have r: "emul_reach write_reliable emul_board s []" by simp
  from emul_lost_wakeup [OF r s(2,3,4), of 7] obtain s' d where
    "emul_reach write_reliable emul_board s' [d]" "cmd_list_size s' = 1" "cmd_sock_out s' = []"
    "\<not> emul_enabled (CmdStep True WriteAll) s'" "\<not> emul_enabled (PostC 1) s'"
    using s(5) by fastforce
  then show ?thesis by blast
qed

end
