(* ===== verification/Machine.thy ===== *)
theory Machine
  imports Uart Exti P103_Emul
begin

text \<open>
  The microcontroller and the two boards: \<open>hw/arm/stm32.c\<close>, \<open>hw/arm/stm32_p103.c\<close> and
  \<open>hw/arm/stm32_maple.c\<close>.

  The record \<open>Stm32\<close> has all devices of the microcontroller. A device function returns the calls of
  \<open>qemu_set_irq\<close> it makes as effects; \<open>stm32_dispatch\<close> runs the handler of each line, and then what that
  handler sets. A handler never touches the device whose function raised the line, so running it when
  that function has returned gives the state the code reaches; the frequency a clock had when it
  notified its user is part of the effect. The interrupt controller and the SysTick scales are the
  parts of the ARM core that the devices drive; the core itself is not modelled, \<open>pic[n]\<close> is
  \<open>IrqNvic n\<close>.
\<close>

section \<open>Handlers of the boards\<close>

definition output_write_handler :: "nat \<Rightarrow> int \<Rightarrow> effect list" where
  "output_write_handler n level =
     (if n = 0 then [PostDigitalOut 0x43 12 (of_int level)]
      else if n = 1 then [PostDigitalOut 0x43 3 (of_int level)]
      else if n = 2 then [PostDigitalOut 0x43 4 (of_int level)]
      else if n = 3 then [PostDigitalOut 0x42 8 (of_int level)]
      else if n = 4 then [PostDigitalOut 0x42 9 (of_int level)]
      else [])"

record Stm32Maple =
  last_button_pressed :: bool
  maple_button_irq :: qemu_irq

definition led_irq_handler :: "nat \<Rightarrow> int \<Rightarrow> 's \<Rightarrow> 's run" where
  "led_irq_handler n level s =
     (if n = 0 then
        Ok s (if level = 0 then [Printf (''LED Off'' @ [CHR 0x0A])]
              else if level = 1 then [Printf (''LED On'' @ [CHR 0x0A])] else [])
      else Stop AssertFail [])"

definition led_err_irq_handler :: "nat \<Rightarrow> int \<Rightarrow> 's \<Rightarrow> 's run" where
  "led_err_irq_handler n level s =
     (if n = 0 then
        Ok s (if level = 0 then [Printf (''ERR LED Off'' @ [CHR 0x0A])]
              else if level = 1 then [Printf (''ERR LED On'' @ [CHR 0x0A])] else [])
      else Stop AssertFail [])"

definition stm32_maple_key_event :: "int \<Rightarrow> Stm32Maple \<Rightarrow> Stm32Maple run" where
  "stm32_maple_key_event keycode s =
     (let make = (keycode AND 0x80 = 0);
          core_keycode = (if make then keycode else keycode AND 0x7f)
      in if core_keycode = 0x30 then
           if make then
             if \<not> last_button_pressed s then
               run_bind (qemu_irq_raise (maple_button_irq s) s) (\<lambda>s. Ok (s\<lparr>last_button_pressed := True\<rparr>) [])
             else Ok s []
           else
             if last_button_pressed s then
               run_bind (qemu_irq_lower (maple_button_irq s) s) (\<lambda>s. Ok (s\<lparr>last_button_pressed := False\<rparr>) [])
             else Ok s []
         else Ok s [])"

section \<open>The microcontroller\<close>

datatype stm32_dev = DevRcc | DevGpio nat | DevExti | DevAfio | DevUart nat

text \<open>\<open>m_regions\<close> has the base address and the size of the registers of each device, \<open>m_children\<close> the
  names under \<open>/machine/stm32\<close>.\<close>

record Stm32 =
  m_rcc :: Stm32Rcc
  m_rcc_irq :: qemu_irq
  m_gpio :: "Stm32Gpio list"
  m_exti :: Stm32Exti
  m_afio :: Stm32Afio
  m_uart :: "Stm32Uart list"
  m_systick :: systick_scales
  m_nvic :: "nat \<Rightarrow> int"
  m_now :: u64
  m_regions :: "(nat \<times> nat \<times> stm32_dev) list"
  m_children :: "(string \<times> stm32_dev) list"
  m_flash_alias :: "(nat \<times> nat) option"

definition m_env :: "Stm32 \<Rightarrow> uart_env" where
  "m_env m = \<lparr>ue_rcc = m_rcc m, ue_gpio = m_gpio m, ue_afio = m_afio m, ue_now = m_now m\<rparr>"

definition on_gpio :: "nat \<Rightarrow> (Stm32Gpio \<Rightarrow> Stm32Gpio run) \<Rightarrow> Stm32 \<Rightarrow> Stm32 run" where
  "on_gpio i f m =
     (if i < length (m_gpio m) then run_map (\<lambda>g. m\<lparr>m_gpio := (m_gpio m)[i := g]\<rparr>) (f (m_gpio m ! i))
      else Stop OutOfBounds [])"

definition on_uart :: "nat \<Rightarrow> (Stm32Uart \<Rightarrow> Stm32Uart run) \<Rightarrow> Stm32 \<Rightarrow> Stm32 run" where
  "on_uart i f m =
     (if i < length (m_uart m) then run_map (\<lambda>u. m\<lparr>m_uart := (m_uart m)[i := u]\<rparr>) (f (m_uart m ! i))
      else Stop OutOfBounds [])"

definition on_exti :: "(Stm32Exti \<Rightarrow> Stm32Exti run) \<Rightarrow> Stm32 \<Rightarrow> Stm32 run" where
  "on_exti f m = run_map (\<lambda>x. m\<lparr>m_exti := x\<rparr>) (f (m_exti m))"

definition on_systick :: "(systick_scales \<Rightarrow> systick_scales run) \<Rightarrow> Stm32 \<Rightarrow> Stm32 run" where
  "on_systick f m = run_map (\<lambda>x. m\<lparr>m_systick := x\<rparr>) (f (m_systick m))"

section \<open>Lines\<close>

fun stm32_irq_handler :: "qemu_irq \<Rightarrow> int \<Rightarrow> Stm32 \<Rightarrow> Stm32 run" where
  "stm32_irq_handler IrqNull level m = Ok m []"
| "stm32_irq_handler (IrqNvic n) level m = Ok (m\<lparr>m_nvic := (m_nvic m)(n := level)\<rparr>) []"
| "stm32_irq_handler (IrqExtiIn n) level m = on_exti (stm32_exti_gpio_in_handler n level) m"
| "stm32_irq_handler (IrqGpioIn p pin) level m = on_gpio p (stm32_gpio_in_trigger pin level) m"
| "stm32_irq_handler IrqHclkUpd level m =
     on_systick (stm32_rcc_hclk_upd_irq_handler (clktree_get_output_freq (rcc_clks (m_rcc m)) (HCLK (m_rcc m)))) m"
| "stm32_irq_handler (IrqUartClk k) level m = on_uart k (stm32_uart_clk_irq_handler (m_env m) 0 level) m"
| "stm32_irq_handler (IrqBoardOut n) level m = Ok m (output_write_handler n level)"
| "stm32_irq_handler (IrqLed n) level m = led_irq_handler n level m"
| "stm32_irq_handler (IrqLedErr n) level m = led_err_irq_handler n level m"

text \<open>\<open>stm32_uart_baud_update\<close> at the time of the notification, when the clock had the frequency of the
  effect.\<close>

definition uart_clk_notified :: "u32 \<Rightarrow> Stm32Uart \<Rightarrow> Stm32Uart run" where
  "uart_clk_notified clk_freq s =
     (if USART_BRR s = 0 \<or> clk_freq = 0 then Ok (s\<lparr>bits_per_sec := 0\<rparr>) []
      else let bps = clk_freq div USART_BRR s
           in if bps = 0 then Stop DivByZero []
              else let ns_per_bit = 1000000000 div ucast bps
                   in Ok (s\<lparr>bits_per_sec := bps, ns_per_char := ns_per_bit * 10\<rparr>) [])"

fun stm32_clk_handler :: "qemu_irq \<Rightarrow> u32 \<Rightarrow> Stm32 \<Rightarrow> Stm32 run" where
  "stm32_clk_handler IrqHclkUpd f m = on_systick (stm32_rcc_hclk_upd_irq_handler f) m"
| "stm32_clk_handler (IrqUartClk k) f m = on_uart k (uart_clk_notified f) m"
| "stm32_clk_handler irq f m = stm32_irq_handler irq 1 m"

fun stm32_handle :: "effect \<Rightarrow> (Stm32 \<Rightarrow> Stm32 run) option" where
  "stm32_handle (SetIrq irq level) = Some (stm32_irq_handler irq level)"
| "stm32_handle (ClkNotify irq f) = Some (stm32_clk_handler irq f)"
| "stm32_handle e = None"

text \<open>The effects that leave the machine are its result; the depth of nested handlers is the fuel.\<close>

fun stm32_dispatch :: "nat \<Rightarrow> effect list \<Rightarrow> Stm32 \<Rightarrow> Stm32 run" where
  "stm32_dispatch n [] m = Ok m []"
| "stm32_dispatch n (e # es) m =
     (case stm32_handle e of
        None \<Rightarrow> run_emit [e] (stm32_dispatch n es m)
      | Some h \<Rightarrow>
          (case n of
             0 \<Rightarrow> Stop OutOfFuel []
           | Suc k \<Rightarrow>
               (case h m of
                  Stop x fs \<Rightarrow> Stop x fs
                | Ok m' fs \<Rightarrow> run_bind (stm32_dispatch k fs m') (stm32_dispatch n es))))"

text \<open>Three levels are enough: a pin of a port, a line of the external interrupt controller, an input
  of the interrupt controller.\<close>

definition stm32_run :: "(Stm32 \<Rightarrow> Stm32 run) \<Rightarrow> Stm32 \<Rightarrow> Stm32 run" where
  "stm32_run f m = (case f m of Ok m' es \<Rightarrow> stm32_dispatch 3 es m' | Stop x es \<Rightarrow> Stop x es)"

section \<open>Register access\<close>

fun stm32_dev_write :: "stm32_dev \<Rightarrow> nat \<Rightarrow> u64 \<Rightarrow> nat \<Rightarrow> Stm32 \<Rightarrow> Stm32 run" where
  "stm32_dev_write DevRcc offset v sz m = run_map (\<lambda>r. m\<lparr>m_rcc := r\<rparr>) (stm32_rcc_write (m_rcc m) offset v sz)"
| "stm32_dev_write (DevGpio i) offset v sz m = on_gpio i (\<lambda>g. stm32_gpio_write (m_rcc m) g offset v sz) m"
| "stm32_dev_write DevExti offset v sz m = on_exti (\<lambda>x. stm32_exti_write x offset v sz) m"
| "stm32_dev_write DevAfio offset v sz m =
     run_map (\<lambda>(a, gs). m\<lparr>m_afio := a, m_gpio := gs\<rparr>) (stm32_afio_write (m_rcc m) (m_afio m, m_gpio m) offset v sz)"
| "stm32_dev_write (DevUart i) offset v sz m = on_uart i (\<lambda>u. stm32_uart_write (m_env m) u offset v sz) m"

definition stm32_region_at :: "nat \<Rightarrow> Stm32 \<Rightarrow> (nat \<times> nat \<times> stm32_dev) option" where
  "stm32_region_at a m = find (\<lambda>(base, sz, d). base \<le> a \<and> a < base + sz) (m_regions m)"

section \<open>Initialization of the microcontroller\<close>

definition pic :: "nat \<Rightarrow> qemu_irq" where
  "pic n = IrqNvic n"

definition object_property_add_child :: "string \<Rightarrow> stm32_dev \<Rightarrow> Stm32 \<Rightarrow> Stm32" where
  "object_property_add_child name d m = m\<lparr>m_children := m_children m @ [(name, d)]\<rparr>"

definition sysbus_mmio_map :: "stm32_dev \<Rightarrow> nat \<Rightarrow> nat \<Rightarrow> Stm32 \<Rightarrow> Stm32" where
  "sysbus_mmio_map d sz addr m = m\<lparr>m_regions := m_regions m @ [(addr, sz, d)]\<rparr>"

text \<open>The first IRQ output of a device.\<close>

fun connect_first_irq :: "stm32_dev \<Rightarrow> qemu_irq \<Rightarrow> Stm32 \<Rightarrow> Stm32 run" where
  "connect_first_irq DevRcc irq m = Ok (m\<lparr>m_rcc_irq := irq\<rparr>) []"
| "connect_first_irq (DevUart i) irq m = on_uart i (\<lambda>u. Ok (u\<lparr>uart_irq := irq\<rparr>) []) m"
| "connect_first_irq (DevGpio i) irq m =
     on_gpio i (\<lambda>g. run_map (\<lambda>irqs. g\<lparr>gpio_in_irq := irqs\<rparr>) (sysbus_connect_irq 0 irq (gpio_in_irq g))) m"
| "connect_first_irq DevExti irq m =
     on_exti (\<lambda>x. run_map (\<lambda>irqs. x\<lparr>exti_irq := irqs\<rparr>) (sysbus_connect_irq 0 irq (exti_irq x))) m"
| "connect_first_irq DevAfio irq m = Stop AssertFail []"

text \<open>\<open>qdev_init_nofail\<close> runs the init function of the device, which is the argument \<open>init\<close>; \<open>sz\<close> is the
  size it gave its registers.\<close>

definition stm32_init_periph ::
    "(Stm32 \<Rightarrow> Stm32 run) \<Rightarrow> stm32_dev \<Rightarrow> nat \<Rightarrow> nat \<Rightarrow> qemu_irq \<Rightarrow> Stm32 \<Rightarrow> Stm32 run" where
  "stm32_init_periph init d sz addr irq = run_seq
     [stm32_run init,
      \<lambda>m. Ok (sysbus_mmio_map d sz addr m) [],
      \<lambda>m. if irq \<noteq> IrqNull then connect_first_irq d irq m else Ok m []]"

definition stm32_create_uart_dev :: "nat \<Rightarrow> nat \<Rightarrow> nat \<Rightarrow> qemu_irq \<Rightarrow> Stm32 \<Rightarrow> Stm32 run" where
  "stm32_create_uart_dev periph uart_num addr irq m =
     (let i = length (m_uart m);
          child_name = fst (snprintf 8 (''uart['' @ fmt_d (int uart_num) @ '']''))
      in stm32_init_periph
           (\<lambda>m. run_map (\<lambda>(u, rcc). m\<lparr>m_uart := m_uart m @ [u], m_rcc := rcc\<rparr>) (stm32_uart_init (m_env m) i periph))
           (DevUart i) 0x3ff addr irq (object_property_add_child child_name (DevUart i) m))"

definition stm32_init_gpio :: "nat \<Rightarrow> Stm32 \<Rightarrow> Stm32 run" where
  "stm32_init_gpio i m =
     (let periph = STM32_GPIOA + i;
          child_name = fst (snprintf 8 (''gpio['' @ [char_of (97 + i :: nat)] @ '']''))
      in stm32_init_periph (\<lambda>m. Ok (m\<lparr>m_gpio := m_gpio m @ [stm32_gpio_init periph]\<rparr>) [])
           (DevGpio i) 0x3ff (0x40010800 + i * 0x400) IrqNull (object_property_add_child child_name (DevGpio i) m))"

definition stm32_init_exti :: "Stm32 \<Rightarrow> Stm32 run" where
  "stm32_init_exti = run_seq
     [\<lambda>m. Ok (object_property_add_child ''exti'' DevExti m) [],
      stm32_init_periph (\<lambda>m. Ok (m\<lparr>m_exti := stm32_exti_init\<rparr>) []) DevExti 0x3ff 0x40010400 IrqNull,
      run_for [(0, STM32_EXTI0_IRQ), (1, STM32_EXTI1_IRQ), (2, STM32_EXTI2_IRQ), (3, STM32_EXTI3_IRQ),
               (4, STM32_EXTI4_IRQ), (5, STM32_EXTI9_5_IRQ), (6, STM32_EXTI15_10_IRQ), (7, STM32_PVD_IRQ),
               (8, STM32_RTCAlarm_IRQ), (9, STM32_OTG_FS_WKUP_IRQ)]
        (\<lambda>(n, irq). on_exti (\<lambda>x. run_map (\<lambda>irqs. x\<lparr>exti_irq := irqs\<rparr>) (sysbus_connect_irq n (pic irq) (exti_irq x))))]"

definition stm32_init_afio :: "Stm32 \<Rightarrow> Stm32 run" where
  "stm32_init_afio = run_seq
     [\<lambda>m. Ok (object_property_add_child ''afio'' DevAfio m) [],
      stm32_init_periph (\<lambda>m. Ok (m\<lparr>m_afio := stm32_afio_init\<rparr>) []) DevAfio 0x3ff 0x40010000 IrqNull]"

definition stm32_init_rcc :: "u32 \<Rightarrow> u32 \<Rightarrow> Stm32 \<Rightarrow> Stm32 run" where
  "stm32_init_rcc osc osc32 = run_seq
     [\<lambda>m. Ok (object_property_add_child ''rcc'' DevRcc m) [],
      stm32_init_periph (\<lambda>m. run_map (\<lambda>r. m\<lparr>m_rcc := r\<rparr>) (stm32_rcc_init osc osc32)) DevRcc 0x1000 0x40021000 (pic STM32_RCC_IRQ)]"

definition stm32_init :: "nat \<Rightarrow> u32 \<Rightarrow> u32 \<Rightarrow> Stm32 \<Rightarrow> Stm32 run" where
  "stm32_init flash_size osc osc32 = run_seq
     [\<lambda>m. Ok (m\<lparr>m_flash_alias := Some (0x08000000, flash_size)\<rparr>) [],
      stm32_init_rcc osc osc32,
      run_for [0 ..< STM32_GPIO_COUNT] stm32_init_gpio,
      stm32_init_exti,
      stm32_init_afio,
      stm32_create_uart_dev STM32_UART1 1 0x40013800 (pic STM32_UART1_IRQ),
      stm32_create_uart_dev STM32_UART2 2 0x40004400 (pic STM32_UART2_IRQ),
      stm32_create_uart_dev STM32_UART3 3 0x40004800 (pic STM32_UART3_IRQ),
      stm32_create_uart_dev STM32_UART4 4 0x40004c00 (pic STM32_UART4_IRQ),
      stm32_create_uart_dev STM32_UART5 5 0x40005000 (pic STM32_UART5_IRQ)]"

section \<open>Initialization of the boards\<close>

text \<open>\<open>assert(dev)\<close> for the result of \<open>object_resolve_path\<close>.\<close>

definition resolve_path :: "string \<Rightarrow> Stm32 \<Rightarrow> stm32_dev run" where
  "resolve_path name m = (case map_of (m_children m) name of None \<Rightarrow> Stop AssertFail [] | Some d \<Rightarrow> Ok d [])"

fun gpio_connect_out :: "stm32_dev \<Rightarrow> nat \<Rightarrow> qemu_irq \<Rightarrow> Stm32 \<Rightarrow> Stm32 run" where
  "gpio_connect_out (DevGpio i) pin irq m =
     on_gpio i (\<lambda>g. run_map (\<lambda>outs. g\<lparr>gpio_out_irq := outs\<rparr>) (qdev_connect_gpio_out pin irq (gpio_out_irq g))) m"
| "gpio_connect_out d pin irq m = Stop AssertFail []"

fun gpio_get_in :: "stm32_dev \<Rightarrow> nat \<Rightarrow> qemu_irq run" where
  "gpio_get_in (DevGpio i) pin = qdev_get_gpio_in pin (map (IrqGpioIn i) [0 ..< STM32_GPIO_PIN_COUNT])"
| "gpio_get_in d pin = Stop AssertFail []"

fun uart_connect :: "stm32_dev \<Rightarrow> bool \<Rightarrow> u32 \<Rightarrow> Stm32 \<Rightarrow> Stm32 run" where
  "uart_connect (DevUart i) chr board_map m = on_uart i (\<lambda>u. Ok (stm32_uart_connect chr board_map u) []) m"
| "uart_connect d chr board_map m = Stop AssertFail []"

text \<open>\<open>serial\<close> says which character devices \<open>serial_hds\<close> the emulator was started with.\<close>

definition stm32_p103_init :: "bool list \<Rightarrow> Stm32 \<Rightarrow> (Stm32 \<times> P103EmulState) run" where
  "stm32_p103_init serial m =
     run_bind (stm32_init 0x0001ffff 8000000 32768 m) (\<lambda>m.
     run_bind (resolve_path ''gpio[a]'' m) (\<lambda>gpio_a.
     run_bind (resolve_path ''gpio[b]'' m) (\<lambda>gpio_b.
     run_bind (resolve_path ''gpio[c]'' m) (\<lambda>gpio_c.
     run_bind (resolve_path ''uart[2]'' m) (\<lambda>uart2.
     run_bind (run_seq
       [gpio_connect_out gpio_c 12 (IrqBoardOut 0),
        gpio_connect_out gpio_c 3 (IrqBoardOut 1),
        gpio_connect_out gpio_c 4 (IrqBoardOut 2),
        gpio_connect_out gpio_b 8 (IrqBoardOut 3),
        gpio_connect_out gpio_b 9 (IrqBoardOut 4)] m) (\<lambda>m.
     run_bind (gpio_get_in gpio_c 6) (\<lambda>btn0.
     run_bind (gpio_get_in gpio_c 2) (\<lambda>btn3.
     run_bind (gpio_get_in gpio_c 1) (\<lambda>btn2.
     run_bind (gpio_get_in gpio_c 0) (\<lambda>btn1.
     run_bind (uart_connect uart2 (serial ! 0) STM32_USART2_NO_REMAP m) (\<lambda>m.
     run_bind (stm32p103_emul_init \<lparr>btn0_irq = btn0, btn1_irq = btn1, btn2_irq = btn2, btn3_irq = btn3\<rparr> emul_zero) (\<lambda>emul.
     run_bind (resolve_path ''uart[5]'' m) (\<lambda>uart5.
     run_bind (uart_connect uart5 False (of_nat STM32_UART5) m) (\<lambda>m.
     Ok (m, emul) [DBG ('': stm32_p103_init done.'' @ [CHR 0x0A])]))))))))))))))"

definition stm32_maple_init :: "bool list \<Rightarrow> Stm32 \<Rightarrow> (Stm32 \<times> Stm32Maple) run" where
  "stm32_maple_init serial m =
     run_bind (stm32_init 0x0001ffff 8000000 32768 m) (\<lambda>m.
     run_bind (resolve_path ''gpio[a]'' m) (\<lambda>gpio_a.
     run_bind (resolve_path ''gpio[c]'' m) (\<lambda>gpio_c.
     run_bind (resolve_path ''uart[1]'' m) (\<lambda>uart1.
     run_bind (resolve_path ''uart[2]'' m) (\<lambda>uart2.
     run_bind (gpio_connect_out gpio_a 5 (IrqLed 0) m) (\<lambda>m.
     run_bind (gpio_connect_out gpio_a 1 (IrqLedErr 0) m) (\<lambda>m.
     run_bind (gpio_get_in gpio_c 9) (\<lambda>btn.
     run_bind (uart_connect uart1 (serial ! 0) STM32_USART1_NO_REMAP m) (\<lambda>m.
     run_bind (uart_connect uart2 (serial ! 1) STM32_USART2_NO_REMAP m) (\<lambda>m.
     Ok (m, \<lparr>last_button_pressed = False, maple_button_irq = btn\<rparr>) []))))))))))"

end
