(* ===== verification/Machine_Ops.thy ===== *)
theory Machine_Ops
  imports Machine Gpio_Props Exti_Props Afio_Props Uart_Props P103_Emul_Props
begin

text \<open>
  The lines of a wired machine form no loop: a pin leads to the external interrupt controller, that one
  to the interrupt controller, and every other line ends where it arrives. So every list of effects is
  delivered within three levels of handlers.
\<close>

section \<open>Wiring\<close>

fun to_exti :: "qemu_irq \<Rightarrow> bool" where
  "to_exti IrqNull = True"
| "to_exti (IrqExtiIn n) = True"
| "to_exti irq = False"

fun to_nvic :: "qemu_irq \<Rightarrow> bool" where
  "to_nvic IrqNull = True"
| "to_nvic (IrqNvic n) = True"
| "to_nvic irq = False"

definition m_wired :: "Stm32 \<Rightarrow> bool" where
  "m_wired m \<longleftrightarrow>
     list_all (\<lambda>g. length (gpio_in_irq g) = STM32_GPIO_PIN_COUNT \<and> list_all to_exti (gpio_in_irq g)) (m_gpio m) \<and>
     length (exti_irq (m_exti m)) = EXTI_IRQ_COUNT \<and> list_all to_nvic (exti_irq (m_exti m))"

fun irq_rank :: "qemu_irq \<Rightarrow> nat" where
  "irq_rank (IrqGpioIn p n) = 3"
| "irq_rank (IrqExtiIn n) = 2"
| "irq_rank irq = 1"

fun effect_rank :: "effect \<Rightarrow> nat" where
  "effect_rank (SetIrq irq l) = irq_rank irq"
| "effect_rank (ClkNotify irq f) = irq_rank irq"
| "effect_rank e = 0"

lemma irq_rank_bounds [simp]: "irq_rank irq \<le> 3" "0 < irq_rank irq"
  by (cases irq; simp)+

lemma effect_rank_le: "effect_rank e \<le> 3"
  by (cases e) auto

lemma effect_rank_None: "stm32_handle e = None \<longleftrightarrow> effect_rank e = 0"
  by (cases e) simp_all

section \<open>One handler\<close>

text \<open>What a handler of rank \<open>r\<close> does to a wired machine.\<close>

definition handled :: "nat \<Rightarrow> Stm32 run \<Rightarrow> bool" where
  "handled r x = (case x of
       Ok m es \<Rightarrow> m_wired m \<and> list_all (\<lambda>e. effect_rank e < r) es
     | Stop f es \<Rightarrow> f \<noteq> OutOfFuel)"

lemma handled_simps [simp]:
  "handled r (Ok m es) \<longleftrightarrow> m_wired m \<and> list_all (\<lambda>e. effect_rank e < r) es"
  "handled r (Stop f es) \<longleftrightarrow> f \<noteq> OutOfFuel"
  by (simp_all add: handled_def)

lemma m_wired_frame [simp]:
  "m_wired (m\<lparr>m_nvic := f\<rparr>) = m_wired m" "m_wired (m\<lparr>m_systick := y\<rparr>) = m_wired m"
  "m_wired (m\<lparr>m_uart := us\<rparr>) = m_wired m" "m_wired (m\<lparr>m_rcc := r\<rparr>) = m_wired m"
  by (simp_all add: m_wired_def)

lemma to_exti_rank: "to_exti irq \<Longrightarrow> irq_rank irq < 3"
  by (cases irq) auto

lemma to_nvic_rank: "to_nvic irq \<Longrightarrow> irq_rank irq < 2"
  by (cases irq) auto

lemma wired_gpio:
  assumes "m_wired m" and "i < length (m_gpio m)"
  shows "length (gpio_in_irq (m_gpio m ! i)) = 16" and "list_all to_exti (gpio_in_irq (m_gpio m ! i))"
  using assms by (auto simp: m_wired_def list_all_length)

lemma handled_gpio_in:
  assumes "m_wired m"
  shows "handled 3 (on_gpio p (stm32_gpio_in_trigger pin level) m)"
proof (cases "p < length (m_gpio m) \<and> pin < 16")
  case True
  note g = wired_gpio [OF assms, of p]
  have "irq_rank (gpio_in_irq (m_gpio m ! p) ! pin) < 3"
    using g True by (auto simp: list_all_length intro: to_exti_rank)
  moreover have "m_wired (m\<lparr>m_gpio := (m_gpio m)[p := (m_gpio m ! p)\<lparr>in_pins := w\<rparr>]\<rparr>)" for w
    using assms g True by (auto simp: m_wired_def list_all_length nth_list_update)
  ultimately show ?thesis
    using True by (simp add: on_gpio_def stm32_gpio_in_trigger_def qemu_set_irq_def)
qed (auto simp: on_gpio_def stm32_gpio_in_trigger_def)

lemma exti_nvic_lt: "pin < 16 \<Longrightarrow> exti_nvic pin < 10"
  by (simp add: exti_nvic_less)

lemma handled_exti_in:
  assumes "m_wired m"
  shows "handled 2 (on_exti (stm32_exti_gpio_in_handler pin level) m)"
proof (cases "pin < 16")
  case True
  obtain x where x: "stm32_exti_gpio_in_handler pin level (m_exti m) =
        Ok x (exti_event (exti_irq (m_exti m)) pin (bit (EXTI_PR (m_exti m)) pin) (bit (EXTI_PR x) pin))"
      "exti_irq x = exti_irq (m_exti m)"
    using exti_edge_moves [OF True, of level "m_exti m"] by (auto simp: exti_moves_def)
  have "irq_rank (exti_irq (m_exti m) ! exti_nvic pin) < 2"
    using assms exti_nvic_lt [OF True] by (auto simp: m_wired_def list_all_length intro: to_nvic_rank)
  then show ?thesis
    using assms x by (simp add: on_exti_def m_wired_def exti_event_def)
qed (simp add: on_exti_def stm32_exti_gpio_in_handler_def)

lemma handled_on_uart:
  assumes "m_wired m" and "\<And>u. case f u of Ok u' es \<Rightarrow> es = [] | Stop x es \<Rightarrow> x \<noteq> OutOfFuel"
  shows "handled 1 (on_uart k f m)"
  using assms(1) assms(2) [of "m_uart m ! k"] by (cases "f (m_uart m ! k)") (simp_all add: on_uart_def)

lemma uart_clk_quiet:
  "case stm32_uart_clk_irq_handler e n level u of Ok u' es \<Rightarrow> es = [] | Stop x es \<Rightarrow> x \<noteq> OutOfFuel"
  by (auto simp: stm32_uart_clk_irq_handler_def stm32_uart_baud_update_def stm32_rcc_get_periph_freq_def Let_def
      split: option.split)

lemma uart_notified_quiet:
  "case uart_clk_notified f u of Ok u' es \<Rightarrow> es = [] | Stop x es \<Rightarrow> x \<noteq> OutOfFuel"
  by (simp add: uart_clk_notified_def Let_def)

text \<open>The notification is the clock handler at the frequency of the notification.\<close>

lemma uart_clk_notified_eq:
  assumes "stm32_rcc_get_periph_freq (ue_rcc e) (uart_periph u) = Ok f []"
  shows "stm32_uart_clk_irq_handler e 0 1 u = uart_clk_notified f u"
  using assms by (simp add: stm32_uart_clk_irq_handler_def stm32_uart_baud_update_def uart_clk_notified_def)

lemma handled_systick:
  "m_wired m \<Longrightarrow> handled 1 (on_systick (stm32_rcc_hclk_upd_irq_handler f) m)"
  by (simp add: on_systick_def stm32_rcc_hclk_upd_irq_handler_def Let_def)

lemma handled_irq: "m_wired m \<Longrightarrow> handled (irq_rank irq) (stm32_irq_handler irq level m)"
  by (cases irq)
    (simp_all add: handled_gpio_in handled_exti_in handled_systick handled_on_uart [OF _ uart_clk_quiet]
      output_write_handler_def led_irq_handler_def led_err_irq_handler_def del: One_nat_def)

lemma handled_clk: "m_wired m \<Longrightarrow> handled (irq_rank irq) (stm32_clk_handler irq f m)"
  using handled_irq [of m irq 1]
  by (cases irq) (simp_all add: handled_systick handled_on_uart [OF _ uart_notified_quiet] del: One_nat_def)

lemma handled_effect:
  assumes "m_wired m" and "stm32_handle e = Some h"
  shows "handled (effect_rank e) (h m)"
  using assms by (cases e rule: stm32_handle.cases) (auto simp: handled_irq handled_clk)

section \<open>All handlers\<close>

lemma dispatch_rank:
  assumes "m_wired m" and "list_all (\<lambda>e. effect_rank e \<le> n) es"
  shows "(\<forall>j. stm32_dispatch (n + j) es m = stm32_dispatch n es m) \<and>
    (case stm32_dispatch n es m of Ok m' fs \<Rightarrow> m_wired m' | Stop x fs \<Rightarrow> x \<noteq> OutOfFuel)"
  using assms
proof (induction n es m rule: stm32_dispatch.induct)
  case (2 n e es m)
  show ?case
  proof (cases "stm32_handle e")
    case None
    then have "m_wired m" "list_all (\<lambda>e. effect_rank e \<le> n) es" using "2.prems" by auto
    from "2.IH"(1) [OF None this] show ?thesis
      using None by (cases "stm32_dispatch n es m") simp_all
  next
    case (Some h)
    then have "0 < effect_rank e" using effect_rank_None [of e] by auto
    then obtain k where n: "n = Suc k" using "2.prems"(2) by (cases n) auto
    note hd = handled_effect [OF "2.prems"(1) Some]
    show ?thesis
    proof (cases "h m")
      case (Stop x fs)
      then show ?thesis using Some n hd by simp
    next
      case (Ok m' fs)
      have m': "m_wired m'" "list_all (\<lambda>e. effect_rank e \<le> k) fs"
        using hd Ok n "2.prems"(2) by (auto simp: list_all_iff)
      note inner = "2.IH"(2) [OF Some n Ok this]
      show ?thesis
      proof (cases "stm32_dispatch k fs m'")
        case (Stop x gs)
        then show ?thesis using Some n Ok inner by simp
      next
        case (Ok m'' gs)
        then have "m_wired m''" using inner by simp
        from "2.IH"(3) [OF Some n \<open>h m = Ok m' fs\<close> this] "2.prems"(2)
        have "(\<forall>j. stm32_dispatch (n + j) es m'' = stm32_dispatch n es m'') \<and>
            (case stm32_dispatch n es m'' of Ok m' fs \<Rightarrow> m_wired m' | Stop x fs \<Rightarrow> x \<noteq> OutOfFuel)"
          by simp
        then show ?thesis
          using Some n \<open>h m = Ok m' fs\<close> Ok inner by (cases "stm32_dispatch n es m''") simp_all
      qed
    qed
  qed
qed simp

end
