(* ===== verification/Machine_Props.thy ===== *)
theory Machine_Props
  imports Machine_Ops
begin

text \<open>
  Properties of the whole microcontroller on its boards: the state in which the board's initialisation
  leaves it, delivery of the lines, the way of a guest write to a message for the monitor and the way of
  a monitor message to an interrupt.
\<close>

section \<open>Initialization\<close>

text \<open>The machine before the initialisation: no devices, no regions.\<close>

definition stm32_blank :: "Stm32Rcc \<Rightarrow> Stm32Exti \<Rightarrow> Stm32Afio \<Rightarrow> systick_scales \<Rightarrow> u64 \<Rightarrow> Stm32" where
  "stm32_blank r x a g now =
     \<lparr>m_rcc = r, m_rcc_irq = IrqNull, m_gpio = [], m_exti = x, m_afio = a, m_uart = [], m_systick = g,
      m_nvic = (\<lambda>n. 0), m_now = now, m_regions = [], m_children = [], m_flash_alias = None\<rparr>"

definition stm32_map :: "(nat \<times> nat \<times> stm32_dev) list" where
  "stm32_map =
     (0x40021000, 0x1000, DevRcc) #
     map (\<lambda>i. (0x40010800 + i * 0x400, 0x3ff, DevGpio i)) [0 ..< 7] @
     [(0x40010400, 0x3ff, DevExti), (0x40010000, 0x3ff, DevAfio),
      (0x40013800, 0x3ff, DevUart 0), (0x40004400, 0x3ff, DevUart 1), (0x40004800, 0x3ff, DevUart 2),
      (0x40004c00, 0x3ff, DevUart 3), (0x40005000, 0x3ff, DevUart 4)]"

definition stm32_children :: "(string \<times> stm32_dev) list" where
  "stm32_children =
     (''rcc'', DevRcc) # zip [''gpio[a]'', ''gpio[b]'', ''gpio[c]'', ''gpio[d]'', ''gpio[e]'', ''gpio[f]'', ''gpio[g]'']
      (map DevGpio [0 ..< 7]) @ [(''exti'', DevExti), (''afio'', DevAfio), (''uart[1]'', DevUart 0), (''uart[2]'', DevUart 1),
        (''uart[3]'', DevUart 2), (''uart[4]'', DevUart 3), (''uart[5]'', DevUart 4)]"

definition exti_pics :: "qemu_irq list" where
  "exti_pics = map pic [6, 7, 8, 9, 10, 23, 40, 1, 41, 42]"

definition p103_outs :: "nat \<Rightarrow> qemu_irq list" where
  "p103_outs p =
     (if p = 1 then (replicate 16 IrqNull)[8 := IrqBoardOut 3, 9 := IrqBoardOut 4]
      else if p = 2 then (replicate 16 IrqNull)[12 := IrqBoardOut 0, 3 := IrqBoardOut 1, 4 := IrqBoardOut 2]
      else replicate 16 IrqNull)"

definition p103_ready :: "Stm32 \<times> P103EmulState \<Rightarrow> bool" where
  "p103_ready = (\<lambda>(m, emul). m_regions m = stm32_map \<and>
     map gpio_out_irq (m_gpio m) = map p103_outs [0 ..< 7] \<and>
     map gpio_in_irq (m_gpio m) = replicate 7 (replicate 16 IrqNull) \<and>
     exti_irq (m_exti m) = exti_pics \<and> map uart_irq (m_uart m) = map pic [37, 38, 39, 52, 53] \<and>
     map uart_periph (m_uart m) = [STM32_UART1 ..< STM32_UART5 + 1] \<and>
     stm_state emul = emul_board)"

text \<open>The clocks of the UARTs that are not initialised yet have no user.\<close>

definition uart_clocks_free :: "nat \<Rightarrow> Stm32Rcc \<Rightarrow> bool" where
  "uart_clocks_free k r \<longleftrightarrow> PERIPHCLK r = rcc_periphclk \<and> length (rcc_clks r) = 25 \<and>
     list_all (\<lambda>p. clk_user (rcc_clks r ! the (rcc_periphclk ! p)) = []) [STM32_UART1 + k ..< STM32_UART5 + 1]"

definition rcc_at_power_on :: "u32 \<Rightarrow> u32 \<Rightarrow> Stm32Rcc" where
  "rcc_at_power_on osc osc32 = (rcc_fields0 osc osc32)\<lparr>rcc_clks := rcc_heap (rcc_cfg0 osc osc32)\<rparr>"

lemma rcc_power_on_free: "uart_clocks_free 0 (rcc_at_power_on osc osc32)"
  by code_simp

lemma uart_clks_distinct:
  "list_all (\<lambda>p. rcc_periphclk ! p \<noteq> None \<and> the (rcc_periphclk ! p) < 25 \<and>
     list_all (\<lambda>q. q = p \<or> rcc_periphclk ! q \<noteq> rcc_periphclk ! p) [STM32_UART1 ..< STM32_UART5 + 1])
   [STM32_UART1 ..< STM32_UART5 + 1]"
  by code_simp

lemma uart_init_ok:
  assumes "uart_clocks_free k (ue_rcc e)" and "k < 5"
  shows "\<exists>u r. stm32_uart_init e i (STM32_UART1 + k) = Ok (u, r) [] \<and> uart_clocks_free (Suc k) r \<and>
    uart_periph u = STM32_UART1 + k"
proof -
  let ?p = "STM32_UART1 + k" let ?r = "ue_rcc e"
  have p: "?p \<in> set [STM32_UART1 ..< STM32_UART5 + 1]" using assms(2) by (simp del: upt_rec_numeral)
  then have "rcc_periphclk ! ?p \<noteq> None \<and> the (rcc_periphclk ! ?p) < 25"
    using uart_clks_distinct unfolding list_all_iff by blast
  then obtain c where c: "rcc_periphclk ! ?p = Some c" "c < 25" by auto
  have "?p \<in> set [STM32_UART1 + k ..< STM32_UART5 + 1]" using assms(2) by (simp del: upt_rec_numeral)
  then have "clk_user (rcc_clks ?r ! the (rcc_periphclk ! ?p)) = []"
    using assms(1) unfolding uart_clocks_free_def list_all_iff by blast
  then have user: "clk_user (rcc_clks ?r ! c) = []" "PERIPHCLK ?r = rcc_periphclk" "length (rcc_clks ?r) = 25"
    using assms(1) c by (simp_all add: uart_clocks_free_def)
  let ?r' = "?r\<lparr>rcc_clks := (rcc_clks ?r)[c := (rcc_clks ?r ! c)\<lparr>clk_user := [IrqUartClk i]\<rparr>]\<rparr>"
  have set: "stm32_rcc_set_periph_clk_irq ?p (IrqUartClk i) ?r = Ok ?r' []"
    using c user by (simp add: stm32_rcc_set_periph_clk_irq_def rcc_clk_def clktree_adduser_def
        CLKTREE_ADD_LINK_def CLKTREE_MAX_IRQ_def)
  have other: "the (rcc_periphclk ! q) \<noteq> c" if "q \<in> set [STM32_UART1 + Suc k ..< STM32_UART5 + 1]" for q
  proof -
    have "q \<in> set [STM32_UART1 ..< STM32_UART5 + 1]" "q \<noteq> ?p" using that by auto
    then have "rcc_periphclk ! q \<noteq> rcc_periphclk ! ?p" "rcc_periphclk ! q \<noteq> None"
      using p uart_clks_distinct unfolding list_all_iff by blast+
    then show ?thesis using c by auto
  qed
  have "clk_user (rcc_clks ?r' ! the (rcc_periphclk ! q)) = []" if "q \<in> set [STM32_UART1 + Suc k ..< STM32_UART5 + 1]" for q
  proof -
    have "q \<in> set [STM32_UART1 + k ..< STM32_UART5 + 1]" using that by auto
    then have "clk_user (rcc_clks ?r ! the (rcc_periphclk ! q)) = []"
      using assms(1) unfolding uart_clocks_free_def list_all_iff by blast
    then show ?thesis using other [OF that] by simp
  qed
  then have "uart_clocks_free (Suc k) ?r'"
    using user by (simp only: uart_clocks_free_def list_all_iff) simp
  moreover have "stm32_rcc_get_periph_freq ?r' ?p = Ok (clk_output_freq (rcc_clks ?r ! c)) []"
    using c user by (simp add: stm32_rcc_get_periph_freq_def clktree_get_output_freq_def)
  ultimately show ?thesis
    using set uart_reset_eq [of "e\<lparr>ue_rcc := ?r'\<rparr>" "uart_zero ?p"]
    by (simp add: stm32_uart_init_def uart_zero_def uart_irq_event_def uart_reset_flags_def)
qed

lemma create_uart_ok:
  assumes "uart_clocks_free k (m_rcc m)" and "k < 5" and "length (m_uart m) = k"
  shows "\<exists>u r. stm32_create_uart_dev (STM32_UART1 + k) num addr (IrqNvic n) m =
      Ok (m\<lparr>m_uart := m_uart m @ [u], m_rcc := r, m_regions := m_regions m @ [(addr, 0x3ff, DevUart k)],
            m_children := m_children m @ [(fst (snprintf 8 (''uart['' @ fmt_d (int num) @ '']'')), DevUart k)]\<rparr>) [] \<and>
    uart_clocks_free (Suc k) r \<and> uart_periph u = STM32_UART1 + k \<and> uart_irq u = IrqNvic n"
proof -
  have "uart_clocks_free k (ue_rcc (m_env m))" using assms(1) by (simp add: m_env_def)
  from uart_init_ok [OF this assms(2), of k] obtain u r where
    u: "stm32_uart_init (m_env m) k (STM32_UART1 + k) = Ok (u, r) []" "uart_clocks_free (Suc k) r"
      "uart_periph u = STM32_UART1 + k"
    by blast
  have env: "m_env (m\<lparr>m_children := x\<rparr>) = m_env m" for x by (simp add: m_env_def)
  show ?thesis
    using u assms(3)
    by (intro exI [of _ "u\<lparr>uart_irq := IrqNvic n\<rparr>"] exI [of _ r])
      (simp add: stm32_create_uart_dev_def stm32_init_periph_def stm32_run_def sysbus_mmio_map_def
        object_property_add_child_def on_uart_def env nth_append list_update_append)
qed

lemma child_names:
  "fst (snprintf 8 (''uart['' @ fmt_d (int 1) @ '']'')) = ''uart[1]''"
  "fst (snprintf 8 (''uart['' @ fmt_d (int 2) @ '']'')) = ''uart[2]''"
  "fst (snprintf 8 (''uart['' @ fmt_d (int 3) @ '']'')) = ''uart[3]''"
  "fst (snprintf 8 (''uart['' @ fmt_d (int 4) @ '']'')) = ''uart[4]''"
  "fst (snprintf 8 (''uart['' @ fmt_d (int 5) @ '']'')) = ''uart[5]''"
  by code_simp+

lemma init_values:
  "(replicate 10 IrqNull)[0 := IrqNvic 6, Suc 0 := IrqNvic 7, 2 := IrqNvic 8, 3 := IrqNvic 9, 4 := IrqNvic 10,
      5 := IrqNvic 23, 6 := IrqNvic 40, 7 := IrqNvic (Suc 0), 8 := IrqNvic 41, 9 := IrqNvic 42] =
    [IrqNvic 6, IrqNvic 7, IrqNvic 8, IrqNvic 9, IrqNvic 10, IrqNvic 23, IrqNvic 40, IrqNvic (Suc 0),
      IrqNvic 41, IrqNvic 42]"
  "char_of (97 :: nat) = CHR ''a''" "char_of (98 :: nat) = CHR ''b''" "char_of (99 :: nat) = CHR ''c''"
  "char_of (100 :: nat) = CHR ''d''" "char_of (101 :: nat) = CHR ''e''" "char_of (102 :: nat) = CHR ''f''"
  "char_of (103 :: nat) = CHR ''g''"
  by code_simp+

text \<open>The devices before the UARTs.\<close>

lemma stm32_init_front:
  "\<exists>m. run_seq [\<lambda>m. Ok (m\<lparr>m_flash_alias := Some (0x08000000, flash)\<rparr>) [], stm32_init_rcc osc osc32,
      run_for [0 ..< STM32_GPIO_COUNT] stm32_init_gpio, stm32_init_exti, stm32_init_afio]
      (stm32_blank r x a g now) = Ok m [] \<and>
    m_rcc m = rcc_at_power_on osc osc32 \<and> m_gpio m = map stm32_gpio_init [STM32_GPIOA ..< STM32_GPIOG + 1] \<and>
    m_exti m = stm32_exti_init\<lparr>exti_irq := exti_pics\<rparr> \<and> m_afio m = stm32_afio_init \<and> m_uart m = [] \<and>
    m_regions m = take 10 stm32_map \<and>
    m_children m = (''rcc'', DevRcc) # zip [''gpio[a]'', ''gpio[b]'', ''gpio[c]'', ''gpio[d]'', ''gpio[e]'', ''gpio[f]'', ''gpio[g]'']
      (map DevGpio [0 ..< 7]) @ [(''exti'', DevExti), (''afio'', DevAfio)]"
  by (simp add: stm32_init_rcc_def stm32_init_gpio_def stm32_init_exti_def stm32_init_afio_def gpio_count
      stm32_init_periph_def stm32_run_def sysbus_mmio_map_def object_property_add_child_def stm32_rcc_init_eq
      stm32_blank_def rcc_at_power_on_def on_exti_def sysbus_connect_irq_def exti_pics_def stm32_exti_init_def
      stm32_map_def pic_def snprintf_def upt_rec init_values)

lemma run_seq_append: "run_seq (fs @ gs) s = run_bind (run_seq fs s) (run_seq gs)"
proof (induction fs arbitrary: s)
  case (Cons f fs)
  then show ?case by (cases "f s") simp_all
qed simp

definition uart_name :: "nat \<Rightarrow> string" where
  "uart_name num = fst (snprintf 8 (''uart['' @ fmt_d (int num) @ '']''))"

fun create_uarts :: "nat \<Rightarrow> (nat \<times> nat \<times> nat) list \<Rightarrow> (Stm32 \<Rightarrow> Stm32 run) list" where
  "create_uarts k [] = []"
| "create_uarts k ((num, addr, n) # cs) =
     stm32_create_uart_dev (STM32_UART1 + k) num addr (IrqNvic n) # create_uarts (Suc k) cs"

lemma create_uarts_ok:
  assumes "uart_clocks_free k (m_rcc m)" and "length (m_uart m) = k" and "k + length cs \<le> 5"
  shows "\<exists>us r. run_seq (create_uarts k cs) m = Ok (m\<lparr>m_uart := m_uart m @ us, m_rcc := r,
      m_regions := m_regions m @ map (\<lambda>c. (fst (snd (snd c)), 0x3ff, DevUart (fst c))) (enumerate k cs),
      m_children := m_children m @ map (\<lambda>c. (uart_name (fst (snd c)), DevUart (fst c))) (enumerate k cs)\<rparr>) [] \<and>
    map uart_periph us = [STM32_UART1 + k ..< STM32_UART1 + k + length cs] \<and>
    map uart_irq us = map (\<lambda>c. IrqNvic (snd (snd c))) cs"
  using assms
proof (induction cs arbitrary: k m)
  case Nil
  then show ?case by (intro exI [of _ "[]"] exI [of _ "m_rcc m"]) simp
next
  case (Cons c cs)
  obtain num addr n where c: "c = (num, addr, n)" by (cases c)
  obtain u r where u: "stm32_create_uart_dev (STM32_UART1 + k) num addr (IrqNvic n) m =
      Ok (m\<lparr>m_uart := m_uart m @ [u], m_rcc := r, m_regions := m_regions m @ [(addr, 0x3ff, DevUart k)],
            m_children := m_children m @ [(uart_name num, DevUart k)]\<rparr>) []" (is "_ = Ok ?m []")
    "uart_clocks_free (Suc k) r" "uart_periph u = STM32_UART1 + k" "uart_irq u = IrqNvic n"
    using create_uart_ok [of k m num addr n] Cons.prems by (auto simp: uart_name_def)
  have pre: "uart_clocks_free (Suc k) (m_rcc ?m)" "length (m_uart ?m) = Suc k" "Suc k + length cs \<le> 5"
    using u(2) Cons.prems(2,3) by simp_all
  obtain us r' where us: "run_seq (create_uarts (Suc k) cs) ?m = Ok (?m\<lparr>m_uart := m_uart ?m @ us, m_rcc := r',
      m_regions := m_regions ?m @ map (\<lambda>c. (fst (snd (snd c)), 0x3ff, DevUart (fst c))) (enumerate (Suc k) cs),
      m_children := m_children ?m @ map (\<lambda>c. (uart_name (fst (snd c)), DevUart (fst c))) (enumerate (Suc k) cs)\<rparr>) []"
    "map uart_periph us = [STM32_UART1 + Suc k ..< STM32_UART1 + Suc k + length cs]"
    "map uart_irq us = map (\<lambda>c. IrqNvic (snd (snd c))) cs"
    using Cons.IH [OF pre] by blast
  show ?case
    using c u us by (intro exI [of _ "u # us"] exI [of _ r']) (simp add: upt_conv_Cons add.assoc)
qed

lemma stm32_init_ok:
  "\<exists>m. stm32_init flash osc osc32 (stm32_blank r x a g now) = Ok m [] \<and>
    m_gpio m = map stm32_gpio_init [STM32_GPIOA ..< STM32_GPIOG + 1] \<and>
    m_exti m = stm32_exti_init\<lparr>exti_irq := exti_pics\<rparr> \<and> m_afio m = stm32_afio_init \<and>
    map uart_periph (m_uart m) = [STM32_UART1 ..< STM32_UART5 + 1] \<and>
    map uart_irq (m_uart m) = map pic [37, 38, 39, 52, 53] \<and> m_regions m = stm32_map \<and>
    m_children m = stm32_children"
proof -
  let ?front = "[\<lambda>m. Ok (m\<lparr>m_flash_alias := Some (0x08000000, flash)\<rparr>) [], stm32_init_rcc osc osc32,
      run_for [0 ..< STM32_GPIO_COUNT] stm32_init_gpio, stm32_init_exti, stm32_init_afio]"
  let ?cs = "[(1 :: nat, 0x40013800 :: nat, 37 :: nat), (2, 0x40004400, 38), (3, 0x40004800, 39), (4, 0x40004c00, 52), (5, 0x40005000, 53)]"
  have split: "stm32_init flash osc osc32 = run_seq (?front @ create_uarts 0 ?cs)"
    by (simp add: stm32_init_def pic_def)
  obtain m where m: "run_seq ?front (stm32_blank r x a g now) = Ok m []"
    "m_rcc m = rcc_at_power_on osc osc32" "m_gpio m = map stm32_gpio_init [STM32_GPIOA ..< STM32_GPIOG + 1]"
    "m_exti m = stm32_exti_init\<lparr>exti_irq := exti_pics\<rparr>" "m_afio m = stm32_afio_init" "m_uart m = []"
    "m_regions m = take 10 stm32_map"
    "m_children m = (''rcc'', DevRcc) # zip [''gpio[a]'', ''gpio[b]'', ''gpio[c]'', ''gpio[d]'', ''gpio[e]'', ''gpio[f]'', ''gpio[g]'']
      (map DevGpio [0 ..< 7]) @ [(''exti'', DevExti), (''afio'', DevAfio)]"
    using stm32_init_front [of flash osc osc32 r x a g now] by blast
  have free: "uart_clocks_free 0 (m_rcc m)" by (simp only: m(2) rcc_power_on_free)
  have len: "length (m_uart m) = 0" "0 + length ?cs \<le> 5" using m(6) by simp_all
  obtain us r' where us: "run_seq (create_uarts 0 ?cs) m = Ok (m\<lparr>m_uart := m_uart m @ us, m_rcc := r',
      m_regions := m_regions m @ map (\<lambda>c. (fst (snd (snd c)), 0x3ff, DevUart (fst c))) (enumerate 0 ?cs),
      m_children := m_children m @ map (\<lambda>c. (uart_name (fst (snd c)), DevUart (fst c))) (enumerate 0 ?cs)\<rparr>) []"
    "map uart_periph us = [STM32_UART1 + 0 ..< STM32_UART1 + 0 + length ?cs]"
    "map uart_irq us = map (\<lambda>c. IrqNvic (snd (snd c))) ?cs"
    using create_uarts_ok [OF free len] by blast
  have "run_seq (?front @ create_uarts 0 ?cs) (stm32_blank r x a g now) = run_seq (create_uarts 0 ?cs) m"
    by (simp only: run_seq_append m(1) run_bind.simps run_emit_Nil)
  then show ?thesis
    unfolding split us(1)
    using m(3-8) us(2,3) child_names
    by (simp add: uart_name_def stm32_map_def stm32_children_def pic_def enumerate_Suc_eq)
qed

text \<open>In a list of pairwise separate regions an address is in at most one.\<close>

definition apart :: "nat \<times> nat \<times> stm32_dev \<Rightarrow> nat \<times> nat \<times> stm32_dev \<Rightarrow> bool" where
  "apart = (\<lambda>(b, s, d) (b', s', d'). b + s \<le> b' \<or> b' + s' \<le> b)"

lemma apart_unique:
  "sorted_wrt apart xs \<Longrightarrow> length (filter (\<lambda>(b, s, d). b \<le> a \<and> a < b + s) xs) \<le> 1"
proof (induction xs)
  case (Cons x xs)
  show ?case
  proof (cases "(\<lambda>(b, s, d). b \<le> a \<and> a < b + s) x")
    case True
    then have "filter (\<lambda>(b, s, d). b \<le> a \<and> a < b + s) xs = []"
      using Cons.prems by (fastforce simp: filter_empty_conv apart_def)
    then show ?thesis using True by simp
  qed (use Cons in simp)
qed simp

lemma stm32_map_apart: "sorted_wrt apart stm32_map"
  by (simp add: stm32_map_def apart_def upt_rec)

lemma replicate_7: "replicate 7 y = [y, y, y, y, y, y, y]"
  by (simp add: numeral_eq_Suc)

lemma stm32_paths:
  assumes "m_children m = stm32_children"
  shows "resolve_path ''gpio[a]'' m = Ok (DevGpio 0) []" "resolve_path ''gpio[b]'' m = Ok (DevGpio 1) []"
    "resolve_path ''gpio[c]'' m = Ok (DevGpio 2) []" "resolve_path ''uart[1]'' m = Ok (DevUart 0) []"
    "resolve_path ''uart[2]'' m = Ok (DevUart 1) []" "resolve_path ''uart[5]'' m = Ok (DevUart 4) []"
proof -
  have "map (map_of stm32_children) [''gpio[a]'', ''gpio[b]'', ''gpio[c]'', ''uart[1]'', ''uart[2]'', ''uart[5]''] =
      map Some [DevGpio 0, DevGpio 1, DevGpio 2, DevUart 0, DevUart 1, DevUart 4]"
    by code_simp
  then show "resolve_path ''gpio[a]'' m = Ok (DevGpio 0) []" "resolve_path ''gpio[b]'' m = Ok (DevGpio 1) []"
    "resolve_path ''gpio[c]'' m = Ok (DevGpio 2) []" "resolve_path ''uart[1]'' m = Ok (DevUart 0) []"
    "resolve_path ''uart[2]'' m = Ok (DevUart 1) []" "resolve_path ''uart[5]'' m = Ok (DevUart 4) []"
    using assms by (simp_all add: resolve_path_def)
qed

section \<open>The P103 board\<close>

text \<open>
  C40: The initialisation of the P103 board returns. Every device of the microcontroller is mapped at its
  address and no two overlap; the five LEDs hang on pins 12, 3 and 4 of port C and 8 and 9 of port B; the
  ten outputs of the external interrupt controller and the five of the UARTs are connected to their
  inputs of the interrupt controller; the four buttons drive pins 6, 0, 1 and 2 of port C.
\<close>

theorem p103_init:
  "\<exists>m emul. stm32_p103_init serial (stm32_blank r x a g now) =
      Ok (m, emul) [DBG (''_emul: stm32p103_emul_init'' @ [CHR 0x0A]), DBG ('': stm32_p103_init done.'' @ [CHR 0x0A])] \<and>
    p103_ready (m, emul) \<and>
    (\<forall>addr. length (filter (\<lambda>(base, sz, d). base \<le> addr \<and> addr < base + sz) (m_regions m)) \<le> 1)"
proof -
  obtain m where m: "stm32_init 0x0001ffff 8000000 32768 (stm32_blank r x a g now) = Ok m []"
    "m_gpio m = map stm32_gpio_init [STM32_GPIOA ..< STM32_GPIOG + 1]"
    "m_exti m = stm32_exti_init\<lparr>exti_irq := exti_pics\<rparr>" "m_afio m = stm32_afio_init"
    "map uart_periph (m_uart m) = [STM32_UART1 ..< STM32_UART5 + 1]"
    "map uart_irq (m_uart m) = map pic [37, 38, 39, 52, 53]" "m_regions m = stm32_map"
    "m_children m = stm32_children"
    using stm32_init_ok by blast
  have len: "length (m_uart m) = 5" using arg_cong [OF m(5), of length] by simp
  have gpio: "m_gpio m = [stm32_gpio_init 1, stm32_gpio_init 2, stm32_gpio_init 3, stm32_gpio_init 4, stm32_gpio_init 5,
      stm32_gpio_init 6, stm32_gpio_init 7]"
    using m(2) by (simp add: upt_rec numeral_eq_Suc)
  obtain u0 u1 u2 u3 u4 where uart: "m_uart m = [u0, u1, u2, u3, u4]"
    using len by (auto simp: length_Suc_conv numeral_eq_Suc)
  show ?thesis
    using m(1,3,5,6,7,8) gpio uart apart_unique [OF stm32_map_apart]
    by (simp add: stm32_p103_init_def stm32_paths on_gpio_def qdev_connect_gpio_out_def qdev_get_gpio_in_def
        on_uart_def stm32p103_emul_init_def stm32_gpio_init_def p103_ready_def p103_outs_def upt_rec replicate_7
        emul_board_def stm32_uart_connect_def)
qed

section \<open>Delivery of the lines\<close>


definition machine_example :: Stm32 where
  "machine_example =
     (stm32_blank (rcc_at_power_on 8000000 32768) (stm32_exti_init\<lparr>exti_irq := exti_pics\<rparr>) stm32_afio_init
        \<lparr>system_clock_scale = 0, external_ref_clock_scale = 0\<rparr> 0)
     \<lparr>m_gpio := [(stm32_gpio_init 1)\<lparr>gpio_in_irq := map IrqExtiIn [0 ..< 16]\<rparr>, stm32_gpio_init 2, gpio_example\<lparr>gpio_out_irq := p103_outs 2\<rparr>]\<rparr>"


lemma dispatch_append: "stm32_dispatch n (es @ fs) m = run_bind (stm32_dispatch n es m) (stm32_dispatch n fs)"
proof (induction es arbitrary: m)
  case (Cons e es)
  show ?case
  proof (cases "stm32_handle e")
    case (Some h)
    have "stm32_dispatch n (es @ fs) = (\<lambda>m. run_bind (stm32_dispatch n es m) (stm32_dispatch n fs))"
      using Cons by (simp add: fun_eq_iff)
    then show ?thesis
      using Some by (auto simp: run_bind_assoc split: nat.split run.split)
  qed (simp add: Cons)
qed simp

lemma dispatch_external: "list_all (\<lambda>e. stm32_handle e = None) es \<Longrightarrow> stm32_dispatch n es m = Ok m es"
  by (induction es) simp_all

lemma dispatch_frame:
  assumes "\<And>i. i \<in> set is \<Longrightarrow> stm32_dispatch n (f i) m = Ok m (g i)"
  shows "stm32_dispatch n (concat (map f is)) m = Ok m (concat (map g is))"
  using assms by (induction "is") (simp_all add: dispatch_append)

section \<open>From a guest write to a message\<close>

text \<open>The pins of a port that the board has LEDs on, and the messages for them.\<close>

definition p103_leds :: "nat \<Rightarrow> nat list" where
  "p103_leds p = (if p = 1 then [8, 9] else if p = 2 then [3, 4, 12] else [])"

definition led_posts :: "nat \<Rightarrow> u32 \<Rightarrow> (nat \<Rightarrow> bool) \<Rightarrow> effect list" where
  "led_posts p odr P = map (\<lambda>pin. PostDigitalOut (0x41 + of_nat p) (of_nat pin) (if bit odr pin then 1 else 0))
     (filter P (p103_leds p))"

lemma dispatch_board:
  "stm32_dispatch 3 [SetIrq (IrqBoardOut k) level] m = Ok m (output_write_handler k level)"
  using dispatch_external [of "output_write_handler k level" 2 m]
  by (simp add: numeral_3_eq_3 numeral_2_eq_2 output_write_handler_def)

lemma writes_quiet:
  assumes "rcc_wf rcc" and "rcc_has_clk q"
  shows "list_all (\<lambda>e. stm32_handle e = None) (rcc_clk_warning rcc q @ gpio_log offset v)"
proof -
  have "is_warning e \<Longrightarrow> stm32_handle e = None" for e by (cases e) simp_all
  then show ?thesis
    using rcc_clk.check_warns [of rcc q] assms
    by (auto simp: list_all_iff rcc_clk_warning_def gpio_log_def STM32_WARN_RO_REG_def)
qed

lemma p103_outs_nth:
  "pin < 16 \<Longrightarrow> p103_outs p ! pin =
     (if p = 1 \<and> pin = 8 then IrqBoardOut 3 else if p = 1 \<and> pin = 9 then IrqBoardOut 4
      else if p = 2 \<and> pin = 12 then IrqBoardOut 0 else if p = 2 \<and> pin = 3 then IrqBoardOut 1
      else if p = 2 \<and> pin = 4 then IrqBoardOut 2 else IrqNull)"
  by (simp add: p103_outs_def nth_list_update)

lemma concat_map_single_if: "concat (map (\<lambda>x. if Q x then [f x] else []) xs) = map f (filter Q xs)"
  by (induction xs) auto

lemma dispatch_leds:
  assumes "gpio_out_irq s = p103_outs p"
  shows "stm32_dispatch 3 (gpio_events s P) m = Ok m (led_posts p (GPIOx_ODR s) P)"
proof -
  let ?ev = "\<lambda>pin. if gpio_out_irq s ! pin = IrqNull then []
       else [SetIrq (gpio_out_irq s ! pin) (if bit (GPIOx_ODR s) pin then 1 else 0)]"
  let ?post = "\<lambda>pin. if pin \<in> set (p103_leds p)
      then [PostDigitalOut (0x41 + of_nat p) (of_nat pin) (if bit (GPIOx_ODR s) pin then 1 else 0)] else []"
  have one: "stm32_dispatch 3 (?ev pin) m = Ok m (?post pin)" if "pin < 16" for pin
    using p103_outs_nth [OF that, of p] assms
    by (auto simp: p103_leds_def dispatch_board output_write_handler_def)
  have "stm32_dispatch 3 (concat (map ?ev (filter P [0 ..< 16]))) m = Ok m (concat (map ?post (filter P [0 ..< 16])))"
    by (rule dispatch_frame) (simp add: one)
  moreover have "concat (map ?post (filter P [0 ..< 16])) = led_posts p (GPIOx_ODR s) P"
  proof -
    have "filter (\<lambda>pin. pin \<in> set (p103_leds p)) [0 ..< 16] = p103_leds p"
      by (simp add: p103_leds_def upt_rec)
    then have "filter (\<lambda>pin. pin \<in> set (p103_leds p)) (filter P [0 ..< 16]) = filter P (p103_leds p)"
      by (metis (no_types, lifting) filter_filter conj_commute filter_cong)
    then show ?thesis by (simp only: concat_map_single_if led_posts_def)
  qed
  ultimately show ?thesis by (simp only: gpio_events_def)
qed

lemma p103_port_write:
  assumes "rcc_wf (m_rcc m)" and "p < length (m_gpio m)" and "gpio_wf (m_gpio m ! p)"
    and "rcc_has_clk (gpio_periph (m_gpio m ! p))" and "gpio_out_irq (m_gpio m ! p) = p103_outs p"
    and "offset \<in> set gpio_registers"
  shows "\<exists>s' o' d. s' = (m_gpio m ! p)\<lparr>GPIOx_ODR := o', GPIOx_CRy := gpio_cr_next offset v (GPIOx_CRy (m_gpio m ! p)), dir_mask := d\<rparr> \<and>
    stm32_run (stm32_dev_write (DevGpio p) offset v 4) m = Ok (m\<lparr>m_gpio := (m_gpio m)[p := s']\<rparr>)
        (rcc_clk_warning (m_rcc m) (gpio_periph (m_gpio m ! p)) @ gpio_log offset v @
         led_posts p (GPIOx_ODR s') (\<lambda>pin. gpio_drives offset v (GPIOx_ODR (m_gpio m ! p)) pin \<and>
           gpio_pin_output (GPIOx_CRy (m_gpio m ! p)) pin)) \<and>
    gpio_wf s' \<and> (\<forall>pin<16. bit (GPIOx_ODR s') pin = gpio_odr_next offset v (GPIOx_ODR (m_gpio m ! p)) pin)"
proof -
  let ?s = "m_gpio m ! p"
  let ?P = "\<lambda>pin. gpio_drives offset v (GPIOx_ODR ?s) pin \<and> gpio_pin_output (GPIOx_CRy ?s) pin"
  obtain s' where s': "gpio_write_reg offset v ?s = Ok s' (gpio_log offset v @ gpio_events s' ?P)"
    "gpio_wf s'" "s' = ?s\<lparr>GPIOx_ODR := GPIOx_ODR s', GPIOx_CRy := gpio_cr_next offset v (GPIOx_CRy ?s), dir_mask := dir_mask s'\<rparr>"
    "\<forall>pin<16. bit (GPIOx_ODR s') pin = gpio_odr_next offset v (GPIOx_ODR ?s) pin"
    using gpio_write_reg_spec [OF assms(3,6), of v] by blast
  have "gpio_out_irq s' = p103_outs p" using arg_cong [OF s'(3), of gpio_out_irq] assms(5) by simp
  then have leds: "stm32_dispatch 3 (gpio_events s' ?P) m' = Ok m' (led_posts p (GPIOx_ODR s') ?P)" for m'
    by (rule dispatch_leds)
  let ?ws = "rcc_clk_warning (m_rcc m) (gpio_periph ?s) @ gpio_log offset v"
  have quiet: "list_all (\<lambda>e. stm32_handle e = None) ?ws"
    by (rule writes_quiet [OF assms(1,4)])
  let ?m = "m\<lparr>m_gpio := (m_gpio m)[p := s']\<rparr>"
  have w: "stm32_dev_write (DevGpio p) offset v 4 m = Ok ?m (?ws @ gpio_events s' ?P)"
    using s'(1) assms(2) gpio_write_checked [OF assms(1,4), of offset v] by (simp add: on_gpio_def)
  have "stm32_run (stm32_dev_write (DevGpio p) offset v 4) m =
      run_bind (stm32_dispatch 3 ?ws ?m) (stm32_dispatch 3 (gpio_events s' ?P))"
    by (simp only: stm32_run_def w run.case dispatch_append)
  also have "\<dots> = Ok ?m (?ws @ led_posts p (GPIOx_ODR s') ?P)"
    by (simp only: dispatch_external [OF quiet] leds run_bind.simps run_emit.simps)
  finally have r: "stm32_run (stm32_dev_write (DevGpio p) offset v 4) m = Ok ?m (?ws @ led_posts p (GPIOx_ODR s') ?P)" .
  show ?thesis
    by (rule exI [of _ s'], rule exI [of _ "GPIOx_ODR s'"], rule exI [of _ "dir_mask s'"], intro conjI)
      (rule s'(3), simp only: r append_assoc, rule s'(2), rule s'(4))
qed

text \<open>
  C1: On the P103 board a write of the guest to a register of a port sends one message per LED whose
  pin is an output and is driven by the write, lowest pin first, with the port's letter, the pin number
  and the new level; nothing else of the machine changes but the registers of the port.
\<close>

theorem p103_led_messages:
  assumes "rcc_wf (m_rcc m)" and "p < length (m_gpio m)" and "gpio_wf (m_gpio m ! p)"
    and "rcc_has_clk (gpio_periph (m_gpio m ! p))" and "gpio_out_irq (m_gpio m ! p) = p103_outs p"
    and "offset \<in> set gpio_registers"
  shows "\<exists>s'. stm32_run (stm32_dev_write (DevGpio p) offset v 4) m =
      Ok (m\<lparr>m_gpio := (m_gpio m)[p := s']\<rparr>)
        (rcc_clk_warning (m_rcc m) (gpio_periph (m_gpio m ! p)) @ gpio_log offset v @
         led_posts p (GPIOx_ODR s') (\<lambda>pin. gpio_drives offset v (GPIOx_ODR (m_gpio m ! p)) pin \<and>
           gpio_pin_output (GPIOx_CRy (m_gpio m ! p)) pin)) \<and>
    (\<forall>pin<16. bit (GPIOx_ODR s') pin = gpio_odr_next offset v (GPIOx_ODR (m_gpio m ! p)) pin)"
  using p103_port_write [OF assms, of v] by blast

theorem p103_led_messages_witness:
  "\<exists>rcc es. stm32_rcc_boot 8000000 32768 = Ok rcc es \<and> (\<exists>m' ws.
     stm32_run (stm32_dev_write (DevGpio 2) GPIOx_BSRR_OFFSET 0x1000 4) (machine_example\<lparr>m_rcc := rcc\<rparr>) =
       Ok m' (ws @ [PostDigitalOut 0x43 12 1]))"
proof (rule rcc_boot_ex)
  fix rcc
  assume wf: "rcc_wf rcc"
  let ?m = "machine_example\<lparr>m_rcc := rcc\<rparr>"
  let ?g = "gpio_example\<lparr>gpio_out_irq := p103_outs 2\<rparr>"
  have g: "m_gpio ?m ! 2 = ?g" "2 < length (m_gpio ?m)" "m_rcc ?m = rcc"
    by (simp_all add: machine_example_def numeral_2_eq_2)
  have "gpio_wf ?g" "rcc_has_clk (gpio_periph ?g)"
    using gpio_example_wf by (simp_all add: gpio_wf_def gpio_shape_def p103_outs_def)
  then have pre: "rcc_wf (m_rcc ?m)" "gpio_wf (m_gpio ?m ! 2)" "rcc_has_clk (gpio_periph (m_gpio ?m ! 2))"
      "gpio_out_irq (m_gpio ?m ! 2) = p103_outs 2" "GPIOx_BSRR_OFFSET \<in> set gpio_registers"
    using g wf by (simp_all add: gpio_registers_def)
  obtain s' where s': "stm32_run (stm32_dev_write (DevGpio 2) GPIOx_BSRR_OFFSET 0x1000 4) ?m =
      Ok (?m\<lparr>m_gpio := (m_gpio ?m)[2 := s']\<rparr>) (rcc_clk_warning rcc (gpio_periph ?g) @ gpio_log GPIOx_BSRR_OFFSET 0x1000 @
         led_posts 2 (GPIOx_ODR s') (\<lambda>pin. gpio_drives GPIOx_BSRR_OFFSET 0x1000 (GPIOx_ODR ?g) pin \<and> gpio_pin_output (GPIOx_CRy ?g) pin))"
    "\<forall>pin<16. bit (GPIOx_ODR s') pin = gpio_odr_next GPIOx_BSRR_OFFSET 0x1000 (GPIOx_ODR ?g) pin"
    using p103_led_messages [OF pre(1) g(2) pre(2-5), of "0x1000", unfolded g(1,3)] by blast
  have odr: "bit (GPIOx_ODR s') 12 = gpio_odr_next GPIOx_BSRR_OFFSET 0x1000 (GPIOx_ODR ?g) 12"
    by (rule mp [OF spec [OF s'(2), of 12]]) simp
  have b: "bit (0x1000 :: u64) 12" "\<not> bit (0x1000 :: u64) 3" "\<not> bit (0x1000 :: u64) 4" by code_simp+
  have bits: "filter (\<lambda>pin. gpio_drives GPIOx_BSRR_OFFSET 0x1000 (GPIOx_ODR ?g) pin \<and> gpio_pin_output (GPIOx_CRy ?g) pin) (p103_leds 2) = [12]"
    "gpio_odr_next GPIOx_BSRR_OFFSET 0x1000 (GPIOx_ODR ?g) 12"
    using b gpio_example_pins(1) by (simp_all add: p103_leds_def gpio_drives_def gpio_odr_next_def)
  have "led_posts 2 (GPIOx_ODR s') (\<lambda>pin. gpio_drives GPIOx_BSRR_OFFSET 0x1000 (GPIOx_ODR ?g) pin \<and> gpio_pin_output (GPIOx_CRy ?g) pin) =
      [PostDigitalOut 0x43 12 1]"
    using odr bits(2) unfolding led_posts_def bits(1) by simp
  then show "\<exists>m' ws. stm32_run (stm32_dev_write (DevGpio 2) GPIOx_BSRR_OFFSET 0x1000 4) ?m = Ok m' (ws @ [PostDigitalOut 0x43 12 1])"
    using s'(1) by (intro exI [of _ "?m\<lparr>m_gpio := (m_gpio ?m)[2 := s']\<rparr>"]
        exI [of _ "rcc_clk_warning rcc (gpio_periph ?g) @ gpio_log GPIOx_BSRR_OFFSET 0x1000"]) (simp only: append_assoc)
qed

section \<open>From a message to an interrupt\<close>

lemma value_bytes:
  "value_byte (value_nbr b0 b1 b2 b3) 0 = b0" "value_byte (value_nbr b0 b1 b2 b3) (Suc 0) = b1"
  "value_byte (value_nbr b0 b1 b2 b3) 2 = b2" "value_byte (value_nbr b0 b1 b2 b3) 3 = b3"
  by (rule bit_word_eqI; auto simp: value_byte_def value_nbr_def bit_simps dest: bit_imp_le_length)+

definition button_pin :: "u8 \<Rightarrow> nat" where
  "button_pin k = (if k = 0 then 6 else if k = 1 then 0 else if k = 2 then 1 else 2)"

lemma dispatch_Nil: "stm32_dispatch n [] = (\<lambda>m. Ok m [])"
  by (simp add: fun_eq_iff)

lemma dispatch_one:
  "stm32_dispatch (Suc n) [SetIrq irq l] m =
     (case stm32_irq_handler irq l m of Ok m' fs \<Rightarrow> stm32_dispatch n fs m' | Stop x fs \<Rightarrow> Stop x fs)"
  by (simp add: dispatch_Nil split: run.split)

lemma exti_pics_nth: "pin < 16 \<Longrightarrow> exti_pics ! exti_nvic pin = IrqNvic ([6, 7, 8, 9, 10, 23, 40, 1, 41, 42] ! exti_nvic pin)"
  using exti_nvic_lt [of pin] unfolding exti_pics_def pic_def by (subst nth_map) simp_all

text \<open>An edge on a line of the external interrupt controller.\<close>

definition exti_takes :: "Stm32Exti \<Rightarrow> nat \<Rightarrow> int \<Rightarrow> bool" where
  "exti_takes x pin level \<longleftrightarrow> bit (EXTI_IMR x) pin \<and> (if level \<noteq> 0 then bit (EXTI_RTSR x) pin else bit (EXTI_FTSR x) pin)"

definition nvic_after :: "Stm32 \<Rightarrow> Stm32Exti \<Rightarrow> nat \<Rightarrow> nat \<Rightarrow> int" where
  "nvic_after m x' pin = (if bit (EXTI_PR x') pin \<and> \<not> bit (EXTI_PR (m_exti m)) pin
     then (m_nvic m)([6, 7, 8, 9, 10, 23, 40, 1, 41, 42] ! exti_nvic pin := 1) else m_nvic m)"

lemma ln_edge_pr:
  "ln_pr (ln_edge level (exti_line_of x pin)) \<longleftrightarrow> bit (EXTI_PR x) pin \<or> exti_takes x pin level"
  by (auto simp: exti_takes_def exti_line_of_sel ln_edge_def ln_trigger_def ln_pend_def split: if_splits)

lemma dispatch_exti:
  assumes "exti_irq (m_exti m) = exti_pics" and "pin < 16"
  shows "\<exists>x'. exti_irq x' = exti_pics \<and>
    (\<forall>n. exti_line_of x' n = (if n = pin then ln_edge level (exti_line_of (m_exti m) pin) else exti_line_of (m_exti m) n)) \<and>
    stm32_dispatch 2 [SetIrq (IrqExtiIn pin) level] m = Ok (m\<lparr>m_exti := x', m_nvic := nvic_after m x' pin\<rparr>) []"
proof -
  let ?x = "m_exti m"
  obtain x' where x': "stm32_exti_gpio_in_handler pin level ?x = Ok x' (exti_event (exti_irq ?x) pin (bit (EXTI_PR ?x) pin) (bit (EXTI_PR x') pin))"
      "exti_irq x' = exti_irq ?x"
      "\<forall>n. exti_line_of x' n = (if n = pin then ln_edge level (exti_line_of ?x pin) else exti_line_of ?x n)"
    using exti_edge_moves [OF assms(2), of level ?x] by (rule exti_moves_Ok)
  have "ln_pr (exti_line_of x' pin) = ln_pr (ln_edge level (exti_line_of ?x pin))" using x'(3) by simp
  then have pr: "bit (EXTI_PR x') pin \<longleftrightarrow> bit (EXTI_PR ?x) pin \<or> exti_takes ?x pin level"
    by (simp add: ln_edge_pr exti_line_of_sel)
  have "stm32_dispatch 2 [SetIrq (IrqExtiIn pin) level] m =
      stm32_dispatch (Suc 0) (exti_event exti_pics pin (bit (EXTI_PR ?x) pin) (bit (EXTI_PR x') pin)) (m\<lparr>m_exti := x'\<rparr>)"
    using x'(1) assms(1) dispatch_one [of "Suc 0" "IrqExtiIn pin" level m] by (simp add: on_exti_def numeral_2_eq_2)
  also have "\<dots> = Ok (m\<lparr>m_exti := x', m_nvic := nvic_after m x' pin\<rparr>) []"
    using pr exti_pics_nth [OF assms(2)] by (auto simp: exti_event_def dispatch_one nvic_after_def)
  finally show ?thesis using x'(2,3) assms(1) by (intro exI [of _ x'] conjI) simp_all
qed

text \<open>An edge on an input pin of a port.\<close>

lemma dispatch_edge:
  assumes "afio_inv (m_afio m, m_gpio m)" and "exti_irq (m_exti m) = exti_pics" and "p < 7" and "pin < 16"
  shows "\<exists>w x'. (\<forall>n. bit w n = (if n = pin then level \<noteq> 0 else bit (in_pins (m_gpio m ! p)) n)) \<and> exti_irq x' = exti_pics \<and>
    (\<forall>n. exti_line_of x' n = (if n = pin \<and> afio_source (m_afio m) pin = p then ln_edge level (exti_line_of (m_exti m) pin)
       else exti_line_of (m_exti m) n)) \<and>
    stm32_dispatch 3 [SetIrq (IrqGpioIn p pin) level] m =
      Ok (m\<lparr>m_gpio := (m_gpio m)[p := (m_gpio m ! p)\<lparr>in_pins := w\<rparr>], m_exti := x', m_nvic := nvic_after m x' pin\<rparr>) []"
proof -
  let ?g = "m_gpio m ! p"
  have len: "length (m_gpio m) = 7" and link: "gpio_in_irq ?g ! pin = (if p = afio_source (m_afio m) pin then IrqExtiIn pin else IrqNull)"
    using assms(1,3,4) by (simp_all add: afio_inv_def afio_routed_def ports_wf_def port_link_def gpio_count)
  obtain g' es where "stm32_gpio_in_trigger pin level ?g = Ok g' es"
    using assms(4) by (simp add: stm32_gpio_in_trigger_def qemu_set_irq_def)
  then obtain w where w: "stm32_gpio_in_trigger pin level ?g = Ok (?g\<lparr>in_pins := w\<rparr>) es"
      "\<forall>n. bit w n = (if n = pin then level \<noteq> 0 else bit (in_pins ?g) n)"
    using gpio_trigger_eq by blast
  have es: "es = (if p = afio_source (m_afio m) pin then [SetIrq (IrqExtiIn pin) level] else [])"
    using gpio_trigger_effects [OF assms(4), of level ?g] link by (simp only: w(1) run_effects.simps) simp
  let ?m = "m\<lparr>m_gpio := (m_gpio m)[p := ?g\<lparr>in_pins := w\<rparr>]\<rparr>"
  have first: "stm32_dispatch 3 [SetIrq (IrqGpioIn p pin) level] m = stm32_dispatch 2 es ?m"
    using dispatch_one [of 2 "IrqGpioIn p pin" level m] w(1) assms(3) len
    by (simp only: numeral_3_eq_3 numeral_2_eq_2 stm32_irq_handler.simps on_gpio_def) simp
  show ?thesis
  proof (cases "p = afio_source (m_afio m) pin")
    case True
    obtain x' where "exti_irq x' = exti_pics"
        "\<forall>n. exti_line_of x' n = (if n = pin then ln_edge level (exti_line_of (m_exti m) pin) else exti_line_of (m_exti m) n)"
        "stm32_dispatch 2 [SetIrq (IrqExtiIn pin) level] ?m = Ok (?m\<lparr>m_exti := x', m_nvic := nvic_after ?m x' pin\<rparr>) []"
      using dispatch_exti [of ?m pin level] assms(2,4) by auto
    moreover have "nvic_after ?m x' pin = nvic_after m x' pin" by (simp add: nvic_after_def)
    ultimately show ?thesis using first es True w(2) by (intro exI [of _ w] exI [of _ x'] conjI) simp_all
  next
    case False
    have "?m = m\<lparr>m_gpio := (m_gpio m)[p := ?g\<lparr>in_pins := w\<rparr>], m_exti := m_exti m, m_nvic := nvic_after m (m_exti m) pin\<rparr>"
      by (simp add: nvic_after_def)
    then show ?thesis
      using first es False w(2) assms(2) by (intro exI [of _ w] exI [of _ "m_exti m"] conjI) simp_all
  qed
qed

lemma button_message:
  assumes "stm_state emul = emul_board" and "at_evt emul = EvtRead" and "k < 4"
  shows "\<exists>d. stm32p103_emul_evt_handle c (Some [event_code SCALA_DIGITAL_IN, z, k, v]) emul =
    Ok emul [DBG d, SetIrq (IrqGpioIn 2 (button_pin k)) (if v \<noteq> 0 then 1 else 0)]"
proof -
  have "unat k < 4" using assms(3) by (simp add: word_less_nat_alt)
  then have "k = 0 \<or> k = 1 \<or> k = 2 \<or> k = 3"
    by (auto simp: word_unat_eq_iff)
  then have irq: "button_irq k emul_board = IrqGpioIn 2 (button_pin k)"
    by (auto simp: button_irq_def button_pin_def emul_board_def)
  obtain d where "stm32p103_emul_evt_handle c (Some [event_code SCALA_DIGITAL_IN, z, k, v]) emul =
      Ok emul [DBG d, SetIrq (IrqGpioIn 2 (button_pin k)) (if v \<noteq> 0 then 1 else 0)]"
    using assms(1,2) irq
    by (simp add: stm32p103_emul_evt_handle_def evt_message_def ntohl_def value_bytes qemu_set_irq_def Let_def)
  then show ?thesis by blast
qed

text \<open>
  C2: A button message of the monitor sets the level of the button's pin. The line of the pin becomes
  pending, and its input of the interrupt controller is raised, exactly when port C is selected for the
  line, the line is unmasked and the edge is selected; a message never lowers an input.
\<close>

theorem p103_button_interrupt:
  assumes "stm_state emul = emul_board" and "at_evt emul = EvtRead" and "k < 4"
    and "afio_inv (m_afio m, m_gpio m)" and "exti_irq (m_exti m) = exti_pics"
  shows "\<exists>d w x'. stm32p103_emul_evt_handle c (Some [event_code SCALA_DIGITAL_IN, z, k, v]) emul =
        Ok emul [d, SetIrq (IrqGpioIn 2 (button_pin k)) (if v \<noteq> 0 then 1 else 0)] \<and>
    (\<forall>n. bit w n = (if n = button_pin k then v \<noteq> 0 else bit (in_pins (m_gpio m ! 2)) n)) \<and>
    (bit (EXTI_PR x') (button_pin k) \<longleftrightarrow> bit (EXTI_PR (m_exti m)) (button_pin k) \<or>
       afio_source (m_afio m) (button_pin k) = 2 \<and> exti_takes (m_exti m) (button_pin k) (if v \<noteq> 0 then 1 else 0)) \<and>
    stm32_dispatch 3 [d, SetIrq (IrqGpioIn 2 (button_pin k)) (if v \<noteq> 0 then 1 else 0)] m =
      Ok (m\<lparr>m_gpio := (m_gpio m)[2 := (m_gpio m ! 2)\<lparr>in_pins := w\<rparr>], m_exti := x',
            m_nvic := nvic_after m x' (button_pin k)\<rparr>) [d]"
proof -
  let ?l = "if v \<noteq> 0 then 1 else 0 :: int"
  have pin: "button_pin k < 16" by (simp add: button_pin_def)
  obtain d where d: "stm32p103_emul_evt_handle c (Some [event_code SCALA_DIGITAL_IN, z, k, v]) emul =
      Ok emul [DBG d, SetIrq (IrqGpioIn 2 (button_pin k)) ?l]"
    using button_message [OF assms(1-3)] by blast
  from dispatch_edge [OF assms(4,5) _ pin, of 2 ?l] obtain w x' where
    1: "\<forall>n. bit w n = (if n = button_pin k then ?l \<noteq> 0 else bit (in_pins (m_gpio m ! 2)) n)"
    "\<forall>n. exti_line_of x' n = (if n = button_pin k \<and> afio_source (m_afio m) (button_pin k) = 2
       then ln_edge ?l (exti_line_of (m_exti m) (button_pin k)) else exti_line_of (m_exti m) n)"
    "stm32_dispatch 3 [SetIrq (IrqGpioIn 2 (button_pin k)) ?l] m =
      Ok (m\<lparr>m_gpio := (m_gpio m)[2 := (m_gpio m ! 2)\<lparr>in_pins := w\<rparr>], m_exti := x',
            m_nvic := nvic_after m x' (button_pin k)\<rparr>) []"
    by auto
  have "ln_pr (exti_line_of x' (button_pin k)) \<longleftrightarrow> bit (EXTI_PR (m_exti m)) (button_pin k) \<or>
       afio_source (m_afio m) (button_pin k) = 2 \<and> exti_takes (m_exti m) (button_pin k) ?l"
    using 1(2) ln_edge_pr [of ?l "m_exti m"] by (auto simp: exti_line_of_sel)
  then show ?thesis
    using 1(1,3) d by (intro exI [of _ "DBG d"] exI [of _ w] exI [of _ x'] conjI) (simp_all add: DBG_def exti_line_of_sel)
qed

theorem p103_button_interrupt_witness:
  "\<exists>m m' d. stm32p103_emul_evt_handle True (Some [0x56, 0, 1, 1]) ((emul_booted emul_board)\<lparr>at_evt := EvtRead\<rparr>) =
       Ok ((emul_booted emul_board)\<lparr>at_evt := EvtRead\<rparr>) [d, SetIrq (IrqGpioIn 2 0) 1] \<and>
     m_nvic m 6 = 0 \<and> stm32_dispatch 3 [d, SetIrq (IrqGpioIn 2 0) 1] m = Ok m' [d] \<and> m_nvic m' 6 = 1"
proof -
  obtain rcc es where "stm32_rcc_boot 8000000 32768 = Ok rcc es" "rcc_wf rcc"
    using rcc_boot_ex [of rcc_wf 8000000 32768] by blast
  from afio_example_select [OF this(2)] obtain s gs where sg: "afio_source s 0 = 2" "afio_inv (s, gs)" by metis
  let ?x = "stm32_exti_init\<lparr>exti_irq := exti_pics, EXTI_IMR := 1, EXTI_RTSR := 1\<rparr>"
  let ?m = "machine_example\<lparr>m_gpio := gs, m_afio := s, m_exti := ?x\<rparr>"
  let ?e = "(emul_booted emul_board)\<lparr>at_evt := EvtRead\<rparr>"
  have pre: "stm_state ?e = emul_board" "at_evt ?e = EvtRead" "(1 :: u8) < 4" "afio_inv (m_afio ?m, m_gpio ?m)"
      "exti_irq (m_exti ?m) = exti_pics"
    using sg(2) by (simp_all add: emul_booted_def)
  have pin: "button_pin 1 = 0" by (simp add: button_pin_def)
  have takes: "exti_takes ?x 0 1" "\<not> bit (EXTI_PR ?x) 0"
    by (simp_all add: exti_takes_def stm32_exti_init_def)
  have one: "(if (1 :: u8) \<noteq> 0 then 1 else 0) = (1 :: int)" by simp
  from p103_button_interrupt [OF pre, of True 0 1, unfolded pin one] obtain d w x' where o:
    "stm32p103_emul_evt_handle True (Some [event_code SCALA_DIGITAL_IN, 0, 1, 1]) ?e = Ok ?e [d, SetIrq (IrqGpioIn 2 0) 1]"
    "bit (EXTI_PR x') 0 \<longleftrightarrow> bit (EXTI_PR (m_exti ?m)) 0 \<or> afio_source (m_afio ?m) 0 = 2 \<and> exti_takes (m_exti ?m) 0 1"
    "stm32_dispatch 3 [d, SetIrq (IrqGpioIn 2 0) 1] ?m =
      Ok (?m\<lparr>m_gpio := (m_gpio ?m)[2 := (m_gpio ?m ! 2)\<lparr>in_pins := w\<rparr>], m_exti := x', m_nvic := nvic_after ?m x' 0\<rparr>) [d]"
    by blast
  have pr: "bit (EXTI_PR x') 0" using o(2) takes(1) sg(1) by simp
  have "m_nvic ?m 6 = 0" by (simp add: machine_example_def stm32_blank_def)
  moreover have "nvic_after ?m x' 0 6 = 1"
    using takes(2) pr by (simp add: nvic_after_def exti_nvic_def)
  moreover have "stm32p103_emul_evt_handle True (Some [0x56, 0, 1, 1]) ?e = Ok ?e [d, SetIrq (IrqGpioIn 2 0) 1]"
    using o(1) by simp
  ultimately show ?thesis
    using o(3) by (intro exI [of _ ?m] exI [of _ d] exI conjI) (assumption | simp del: stm32_dispatch.simps)+
qed

end
