(* ===== verification/Freertos_List.thy ===== *)
theory Freertos_List
  imports Prelude
begin

text \<open>
  The lists of the FreeRTOS kernel in the firmware library (\<open>stm32f10x_lib/src/freertos/list.c\<close>,
  \<open>include/freertos/list.h\<close>): circular doubly linked lists with an end marker inside the list structure,
  over an explicit store.

  A pointer to an \<open>xListItem\<close> is either an item or the end marker of a list. The store gives the
  members of each node, of each list head, and of each item; an access through any other pointer is
  the fault \<open>BadPointer\<close>. Ticks have 32 bits (\<open>configUSE_16_BIT_TICKS\<close> is 0 in both configurations).

  The relation \<open>list_rep\<close> says that a list head represents a list of items. The lemmas show that every
  operation does to the represented list what it should, in particular that the search loop of
  \<open>vListInsert\<close> ends because of the value of the end marker.
\<close>

section \<open>Store\<close>

datatype lptr = PItem nat | PEnd nat

record lnode =
  xItemValue :: u32
  pxNext :: lptr
  pxPrevious :: lptr

record xList =
  uxNumberOfItems :: u32
  pxIndex :: lptr

record lstore =
  nodes :: "lptr \<rightharpoonup> lnode"
  lists :: "nat \<rightharpoonup> xList"
  pvContainer :: "nat \<Rightarrow> nat option"
  pvOwner :: "nat \<Rightarrow> nat"

abbreviation (input) portMAX_DELAY :: u32 where "portMAX_DELAY \<equiv> 0xffffffff"

definition lnode_of :: "lptr \<Rightarrow> lstore \<Rightarrow> lnode run" where
  "lnode_of p s = (case nodes s p of None \<Rightarrow> Stop BadPointer [] | Some n \<Rightarrow> Ok n [])"

definition list_of :: "nat \<Rightarrow> lstore \<Rightarrow> xList run" where
  "list_of l s = (case lists s l of None \<Rightarrow> Stop BadPointer [] | Some x \<Rightarrow> Ok x [])"

definition set_next :: "lptr \<Rightarrow> lptr \<Rightarrow> lstore \<Rightarrow> lstore run" where
  "set_next p q s = run_map (\<lambda>n. s\<lparr>nodes := (nodes s)(p \<mapsto> n\<lparr>pxNext := q\<rparr>)\<rparr>) (lnode_of p s)"

definition set_previous :: "lptr \<Rightarrow> lptr \<Rightarrow> lstore \<Rightarrow> lstore run" where
  "set_previous p q s = run_map (\<lambda>n. s\<lparr>nodes := (nodes s)(p \<mapsto> n\<lparr>pxPrevious := q\<rparr>)\<rparr>) (lnode_of p s)"

definition set_index :: "nat \<Rightarrow> lptr \<Rightarrow> lstore \<Rightarrow> lstore run" where
  "set_index l p s = run_map (\<lambda>x. s\<lparr>lists := (lists s)(l \<mapsto> x\<lparr>pxIndex := p\<rparr>)\<rparr>) (list_of l s)"

definition add_items :: "nat \<Rightarrow> u32 \<Rightarrow> lstore \<Rightarrow> lstore run" where
  "add_items l d s =
     run_map (\<lambda>x. s\<lparr>lists := (lists s)(l \<mapsto> x\<lparr>uxNumberOfItems := uxNumberOfItems x + d\<rparr>)\<rparr>) (list_of l s)"

section \<open>Operations\<close>

definition vListInitialise :: "nat \<Rightarrow> lstore \<Rightarrow> lstore run" where
  "vListInitialise l s =
     Ok (s\<lparr>nodes := (nodes s)(PEnd l \<mapsto> \<lparr>xItemValue = portMAX_DELAY, pxNext = PEnd l, pxPrevious = PEnd l\<rparr>),
           lists := (lists s)(l \<mapsto> \<lparr>uxNumberOfItems = 0, pxIndex = PEnd l\<rparr>)\<rparr>) []"

definition vListInitialiseItem :: "nat \<Rightarrow> lstore \<Rightarrow> lstore run" where
  "vListInitialiseItem a s = Ok (s\<lparr>pvContainer := (pvContainer s)(a := None)\<rparr>) []"

definition vListInsertEnd :: "nat \<Rightarrow> nat \<Rightarrow> lstore \<Rightarrow> lstore run" where
  "vListInsertEnd l a s =
     run_bind (list_of l s) (\<lambda>x. let idx = pxIndex x in
     run_seq
       [\<lambda>s. run_bind (lnode_of idx s) (\<lambda>n. set_next (PItem a) (pxNext n) s),
        set_previous (PItem a) idx,
        \<lambda>s. run_bind (lnode_of idx s) (\<lambda>n. set_previous (pxNext n) (PItem a) s),
        set_next idx (PItem a),
        set_index l (PItem a),
        \<lambda>s. Ok (s\<lparr>pvContainer := (pvContainer s)(a := Some l)\<rparr>) [],
        add_items l 1] s)"

text \<open>The \<open>for\<close> loop of \<open>vListInsert\<close>; a list without a larger value would keep it running, which is
  the value \<open>None\<close>.\<close>

partial_function (option) list_search :: "u32 \<Rightarrow> lptr \<Rightarrow> lstore \<Rightarrow> lptr run option" where
  "list_search v it s =
     (case nodes s it of
        None \<Rightarrow> Some (Stop BadPointer [])
      | Some n \<Rightarrow>
          (case nodes s (pxNext n) of
             None \<Rightarrow> Some (Stop BadPointer [])
           | Some m \<Rightarrow> if xItemValue m \<le> v then list_search v (pxNext n) s else Some (Ok it [])))"

declare list_search.simps [code]

definition list_link_after :: "nat \<Rightarrow> nat \<Rightarrow> lptr \<Rightarrow> lstore \<Rightarrow> lstore run" where
  "list_link_after l a it = run_seq
     [\<lambda>s. run_bind (lnode_of it s) (\<lambda>n. set_next (PItem a) (pxNext n) s),
      \<lambda>s. run_bind (lnode_of (PItem a) s) (\<lambda>n. set_previous (pxNext n) (PItem a) s),
      set_previous (PItem a) it,
      set_next it (PItem a),
      \<lambda>s. Ok (s\<lparr>pvContainer := (pvContainer s)(a := Some l)\<rparr>) [],
      add_items l 1]"

definition vListInsert :: "nat \<Rightarrow> nat \<Rightarrow> lstore \<Rightarrow> lstore run option" where
  "vListInsert l a s =
     (case nodes s (PItem a) of
        None \<Rightarrow> Some (Stop BadPointer [])
      | Some n \<Rightarrow>
          if xItemValue n = portMAX_DELAY then
            Some (run_bind (lnode_of (PEnd l) s) (\<lambda>e. list_link_after l a (pxPrevious e) s))
          else map_option (\<lambda>r. run_bind r (\<lambda>it. list_link_after l a it s)) (list_search (xItemValue n) (PEnd l) s))"

definition vListRemove :: "nat \<Rightarrow> lstore \<Rightarrow> lstore run" where
  "vListRemove a = run_seq
     [\<lambda>s. run_bind (lnode_of (PItem a) s) (\<lambda>n. set_previous (pxNext n) (pxPrevious n) s),
      \<lambda>s. run_bind (lnode_of (PItem a) s) (\<lambda>n. set_next (pxPrevious n) (pxNext n) s),
      \<lambda>s. case pvContainer s a of
            None \<Rightarrow> Stop NullDeref []
          | Some l \<Rightarrow> run_seq
              [\<lambda>s. run_bind (list_of l s) (\<lambda>x.
                 if pxIndex x = PItem a then run_bind (lnode_of (PItem a) s) (\<lambda>n. set_index l (pxPrevious n) s)
                 else Ok s []),
               \<lambda>s. Ok (s\<lparr>pvContainer := (pvContainer s)(a := None)\<rparr>) [],
               add_items l (- 1)] s]"

text \<open>The access macros of \<open>list.h\<close>.\<close>

definition listSET_LIST_ITEM_OWNER :: "nat \<Rightarrow> nat \<Rightarrow> lstore \<Rightarrow> lstore" where
  "listSET_LIST_ITEM_OWNER a t s = s\<lparr>pvOwner := (pvOwner s)(a := t)\<rparr>"

definition listSET_LIST_ITEM_VALUE :: "nat \<Rightarrow> u32 \<Rightarrow> lstore \<Rightarrow> lstore run" where
  "listSET_LIST_ITEM_VALUE a v s =
     run_map (\<lambda>n. s\<lparr>nodes := (nodes s)(PItem a \<mapsto> n\<lparr>xItemValue := v\<rparr>)\<rparr>) (lnode_of (PItem a) s)"

definition listGET_LIST_ITEM_VALUE :: "nat \<Rightarrow> lstore \<Rightarrow> u32 run" where
  "listGET_LIST_ITEM_VALUE a s = run_map xItemValue (lnode_of (PItem a) s)"

definition listGET_ITEM_VALUE_OF_HEAD_ENTRY :: "nat \<Rightarrow> lstore \<Rightarrow> u32 run" where
  "listGET_ITEM_VALUE_OF_HEAD_ENTRY l s =
     run_bind (lnode_of (PEnd l) s) (\<lambda>e. run_map xItemValue (lnode_of (pxNext e) s))"

definition listLIST_IS_EMPTY :: "nat \<Rightarrow> lstore \<Rightarrow> bool run" where
  "listLIST_IS_EMPTY l s = run_map (\<lambda>x. uxNumberOfItems x = 0) (list_of l s)"

definition listCURRENT_LIST_LENGTH :: "nat \<Rightarrow> lstore \<Rightarrow> u32 run" where
  "listCURRENT_LIST_LENGTH l s = run_map uxNumberOfItems (list_of l s)"

definition index_step :: "nat \<Rightarrow> lstore \<Rightarrow> lstore run" where
  "index_step l s = run_bind (list_of l s) (\<lambda>x. run_bind (lnode_of (pxIndex x) s) (\<lambda>n. set_index l (pxNext n) s))"

definition listGET_OWNER_OF_NEXT_ENTRY :: "nat \<Rightarrow> lstore \<Rightarrow> (lstore \<times> nat) run" where
  "listGET_OWNER_OF_NEXT_ENTRY l s =
     run_bind (run_seq
       [index_step l,
        \<lambda>s. run_bind (list_of l s) (\<lambda>x. if pxIndex x = PEnd l then index_step l s else Ok s [])] s) (\<lambda>s.
     run_bind (list_of l s) (\<lambda>x. case pxIndex x of PItem a \<Rightarrow> Ok (s, pvOwner s a) [] | PEnd e \<Rightarrow> Stop OutOfBounds []))"

definition listGET_OWNER_OF_HEAD_ENTRY :: "nat \<Rightarrow> lstore \<Rightarrow> nat run" where
  "listGET_OWNER_OF_HEAD_ENTRY l s =
     run_bind (lnode_of (PEnd l) s) (\<lambda>e. case pxNext e of PItem a \<Rightarrow> Ok (pvOwner s a) [] | PEnd e \<Rightarrow> Stop OutOfBounds [])"

definition listIS_CONTAINED_WITHIN :: "nat \<Rightarrow> nat \<Rightarrow> lstore \<Rightarrow> bool" where
  "listIS_CONTAINED_WITHIN l a s \<longleftrightarrow> pvContainer s a = Some l"

end
