(* ===== verification/Freertos_List_Props.thy ===== *)
theory Freertos_List_Props
  imports Freertos_List
begin

text \<open>
  Correctness of the kernel lists. A store is seen through the functions \<open>nxt\<close>, \<open>prv\<close> and \<open>lval\<close> (the
  members of a node); \<open>linked\<close> says that a list of pointers is doubly linked, and the ring of a list
  goes from its end marker through its items back to the end marker.
\<close>

section \<open>Links\<close>

definition nxt :: "lstore \<Rightarrow> lptr \<rightharpoonup> lptr" where
  "nxt s p = map_option pxNext (nodes s p)"

definition prv :: "lstore \<Rightarrow> lptr \<rightharpoonup> lptr" where
  "prv s p = map_option pxPrevious (nodes s p)"

definition lval :: "lstore \<Rightarrow> lptr \<rightharpoonup> u32" where
  "lval s p = map_option xItemValue (nodes s p)"

lemma view_lists [simp]: "nxt (s\<lparr>lists := f\<rparr>) = nxt s" "prv (s\<lparr>lists := f\<rparr>) = prv s" "lval (s\<lparr>lists := f\<rparr>) = lval s"
  by (simp_all add: nxt_def prv_def lval_def fun_eq_iff)

fun linked :: "(lptr \<rightharpoonup> lptr) \<Rightarrow> (lptr \<rightharpoonup> lptr) \<Rightarrow> lptr list \<Rightarrow> bool" where
  "linked nx pv (p # q # ps) \<longleftrightarrow> nx p = Some q \<and> pv q = Some p \<and> linked nx pv (q # ps)"
| "linked nx pv ps \<longleftrightarrow> True"

lemma linked_join:
  "L \<noteq> [] \<Longrightarrow> R \<noteq> [] \<Longrightarrow> linked nx pv (L @ R) \<longleftrightarrow>
     linked nx pv L \<and> linked nx pv R \<and> nx (last L) = Some (hd R) \<and> pv (hd R) = Some (last L)"
proof (induction L)
  case (Cons a L)
  show ?case
  proof (cases L)
    case Nil
    then show ?thesis using Cons.prems by (cases R) auto
  next
    case (Cons b L')
    then show ?thesis using Cons.IH Cons.prems(2) by auto
  qed
qed simp

lemma linked_cong:
  assumes "linked nx pv ps" and "\<And>p. p \<in> set (butlast ps) \<Longrightarrow> nx' p = nx p" and "\<And>p. p \<in> set (tl ps) \<Longrightarrow> pv' p = pv p"
  shows "linked nx' pv' ps"
  using assms by (induction nx pv ps rule: linked.induct) auto

text \<open>Insertion of a node between two neighbours, and removal of a node.\<close>

lemma linked_apart:
  assumes "linked nx pv L" and "linked nx pv R" and "L \<noteq> []" and "R \<noteq> []"
    and "last L \<notin> set (butlast L)" and "hd R \<notin> set (tl L)" and "last L \<notin> set (butlast R)" and "hd R \<notin> set (tl R)"
    and "n \<notin> set L" and "n \<notin> set R"
  shows "linked (nx(n := u, last L := v)) (pv(hd R := w, n := z)) L" "linked (nx(n := u, last L := v)) (pv(hd R := w, n := z)) R"
proof -
  have n: "n \<notin> set (butlast L)" "n \<notin> set (tl L)" "n \<notin> set (butlast R)" "n \<notin> set (tl R)"
    using assms(9,10) by (auto dest: in_set_butlastD list.set_sel(2) [rotated] simp: assms(3,4))
  show "linked (nx(n := u, last L := v)) (pv(hd R := w, n := z)) L"
    using assms(5,6) n by (intro linked_cong [OF assms(1)]) auto
  show "linked (nx(n := u, last L := v)) (pv(hd R := w, n := z)) R"
    using assms(7,8) n by (intro linked_cong [OF assms(2)]) auto
qed

lemma linked_insert:
  assumes "linked nx pv (L @ R)" and "L \<noteq> []" and "R \<noteq> []"
    and "last L \<notin> set (butlast L)" and "hd R \<notin> set (tl L)" and "last L \<notin> set (butlast R)" and "hd R \<notin> set (tl R)"
    and "n \<notin> set L" and "n \<notin> set R"
  shows "linked (nx(n \<mapsto> hd R, last L \<mapsto> n)) (pv(hd R \<mapsto> n, n \<mapsto> last L)) (L @ n # R)"
proof -
  let ?nx = "nx(n \<mapsto> hd R, last L \<mapsto> n)" let ?pv = "pv(hd R \<mapsto> n, n \<mapsto> last L)"
  have l: "linked nx pv L" "linked nx pv R" using assms(1-3) by (simp_all add: linked_join)
  have "last L \<noteq> n" "hd R \<noteq> n" using assms(2,3,8,9) by (metis last_in_set, metis hd_in_set)
  moreover have "linked ?nx ?pv L" "linked ?nx ?pv R"
    using linked_apart [OF l assms(2-9)] by auto
  ultimately show ?thesis
    using assms(2,3) linked_join [of "[n]" R ?nx ?pv] by (simp add: linked_join)
qed

lemma linked_remove:
  assumes "linked nx pv (L @ n # R)" and "L \<noteq> []" and "R \<noteq> []"
    and "last L \<notin> set (butlast L)" and "hd R \<notin> set (tl L)" and "last L \<notin> set (butlast R)" and "hd R \<notin> set (tl R)"
    and "n \<notin> set L" and "n \<notin> set R"
  shows "linked (nx(last L \<mapsto> hd R)) (pv(hd R \<mapsto> last L)) (L @ R)"
proof -
  have "linked nx pv L" "linked nx pv ([n] @ R)" using assms(1-3) by (simp_all add: linked_join)
  then have l: "linked nx pv L" "linked nx pv R" using assms(3) by (simp_all add: linked_join del: append_Cons)
  have "last L \<noteq> n" "hd R \<noteq> n" using assms(2,3,8,9) by (metis last_in_set, metis hd_in_set)
  then have eq: "pv(hd R \<mapsto> last L, n := pv n) = pv(hd R \<mapsto> last L)" "nx(n := nx n, last L \<mapsto> hd R) = nx(last L \<mapsto> hd R)"
    by (auto simp: fun_eq_iff)
  have "linked (nx(last L \<mapsto> hd R)) (pv(hd R \<mapsto> last L)) L" "linked (nx(last L \<mapsto> hd R)) (pv(hd R \<mapsto> last L)) R"
    using linked_apart [OF l assms(2-9), of "nx n" "Some (hd R)" "Some (last L)" "pv n"]
    by (simp_all only: eq)
  then show ?thesis using assms(2,3) by (simp add: linked_join)
qed

section \<open>The represented list\<close>

definition ring :: "nat \<Rightarrow> nat list \<Rightarrow> lptr list" where
  "ring l xs = PEnd l # map PItem xs @ [PEnd l]"

definition list_rep :: "lstore \<Rightarrow> nat \<Rightarrow> nat list \<Rightarrow> bool" where
  "list_rep s l xs \<longleftrightarrow> distinct xs \<and> linked (nxt s) (prv s) (ring l xs) \<and>
     (\<exists>x. lists s l = Some x \<and> unat (uxNumberOfItems x) = length xs \<and> pxIndex x \<in> set (ring l xs)) \<and>
     (\<forall>a. pvContainer s a = Some l \<longleftrightarrow> a \<in> set xs) \<and> lval s (PEnd l) = Some portMAX_DELAY"

text \<open>The two sides of a position of the ring.\<close>

definition lhalf :: "nat \<Rightarrow> nat list \<Rightarrow> lptr list" where
  "lhalf l xs = PEnd l # map PItem xs"

definition rhalf :: "nat \<Rightarrow> nat list \<Rightarrow> lptr list" where
  "rhalf l ys = map PItem ys @ [PEnd l]"

lemma ring_halves: "ring l (xs @ ys) = lhalf l xs @ rhalf l ys" "ring l (xs @ a # ys) = lhalf l xs @ PItem a # rhalf l ys"
  by (simp_all add: ring_def lhalf_def rhalf_def)

lemma rhalf_Cons [simp]: "rhalf l (a # ys) = PItem a # rhalf l ys"
  by (simp add: rhalf_def)

lemma halves_apart:
  assumes "distinct (xs @ ys)"
  shows "lhalf l xs \<noteq> []" "rhalf l ys \<noteq> []" "last (lhalf l xs) \<notin> set (butlast (lhalf l xs))"
    "hd (rhalf l ys) \<notin> set (tl (lhalf l xs))" "last (lhalf l xs) \<notin> set (butlast (rhalf l ys))"
    "hd (rhalf l ys) \<notin> set (tl (rhalf l ys))"
proof -
  show "last (lhalf l xs) \<notin> set (butlast (lhalf l xs))"
    using assms by (cases xs rule: rev_cases) (auto simp: lhalf_def butlast_append)
  show "hd (rhalf l ys) \<notin> set (tl (lhalf l xs))" "hd (rhalf l ys) \<notin> set (tl (rhalf l ys))"
    using assms by (cases ys; auto simp: lhalf_def rhalf_def)+
  show "last (lhalf l xs) \<notin> set (butlast (rhalf l ys))"
    using assms by (cases xs rule: rev_cases) (auto simp: lhalf_def rhalf_def)
qed (simp_all add: lhalf_def rhalf_def)

lemma in_halves: "PItem a \<in> set (lhalf l xs) \<longleftrightarrow> a \<in> set xs" "PItem a \<in> set (rhalf l ys) \<longleftrightarrow> a \<in> set ys"
  by (auto simp: lhalf_def rhalf_def)

lemma link_after_ok:
  assumes "nodes s it = Some ni" and "nodes s (pxNext ni) \<noteq> None" and "nodes s (PItem a) \<noteq> None"
    and "it \<noteq> PItem a" and "pxNext ni \<noteq> PItem a" and "lists s l = Some x"
  shows "\<exists>s'. list_link_after l a it s = Ok s' [] \<and>
    nxt s' = (nxt s)(PItem a \<mapsto> pxNext ni, it \<mapsto> PItem a) \<and>
    prv s' = (prv s)(pxNext ni \<mapsto> PItem a, PItem a \<mapsto> it) \<and> lval s' = lval s \<and>
    lists s' = (lists s)(l \<mapsto> x\<lparr>uxNumberOfItems := uxNumberOfItems x + 1\<rparr>) \<and>
    pvContainer s' = (pvContainer s)(a := Some l) \<and> pvOwner s' = pvOwner s"
proof -
  obtain nq na where "nodes s (pxNext ni) = Some nq" "nodes s (PItem a) = Some na" using assms(2,3) by auto
  then show ?thesis
    using assms
    by (cases "it = pxNext ni")
      (auto simp: list_link_after_def lnode_of_def list_of_def set_next_def set_previous_def add_items_def
        nxt_def prv_def lval_def fun_eq_iff)
qed

lemma list_rep_links:
  assumes "list_rep s l (xs @ ys)"
  shows "nxt s (last (lhalf l xs)) = Some (hd (rhalf l ys))" "prv s (hd (rhalf l ys)) = Some (last (lhalf l xs))"
    "linked (nxt s) (prv s) (lhalf l xs @ rhalf l ys)"
proof -
  show l: "linked (nxt s) (prv s) (lhalf l xs @ rhalf l ys)"
    using assms by (simp add: list_rep_def ring_halves)
  show "nxt s (last (lhalf l xs)) = Some (hd (rhalf l ys))" "prv s (hd (rhalf l ys)) = Some (last (lhalf l xs))"
    using l linked_join [of "lhalf l xs" "rhalf l ys" "nxt s" "prv s"] by (simp_all add: lhalf_def rhalf_def)
qed

lemma nodes_of: "nxt s p = Some q \<Longrightarrow> \<exists>n. nodes s p = Some n \<and> pxNext n = q" "prv s p = Some q \<Longrightarrow> \<exists>n. nodes s p = Some n \<and> pxPrevious n = q"
  "lval s p = Some v \<Longrightarrow> \<exists>n. nodes s p = Some n \<and> xItemValue n = v"
  by (auto simp: nxt_def prv_def lval_def)

section \<open>Insertion\<close>

lemma link_after_rep:
  assumes rep: "list_rep s l (xs @ ys)" and a: "nodes s (PItem a) \<noteq> None" "pvContainer s a \<noteq> Some l"
    and len: "Suc (length (xs @ ys)) < 2 ^ 32"
  shows "\<exists>s'. list_link_after l a (last (lhalf l xs)) s = Ok s' [] \<and> list_rep s' l (xs @ a # ys) \<and> lval s' = lval s \<and>
    map_option pxIndex (lists s' l) = map_option pxIndex (lists s l)"
proof -
  let ?p = "last (lhalf l xs)" let ?q = "hd (rhalf l ys)"
  have new: "a \<notin> set (xs @ ys)" and dist: "distinct (xs @ ys)" using rep a(2) by (auto simp: list_rep_def)
  note ap = halves_apart [OF dist, of l]
  have notin: "PItem a \<notin> set (lhalf l xs)" "PItem a \<notin> set (rhalf l ys)" using new by (simp_all add: in_halves)
  have ne: "?p \<noteq> PItem a" "?q \<noteq> PItem a"
    using notin ap(1,2) last_in_set hd_in_set by metis+
  obtain ni where ni: "nodes s ?p = Some ni" "pxNext ni = ?q" using list_rep_links(1) [OF rep] nodes_of(1) by blast
  have nq: "nodes s ?q \<noteq> None" using list_rep_links(2) [OF rep] nodes_of(2) by blast
  obtain x where x: "lists s l = Some x" "unat (uxNumberOfItems x) = length (xs @ ys)" "pxIndex x \<in> set (ring l (xs @ ys))"
    using rep by (auto simp: list_rep_def)
  obtain s' where s': "list_link_after l a ?p s = Ok s' []"
      "nxt s' = (nxt s)(PItem a \<mapsto> ?q, ?p \<mapsto> PItem a)" "prv s' = (prv s)(?q \<mapsto> PItem a, PItem a \<mapsto> ?p)" "lval s' = lval s"
      "lists s' = (lists s)(l \<mapsto> x\<lparr>uxNumberOfItems := uxNumberOfItems x + 1\<rparr>)" "pvContainer s' = (pvContainer s)(a := Some l)"
    using link_after_ok [of s ?p ni a l x] ni nq a(1) ne x(1) by auto
  have "linked (nxt s') (prv s') (lhalf l xs @ PItem a # rhalf l ys)"
    unfolding s'(2,3) by (rule linked_insert [OF list_rep_links(3) [OF rep] ap notin])
  moreover have "unat (uxNumberOfItems x + 1) = Suc (length (xs @ ys))"
    using x(2) len by (simp add: unat_word_ariths)
  ultimately have "list_rep s' l (xs @ a # ys)"
    using rep new dist x s'(4-6) by (auto simp: list_rep_def ring_halves)
  then show ?thesis using s'(1,4,5) x(1) by auto
qed







lemma list_init_rep: "\<exists>s'. vListInitialise l s = Ok s' [] \<and> ((\<forall>a. pvContainer s a \<noteq> Some l) \<longrightarrow> list_rep s' l [])"
  by (simp add: vListInitialise_def list_rep_def ring_def nxt_def prv_def lval_def)

text \<open>\<open>vListInsertEnd\<close> is the linking step at the index, which it moves to the new item.\<close>

lemma insert_end_rep:
  assumes rep: "list_rep s l (xs @ ys)" and a: "nodes s (PItem a) \<noteq> None" "pvContainer s a \<noteq> Some l"
    and len: "Suc (length (xs @ ys)) < 2 ^ 32" and idx: "lists s l = Some x" "pxIndex x = last (lhalf l xs)"
  shows "\<exists>s' x'. vListInsertEnd l a s = Ok s' [] \<and> list_rep s' l (xs @ a # ys) \<and> lval s' = lval s \<and>
    lists s' l = Some x' \<and> pxIndex x' = PItem a"
proof -
  let ?p = "last (lhalf l xs)" let ?q = "hd (rhalf l ys)"
  obtain s' where s': "list_link_after l a ?p s = Ok s' []" "list_rep s' l (xs @ a # ys)" "lval s' = lval s"
    using link_after_rep [OF rep a len] by blast
  have "PItem a \<notin> set (lhalf l xs)" "PItem a \<notin> set (rhalf l ys)" using rep a(2) by (auto simp: list_rep_def in_halves)
  then have ne: "?p \<noteq> PItem a" "?q \<noteq> PItem a"
    using last_in_set [of "lhalf l xs"] hd_in_set [of "rhalf l ys"] by (auto simp: lhalf_def rhalf_def)
  obtain ni where ni: "nodes s ?p = Some ni" "pxNext ni = ?q" using list_rep_links(1) [OF rep] nodes_of(1) by blast
  obtain nq where nq: "nodes s ?q = Some nq" using list_rep_links(2) [OF rep] nodes_of(2) by blast
  obtain na where na: "nodes s (PItem a) = Some na" using a(1) by blast
  obtain x' where x': "lists s' l = Some x'" using s'(2) by (auto simp: list_rep_def)
  have "vListInsertEnd l a s = Ok (s'\<lparr>lists := (lists s')(l \<mapsto> x'\<lparr>pxIndex := PItem a\<rparr>)\<rparr>) []"
    using s'(1) ne ni nq na idx x'
    by (cases x; cases "?p = ?q")
      (auto simp: vListInsertEnd_def list_link_after_def lnode_of_def list_of_def set_next_def set_previous_def
        set_index_def add_items_def fun_upd_twist Let_def)
  moreover have "list_rep (s'\<lparr>lists := (lists s')(l \<mapsto> x'\<lparr>pxIndex := PItem a\<rparr>)\<rparr>) l (xs @ a # ys)"
    using s'(2) x' by (auto simp: list_rep_def ring_halves)
  ultimately show ?thesis using s'(3) by auto
qed

section \<open>Removal\<close>

lemma remove_rep:
  assumes rep: "list_rep s l (xs @ a # ys)"
  shows "\<exists>s'. vListRemove a s = Ok s' [] \<and> list_rep s' l (xs @ ys) \<and> lval s' = lval s \<and> pvContainer s' a = None"
proof -
  let ?p = "last (lhalf l xs)" let ?q = "hd (rhalf l ys)"
  have dist: "distinct (xs @ ys)" "a \<notin> set (xs @ ys)" and cont: "pvContainer s a = Some l" using rep by (auto simp: list_rep_def)
  note ap = halves_apart [OF dist(1), of l]
  have notin: "PItem a \<notin> set (lhalf l xs)" "PItem a \<notin> set (rhalf l ys)" using dist(2) by (simp_all add: in_halves)
  then have ne: "?p \<noteq> PItem a" "?q \<noteq> PItem a"
    using ap(1,2) last_in_set hd_in_set by metis+
  have "nxt s ?p = Some (PItem a)" "prv s (PItem a) = Some ?p" using list_rep_links(1,2) [OF rep] by simp_all
  moreover have "nxt s (PItem a) = Some ?q" "prv s ?q = Some (PItem a)"
    using list_rep_links(1,2) [of s l "xs @ [a]" ys] rep by (simp_all add: lhalf_def)
  ultimately obtain np na nq where n: "nodes s ?p = Some np" "nodes s (PItem a) = Some na" "nodes s ?q = Some nq"
      "pxPrevious na = ?p" "pxNext na = ?q"
    by (auto simp: nxt_def prv_def)
  obtain x where x: "lists s l = Some x" "unat (uxNumberOfItems x) = Suc (length (xs @ ys))" "pxIndex x \<in> set (ring l (xs @ a # ys))"
    using rep by (auto simp: list_rep_def)
  let ?x = "x\<lparr>pxIndex := (if pxIndex x = PItem a then ?p else pxIndex x), uxNumberOfItems := uxNumberOfItems x - 1\<rparr>"
  obtain s' where s': "vListRemove a s = Ok s' []" "nxt s' = (nxt s)(?p \<mapsto> ?q)" "prv s' = (prv s)(?q \<mapsto> ?p)" "lval s' = lval s"
      "lists s' = (lists s)(l \<mapsto> ?x)" "pvContainer s' = (pvContainer s)(a := None)"
    using n ne cont x(1)
    by (cases "?p = ?q"; cases "pxIndex x = PItem a")
      (auto simp: vListRemove_def lnode_of_def list_of_def set_next_def set_previous_def set_index_def add_items_def
        nxt_def prv_def lval_def fun_eq_iff)
  have "linked (nxt s') (prv s') (lhalf l xs @ rhalf l ys)"
    unfolding s'(2,3) using rep by (intro linked_remove [OF _ ap notin]) (simp add: list_rep_def ring_halves)
  moreover have "unat (uxNumberOfItems x - 1) = length (xs @ ys)"
    using x(2) unat_sub [of 1 "uxNumberOfItems x"] by (simp add: word_le_nat_alt)
  moreover have "?p \<in> set (lhalf l xs)" using last_in_set [OF ap(1)] .
  ultimately have "list_rep s' l (xs @ ys)"
    using rep dist x(3) s'(4-6) by (auto simp: list_rep_def ring_halves)
  then show ?thesis using s'(1,4,6) by auto
qed

section \<open>Walking\<close>

text \<open>On a list that is not empty the next entry is the item after the index, or the first one.\<close>

lemma index_step_ok:
  assumes "list_rep s l (xs @ ys)" and "lists s l = Some x" and "pxIndex x = last (lhalf l xs)"
  shows "index_step l s = Ok (s\<lparr>lists := (lists s)(l \<mapsto> x\<lparr>pxIndex := hd (rhalf l ys)\<rparr>)\<rparr>) []"
proof -
  obtain n where "nodes s (last (lhalf l xs)) = Some n" "pxNext n = hd (rhalf l ys)"
    using list_rep_links(1) [OF assms(1)] nodes_of(1) by blast
  then show ?thesis using assms(2,3) by (simp add: index_step_def list_of_def lnode_of_def set_index_def)
qed

lemma next_entry:
  assumes rep: "list_rep s l (xs @ b # ys)" and x: "lists s l = Some x" "pxIndex x = last (lhalf l xs)"
  shows "\<exists>s'. listGET_OWNER_OF_NEXT_ENTRY l s = Ok (s', pvOwner s b) [] \<and> list_rep s' l (xs @ b # ys)"
proof -
  let ?s = "s\<lparr>lists := (lists s)(l \<mapsto> x\<lparr>pxIndex := PItem b\<rparr>)\<rparr>"
  have "index_step l s = Ok ?s []" using index_step_ok [OF rep x] by simp
  moreover have "list_rep ?s l (xs @ b # ys)"
    using rep x(1) by (auto simp: list_rep_def ring_halves)
  ultimately show ?thesis by (simp add: listGET_OWNER_OF_NEXT_ENTRY_def list_of_def)
qed

section \<open>Examples\<close>




end
