(* ===== verification/Fw_Bus.thy ===== *)
theory Fw_Bus
  imports Machine
begin

text \<open>
  How a guest program reaches the devices: loads and stores at the addresses where the devices are
  mapped (\<open>memory.c\<close>) and at the bit-band alias of the peripherals (\<open>hw/arm/armv7m.c\<close>), and the volatile
  accesses of the firmware library in terms of them. The state of a guest program is the machine it
  runs on and its own variables.

  Accesses that no STM32 device takes (the private peripherals of the core, the flash controller, the
  devices the emulator does not have) are answered by \<open>fw_ext\<close>, an arbitrary function of the stores
  made there before; the stores are kept in \<open>fw_ext_log\<close>.
\<close>

section \<open>Loads and stores\<close>

text \<open>No device restricts the accesses it takes by a function \<open>accepts\<close>, so that only the alignment
  counts.\<close>

definition memory_region_access_valid :: "nat \<Rightarrow> nat \<Rightarrow> bool" where
  "memory_region_access_valid addr sz \<longleftrightarrow> addr mod sz = 0"

fun stm32_dev_read :: "stm32_dev \<Rightarrow> nat \<Rightarrow> nat \<Rightarrow> Stm32 \<Rightarrow> (u64 \<times> Stm32) run" where
  "stm32_dev_read DevRcc offset sz m = run_map (\<lambda>v. (v, m)) (stm32_rcc_read (m_rcc m) offset sz)"
| "stm32_dev_read (DevGpio i) offset sz m =
     (if i < length (m_gpio m) then run_map (\<lambda>v. (v, m)) (stm32_gpio_read (m_gpio m ! i) offset sz)
      else Stop OutOfBounds [])"
| "stm32_dev_read DevExti offset sz m = run_map (\<lambda>v. (v, m)) (stm32_exti_read (m_exti m) offset sz)"
| "stm32_dev_read DevAfio offset sz m = run_map (\<lambda>v. (v, m)) (stm32_afio_read (m_rcc m) (m_afio m) offset sz)"
| "stm32_dev_read (DevUart i) offset sz m =
     (if i < length (m_uart m)
      then run_map (\<lambda>(u, v). (v, m\<lparr>m_uart := (m_uart m)[i := u]\<rparr>)) (stm32_uart_read (m_uart m ! i) offset sz)
      else Stop OutOfBounds [])"

type_synonym ext_store = "nat \<times> nat \<times> u32"

record Fw =
  fw_m :: Stm32
  fw_ext :: "ext_store list \<Rightarrow> nat \<Rightarrow> nat \<Rightarrow> u32"
  fw_ext_log :: "ext_store list"

definition memory_region_dispatch_read :: "stm32_dev \<Rightarrow> nat \<Rightarrow> nat \<Rightarrow> Stm32 \<Rightarrow> (u64 \<times> Stm32) run" where
  "memory_region_dispatch_read d addr sz m =
     (if memory_region_access_valid addr sz
      then (case stm32_dev_read d addr sz m of
              Ok (v, m') es \<Rightarrow> run_map (Pair (take_bit (8 * sz) v)) (stm32_dispatch 3 es m')
            | Stop x es \<Rightarrow> Stop x es)
      else Ok (0, m) [])"

definition memory_region_dispatch_write :: "stm32_dev \<Rightarrow> nat \<Rightarrow> u64 \<Rightarrow> nat \<Rightarrow> Stm32 \<Rightarrow> Stm32 run" where
  "memory_region_dispatch_write d addr data sz m =
     (if memory_region_access_valid addr sz
      then stm32_run (stm32_dev_write d addr (take_bit (8 * sz) data) sz) m
      else Ok m [])"

definition memory_read :: "nat \<Rightarrow> nat \<Rightarrow> 'z Fw_scheme \<Rightarrow> (u32 \<times> 'z Fw_scheme) run" where
  "memory_read sz a s =
     (case stm32_region_at a (fw_m s) of
        Some (base, len, d) \<Rightarrow>
          run_map (\<lambda>(v, m). (ucast v, s\<lparr>fw_m := m\<rparr>)) (memory_region_dispatch_read d (a - base) sz (fw_m s))
      | None \<Rightarrow> Ok (fw_ext s (fw_ext_log s) a sz, s) [])"

definition memory_write :: "nat \<Rightarrow> nat \<Rightarrow> u32 \<Rightarrow> 'z Fw_scheme \<Rightarrow> 'z Fw_scheme run" where
  "memory_write sz a v s =
     (case stm32_region_at a (fw_m s) of
        Some (base, len, d) \<Rightarrow>
          run_map (\<lambda>m. s\<lparr>fw_m := m\<rparr>) (memory_region_dispatch_write d (a - base) (ucast v) sz (fw_m s))
      | None \<Rightarrow> Ok (s\<lparr>fw_ext_log := fw_ext_log s @ [(a, sz, v)]\<rparr>) [])"

section \<open>Bit-band alias\<close>

definition bitband_addr :: "nat \<Rightarrow> nat \<Rightarrow> nat" where
  "bitband_addr base addr = unat (of_nat base OR drop_bit 5 (of_nat addr AND 0x1ffffff) :: u32)"

definition bitband_writel :: "nat \<Rightarrow> nat \<Rightarrow> u32 \<Rightarrow> 'z Fw_scheme \<Rightarrow> 'z Fw_scheme run" where
  "bitband_writel base offset value s =
     (let addr = bitband_addr base offset - bitband_addr base offset mod 4;
          mask = push_bit (offset div 4 mod 32) 1
      in run_bind (memory_read 4 addr s) (\<lambda>(v, s).
           memory_write 4 addr (if value AND 1 \<noteq> 0 then v OR mask else v AND NOT mask) s))"

section \<open>Volatile accesses\<close>

text \<open>\<open>*a = v\<close>, a load whose value the rest of the block uses, and the compound assignments \<open>*a |= v\<close> and
  \<open>*a &= v\<close>, for an object of \<open>sz\<close> bytes; \<open>bb_write\<close> is a store in the alias of the peripherals.\<close>

definition reg_write :: "nat \<Rightarrow> nat \<Rightarrow> u32 \<Rightarrow> 'z Fw_scheme \<Rightarrow> 'z Fw_scheme run" where
  "reg_write sz a v = memory_write sz a (take_bit (8 * sz) v)"

definition reg_read :: "nat \<Rightarrow> nat \<Rightarrow> (u32 \<Rightarrow> 'z Fw_scheme \<Rightarrow> 'a run) \<Rightarrow> 'z Fw_scheme \<Rightarrow> 'a run" where
  "reg_read sz a k s = run_bind (memory_read sz a s) (\<lambda>(v, s). k v s)"

definition reg_or :: "nat \<Rightarrow> nat \<Rightarrow> u32 \<Rightarrow> 'z Fw_scheme \<Rightarrow> 'z Fw_scheme run" where
  "reg_or sz a v = reg_read sz a (\<lambda>x. reg_write sz a (x OR v))"

definition reg_and :: "nat \<Rightarrow> nat \<Rightarrow> u32 \<Rightarrow> 'z Fw_scheme \<Rightarrow> 'z Fw_scheme run" where
  "reg_and sz a v = reg_read sz a (\<lambda>x. reg_write sz a (x AND v))"

abbreviation (input) PERIPH_BASE :: nat where "PERIPH_BASE \<equiv> 0x40000000"
abbreviation (input) PERIPH_BB_BASE :: nat where "PERIPH_BB_BASE \<equiv> 0x42000000"

definition bb_write :: "nat \<Rightarrow> u32 \<Rightarrow> 'z Fw_scheme \<Rightarrow> 'z Fw_scheme run" where
  "bb_write a v = bitband_writel PERIPH_BASE (a - PERIPH_BB_BASE) v"

end
