(* ===== verification/Fw_Rcc.thy ===== *)
theory Fw_Rcc
  imports Fw_Bus
begin

text \<open>
  The clock driver of the firmware library, \<open>stm32f10x_rcc.c\<close>, for a medium density device
  (\<open>STM32F10X_MD\<close>), and the start-up code \<open>system_stm32f10x.c\<close>. \<open>assert_param\<close> is empty in both
  configurations of the demos. A function that returns a value returns it with the state.
\<close>

section \<open>Registers\<close>

abbreviation (input) pRCC_CR :: nat where "pRCC_CR \<equiv> 0x40021000"
abbreviation (input) pRCC_CFGR :: nat where "pRCC_CFGR \<equiv> 0x40021004"
abbreviation (input) pRCC_CIR :: nat where "pRCC_CIR \<equiv> 0x40021008"
abbreviation (input) pRCC_APB2RSTR :: nat where "pRCC_APB2RSTR \<equiv> 0x4002100C"
abbreviation (input) pRCC_APB1RSTR :: nat where "pRCC_APB1RSTR \<equiv> 0x40021010"
abbreviation (input) pRCC_AHBENR :: nat where "pRCC_AHBENR \<equiv> 0x40021014"
abbreviation (input) pRCC_APB2ENR :: nat where "pRCC_APB2ENR \<equiv> 0x40021018"
abbreviation (input) pRCC_APB1ENR :: nat where "pRCC_APB1ENR \<equiv> 0x4002101C"
abbreviation (input) pRCC_BDCR :: nat where "pRCC_BDCR \<equiv> 0x40021020"
abbreviation (input) pRCC_CSR :: nat where "pRCC_CSR \<equiv> 0x40021024"
abbreviation (input) CIR_BYTE2_ADDRESS :: nat where "CIR_BYTE2_ADDRESS \<equiv> 0x40021009"
abbreviation (input) CIR_BYTE3_ADDRESS :: nat where "CIR_BYTE3_ADDRESS \<equiv> 0x4002100A"
abbreviation (input) CFGR_BYTE4_ADDRESS :: nat where "CFGR_BYTE4_ADDRESS \<equiv> 0x40021007"

text \<open>The alias address of bit \<open>n\<close> of a peripheral register.\<close>

definition BB :: "nat \<Rightarrow> nat \<Rightarrow> nat" where
  "BB a n = PERIPH_BB_BASE + (a - PERIPH_BASE) * 32 + n * 4"

section \<open>Oscillators\<close>

definition RCC_DeInit :: "'z Fw_scheme \<Rightarrow> 'z Fw_scheme run" where
  "RCC_DeInit = run_seq
     [reg_or 4 pRCC_CR 0x00000001,
      reg_and 4 pRCC_CFGR 0xF8FF0000,
      reg_and 4 pRCC_CR 0xFEF6FFFF,
      reg_and 4 pRCC_CR 0xFFFBFFFF,
      reg_and 4 pRCC_CFGR 0xFF80FFFF,
      reg_write 4 pRCC_CIR 0x009F0000]"

definition RCC_HSEConfig :: "u32 \<Rightarrow> 'z Fw_scheme \<Rightarrow> 'z Fw_scheme run" where
  "RCC_HSEConfig RCC_HSE = run_seq
     [reg_and 4 pRCC_CR 0xFFFEFFFF,
      reg_and 4 pRCC_CR 0xFFFBFFFF,
      if RCC_HSE = 0x00010000 then reg_or 4 pRCC_CR 0x00010000
      else if RCC_HSE = 0x00040000 then reg_or 4 pRCC_CR (0x00040000 OR 0x00010000)
      else (\<lambda>s. Ok s [])]"

definition RCC_GetFlagStatus :: "u8 \<Rightarrow> 'z Fw_scheme \<Rightarrow> (bool \<times> 'z Fw_scheme) run" where
  "RCC_GetFlagStatus RCC_FLAG =
     (let tmp = drop_bit 5 RCC_FLAG
      in reg_read 4 (if tmp = 1 then pRCC_CR else if tmp = 2 then pRCC_BDCR else pRCC_CSR) (\<lambda>statusreg s.
           Ok (statusreg AND push_bit (unat (RCC_FLAG AND 0x1F)) 1 \<noteq> 0, s) []))"

abbreviation (input) HSE_STARTUP_TIMEOUT :: u32 where "HSE_STARTUP_TIMEOUT \<equiv> 0x500"
abbreviation (input) RCC_FLAG_HSERDY :: u8 where "RCC_FLAG_HSERDY \<equiv> 0x31"

text \<open>The loop \<open>do \<dots> while ((StartUpCounter != HSE_STARTUP_TIMEOUT) && (HSEStatus == RESET))\<close>, whose
  argument is the number of turns the counter leaves.\<close>

fun wait_hse_loop :: "nat \<Rightarrow> 'z Fw_scheme \<Rightarrow> 'z Fw_scheme run" where
  "wait_hse_loop 0 s = Ok s []"
| "wait_hse_loop (Suc n) s = run_bind (RCC_GetFlagStatus RCC_FLAG_HSERDY s) (\<lambda>(HSEStatus, s).
     if HSEStatus then Ok s [] else wait_hse_loop n s)"

definition RCC_WaitForHSEStartUp :: "'z Fw_scheme \<Rightarrow> (bool \<times> 'z Fw_scheme) run" where
  "RCC_WaitForHSEStartUp s =
     run_bind (wait_hse_loop (unat HSE_STARTUP_TIMEOUT) s) (RCC_GetFlagStatus RCC_FLAG_HSERDY)"

definition RCC_AdjustHSICalibrationValue :: "u8 \<Rightarrow> 'z Fw_scheme \<Rightarrow> 'z Fw_scheme run" where
  "RCC_AdjustHSICalibrationValue v =
     reg_read 4 pRCC_CR (\<lambda>tmpreg. reg_write 4 pRCC_CR ((tmpreg AND 0xFFFFFF07) OR push_bit 3 (ucast v)))"

definition RCC_HSICmd :: "bool \<Rightarrow> 'z Fw_scheme \<Rightarrow> 'z Fw_scheme run" where
  "RCC_HSICmd NewState = bb_write (BB pRCC_CR 0) (of_bool NewState)"

definition RCC_PLLConfig :: "u32 \<Rightarrow> u32 \<Rightarrow> 'z Fw_scheme \<Rightarrow> 'z Fw_scheme run" where
  "RCC_PLLConfig RCC_PLLSource RCC_PLLMul =
     reg_read 4 pRCC_CFGR (\<lambda>tmpreg. reg_write 4 pRCC_CFGR ((tmpreg AND 0xFFC0FFFF) OR (RCC_PLLSource OR RCC_PLLMul)))"

definition RCC_PLLCmd :: "bool \<Rightarrow> 'z Fw_scheme \<Rightarrow> 'z Fw_scheme run" where
  "RCC_PLLCmd NewState = bb_write (BB pRCC_CR 0x18) (of_bool NewState)"

definition RCC_LSEConfig :: "u8 \<Rightarrow> 'z Fw_scheme \<Rightarrow> 'z Fw_scheme run" where
  "RCC_LSEConfig RCC_LSE = run_seq
     [reg_write 1 pRCC_BDCR 0,
      reg_write 1 pRCC_BDCR 0,
      if RCC_LSE = 0x01 then reg_write 1 pRCC_BDCR 0x01
      else if RCC_LSE = 0x04 then reg_write 1 pRCC_BDCR (0x04 OR 0x01)
      else (\<lambda>s. Ok s [])]"

definition RCC_LSICmd :: "bool \<Rightarrow> 'z Fw_scheme \<Rightarrow> 'z Fw_scheme run" where
  "RCC_LSICmd NewState = bb_write (BB pRCC_CSR 0) (of_bool NewState)"

definition RCC_RTCCLKConfig :: "u32 \<Rightarrow> 'z Fw_scheme \<Rightarrow> 'z Fw_scheme run" where
  "RCC_RTCCLKConfig RCC_RTCCLKSource = reg_or 4 pRCC_BDCR RCC_RTCCLKSource"

definition RCC_RTCCLKCmd :: "bool \<Rightarrow> 'z Fw_scheme \<Rightarrow> 'z Fw_scheme run" where
  "RCC_RTCCLKCmd NewState = bb_write (BB pRCC_BDCR 0x0F) (of_bool NewState)"

definition RCC_BackupResetCmd :: "bool \<Rightarrow> 'z Fw_scheme \<Rightarrow> 'z Fw_scheme run" where
  "RCC_BackupResetCmd NewState = bb_write (BB pRCC_BDCR 0x10) (of_bool NewState)"

definition RCC_ClockSecuritySystemCmd :: "bool \<Rightarrow> 'z Fw_scheme \<Rightarrow> 'z Fw_scheme run" where
  "RCC_ClockSecuritySystemCmd NewState = bb_write (BB pRCC_CR 0x13) (of_bool NewState)"

section \<open>System clock and prescalers\<close>

definition RCC_SYSCLKConfig :: "u32 \<Rightarrow> 'z Fw_scheme \<Rightarrow> 'z Fw_scheme run" where
  "RCC_SYSCLKConfig RCC_SYSCLKSource =
     reg_read 4 pRCC_CFGR (\<lambda>tmpreg. reg_write 4 pRCC_CFGR ((tmpreg AND 0xFFFFFFFC) OR RCC_SYSCLKSource))"

definition RCC_GetSYSCLKSource :: "'z Fw_scheme \<Rightarrow> (u8 \<times> 'z Fw_scheme) run" where
  "RCC_GetSYSCLKSource = reg_read 4 pRCC_CFGR (\<lambda>v s. Ok (ucast (v AND 0x0000000C), s) [])"

definition RCC_HCLKConfig :: "u32 \<Rightarrow> 'z Fw_scheme \<Rightarrow> 'z Fw_scheme run" where
  "RCC_HCLKConfig RCC_SYSCLK =
     reg_read 4 pRCC_CFGR (\<lambda>tmpreg. reg_write 4 pRCC_CFGR ((tmpreg AND 0xFFFFFF0F) OR RCC_SYSCLK))"

definition RCC_PCLK1Config :: "u32 \<Rightarrow> 'z Fw_scheme \<Rightarrow> 'z Fw_scheme run" where
  "RCC_PCLK1Config RCC_HCLK =
     reg_read 4 pRCC_CFGR (\<lambda>tmpreg. reg_write 4 pRCC_CFGR ((tmpreg AND 0xFFFFF8FF) OR RCC_HCLK))"

definition RCC_PCLK2Config :: "u32 \<Rightarrow> 'z Fw_scheme \<Rightarrow> 'z Fw_scheme run" where
  "RCC_PCLK2Config RCC_HCLK =
     reg_read 4 pRCC_CFGR (\<lambda>tmpreg. reg_write 4 pRCC_CFGR ((tmpreg AND 0xFFFFC7FF) OR push_bit 3 RCC_HCLK))"

definition RCC_USBCLKConfig :: "u32 \<Rightarrow> 'z Fw_scheme \<Rightarrow> 'z Fw_scheme run" where
  "RCC_USBCLKConfig RCC_USBCLKSource = bb_write (BB pRCC_CFGR 0x16) RCC_USBCLKSource"

definition RCC_ADCCLKConfig :: "u32 \<Rightarrow> 'z Fw_scheme \<Rightarrow> 'z Fw_scheme run" where
  "RCC_ADCCLKConfig RCC_PCLK2 =
     reg_read 4 pRCC_CFGR (\<lambda>tmpreg. reg_write 4 pRCC_CFGR ((tmpreg AND 0xFFFF3FFF) OR RCC_PCLK2))"

definition RCC_MCOConfig :: "u8 \<Rightarrow> 'z Fw_scheme \<Rightarrow> 'z Fw_scheme run" where
  "RCC_MCOConfig RCC_MCO = reg_write 1 CFGR_BYTE4_ADDRESS (ucast RCC_MCO)"

section \<open>Frequencies\<close>

record RCC_ClocksTypeDef =
  SYSCLK_Frequency :: u32
  HCLK_Frequency :: u32
  PCLK1_Frequency :: u32
  PCLK2_Frequency :: u32
  ADCCLK_Frequency :: u32

abbreviation (input) HSI_VALUE :: u32 where "HSI_VALUE \<equiv> 8000000"
abbreviation (input) HSE_VALUE :: u32 where "HSE_VALUE \<equiv> 8000000"

definition APBAHBPrescTable :: "nat list" where
  "APBAHBPrescTable = [0, 0, 0, 0, 1, 2, 3, 4, 1, 2, 3, 4, 6, 7, 8, 9]"

definition ADCPrescTable :: "u32 list" where
  "ADCPrescTable = [2, 4, 6, 8]"

text \<open>The system clock: a switch over the source, with a load of CFGR for each of its parts.\<close>

definition clocks_sysclk :: "(u32 \<Rightarrow> 'z Fw_scheme \<Rightarrow> 'a run) \<Rightarrow> 'z Fw_scheme \<Rightarrow> 'a run" where
  "clocks_sysclk k = reg_read 4 pRCC_CFGR (\<lambda>v.
     let tmp = v AND 0x0000000C
     in if tmp = 0x00 then k HSI_VALUE
        else if tmp = 0x04 then k HSE_VALUE
        else if tmp = 0x08 then
          reg_read 4 pRCC_CFGR (\<lambda>v. let pllmull = v AND 0x003C0000 in
          reg_read 4 pRCC_CFGR (\<lambda>v. let pllsource = v AND 0x00010000; pllmull = drop_bit 18 pllmull + 2 in
            if pllsource = 0 then k (drop_bit 1 HSI_VALUE * pllmull)
            else reg_read 4 pRCC_CFGR (\<lambda>v.
              if v AND 0x00020000 \<noteq> 0 then k (drop_bit 1 HSE_VALUE * pllmull) else k (HSE_VALUE * pllmull))))
        else k HSI_VALUE)"

definition RCC_GetClocksFreq :: "'z Fw_scheme \<Rightarrow> (RCC_ClocksTypeDef \<times> 'z Fw_scheme) run" where
  "RCC_GetClocksFreq = clocks_sysclk (\<lambda>sysclk.
     reg_read 4 pRCC_CFGR (\<lambda>v. let hclk = drop_bit (APBAHBPrescTable ! unat (drop_bit 4 (v AND 0x000000F0))) sysclk in
     reg_read 4 pRCC_CFGR (\<lambda>v. let pclk1 = drop_bit (APBAHBPrescTable ! unat (drop_bit 8 (v AND 0x00000700))) hclk in
     reg_read 4 pRCC_CFGR (\<lambda>v. let pclk2 = drop_bit (APBAHBPrescTable ! unat (drop_bit 11 (v AND 0x00003800))) hclk in
     reg_read 4 pRCC_CFGR (\<lambda>v s.
       Ok (\<lparr>SYSCLK_Frequency = sysclk, HCLK_Frequency = hclk, PCLK1_Frequency = pclk1, PCLK2_Frequency = pclk2,
            ADCCLK_Frequency = pclk2 div ADCPrescTable ! unat (drop_bit 14 (v AND 0x0000C000))\<rparr>, s) [])))))"

section \<open>Peripheral clocks, resets and interrupts\<close>

definition RCC_AHBPeriphClockCmd :: "u32 \<Rightarrow> bool \<Rightarrow> 'z Fw_scheme \<Rightarrow> 'z Fw_scheme run" where
  "RCC_AHBPeriphClockCmd RCC_AHBPeriph NewState =
     (if NewState then reg_or 4 pRCC_AHBENR RCC_AHBPeriph else reg_and 4 pRCC_AHBENR (NOT RCC_AHBPeriph))"

definition RCC_APB2PeriphClockCmd :: "u32 \<Rightarrow> bool \<Rightarrow> 'z Fw_scheme \<Rightarrow> 'z Fw_scheme run" where
  "RCC_APB2PeriphClockCmd RCC_APB2Periph NewState =
     (if NewState then reg_or 4 pRCC_APB2ENR RCC_APB2Periph else reg_and 4 pRCC_APB2ENR (NOT RCC_APB2Periph))"

definition RCC_APB1PeriphClockCmd :: "u32 \<Rightarrow> bool \<Rightarrow> 'z Fw_scheme \<Rightarrow> 'z Fw_scheme run" where
  "RCC_APB1PeriphClockCmd RCC_APB1Periph NewState =
     (if NewState then reg_or 4 pRCC_APB1ENR RCC_APB1Periph else reg_and 4 pRCC_APB1ENR (NOT RCC_APB1Periph))"

definition RCC_APB2PeriphResetCmd :: "u32 \<Rightarrow> bool \<Rightarrow> 'z Fw_scheme \<Rightarrow> 'z Fw_scheme run" where
  "RCC_APB2PeriphResetCmd RCC_APB2Periph NewState =
     (if NewState then reg_or 4 pRCC_APB2RSTR RCC_APB2Periph else reg_and 4 pRCC_APB2RSTR (NOT RCC_APB2Periph))"

definition RCC_APB1PeriphResetCmd :: "u32 \<Rightarrow> bool \<Rightarrow> 'z Fw_scheme \<Rightarrow> 'z Fw_scheme run" where
  "RCC_APB1PeriphResetCmd RCC_APB1Periph NewState =
     (if NewState then reg_or 4 pRCC_APB1RSTR RCC_APB1Periph else reg_and 4 pRCC_APB1RSTR (NOT RCC_APB1Periph))"

definition RCC_ITConfig :: "u8 \<Rightarrow> bool \<Rightarrow> 'z Fw_scheme \<Rightarrow> 'z Fw_scheme run" where
  "RCC_ITConfig RCC_IT NewState =
     (if NewState then reg_or 1 CIR_BYTE2_ADDRESS (ucast RCC_IT) else reg_and 1 CIR_BYTE2_ADDRESS (ucast (NOT RCC_IT)))"

definition RCC_ClearFlag :: "'z Fw_scheme \<Rightarrow> 'z Fw_scheme run" where
  "RCC_ClearFlag = reg_or 4 pRCC_CSR 0x01000000"

definition RCC_GetITStatus :: "u8 \<Rightarrow> 'z Fw_scheme \<Rightarrow> (bool \<times> 'z Fw_scheme) run" where
  "RCC_GetITStatus RCC_IT = reg_read 4 pRCC_CIR (\<lambda>v s. Ok (v AND ucast RCC_IT \<noteq> 0, s) [])"

definition RCC_ClearITPendingBit :: "u8 \<Rightarrow> 'z Fw_scheme \<Rightarrow> 'z Fw_scheme run" where
  "RCC_ClearITPendingBit RCC_IT = reg_write 1 CIR_BYTE3_ADDRESS (ucast RCC_IT)"

section \<open>Start-up\<close>

text \<open>The global variable \<open>SystemCoreClock\<close> is a part of the state of the program.\<close>

record FwSys = Fw +
  SystemCoreClock :: u32

definition AHBPrescTable :: "nat list" where
  "AHBPrescTable = [0, 0, 0, 0, 0, 0, 0, 0, 1, 2, 3, 4, 6, 7, 8, 9]"

definition SystemCoreClockUpdate :: "'z FwSys_scheme \<Rightarrow> 'z FwSys_scheme run" where
  "SystemCoreClockUpdate = clocks_sysclk (\<lambda>sysclk s. run_bind (Ok (s\<lparr>SystemCoreClock := sysclk\<rparr>) [])
     (reg_read 4 pRCC_CFGR (\<lambda>v s.
       let tmp = AHBPrescTable ! unat (drop_bit 4 (v AND 0x000000F0))
       in Ok (s\<lparr>SystemCoreClock := drop_bit tmp (SystemCoreClock s)\<rparr>) [])))"

end
