(* ===== verification/Fw_System.thy ===== *)
theory Fw_System
  imports Fw_Rcc
begin

text \<open>
  The start-up code \<open>system_stm32f10x.c\<close> of a program: \<open>SystemInit\<close> runs before \<open>main\<close> and sets the
  system clock to 72 MHz. Two of its loops wait without a limit for a bit of a register: the value
  \<open>None\<close> is a loop that does not end.
\<close>

section \<open>Blocks that may not return\<close>

definition wait_bind :: "'s run option \<Rightarrow> ('s \<Rightarrow> 't run option) \<Rightarrow> 't run option" where
  "wait_bind r f =
     (case r of
        None \<Rightarrow> None
      | Some (Stop x es) \<Rightarrow> Some (Stop x es)
      | Some (Ok s es) \<Rightarrow> map_option (run_emit es) (f s))"

fun wait_seq :: "('s \<Rightarrow> 's run option) list \<Rightarrow> 's \<Rightarrow> 's run option" where
  "wait_seq [] s = Some (Ok s [])"
| "wait_seq (f # fs) s = wait_bind (f s) (wait_seq fs)"

definition plain :: "('s \<Rightarrow> 's run) \<Rightarrow> 's \<Rightarrow> 's run option" where
  "plain f s = Some (f s)"

text \<open>\<open>while ((*a & msk) != v) { }\<close>\<close>

partial_function (option) reg_wait :: "nat \<Rightarrow> u32 \<Rightarrow> u32 \<Rightarrow> 'z Fw_scheme \<Rightarrow> 'z Fw_scheme run option" where
  "reg_wait a msk v s =
     (case memory_read 4 a s of
        Stop x es \<Rightarrow> Some (Stop x es)
      | Ok (x, s') es \<Rightarrow>
          if x AND msk = v then Some (Ok s' es)
          else Option.bind (reg_wait a msk v s') (\<lambda>r. Some (run_emit es r)))"

declare reg_wait.simps [code]

section \<open>System clock\<close>

abbreviation (input) pFLASH_ACR :: nat where "pFLASH_ACR \<equiv> 0x40022000"
abbreviation (input) pSCB_VTOR :: nat where "pSCB_VTOR \<equiv> 0xE000ED08"

text \<open>\<open>do { HSEStatus = RCC->CR & RCC_CR_HSERDY; \<dots> } while (\<dots>)\<close>, whose argument is the number of turns the
  counter leaves.\<close>

fun hse_ready_loop :: "nat \<Rightarrow> 'z Fw_scheme \<Rightarrow> 'z Fw_scheme run" where
  "hse_ready_loop 0 s = Ok s []"
| "hse_ready_loop (Suc n) s = reg_read 4 pRCC_CR (\<lambda>v s.
     if v AND 0x00020000 \<noteq> 0 then Ok s [] else hse_ready_loop n s) s"

text \<open>The branch \<open>HSEStatus == 0x01\<close>.\<close>

definition set_sysclk_pll :: "'z Fw_scheme \<Rightarrow> 'z Fw_scheme run option" where
  "set_sysclk_pll = wait_seq
     [plain (reg_or 4 pFLASH_ACR 0x10),
      plain (reg_and 4 pFLASH_ACR (NOT 0x03)),
      plain (reg_or 4 pFLASH_ACR 0x02),
      plain (reg_or 4 pRCC_CFGR 0x00000000),
      plain (reg_or 4 pRCC_CFGR 0x00000000),
      plain (reg_or 4 pRCC_CFGR 0x00000400),
      plain (reg_and 4 pRCC_CFGR (NOT (0x00010000 OR 0x00020000 OR 0x003C0000))),
      plain (reg_or 4 pRCC_CFGR (0x00010000 OR 0x001C0000)),
      plain (reg_or 4 pRCC_CR 0x01000000),
      \<comment> \<open>the loop runs while the bit is 0\<close>
      reg_wait pRCC_CR 0x02000000 0x02000000,
      plain (reg_and 4 pRCC_CFGR (NOT 0x00000003)),
      plain (reg_or 4 pRCC_CFGR 0x00000002),
      reg_wait pRCC_CFGR 0x0000000C 0x08]"

definition SetSysClockTo72 :: "'z Fw_scheme \<Rightarrow> 'z Fw_scheme run option" where
  "SetSysClockTo72 = wait_seq
     [plain (reg_or 4 pRCC_CR 0x00010000),
      plain (hse_ready_loop (unat HSE_STARTUP_TIMEOUT)),
      \<lambda>s. wait_bind (Some (memory_read 4 pRCC_CR s)) (\<lambda>(v, s).
        if v AND 0x00020000 \<noteq> 0 then set_sysclk_pll s else Some (Ok s []))]"

definition SetSysClock :: "'z Fw_scheme \<Rightarrow> 'z Fw_scheme run option" where
  "SetSysClock = SetSysClockTo72"

definition SystemInit :: "'z Fw_scheme \<Rightarrow> 'z Fw_scheme run option" where
  "SystemInit = wait_seq
     [plain (reg_or 4 pRCC_CR 0x00000001),
      plain (reg_and 4 pRCC_CFGR 0xF8FF0000),
      plain (reg_and 4 pRCC_CR 0xFEF6FFFF),
      plain (reg_and 4 pRCC_CR 0xFFFBFFFF),
      plain (reg_and 4 pRCC_CFGR 0xFF80FFFF),
      plain (reg_write 4 pRCC_CIR 0x009F0000),
      SetSysClock,
      plain (reg_write 4 pSCB_VTOR (0x08000000 OR 0x0))]"

end
