(* ===== verification/Fw_Gpio.thy ===== *)
theory Fw_Gpio
  imports Fw_Rcc
begin

text \<open>
  The drivers of the firmware library for the ports (\<open>stm32f10x_gpio.c\<close>), the external interrupt
  controller (\<open>stm32f10x_exti.c\<close>) and the interrupt controller of the core (\<open>misc.c\<close>). A pointer
  \<open>GPIOx\<close> is the address of the registers of the port.
\<close>

section \<open>Ports\<close>

abbreviation (input) GPIOA :: nat where "GPIOA \<equiv> 0x40010800"
abbreviation (input) GPIOB :: nat where "GPIOB \<equiv> 0x40010C00"
abbreviation (input) GPIOC :: nat where "GPIOC \<equiv> 0x40011000"
abbreviation (input) GPIOD :: nat where "GPIOD \<equiv> 0x40011400"
abbreviation (input) GPIOE :: nat where "GPIOE \<equiv> 0x40011800"
abbreviation (input) GPIOF :: nat where "GPIOF \<equiv> 0x40011C00"
abbreviation (input) GPIOG :: nat where "GPIOG \<equiv> 0x40012000"
abbreviation (input) pCRL :: nat where "pCRL \<equiv> 0x00"
abbreviation (input) pCRH :: nat where "pCRH \<equiv> 0x04"
abbreviation (input) pIDR :: nat where "pIDR \<equiv> 0x08"
abbreviation (input) pODR :: nat where "pODR \<equiv> 0x0C"
abbreviation (input) pBSRR :: nat where "pBSRR \<equiv> 0x10"
abbreviation (input) pBRR :: nat where "pBRR \<equiv> 0x14"
abbreviation (input) pLCKR :: nat where "pLCKR \<equiv> 0x18"
abbreviation (input) RCC_APB2Periph_AFIO :: u32 where "RCC_APB2Periph_AFIO \<equiv> 0x00000001"
abbreviation (input) RCC_APB2Periph_GPIOA :: u32 where "RCC_APB2Periph_GPIOA \<equiv> 0x00000004"
abbreviation (input) RCC_APB2Periph_GPIOB :: u32 where "RCC_APB2Periph_GPIOB \<equiv> 0x00000008"
abbreviation (input) RCC_APB2Periph_GPIOC :: u32 where "RCC_APB2Periph_GPIOC \<equiv> 0x00000010"
abbreviation (input) RCC_APB2Periph_GPIOD :: u32 where "RCC_APB2Periph_GPIOD \<equiv> 0x00000020"
abbreviation (input) RCC_APB2Periph_GPIOE :: u32 where "RCC_APB2Periph_GPIOE \<equiv> 0x00000040"
abbreviation (input) RCC_APB2Periph_GPIOF :: u32 where "RCC_APB2Periph_GPIOF \<equiv> 0x00000080"
abbreviation (input) RCC_APB2Periph_GPIOG :: u32 where "RCC_APB2Periph_GPIOG \<equiv> 0x00000100"

abbreviation (input) GPIO_Mode_AIN :: u32 where "GPIO_Mode_AIN \<equiv> 0x0"
abbreviation (input) GPIO_Mode_IN_FLOATING :: u32 where "GPIO_Mode_IN_FLOATING \<equiv> 0x04"
abbreviation (input) GPIO_Mode_IPD :: u32 where "GPIO_Mode_IPD \<equiv> 0x28"
abbreviation (input) GPIO_Mode_IPU :: u32 where "GPIO_Mode_IPU \<equiv> 0x48"
abbreviation (input) GPIO_Mode_Out_PP :: u32 where "GPIO_Mode_Out_PP \<equiv> 0x10"
abbreviation (input) GPIO_Mode_AF_PP :: u32 where "GPIO_Mode_AF_PP \<equiv> 0x18"
abbreviation (input) GPIO_Speed_2MHz :: u32 where "GPIO_Speed_2MHz \<equiv> 2"
abbreviation (input) GPIO_Speed_50MHz :: u32 where "GPIO_Speed_50MHz \<equiv> 3"

record GPIO_InitTypeDef =
  GPIO_Pin :: u16
  GPIO_Speed :: u32
  GPIO_Mode :: u32

definition GPIO_DeInit :: "nat \<Rightarrow> 'z Fw_scheme \<Rightarrow> 'z Fw_scheme run" where
  "GPIO_DeInit GPIOx =
     (let pulse = (\<lambda>p. run_seq [RCC_APB2PeriphResetCmd p True, RCC_APB2PeriphResetCmd p False])
      in if GPIOx = GPIOA then pulse RCC_APB2Periph_GPIOA
         else if GPIOx = GPIOB then pulse RCC_APB2Periph_GPIOB
         else if GPIOx = GPIOC then pulse RCC_APB2Periph_GPIOC
         else if GPIOx = GPIOD then pulse RCC_APB2Periph_GPIOD
         else if GPIOx = GPIOE then pulse RCC_APB2Periph_GPIOE
         else if GPIOx = GPIOF then pulse RCC_APB2Periph_GPIOF
         else if GPIOx = GPIOG then pulse RCC_APB2Periph_GPIOG
         else (\<lambda>s. Ok s []))"

definition GPIO_AFIODeInit :: "'z Fw_scheme \<Rightarrow> 'z Fw_scheme run" where
  "GPIO_AFIODeInit = run_seq
     [RCC_APB2PeriphResetCmd RCC_APB2Periph_AFIO True, RCC_APB2PeriphResetCmd RCC_APB2Periph_AFIO False]"

text \<open>One turn of the loops over the eight pins of a configuration register; \<open>shift\<close> is 0 for CRL and 8
  for CRH. The state of the loop is \<open>tmpreg\<close> and the program.\<close>

definition gpio_init_pin ::
    "nat \<Rightarrow> GPIO_InitTypeDef \<Rightarrow> u32 \<Rightarrow> nat \<Rightarrow> nat \<Rightarrow> u32 \<times> 'z Fw_scheme \<Rightarrow> (u32 \<times> 'z Fw_scheme) run" where
  "gpio_init_pin GPIOx ini currentmode shift pinpos = (\<lambda>(tmpreg, s).
     let pos = push_bit (pinpos + shift) 1 :: u32; currentpin = ucast (GPIO_Pin ini) AND pos
     in if currentpin = pos
        then let pos = pinpos * 4;
                 pinmask = push_bit pos 0x0F;
                 tmpreg = tmpreg AND NOT pinmask;
                 tmpreg = tmpreg OR push_bit pos currentmode
             in run_map (Pair tmpreg)
                  (if GPIO_Mode ini = GPIO_Mode_IPD then reg_write 4 (GPIOx + pBRR) (push_bit (pinpos + shift) 1) s
                   else if GPIO_Mode ini = GPIO_Mode_IPU then reg_write 4 (GPIOx + pBSRR) (push_bit (pinpos + shift) 1) s
                   else Ok s [])
        else Ok (tmpreg, s) [])"

definition gpio_init_reg :: "nat \<Rightarrow> GPIO_InitTypeDef \<Rightarrow> u32 \<Rightarrow> nat \<Rightarrow> nat \<Rightarrow> 'z Fw_scheme \<Rightarrow> 'z Fw_scheme run" where
  "gpio_init_reg GPIOx ini currentmode reg shift =
     reg_read 4 (GPIOx + reg) (\<lambda>tmpreg s.
       run_bind (run_for [0 ..< 8] (gpio_init_pin GPIOx ini currentmode shift) (tmpreg, s)) (\<lambda>(tmpreg, s).
         reg_write 4 (GPIOx + reg) tmpreg s))"

definition GPIO_Init :: "nat \<Rightarrow> GPIO_InitTypeDef \<Rightarrow> 'z Fw_scheme \<Rightarrow> 'z Fw_scheme run" where
  "GPIO_Init GPIOx ini =
     (let currentmode = GPIO_Mode ini AND 0x0F;
          currentmode = (if GPIO_Mode ini AND 0x10 \<noteq> 0 then currentmode OR GPIO_Speed ini else currentmode)
      in run_seq
        [if ucast (GPIO_Pin ini) AND 0x00FF \<noteq> (0 :: u32) then gpio_init_reg GPIOx ini currentmode pCRL 0 else (\<lambda>s. Ok s []),
         if GPIO_Pin ini > 0x00FF then gpio_init_reg GPIOx ini currentmode pCRH 8 else (\<lambda>s. Ok s [])])"

definition GPIO_StructInit :: GPIO_InitTypeDef where
  "GPIO_StructInit = \<lparr>GPIO_Pin = 0xFFFF, GPIO_Speed = GPIO_Speed_2MHz, GPIO_Mode = GPIO_Mode_IN_FLOATING\<rparr>"

definition GPIO_ReadInputDataBit :: "nat \<Rightarrow> u16 \<Rightarrow> 'z Fw_scheme \<Rightarrow> (bool \<times> 'z Fw_scheme) run" where
  "GPIO_ReadInputDataBit GPIOx pin = reg_read 4 (GPIOx + pIDR) (\<lambda>v s. Ok (v AND ucast pin \<noteq> 0, s) [])"

definition GPIO_ReadInputData :: "nat \<Rightarrow> 'z Fw_scheme \<Rightarrow> (u16 \<times> 'z Fw_scheme) run" where
  "GPIO_ReadInputData GPIOx = reg_read 4 (GPIOx + pIDR) (\<lambda>v s. Ok (ucast v, s) [])"

definition GPIO_ReadOutputDataBit :: "nat \<Rightarrow> u16 \<Rightarrow> 'z Fw_scheme \<Rightarrow> (bool \<times> 'z Fw_scheme) run" where
  "GPIO_ReadOutputDataBit GPIOx pin = reg_read 4 (GPIOx + pODR) (\<lambda>v s. Ok (v AND ucast pin \<noteq> 0, s) [])"

definition GPIO_ReadOutputData :: "nat \<Rightarrow> 'z Fw_scheme \<Rightarrow> (u16 \<times> 'z Fw_scheme) run" where
  "GPIO_ReadOutputData GPIOx = reg_read 4 (GPIOx + pODR) (\<lambda>v s. Ok (ucast v, s) [])"

definition GPIO_SetBits :: "nat \<Rightarrow> u16 \<Rightarrow> 'z Fw_scheme \<Rightarrow> 'z Fw_scheme run" where
  "GPIO_SetBits GPIOx pin = reg_write 4 (GPIOx + pBSRR) (ucast pin)"

definition GPIO_ResetBits :: "nat \<Rightarrow> u16 \<Rightarrow> 'z Fw_scheme \<Rightarrow> 'z Fw_scheme run" where
  "GPIO_ResetBits GPIOx pin = reg_write 4 (GPIOx + pBRR) (ucast pin)"

definition GPIO_WriteBit :: "nat \<Rightarrow> u16 \<Rightarrow> bool \<Rightarrow> 'z Fw_scheme \<Rightarrow> 'z Fw_scheme run" where
  "GPIO_WriteBit GPIOx pin BitVal =
     (if BitVal then reg_write 4 (GPIOx + pBSRR) (ucast pin) else reg_write 4 (GPIOx + pBRR) (ucast pin))"

definition GPIO_Write :: "nat \<Rightarrow> u16 \<Rightarrow> 'z Fw_scheme \<Rightarrow> 'z Fw_scheme run" where
  "GPIO_Write GPIOx PortVal = reg_write 4 (GPIOx + pODR) (ucast PortVal)"

definition GPIO_PinLockConfig :: "nat \<Rightarrow> u16 \<Rightarrow> 'z Fw_scheme \<Rightarrow> 'z Fw_scheme run" where
  "GPIO_PinLockConfig GPIOx pin =
     (let tmp = 0x00010000 OR ucast pin
      in run_seq
        [reg_write 4 (GPIOx + pLCKR) tmp,
         reg_write 4 (GPIOx + pLCKR) (ucast pin),
         reg_write 4 (GPIOx + pLCKR) tmp,
         reg_read 4 (GPIOx + pLCKR) (\<lambda>v s. Ok s []),
         reg_read 4 (GPIOx + pLCKR) (\<lambda>v s. Ok s [])])"

section \<open>Alternate functions\<close>

abbreviation (input) pAFIO_EVCR :: nat where "pAFIO_EVCR \<equiv> 0x40010000"
abbreviation (input) pAFIO_MAPR :: nat where "pAFIO_MAPR \<equiv> 0x40010004"
abbreviation (input) pAFIO_EXTICR :: nat where "pAFIO_EXTICR \<equiv> 0x40010008"
abbreviation (input) pAFIO_MAPR2 :: nat where "pAFIO_MAPR2 \<equiv> 0x4001001C"

definition GPIO_EventOutputConfig :: "u8 \<Rightarrow> u8 \<Rightarrow> 'z Fw_scheme \<Rightarrow> 'z Fw_scheme run" where
  "GPIO_EventOutputConfig PortSource PinSource =
     reg_read 4 pAFIO_EVCR (\<lambda>tmpreg.
       reg_write 4 pAFIO_EVCR ((tmpreg AND 0xFF80) OR push_bit 4 (ucast PortSource) OR ucast PinSource))"

definition GPIO_EventOutputCmd :: "bool \<Rightarrow> 'z Fw_scheme \<Rightarrow> 'z Fw_scheme run" where
  "GPIO_EventOutputCmd NewState = bb_write (BB pAFIO_EVCR 7) (of_bool NewState)"

text \<open>A shift by 32 or more is undefined in C; the values of \<open>GPIO_Remap\<close> shift by 0 or 16.\<close>

definition GPIO_PinRemapConfig :: "u32 \<Rightarrow> bool \<Rightarrow> 'z Fw_scheme \<Rightarrow> 'z Fw_scheme run" where
  "GPIO_PinRemapConfig GPIO_Remap NewState =
     (let reg = (if GPIO_Remap AND 0x80000000 = 0x80000000 then pAFIO_MAPR2 else pAFIO_MAPR);
          tmpmask = unat (drop_bit 0x10 (GPIO_Remap AND 0x000F0000));
          tmp = GPIO_Remap AND 0xFFFF;
          place = push_bit (unat (drop_bit 0x15 GPIO_Remap) * 0x10) tmp
      in reg_read 4 reg (\<lambda>tmpreg s.
        let (tmpreg, r) =
          (if GPIO_Remap AND (0x00200000 OR 0x00100000) = 0x00200000 OR 0x00100000
           then (tmpreg AND 0xF0FFFFFF, reg_and 4 pAFIO_MAPR 0xF0FFFFFF s)
           else if GPIO_Remap AND 0x00100000 = 0x00100000
           then ((tmpreg AND NOT (push_bit tmpmask 0x03)) OR NOT 0xF0FFFFFF, Ok s [])
           else ((tmpreg AND NOT place) OR NOT 0xF0FFFFFF, Ok s []));
          tmpreg = (if NewState then tmpreg OR place else tmpreg)
        in run_bind r (reg_write 4 reg tmpreg)))"

definition GPIO_EXTILineConfig :: "u8 \<Rightarrow> u8 \<Rightarrow> 'z Fw_scheme \<Rightarrow> 'z Fw_scheme run" where
  "GPIO_EXTILineConfig PortSource PinSource =
     (let shift = 4 * unat (PinSource AND 0x03);
          reg = pAFIO_EXTICR + 4 * unat (drop_bit 2 PinSource)
      in run_seq
        [reg_and 4 reg (NOT (push_bit shift 0x0F)),
         reg_or 4 reg (push_bit shift (ucast PortSource))])"

definition GPIO_ETH_MediaInterfaceConfig :: "u32 \<Rightarrow> 'z Fw_scheme \<Rightarrow> 'z Fw_scheme run" where
  "GPIO_ETH_MediaInterfaceConfig GPIO_ETH_MediaInterface = bb_write (BB pAFIO_MAPR 0x17) GPIO_ETH_MediaInterface"

section \<open>External interrupts\<close>

abbreviation (input) EXTI_BASE :: nat where "EXTI_BASE \<equiv> 0x40010400"
abbreviation (input) pEXTI_IMR :: nat where "pEXTI_IMR \<equiv> 0x40010400"
abbreviation (input) pEXTI_EMR :: nat where "pEXTI_EMR \<equiv> 0x40010404"
abbreviation (input) pEXTI_RTSR :: nat where "pEXTI_RTSR \<equiv> 0x40010408"
abbreviation (input) pEXTI_FTSR :: nat where "pEXTI_FTSR \<equiv> 0x4001040C"
abbreviation (input) pEXTI_SWIER :: nat where "pEXTI_SWIER \<equiv> 0x40010410"
abbreviation (input) pEXTI_PR :: nat where "pEXTI_PR \<equiv> 0x40010414"
abbreviation (input) EXTI_Mode_Interrupt :: nat where "EXTI_Mode_Interrupt \<equiv> 0x00"
abbreviation (input) EXTI_Mode_Event :: nat where "EXTI_Mode_Event \<equiv> 0x04"
abbreviation (input) EXTI_Trigger_Rising :: nat where "EXTI_Trigger_Rising \<equiv> 0x08"
abbreviation (input) EXTI_Trigger_Falling :: nat where "EXTI_Trigger_Falling \<equiv> 0x0C"
abbreviation (input) EXTI_Trigger_Rising_Falling :: nat where "EXTI_Trigger_Rising_Falling \<equiv> 0x10"

record EXTI_InitTypeDef =
  EXTI_Line :: u32
  EXTI_Mode :: nat
  EXTI_Trigger :: nat
  EXTI_LineCmd :: bool

definition EXTI_DeInit :: "'z Fw_scheme \<Rightarrow> 'z Fw_scheme run" where
  "EXTI_DeInit = run_seq
     [reg_write 4 pEXTI_IMR 0, reg_write 4 pEXTI_EMR 0, reg_write 4 pEXTI_RTSR 0, reg_write 4 pEXTI_FTSR 0,
      reg_write 4 pEXTI_PR 0x000FFFFF]"

definition EXTI_Init :: "EXTI_InitTypeDef \<Rightarrow> 'z Fw_scheme \<Rightarrow> 'z Fw_scheme run" where
  "EXTI_Init ini =
     (if EXTI_LineCmd ini then run_seq
        [reg_and 4 pEXTI_IMR (NOT (EXTI_Line ini)),
         reg_and 4 pEXTI_EMR (NOT (EXTI_Line ini)),
         reg_or 4 (EXTI_BASE + EXTI_Mode ini) (EXTI_Line ini),
         reg_and 4 pEXTI_RTSR (NOT (EXTI_Line ini)),
         reg_and 4 pEXTI_FTSR (NOT (EXTI_Line ini)),
         if EXTI_Trigger ini = EXTI_Trigger_Rising_Falling
         then run_seq [reg_or 4 pEXTI_RTSR (EXTI_Line ini), reg_or 4 pEXTI_FTSR (EXTI_Line ini)]
         else reg_or 4 (EXTI_BASE + EXTI_Trigger ini) (EXTI_Line ini)]
      else reg_and 4 (EXTI_BASE + EXTI_Mode ini) (NOT (EXTI_Line ini)))"

definition EXTI_StructInit :: EXTI_InitTypeDef where
  "EXTI_StructInit =
     \<lparr>EXTI_Line = 0, EXTI_Mode = EXTI_Mode_Interrupt, EXTI_Trigger = EXTI_Trigger_Falling, EXTI_LineCmd = False\<rparr>"

definition EXTI_GenerateSWInterrupt :: "u32 \<Rightarrow> 'z Fw_scheme \<Rightarrow> 'z Fw_scheme run" where
  "EXTI_GenerateSWInterrupt line = reg_or 4 pEXTI_SWIER line"

definition EXTI_GetFlagStatus :: "u32 \<Rightarrow> 'z Fw_scheme \<Rightarrow> (bool \<times> 'z Fw_scheme) run" where
  "EXTI_GetFlagStatus line = reg_read 4 pEXTI_PR (\<lambda>v s. Ok (v AND line \<noteq> 0, s) [])"

definition EXTI_ClearFlag :: "u32 \<Rightarrow> 'z Fw_scheme \<Rightarrow> 'z Fw_scheme run" where
  "EXTI_ClearFlag line = reg_write 4 pEXTI_PR line"

definition EXTI_GetITStatus :: "u32 \<Rightarrow> 'z Fw_scheme \<Rightarrow> (bool \<times> 'z Fw_scheme) run" where
  "EXTI_GetITStatus line = reg_read 4 pEXTI_IMR (\<lambda>imr.
     let enablestatus = imr AND line
     in reg_read 4 pEXTI_PR (\<lambda>pr s. Ok (pr AND line \<noteq> 0 \<and> enablestatus \<noteq> 0, s) []))"

definition EXTI_ClearITPendingBit :: "u32 \<Rightarrow> 'z Fw_scheme \<Rightarrow> 'z Fw_scheme run" where
  "EXTI_ClearITPendingBit line = reg_write 4 pEXTI_PR line"

section \<open>Interrupt controller of the core\<close>

abbreviation (input) pSCB_AIRCR :: nat where "pSCB_AIRCR \<equiv> 0xE000ED0C"
abbreviation (input) pSCB_SCR :: nat where "pSCB_SCR \<equiv> 0xE000ED10"
abbreviation (input) pSCB_VTOR_misc :: nat where "pSCB_VTOR_misc \<equiv> 0xE000ED08"
abbreviation (input) pSysTick_CTRL :: nat where "pSysTick_CTRL \<equiv> 0xE000E010"
abbreviation (input) pNVIC_ISER :: nat where "pNVIC_ISER \<equiv> 0xE000E100"
abbreviation (input) pNVIC_ICER :: nat where "pNVIC_ICER \<equiv> 0xE000E180"
abbreviation (input) pNVIC_IP :: nat where "pNVIC_IP \<equiv> 0xE000E400"

record NVIC_InitTypeDef =
  NVIC_IRQChannel :: u8
  NVIC_IRQChannelPreemptionPriority :: u8
  NVIC_IRQChannelSubPriority :: u8
  NVIC_IRQChannelCmd :: bool

definition NVIC_PriorityGroupConfig :: "u32 \<Rightarrow> 'z Fw_scheme \<Rightarrow> 'z Fw_scheme run" where
  "NVIC_PriorityGroupConfig NVIC_PriorityGroup = reg_write 4 pSCB_AIRCR (0x05FA0000 OR NVIC_PriorityGroup)"

text \<open>A shift of a 32-bit value by a 32-bit amount; an amount of 32 or more, which C leaves open, gives 0.\<close>

definition shl32 :: "u32 \<Rightarrow> u32 \<Rightarrow> u32" where
  "shl32 x n = push_bit (unat n) x"

definition NVIC_Init :: "NVIC_InitTypeDef \<Rightarrow> 'z Fw_scheme \<Rightarrow> 'z Fw_scheme run" where
  "NVIC_Init ini =
     (let channel = unat (NVIC_IRQChannel ini); irq_bit = push_bit (channel mod 32) 1
      in if NVIC_IRQChannelCmd ini then
           reg_read 4 pSCB_AIRCR (\<lambda>aircr.
             let tmppriority = drop_bit 8 (0x700 - (aircr AND 0x700));
                 tmppre = 4 - tmppriority;
                 tmpsub = drop_bit (unat tmppriority) 0x0F;
                 tmppriority = shl32 (ucast (NVIC_IRQChannelPreemptionPriority ini)) tmppre;
                 tmppriority = tmppriority OR (ucast (NVIC_IRQChannelSubPriority ini) AND tmpsub);
                 tmppriority = push_bit 4 tmppriority
             in run_seq
               [reg_write 1 (pNVIC_IP + channel) tmppriority,
                reg_write 4 (pNVIC_ISER + 4 * (channel div 32)) irq_bit])
         else reg_write 4 (pNVIC_ICER + 4 * (channel div 32)) irq_bit)"

definition NVIC_SetVectorTable :: "u32 \<Rightarrow> u32 \<Rightarrow> 'z Fw_scheme \<Rightarrow> 'z Fw_scheme run" where
  "NVIC_SetVectorTable NVIC_VectTab offset = reg_write 4 pSCB_VTOR_misc (NVIC_VectTab OR (offset AND 0x1FFFFF80))"

definition NVIC_SystemLPConfig :: "u8 \<Rightarrow> bool \<Rightarrow> 'z Fw_scheme \<Rightarrow> 'z Fw_scheme run" where
  "NVIC_SystemLPConfig LowPowerMode NewState =
     (if NewState then reg_or 4 pSCB_SCR (ucast LowPowerMode) else reg_and 4 pSCB_SCR (NOT (ucast LowPowerMode)))"

definition SysTick_CLKSourceConfig :: "u32 \<Rightarrow> 'z Fw_scheme \<Rightarrow> 'z Fw_scheme run" where
  "SysTick_CLKSourceConfig SysTick_CLKSource =
     (if SysTick_CLKSource = 0x00000004 then reg_or 4 pSysTick_CTRL 0x00000004 else reg_and 4 pSysTick_CTRL 0xFFFFFFFB)"

end
