(* ===== verification/Fw_Usart.thy ===== *)
theory Fw_Usart
  imports Fw_Rcc
begin

text \<open>
  The driver of the firmware library for the UARTs, \<open>stm32f10x_usart.c\<close>. A pointer \<open>USARTx\<close> is the
  address of the registers, which are 16 bits wide.
\<close>

section \<open>Registers\<close>

abbreviation (input) USART1 :: nat where "USART1 \<equiv> 0x40013800"
abbreviation (input) USART2 :: nat where "USART2 \<equiv> 0x40004400"
abbreviation (input) USART3 :: nat where "USART3 \<equiv> 0x40004800"
abbreviation (input) UART4 :: nat where "UART4 \<equiv> 0x40004C00"
abbreviation (input) UART5 :: nat where "UART5 \<equiv> 0x40005000"
abbreviation (input) pSR :: nat where "pSR \<equiv> 0x00"
abbreviation (input) pDR :: nat where "pDR \<equiv> 0x04"
abbreviation (input) pUSART_BRR :: nat where "pUSART_BRR \<equiv> 0x08"
abbreviation (input) pCR1 :: nat where "pCR1 \<equiv> 0x0C"
abbreviation (input) pCR2 :: nat where "pCR2 \<equiv> 0x10"
abbreviation (input) pCR3 :: nat where "pCR3 \<equiv> 0x14"
abbreviation (input) pGTPR :: nat where "pGTPR \<equiv> 0x18"
abbreviation (input) RCC_APB2Periph_USART1 :: u32 where "RCC_APB2Periph_USART1 \<equiv> 0x00004000"
abbreviation (input) RCC_APB1Periph_USART2 :: u32 where "RCC_APB1Periph_USART2 \<equiv> 0x00020000"
abbreviation (input) RCC_APB1Periph_USART3 :: u32 where "RCC_APB1Periph_USART3 \<equiv> 0x00040000"
abbreviation (input) RCC_APB1Periph_UART4 :: u32 where "RCC_APB1Periph_UART4 \<equiv> 0x00080000"
abbreviation (input) RCC_APB1Periph_UART5 :: u32 where "RCC_APB1Periph_UART5 \<equiv> 0x00100000"

text \<open>\<open>USARTx->R |= v\<close> or \<open>USARTx->R &= w\<close>, by the value of \<open>NewState\<close>.\<close>

definition reg_switch :: "bool \<Rightarrow> nat \<Rightarrow> u32 \<Rightarrow> u32 \<Rightarrow> 'z Fw_scheme \<Rightarrow> 'z Fw_scheme run" where
  "reg_switch NewState a set_mask reset_mask = (if NewState then reg_or 2 a set_mask else reg_and 2 a reset_mask)"

section \<open>Configuration\<close>

definition USART_DeInit :: "nat \<Rightarrow> 'z Fw_scheme \<Rightarrow> 'z Fw_scheme run" where
  "USART_DeInit USARTx =
     (let pulse1 = (\<lambda>p. run_seq [RCC_APB1PeriphResetCmd p True, RCC_APB1PeriphResetCmd p False])
      in if USARTx = USART1 then
           run_seq [RCC_APB2PeriphResetCmd RCC_APB2Periph_USART1 True, RCC_APB2PeriphResetCmd RCC_APB2Periph_USART1 False]
         else if USARTx = USART2 then pulse1 RCC_APB1Periph_USART2
         else if USARTx = USART3 then pulse1 RCC_APB1Periph_USART3
         else if USARTx = UART4 then pulse1 RCC_APB1Periph_UART4
         else if USARTx = UART5 then pulse1 RCC_APB1Periph_UART5
         else (\<lambda>s. Ok s []))"

record USART_InitTypeDef =
  USART_BaudRate :: u32
  USART_WordLength :: u16
  USART_StopBits :: u16
  USART_Parity :: u16
  USART_Mode :: u16
  USART_HardwareFlowControl :: u16

text \<open>The value of the baud rate register; \<open>over8\<close> and \<open>over8'\<close> are the two tests of the oversampling bit. A
  division by a baud rate of 0 gives 0, as the instruction does.\<close>

definition usart_integerdivider :: "u32 \<Rightarrow> u32 \<Rightarrow> bool \<Rightarrow> u32" where
  "usart_integerdivider apbclock baud over8 =
     (if over8 then (25 * apbclock) div (2 * baud) else (25 * apbclock) div (4 * baud))"

definition usart_brr :: "u32 \<Rightarrow> bool \<Rightarrow> u32" where
  "usart_brr integerdivider over8' =
     (let tmpreg = push_bit 4 (integerdivider div 100);
          fractionaldivider = integerdivider - 100 * drop_bit 4 tmpreg
      in tmpreg OR
         (if over8' then ((fractionaldivider * 8 + 50) div 100) AND 0x07
          else ((fractionaldivider * 16 + 50) div 100) AND 0x0F))"

definition USART_Init :: "nat \<Rightarrow> USART_InitTypeDef \<Rightarrow> 'z Fw_scheme \<Rightarrow> 'z Fw_scheme run" where
  "USART_Init USARTx ini = run_seq
     [reg_read 2 (USARTx + pCR2) (\<lambda>tmpreg.
        reg_write 2 (USARTx + pCR2) ((tmpreg AND 0xCFFF) OR ucast (USART_StopBits ini))),
      reg_read 2 (USARTx + pCR1) (\<lambda>tmpreg.
        reg_write 2 (USARTx + pCR1) ((tmpreg AND 0xE9F3) OR
          (ucast (USART_WordLength ini) OR ucast (USART_Parity ini) OR ucast (USART_Mode ini)))),
      reg_read 2 (USARTx + pCR3) (\<lambda>tmpreg.
        reg_write 2 (USARTx + pCR3) ((tmpreg AND 0xFCFF) OR ucast (USART_HardwareFlowControl ini))),
      \<lambda>s. run_bind (RCC_GetClocksFreq s) (\<lambda>(clocks, s).
        let apbclock = (if USARTx = USART1 then PCLK2_Frequency clocks else PCLK1_Frequency clocks)
        in reg_read 2 (USARTx + pCR1) (\<lambda>cr1.
             let integerdivider = usart_integerdivider apbclock (USART_BaudRate ini) (cr1 AND 0x8000 \<noteq> 0)
             in reg_read 2 (USARTx + pCR1) (\<lambda>cr1.
                  reg_write 2 (USARTx + pUSART_BRR) (usart_brr integerdivider (cr1 AND 0x8000 \<noteq> 0)))) s)]"

definition USART_StructInit :: USART_InitTypeDef where
  "USART_StructInit =
     \<lparr>USART_BaudRate = 9600, USART_WordLength = 0, USART_StopBits = 0, USART_Parity = 0,
      USART_Mode = 0x0004 OR 0x0008, USART_HardwareFlowControl = 0\<rparr>"

record USART_ClockInitTypeDef =
  USART_Clock :: u16
  USART_CPOL :: u16
  USART_CPHA :: u16
  USART_LastBit :: u16

definition USART_ClockInit :: "nat \<Rightarrow> USART_ClockInitTypeDef \<Rightarrow> 'z Fw_scheme \<Rightarrow> 'z Fw_scheme run" where
  "USART_ClockInit USARTx ini =
     reg_read 2 (USARTx + pCR2) (\<lambda>tmpreg.
       reg_write 2 (USARTx + pCR2) ((tmpreg AND 0xF0FF) OR
         (ucast (USART_Clock ini) OR ucast (USART_CPOL ini) OR ucast (USART_CPHA ini) OR ucast (USART_LastBit ini))))"

definition USART_ClockStructInit :: USART_ClockInitTypeDef where
  "USART_ClockStructInit = \<lparr>USART_Clock = 0, USART_CPOL = 0, USART_CPHA = 0, USART_LastBit = 0\<rparr>"

definition USART_Cmd :: "nat \<Rightarrow> bool \<Rightarrow> 'z Fw_scheme \<Rightarrow> 'z Fw_scheme run" where
  "USART_Cmd USARTx NewState = reg_switch NewState (USARTx + pCR1) 0x2000 0xDFFF"

text \<open>The accesses to the control registers by \<open>USART_ITConfig\<close> are 32 bits wide.\<close>

definition usart_it_reg :: "u16 \<Rightarrow> nat" where
  "usart_it_reg USART_IT =
     (let usartreg = drop_bit 5 (ucast USART_IT :: u8)
      in if usartreg = 0x01 then pCR1 else if usartreg = 0x02 then pCR2 else pCR3)"

definition USART_ITConfig :: "nat \<Rightarrow> u16 \<Rightarrow> bool \<Rightarrow> 'z Fw_scheme \<Rightarrow> 'z Fw_scheme run" where
  "USART_ITConfig USARTx USART_IT NewState =
     (let itpos = unat (USART_IT AND 0x001F); itmask = push_bit itpos 1; usartxbase = USARTx + usart_it_reg USART_IT
      in if NewState then reg_or 4 usartxbase itmask else reg_and 4 usartxbase (NOT itmask))"

definition USART_DMACmd :: "nat \<Rightarrow> u16 \<Rightarrow> bool \<Rightarrow> 'z Fw_scheme \<Rightarrow> 'z Fw_scheme run" where
  "USART_DMACmd USARTx USART_DMAReq NewState =
     reg_switch NewState (USARTx + pCR3) (ucast USART_DMAReq) (ucast (NOT USART_DMAReq))"

definition USART_SetAddress :: "nat \<Rightarrow> u8 \<Rightarrow> 'z Fw_scheme \<Rightarrow> 'z Fw_scheme run" where
  "USART_SetAddress USARTx USART_Address = run_seq
     [reg_and 2 (USARTx + pCR2) 0xFFF0, reg_or 2 (USARTx + pCR2) (ucast USART_Address)]"

definition USART_WakeUpConfig :: "nat \<Rightarrow> u16 \<Rightarrow> 'z Fw_scheme \<Rightarrow> 'z Fw_scheme run" where
  "USART_WakeUpConfig USARTx USART_WakeUp = run_seq
     [reg_and 2 (USARTx + pCR1) 0xF7FF, reg_or 2 (USARTx + pCR1) (ucast USART_WakeUp)]"

definition USART_ReceiverWakeUpCmd :: "nat \<Rightarrow> bool \<Rightarrow> 'z Fw_scheme \<Rightarrow> 'z Fw_scheme run" where
  "USART_ReceiverWakeUpCmd USARTx NewState = reg_switch NewState (USARTx + pCR1) 0x0002 0xFFFD"

definition USART_LINBreakDetectLengthConfig :: "nat \<Rightarrow> u16 \<Rightarrow> 'z Fw_scheme \<Rightarrow> 'z Fw_scheme run" where
  "USART_LINBreakDetectLengthConfig USARTx len = run_seq
     [reg_and 2 (USARTx + pCR2) 0xFFDF, reg_or 2 (USARTx + pCR2) (ucast len)]"

definition USART_LINCmd :: "nat \<Rightarrow> bool \<Rightarrow> 'z Fw_scheme \<Rightarrow> 'z Fw_scheme run" where
  "USART_LINCmd USARTx NewState = reg_switch NewState (USARTx + pCR2) 0x4000 0xBFFF"

section \<open>Data\<close>

definition USART_SendData :: "nat \<Rightarrow> u16 \<Rightarrow> 'z Fw_scheme \<Rightarrow> 'z Fw_scheme run" where
  "USART_SendData USARTx Data = reg_write 2 (USARTx + pDR) (ucast (Data AND 0x01FF))"

definition USART_ReceiveData :: "nat \<Rightarrow> 'z Fw_scheme \<Rightarrow> (u16 \<times> 'z Fw_scheme) run" where
  "USART_ReceiveData USARTx = reg_read 2 (USARTx + pDR) (\<lambda>v s. Ok (ucast v AND 0x01FF, s) [])"

definition USART_SendBreak :: "nat \<Rightarrow> 'z Fw_scheme \<Rightarrow> 'z Fw_scheme run" where
  "USART_SendBreak USARTx = reg_or 2 (USARTx + pCR1) 0x0001"

definition USART_SetGuardTime :: "nat \<Rightarrow> u8 \<Rightarrow> 'z Fw_scheme \<Rightarrow> 'z Fw_scheme run" where
  "USART_SetGuardTime USARTx USART_GuardTime = run_seq
     [reg_and 2 (USARTx + pGTPR) 0x00FF, reg_or 2 (USARTx + pGTPR) (push_bit 8 (ucast USART_GuardTime))]"

definition USART_SetPrescaler :: "nat \<Rightarrow> u8 \<Rightarrow> 'z Fw_scheme \<Rightarrow> 'z Fw_scheme run" where
  "USART_SetPrescaler USARTx USART_Prescaler = run_seq
     [reg_and 2 (USARTx + pGTPR) 0xFF00, reg_or 2 (USARTx + pGTPR) (ucast USART_Prescaler)]"

definition USART_SmartCardCmd :: "nat \<Rightarrow> bool \<Rightarrow> 'z Fw_scheme \<Rightarrow> 'z Fw_scheme run" where
  "USART_SmartCardCmd USARTx NewState = reg_switch NewState (USARTx + pCR3) 0x0020 0xFFDF"

definition USART_SmartCardNACKCmd :: "nat \<Rightarrow> bool \<Rightarrow> 'z Fw_scheme \<Rightarrow> 'z Fw_scheme run" where
  "USART_SmartCardNACKCmd USARTx NewState = reg_switch NewState (USARTx + pCR3) 0x0010 0xFFEF"

definition USART_HalfDuplexCmd :: "nat \<Rightarrow> bool \<Rightarrow> 'z Fw_scheme \<Rightarrow> 'z Fw_scheme run" where
  "USART_HalfDuplexCmd USARTx NewState = reg_switch NewState (USARTx + pCR3) 0x0008 0xFFF7"

definition USART_OverSampling8Cmd :: "nat \<Rightarrow> bool \<Rightarrow> 'z Fw_scheme \<Rightarrow> 'z Fw_scheme run" where
  "USART_OverSampling8Cmd USARTx NewState = reg_switch NewState (USARTx + pCR1) 0x8000 0x7FFF"

definition USART_OneBitMethodCmd :: "nat \<Rightarrow> bool \<Rightarrow> 'z Fw_scheme \<Rightarrow> 'z Fw_scheme run" where
  "USART_OneBitMethodCmd USARTx NewState = reg_switch NewState (USARTx + pCR3) 0x0800 0xF7FF"

definition USART_IrDAConfig :: "nat \<Rightarrow> u16 \<Rightarrow> 'z Fw_scheme \<Rightarrow> 'z Fw_scheme run" where
  "USART_IrDAConfig USARTx USART_IrDAMode = run_seq
     [reg_and 2 (USARTx + pCR3) 0xFFFB, reg_or 2 (USARTx + pCR3) (ucast USART_IrDAMode)]"

definition USART_IrDACmd :: "nat \<Rightarrow> bool \<Rightarrow> 'z Fw_scheme \<Rightarrow> 'z Fw_scheme run" where
  "USART_IrDACmd USARTx NewState = reg_switch NewState (USARTx + pCR3) 0x0002 0xFFFD"

section \<open>Flags\<close>

definition USART_GetFlagStatus :: "nat \<Rightarrow> u16 \<Rightarrow> 'z Fw_scheme \<Rightarrow> (bool \<times> 'z Fw_scheme) run" where
  "USART_GetFlagStatus USARTx USART_FLAG = reg_read 2 (USARTx + pSR) (\<lambda>v s. Ok (v AND ucast USART_FLAG \<noteq> 0, s) [])"

definition USART_ClearFlag :: "nat \<Rightarrow> u16 \<Rightarrow> 'z Fw_scheme \<Rightarrow> 'z Fw_scheme run" where
  "USART_ClearFlag USARTx USART_FLAG = reg_write 2 (USARTx + pSR) (ucast (NOT USART_FLAG))"

definition USART_GetITStatus :: "nat \<Rightarrow> u16 \<Rightarrow> 'z Fw_scheme \<Rightarrow> (bool \<times> 'z Fw_scheme) run" where
  "USART_GetITStatus USARTx USART_IT =
     (let itmask = push_bit (unat (USART_IT AND 0x001F)) 1; bitpos = push_bit (unat (drop_bit 8 USART_IT)) 1
      in reg_read 2 (USARTx + usart_it_reg USART_IT) (\<lambda>cr. let itmask = itmask AND cr in
           reg_read 2 (USARTx + pSR) (\<lambda>sr s. let bitpos = bitpos AND sr in Ok (itmask \<noteq> 0 \<and> bitpos \<noteq> 0, s) [])))"

definition USART_ClearITPendingBit :: "nat \<Rightarrow> u16 \<Rightarrow> 'z Fw_scheme \<Rightarrow> 'z Fw_scheme run" where
  "USART_ClearITPendingBit USARTx USART_IT =
     (let bitpos = drop_bit 8 USART_IT; itmask = push_bit (unat bitpos) (1 :: u16)
      in reg_write 2 (USARTx + pSR) (ucast (NOT itmask)))"

end
