(* ===== verification/Fw_Hal.thy ===== *)
theory Fw_Hal
  imports Fw_System Fw_Gpio Fw_Usart
begin

text \<open>
  The classes of the firmware library for digital inputs and outputs (\<open>hal/gpio.h\<close>, \<open>hal/gpio.cpp\<close>,
  \<open>hal/digitaloutput.cpp\<close>, \<open>hal/digitalinput.cpp\<close>), the dispatcher of external interrupts
  (\<open>hal/controller/intcontroller.cpp\<close>), the helpers of \<open>hal/helper.c\<close>, the logger
  \<open>hal/utils/qemulogger.h\<close> and the demo program \<open>demos/hello-blink\<close>.

  The digital inputs of a program are a store, \<open>fw_inputs\<close>, because the interrupt handlers reach them
  through the pointers in \<open>isrVector\<close>; an output is reached by its owner only and is passed as a value.
  An enumeration \<open>State\<close> is the integer of its constant: \<open>Off\<close> is -1, \<open>On\<close> is 1, \<open>Invalid\<close> is 0.
\<close>

section \<open>Pins\<close>

abbreviation (input) Off :: int where "Off \<equiv> - 1"
abbreviation (input) On :: int where "On \<equiv> 1"
abbreviation (input) Invalid :: int where "Invalid \<equiv> 0"

record Pin =
  pin_port :: u8
  pinNumber :: u8
  pin_mask :: u32

definition mk_Pin :: "u8 \<Rightarrow> u8 \<Rightarrow> Pin run" where
  "mk_Pin portc pinn =
     (if portc \<ge> 0x41 \<and> portc \<le> 0x47
      then Ok \<lparr>pin_port = portc, pinNumber = pinn, pin_mask = push_bit (unat pinn) 1\<rparr> [] else Stop AssertFail [])"

definition ports_rcc :: "u8 \<rightharpoonup> u32" where
  "ports_rcc =
     [0x41 \<mapsto> RCC_APB2Periph_GPIOA, 0x42 \<mapsto> RCC_APB2Periph_GPIOB, 0x43 \<mapsto> RCC_APB2Periph_GPIOC,
      0x44 \<mapsto> RCC_APB2Periph_GPIOD, 0x45 \<mapsto> RCC_APB2Periph_GPIOE, 0x46 \<mapsto> RCC_APB2Periph_GPIOF,
      0x47 \<mapsto> RCC_APB2Periph_GPIOG]"

definition ports_base :: "u8 \<rightharpoonup> nat" where
  "ports_base =
     [0x41 \<mapsto> GPIOA, 0x42 \<mapsto> GPIOB, 0x43 \<mapsto> GPIOC, 0x44 \<mapsto> GPIOD, 0x45 \<mapsto> GPIOE, 0x46 \<mapsto> GPIOF, 0x47 \<mapsto> GPIOG]"

text \<open>A \<open>Gpio\<close> object has its pin and the two values its member initializers look up with \<open>at\<close>.\<close>

record Gpio =
  gpin :: Pin
  gpio_port_rcc :: u32
  gpio_port_base :: nat

definition mk_Gpio :: "u8 \<Rightarrow> u8 \<Rightarrow> Gpio run" where
  "mk_Gpio portc pinn = run_bind (mk_Pin portc pinn) (\<lambda>p.
     case (ports_rcc (pin_port p), ports_base (pin_port p)) of
       (Some r, Some b) \<Rightarrow> Ok \<lparr>gpin = p, gpio_port_rcc = r, gpio_port_base = b\<rparr> []
     | _ \<Rightarrow> Stop OutOfBounds [])"

section \<open>Digital outputs\<close>

record DigitalOutput = Gpio +
  out_state :: int

definition mk_DigitalOutput :: "u8 \<Rightarrow> u8 \<Rightarrow> DigitalOutput run" where
  "mk_DigitalOutput portc pinn = run_map (\<lambda>g. Gpio.extend g (DigitalOutput.fields Invalid)) (mk_Gpio portc pinn)"

definition DigitalOutput_setState ::
    "int \<Rightarrow> DigitalOutput \<Rightarrow> 'z Fw_scheme \<Rightarrow> (DigitalOutput \<times> 'z Fw_scheme) run" where
  "DigitalOutput_setState state d s =
     run_map (Pair (d\<lparr>out_state := state\<rparr>))
       (if state = Off then GPIO_ResetBits (gpio_port_base d) (ucast (pin_mask (gpin d))) s
        else GPIO_SetBits (gpio_port_base d) (ucast (pin_mask (gpin d))) s)"

definition DigitalOutput_set ::
    "bool \<Rightarrow> DigitalOutput \<Rightarrow> 'z Fw_scheme \<Rightarrow> (DigitalOutput \<times> 'z Fw_scheme) run" where
  "DigitalOutput_set state = DigitalOutput_setState (if state then On else Off)"

definition DigitalOutput_toggle ::
    "DigitalOutput \<Rightarrow> 'z Fw_scheme \<Rightarrow> (DigitalOutput \<times> 'z Fw_scheme) run" where
  "DigitalOutput_toggle d = DigitalOutput_setState (- out_state d) d"

definition DigitalOutput_initialize ::
    "DigitalOutput \<Rightarrow> 'z Fw_scheme \<Rightarrow> (DigitalOutput \<times> 'z Fw_scheme) run" where
  "DigitalOutput_initialize d s =
     run_bind (run_seq
       [RCC_APB2PeriphClockCmd (RCC_APB2Periph_AFIO OR gpio_port_rcc d) True,
        GPIO_Init (gpio_port_base d)
          \<lparr>GPIO_Pin = ucast (pin_mask (gpin d)), GPIO_Speed = GPIO_Speed_50MHz, GPIO_Mode = GPIO_Mode_Out_PP\<rparr>] s)
       (DigitalOutput_set False d)"

section \<open>Interrupt controller\<close>

record DigitalInput = Gpio +
  in_state :: int

record FwApp = FwSys +
  fw_inputs :: "DigitalInput list"
  isrVector :: "nat option list"
  gTimeCounter :: u32

definition exti_channel :: "u8 \<Rightarrow> u8" where
  "exti_channel n =
     (if n = 0 then 6 else if n = 1 then 7 else if n = 2 then 8 else if n = 3 then 9 else if n = 4 then 10
      else if n = 5 \<or> n = 6 \<or> n = 7 \<or> n = 8 \<or> n = 9 then 23 else 40)"

definition IntController_registerInt :: "nat \<Rightarrow> Pin \<Rightarrow> 'z FwApp_scheme \<Rightarrow> (bool \<times> 'z FwApp_scheme) run" where
  "IntController_registerInt isr p s =
     run_bind (run_seq
       [GPIO_EXTILineConfig (pin_port p - 0x41) (pinNumber p),
        EXTI_ClearITPendingBit (pin_mask p),
        EXTI_Init \<lparr>EXTI_Line = pin_mask p, EXTI_Mode = EXTI_Mode_Interrupt, EXTI_Trigger = EXTI_Trigger_Rising_Falling,
                   EXTI_LineCmd = True\<rparr>,
        NVIC_Init \<lparr>NVIC_IRQChannel = exti_channel (pinNumber p), NVIC_IRQChannelPreemptionPriority = 0x0F,
                   NVIC_IRQChannelSubPriority = 0x00, NVIC_IRQChannelCmd = True\<rparr>] s) (\<lambda>s.
     if unat (pinNumber p) < length (isrVector s)
     then if isrVector s ! unat (pinNumber p) \<noteq> None then Ok (False, s) []
          else Ok (True, s\<lparr>isrVector := (isrVector s)[unat (pinNumber p) := Some isr]\<rparr>) []
     else Stop OutOfBounds [])"

definition IntController_unregisterInt :: "Pin \<Rightarrow> 'z FwApp_scheme \<Rightarrow> 'z FwApp_scheme run" where
  "IntController_unregisterInt p s =
     (if unat (pinNumber p) < length (isrVector s)
      then Ok (s\<lparr>isrVector := (isrVector s)[unat (pinNumber p) := None]\<rparr>) [] else Stop OutOfBounds [])"

section \<open>Digital inputs\<close>

definition mk_DigitalInput :: "u8 \<Rightarrow> u8 \<Rightarrow> DigitalInput run" where
  "mk_DigitalInput portc pinn = run_map (\<lambda>g. Gpio.extend g (DigitalInput.fields Invalid)) (mk_Gpio portc pinn)"

text \<open>A method of the object with index \<open>i\<close> of the store.\<close>

definition with_input :: "nat \<Rightarrow> (DigitalInput \<Rightarrow> 'z FwApp_scheme \<Rightarrow> 'a run) \<Rightarrow> 'z FwApp_scheme \<Rightarrow> 'a run" where
  "with_input i f s = (if i < length (fw_inputs s) then f (fw_inputs s ! i) s else Stop BadPointer [])"

definition DigitalInput_read :: "nat \<Rightarrow> 'z FwApp_scheme \<Rightarrow> (bool \<times> 'z FwApp_scheme) run" where
  "DigitalInput_read i = with_input i (\<lambda>d s.
     run_bind (GPIO_ReadInputDataBit (gpio_port_base d) (ucast (pin_mask (gpin d))) s) (\<lambda>(b, s).
       let state = (if b then On else Off)
       in Ok (state = On, s\<lparr>fw_inputs := (fw_inputs s)[i := d\<lparr>in_state := state\<rparr>]\<rparr>) []))"

definition DigitalInput_irq :: "nat \<Rightarrow> 'z FwApp_scheme \<Rightarrow> 'z FwApp_scheme run" where
  "DigitalInput_irq i s = run_map snd (DigitalInput_read i s)"

definition DigitalInput_get :: "nat \<Rightarrow> 'z FwApp_scheme \<Rightarrow> bool run" where
  "DigitalInput_get i = with_input i (\<lambda>d s. Ok (in_state d = On) [])"

definition DigitalInput_registerInterrupt :: "nat \<Rightarrow> 'z FwApp_scheme \<Rightarrow> (bool \<times> 'z FwApp_scheme) run" where
  "DigitalInput_registerInterrupt i = with_input i (\<lambda>d. IntController_registerInt i (gpin d))"

text \<open>\<open>GPIO_Speed\<close> is not initialized; it is the argument \<open>junk\<close>.\<close>

definition DigitalInput_initialize :: "u32 \<Rightarrow> nat \<Rightarrow> 'z FwApp_scheme \<Rightarrow> (bool \<times> 'z FwApp_scheme) run" where
  "DigitalInput_initialize junk i = with_input i (\<lambda>d s.
     run_bind (run_seq
       [RCC_APB2PeriphClockCmd (RCC_APB2Periph_AFIO OR gpio_port_rcc d) True,
        GPIO_Init (gpio_port_base d)
          \<lparr>GPIO_Pin = ucast (pin_mask (gpin d)), GPIO_Speed = junk, GPIO_Mode = GPIO_Mode_IN_FLOATING\<rparr>] s)
       (DigitalInput_registerInterrupt i))"

section \<open>Interrupt handlers\<close>

text \<open>The loop over the 16 lines that finds the index of a line.\<close>

definition isr_index :: "u32 \<Rightarrow> nat option" where
  "isr_index exti_Line = find (\<lambda>i. push_bit i 1 = exti_Line) [0 ..< 16]"

definition IntController_callIsr :: "u32 \<Rightarrow> 'z FwApp_scheme \<Rightarrow> (bool \<times> 'z FwApp_scheme) run" where
  "IntController_callIsr exti_Line s =
     (case isr_index exti_Line of
        None \<Rightarrow> Ok (False, s) []
      | Some i \<Rightarrow>
          (case isrVector s ! i of
             None \<Rightarrow> Ok (False, s) []
           | Some isr \<Rightarrow> run_map (Pair True) (DigitalInput_irq isr s)))"

definition checkLineFlag :: "nat \<Rightarrow> 'z FwApp_scheme \<Rightarrow> 'z FwApp_scheme run" where
  "checkLineFlag n s =
     (let exti_Line = push_bit n 1 in
      run_bind (EXTI_GetITStatus exti_Line s) (\<lambda>(b, s).
        if b then
          run_bind (IntController_callIsr exti_Line s) (\<lambda>(valid, s).
            if valid then EXTI_ClearITPendingBit exti_Line s else Stop AssertFail [])
        else Ok s []))"

definition EXTI0_IRQHandler :: "'z FwApp_scheme \<Rightarrow> 'z FwApp_scheme run" where
  "EXTI0_IRQHandler = checkLineFlag 0"

definition EXTI1_IRQHandler :: "'z FwApp_scheme \<Rightarrow> 'z FwApp_scheme run" where
  "EXTI1_IRQHandler = checkLineFlag 1"

definition EXTI2_IRQHandler :: "'z FwApp_scheme \<Rightarrow> 'z FwApp_scheme run" where
  "EXTI2_IRQHandler = checkLineFlag 2"

definition EXTI3_IRQHandler :: "'z FwApp_scheme \<Rightarrow> 'z FwApp_scheme run" where
  "EXTI3_IRQHandler = checkLineFlag 3"

definition EXTI4_IRQHandler :: "'z FwApp_scheme \<Rightarrow> 'z FwApp_scheme run" where
  "EXTI4_IRQHandler = checkLineFlag 4"

definition EXTI9_5_IRQHandler :: "'z FwApp_scheme \<Rightarrow> 'z FwApp_scheme run" where
  "EXTI9_5_IRQHandler = run_seq [checkLineFlag 5, checkLineFlag 6, checkLineFlag 7, checkLineFlag 8, checkLineFlag 9]"

definition EXTI15_10_IRQHandler :: "'z FwApp_scheme \<Rightarrow> 'z FwApp_scheme run" where
  "EXTI15_10_IRQHandler = run_seq
     [checkLineFlag 10, checkLineFlag 11, checkLineFlag 12, checkLineFlag 13, checkLineFlag 14, checkLineFlag 15]"

text \<open>
  The entries of the vector table for the handlers above, by the input of the interrupt controller of the core.
  \<open>None\<close> is an entry of another part of the library.
\<close>

definition exti_vector_MD :: "nat \<Rightarrow> ('z FwApp_scheme \<Rightarrow> 'z FwApp_scheme run) option" where
  "exti_vector_MD irq =
     (if irq = 23 then Some EXTI9_5_IRQHandler else if irq = 40 then Some EXTI15_10_IRQHandler else None)"

definition exti_vector :: "nat \<Rightarrow> ('z FwApp_scheme \<Rightarrow> 'z FwApp_scheme run) option" where
  "exti_vector irq =
     (if irq = 6 then Some EXTI0_IRQHandler else if irq = 7 then Some EXTI1_IRQHandler
      else if irq = 8 then Some EXTI2_IRQHandler else if irq = 9 then Some EXTI3_IRQHandler
      else if irq = 10 then Some EXTI4_IRQHandler else exti_vector_MD irq)"

section \<open>Helpers\<close>

definition init_led :: "'z Fw_scheme \<Rightarrow> 'z Fw_scheme run" where
  "init_led = run_seq
     [RCC_APB2PeriphClockCmd RCC_APB2Periph_GPIOC True,
      GPIO_WriteBit GPIOC 0x1000 True,
      GPIO_Init GPIOC \<lparr>GPIO_Pin = 0x1000, GPIO_Speed = GPIO_Speed_50MHz, GPIO_Mode = GPIO_Mode_Out_PP\<rparr>]"

definition led_toggle :: "'z Fw_scheme \<Rightarrow> 'z Fw_scheme run" where
  "led_toggle s = run_bind (GPIO_ReadOutputDataBit GPIOC 0x1000 s) (\<lambda>(led_bit, s).
     if led_bit then GPIO_ResetBits GPIOC 0x1000 s else GPIO_SetBits GPIOC 0x1000 s)"

definition enable_rs232 :: "'z Fw_scheme \<Rightarrow> 'z Fw_scheme run" where
  "enable_rs232 = USART_Cmd USART2 True"

abbreviation (input) pSPI1_CR2 :: nat where "pSPI1_CR2 \<equiv> 0x40013004"

definition init_usart2 :: "'z Fw_scheme \<Rightarrow> 'z Fw_scheme run" where
  "init_usart2 = run_seq
     [RCC_APB2PeriphClockCmd (RCC_APB2Periph_GPIOA OR RCC_APB2Periph_AFIO) True,
      RCC_APB1PeriphClockCmd RCC_APB1Periph_USART2 True,
      GPIO_Init GPIOA \<lparr>GPIO_Pin = 0x0008, GPIO_Speed = GPIO_Speed_50MHz, GPIO_Mode = GPIO_Mode_IN_FLOATING\<rparr>,
      GPIO_Init GPIOA \<lparr>GPIO_Pin = 0x0004, GPIO_Speed = GPIO_Speed_50MHz, GPIO_Mode = GPIO_Mode_AF_PP\<rparr>,
      USART_ClockInit USART2 \<lparr>USART_Clock = 0, USART_CPOL = 0, USART_CPHA = 0x0200, USART_LastBit = 0\<rparr>,
      USART_Init USART2
        (USART_StructInit\<lparr>USART_BaudRate := 115200, USART_WordLength := 0, USART_StopBits := 0, USART_Parity := 0,
           USART_HardwareFlowControl := 0, USART_Mode := 0x0008\<rparr>),
      reg_or 2 pSPI1_CR2 0x04,
      enable_rs232]"

text \<open>\<open>NVIC_IRQChannelPreemptionPriority\<close> is not initialized; it is the argument \<open>junk\<close>.\<close>

definition enable_rs232_interrupts :: "u8 \<Rightarrow> 'z Fw_scheme \<Rightarrow> 'z Fw_scheme run" where
  "enable_rs232_interrupts junk = run_seq
     [USART_ITConfig USART2 0x0727 False,
      USART_ITConfig USART2 0x0525 True,
      NVIC_Init \<lparr>NVIC_IRQChannel = 38, NVIC_IRQChannelPreemptionPriority = junk, NVIC_IRQChannelSubPriority = 0,
                 NVIC_IRQChannelCmd = True\<rparr>]"

text \<open>\<open>while (USART_GetFlagStatus(USARTx, USART_FLAG_TXE) == RESET);\<close> The other threads of the emulator run
  while the program waits: \<open>env n\<close> is what they do to the machine before poll \<open>n\<close>. The number of the next
  poll is a part of the result.\<close>

definition poll_txe :: "(nat \<Rightarrow> Stm32 \<Rightarrow> Stm32 run) \<Rightarrow> nat \<Rightarrow> nat \<Rightarrow> 'z Fw_scheme \<Rightarrow> (bool \<times> 'z Fw_scheme) run" where
  "poll_txe env USARTx n s =
     run_bind (run_map (\<lambda>m. s\<lparr>fw_m := m\<rparr>) (env n (fw_m s))) (USART_GetFlagStatus USARTx 0x0080)"

partial_function (option) wait_txe ::
    "(nat \<Rightarrow> Stm32 \<Rightarrow> Stm32 run) \<Rightarrow> nat \<Rightarrow> nat \<Rightarrow> 'z Fw_scheme \<Rightarrow> (nat \<times> 'z Fw_scheme) run option" where
  "wait_txe env USARTx n s =
     (case poll_txe env USARTx n s of
        Stop x es \<Rightarrow> Some (Stop x es)
      | Ok (b, s') es \<Rightarrow>
          if b then Some (Ok (Suc n, s') es)
          else Option.bind (wait_txe env USARTx (Suc n) s') (\<lambda>r. Some (run_emit es r)))"

declare wait_txe.simps [code]

definition send_byte ::
    "(nat \<Rightarrow> Stm32 \<Rightarrow> Stm32 run) \<Rightarrow> nat \<Rightarrow> u8 \<Rightarrow> 'z Fw_scheme \<Rightarrow> (nat \<times> 'z Fw_scheme) run option" where
  "send_byte env n b s =
     wait_bind (Some (USART_SendData USART2 (ucast (b AND 0xFF)) s)) (wait_txe env USART2 n)"

text \<open>The string is the array \<open>str\<close> with its terminator; the index is a \<open>uint8_t\<close>.\<close>

partial_function (option) println_loop ::
    "(nat \<Rightarrow> Stm32 \<Rightarrow> Stm32 run) \<Rightarrow> u8 list \<Rightarrow> u8 \<Rightarrow> nat \<Rightarrow> 'z Fw_scheme \<Rightarrow> (nat \<times> 'z Fw_scheme) run option" where
  "println_loop env str i n s =
     (if unat i < length str then
        if str ! unat i \<noteq> 0 then
          (case send_byte env n (str ! unat i) s of
             None \<Rightarrow> None
           | Some (Stop x es) \<Rightarrow> Some (Stop x es)
           | Some (Ok (n', s') es) \<Rightarrow>
               Option.bind (println_loop env str (i + 1) n' s') (\<lambda>r. Some (run_emit es r)))
        else Some (Ok (n, s) [])
      else Some (Stop OutOfBounds []))"

declare println_loop.simps [code]

definition println ::
    "(nat \<Rightarrow> Stm32 \<Rightarrow> Stm32 run) \<Rightarrow> u8 list \<Rightarrow> 'z Fw_scheme \<Rightarrow> (nat \<times> 'z Fw_scheme) run option" where
  "println env str = println_loop env str 0 0"

text \<open>\<open>while (delay) delay--;\<close>, with the final value of the counter as its result.\<close>

function busy_loop :: "u32 \<Rightarrow> u32" where
  "busy_loop delay = (if delay \<noteq> 0 then busy_loop (delay - 1) else delay)"
  by pat_completeness auto
termination
  by (relation "measure unat") (auto simp: unat_minus_one unat_gt_0)

declare busy_loop.simps [simp del]

section \<open>Logger\<close>

text \<open>\<open>while (USART_ReceiveData(UART5) != MONITOR_ACK_READ);\<close>\<close>

partial_function (option) wait_monitor :: "'z Fw_scheme \<Rightarrow> 'z Fw_scheme run option" where
  "wait_monitor s =
     (case USART_ReceiveData UART5 s of
        Stop x es \<Rightarrow> Some (Stop x es)
      | Ok (v, s') es \<Rightarrow>
          if v = 0x1FF then Some (Ok s' es)
          else Option.bind (wait_monitor s') (\<lambda>r. Some (run_emit es r)))"

declare wait_monitor.simps [code]

definition send_event :: "(nat \<Rightarrow> Stm32 \<Rightarrow> Stm32 run) \<Rightarrow> u8 \<Rightarrow> bool \<Rightarrow> 'z Fw_scheme \<Rightarrow> 'z Fw_scheme run option" where
  "send_event env eid ack s =
     wait_bind (Some (USART_SendData UART5 (ucast eid) s)) (\<lambda>s.
       if ack then wait_bind (wait_txe env UART5 0 s) (\<lambda>(n, s). wait_monitor s) else Some (Ok s []))"

section \<open>The demo program\<close>

text \<open>The global objects of \<open>hello-blink\<close>: \<open>btn2\<close> is input 0 of the store, \<open>led\<close> the output.\<close>

definition demo_btn2 :: "DigitalInput run" where
  "demo_btn2 = mk_DigitalInput 0x43 06"

definition demo_led :: "DigitalOutput run" where
  "demo_led = mk_DigitalOutput 0x43 12"

definition demo_init :: "u32 \<Rightarrow> DigitalOutput \<Rightarrow> 'z FwApp_scheme \<Rightarrow> (DigitalOutput \<times> 'z FwApp_scheme) run" where
  "demo_init junk led s =
     run_bind (DigitalInput_initialize junk 0 s) (\<lambda>(r, s).
     run_bind (DigitalInput_registerInterrupt 0 s) (\<lambda>(r, s).
     DigitalOutput_initialize led s))"

definition demo_loop_body :: "DigitalOutput \<times> 'z FwApp_scheme \<Rightarrow> (DigitalOutput \<times> 'z FwApp_scheme) run" where
  "demo_loop_body = (\<lambda>(led, s). run_bind (DigitalInput_get 0 s) (\<lambda>r. DigitalOutput_set (\<not> r) led s))"

text \<open>The task of \<open>hello-blink-freertos\<close>: its start and one turn of its loop, without the delay.\<close>

definition led_blink_start :: "'z Fw_scheme \<Rightarrow> (DigitalOutput \<times> 'z Fw_scheme) run" where
  "led_blink_start s = run_bind (mk_DigitalOutput 0x43 12) (\<lambda>led. DigitalOutput_initialize led s)"

definition led_blink_turn :: "DigitalOutput \<times> 'z Fw_scheme \<Rightarrow> (DigitalOutput \<times> 'z Fw_scheme) run" where
  "led_blink_turn = (\<lambda>(led, s). DigitalOutput_toggle led s)"

end
