(* ===== verification/Fw_Time.thy ===== *)
theory Fw_Time
  imports Fw_Hal
begin

text \<open>
  Time in the firmware library: busy waiting (\<open>hal/utils/delay.c\<close>), the millisecond counter and timeouts
  (\<open>hal/utils/time.h\<close>, \<open>hal/utils/time.c\<close>) with the functions of \<open>stm32f10x_tim.c\<close> it uses, and the pulse
  input \<open>demo/pulseinput.cpp\<close>. The emulator has no timers: the registers of TIM2 are outside the STM32
  devices.
\<close>

section \<open>Busy waiting\<close>

text \<open>The number of turns of \<open>_delay_loop\<close> that a call waits for, with the clock as an argument. The loop
  decrements before its test, so \<open>n\<close> turns for \<open>n > 0\<close>.\<close>

definition delay_loop_count :: "u32 \<Rightarrow> u32 \<Rightarrow> u32" where
  "delay_loop_count clock us =
     (let mhz = clock div (1000 * 1000);
          hz = clock mod (1000 * 1000);
          hz = hz * us;
          hz = hz div (1000 * 1000);
          i = mhz * us;
          i = i + (hz * us) div (1000 * 1000)
      in i div 7)"

function (sequential)
  delay_wait_ms :: "u32 \<Rightarrow> u32 \<Rightarrow> nat" and
  delay_wait_us :: "u32 \<Rightarrow> u32 \<Rightarrow> nat" where
  "delay_wait_ms clock ms = unat ms * delay_wait_us clock 1000"
| "delay_wait_us clock us =
     (if us > 1000 then delay_wait_ms clock ((us + 999) div 1000)
      else unat (delay_loop_count clock us))"
  by pat_completeness auto
termination
  by (relation "measure (case_sum (\<lambda>_. 1) (\<lambda>(_, us). if us > 1000 then 2 else 0))") auto

section \<open>Timers\<close>

abbreviation (input) TIM1 :: nat where "TIM1 \<equiv> 0x40012C00"
abbreviation (input) TIM2 :: nat where "TIM2 \<equiv> 0x40000000"
abbreviation (input) TIM3 :: nat where "TIM3 \<equiv> 0x40000400"
abbreviation (input) TIM4 :: nat where "TIM4 \<equiv> 0x40000800"
abbreviation (input) TIM5 :: nat where "TIM5 \<equiv> 0x40000C00"
abbreviation (input) TIM6 :: nat where "TIM6 \<equiv> 0x40001000"
abbreviation (input) TIM7 :: nat where "TIM7 \<equiv> 0x40001400"
abbreviation (input) TIM8 :: nat where "TIM8 \<equiv> 0x40013400"
abbreviation (input) TIM15 :: nat where "TIM15 \<equiv> 0x40014000"
abbreviation (input) TIM16 :: nat where "TIM16 \<equiv> 0x40014400"
abbreviation (input) TIM17 :: nat where "TIM17 \<equiv> 0x40014800"
abbreviation (input) pTIM_CR1 :: nat where "pTIM_CR1 \<equiv> 0x00"
abbreviation (input) pTIM_DIER :: nat where "pTIM_DIER \<equiv> 0x0C"
abbreviation (input) pTIM_SR :: nat where "pTIM_SR \<equiv> 0x10"
abbreviation (input) pTIM_EGR :: nat where "pTIM_EGR \<equiv> 0x14"
abbreviation (input) pTIM_PSC :: nat where "pTIM_PSC \<equiv> 0x28"
abbreviation (input) pTIM_ARR :: nat where "pTIM_ARR \<equiv> 0x2C"
abbreviation (input) pTIM_RCR :: nat where "pTIM_RCR \<equiv> 0x30"

record TIM_TimeBaseInitTypeDef =
  TIM_Prescaler :: u16
  TIM_CounterMode :: u16
  TIM_Period :: u16
  TIM_ClockDivision :: u16
  TIM_RepetitionCounter :: u8

definition TIM_TimeBaseInit :: "nat \<Rightarrow> TIM_TimeBaseInitTypeDef \<Rightarrow> 'z Fw_scheme \<Rightarrow> 'z Fw_scheme run" where
  "TIM_TimeBaseInit TIMx ini = run_seq
     [reg_read 2 (TIMx + pTIM_CR1) (\<lambda>v.
        let tmpcr1 = ucast v :: u16;
            tmpcr1 = (if TIMx \<in> {TIM1, TIM8, TIM2, TIM3, TIM4, TIM5}
                      then (tmpcr1 AND NOT (0x0010 OR 0x0060)) OR TIM_CounterMode ini else tmpcr1);
            tmpcr1 = (if TIMx \<noteq> TIM6 \<and> TIMx \<noteq> TIM7 then (tmpcr1 AND NOT 0x0300) OR TIM_ClockDivision ini else tmpcr1)
        in reg_write 2 (TIMx + pTIM_CR1) (ucast tmpcr1)),
      reg_write 2 (TIMx + pTIM_ARR) (ucast (TIM_Period ini)),
      reg_write 2 (TIMx + pTIM_PSC) (ucast (TIM_Prescaler ini)),
      if TIMx \<in> {TIM1, TIM8, TIM15, TIM16, TIM17} then reg_write 2 (TIMx + pTIM_RCR) (ucast (TIM_RepetitionCounter ini))
      else (\<lambda>s. Ok s []),
      reg_write 2 (TIMx + pTIM_EGR) 0x0001]"

definition TIM_Cmd :: "nat \<Rightarrow> bool \<Rightarrow> 'z Fw_scheme \<Rightarrow> 'z Fw_scheme run" where
  "TIM_Cmd TIMx NewState = reg_switch NewState (TIMx + pTIM_CR1) 0x0001 0xFFFE"

definition TIM_ITConfig :: "nat \<Rightarrow> u16 \<Rightarrow> bool \<Rightarrow> 'z Fw_scheme \<Rightarrow> 'z Fw_scheme run" where
  "TIM_ITConfig TIMx TIM_IT NewState = reg_switch NewState (TIMx + pTIM_DIER) (ucast TIM_IT) (ucast (NOT TIM_IT))"

definition TIM_ClearITPendingBit :: "nat \<Rightarrow> u16 \<Rightarrow> 'z Fw_scheme \<Rightarrow> 'z Fw_scheme run" where
  "TIM_ClearITPendingBit TIMx TIM_IT = reg_write 2 (TIMx + pTIM_SR) (ucast (NOT TIM_IT))"

section \<open>Milliseconds\<close>

record timeout_t =
  timeout_value :: u32

definition time_get :: "'z FwApp_scheme \<Rightarrow> timeout_t" where
  "time_get s = \<lparr>timeout_value = gTimeCounter s\<rparr>"

definition time_to_ms :: "timeout_t \<Rightarrow> u32" where
  "time_to_ms t = timeout_value t"

definition time_elapsed :: "timeout_t \<Rightarrow> 'z FwApp_scheme \<Rightarrow> bool" where
  "time_elapsed timeout s \<longleftrightarrow> timeout_value timeout - timeout_value (time_get s) > 0x7FFFFFFF"

definition time_set_timeout_ms :: "u32 \<Rightarrow> 'z FwApp_scheme \<Rightarrow> timeout_t" where
  "time_set_timeout_ms ms s =
     (let time = time_get s;
          time = time\<lparr>timeout_value := timeout_value time + ms\<rparr>;
          time = time\<lparr>timeout_value := timeout_value time + 1\<rparr>
      in time)"

definition time_diff_ms :: "timeout_t \<Rightarrow> timeout_t \<Rightarrow> int" where
  "time_diff_ms now before = sint (timeout_value now - timeout_value before)"

definition TIM2_IRQHandler :: "'z FwApp_scheme \<Rightarrow> 'z FwApp_scheme run" where
  "TIM2_IRQHandler = reg_read 2 (TIM2 + pTIM_SR) (\<lambda>sr s.
     if sr AND 0x0001 \<noteq> 0 then TIM_ClearITPendingBit TIM2 0x0001 (s\<lparr>gTimeCounter := gTimeCounter s + 1\<rparr>)
     else Ok s [])"

definition time_suspend :: "'z Fw_scheme \<Rightarrow> 'z Fw_scheme run" where
  "time_suspend = run_seq [TIM_ITConfig TIM2 0x0001 False, TIM_Cmd TIM2 False]"

definition time_resume :: "'z Fw_scheme \<Rightarrow> 'z Fw_scheme run" where
  "time_resume = run_seq [TIM_ITConfig TIM2 0x0001 True, TIM_Cmd TIM2 True]"

text \<open>The final wait of half a second changes no state. \<open>TIM_RepetitionCounter\<close> is left uninitialized; the
  initialisation of TIM2 does not read it.\<close>

definition time_init :: "'z FwApp_scheme \<Rightarrow> 'z FwApp_scheme run" where
  "time_init = run_seq
     [\<lambda>s. Ok (s\<lparr>gTimeCounter := 0\<rparr>) [],
      NVIC_Init \<lparr>NVIC_IRQChannel = 28, NVIC_IRQChannelPreemptionPriority = 0, NVIC_IRQChannelSubPriority = 0,
                 NVIC_IRQChannelCmd = True\<rparr>,
      RCC_APB1PeriphClockCmd 0x00000001 True,
      \<lambda>s. TIM_TimeBaseInit TIM2
            \<lparr>TIM_Prescaler = ucast ((SystemCoreClock s div 1000000) div 2 - 1), TIM_CounterMode = 0,
             TIM_Period = 2000 - 1, TIM_ClockDivision = 0, TIM_RepetitionCounter = 0\<rparr> s,
      time_resume]"

section \<open>Pulse input\<close>

record PulseInput =
  startTime :: u32
  currentTime :: u32
  pulseCounter :: u32
  lastPulseTime :: u32
  lastPulseTimestamp :: u32

text \<open>The handler reads the counter several times, and a tick of the timer may come between two reads:
  \<open>now k\<close> is the value of read \<open>k\<close>.\<close>

definition PulseInput_irq :: "(nat \<Rightarrow> u32) \<Rightarrow> PulseInput \<Rightarrow> PulseInput" where
  "PulseInput_irq now p =
     (let p = (if pulseCounter p = 0 then p\<lparr>startTime := now 0\<rparr>
               else if pulseCounter p = 4 then
                 p\<lparr>lastPulseTime := now 0 - startTime p, lastPulseTimestamp := now 0, startTime := now 1, pulseCounter := 0\<rparr>
               else p);
          pulseWidth = now 2 - currentTime p
      in if pulseWidth \<ge> 12 then p\<lparr>currentTime := now 3, pulseCounter := pulseCounter p + 1\<rparr> else p)"

text \<open>The constructor sets two of the members; the others are zero in an object with static storage.\<close>

definition mk_PulseInput :: PulseInput where
  "mk_PulseInput = \<lparr>startTime = 0, currentTime = 0, pulseCounter = 0, lastPulseTime = 1000, lastPulseTimestamp = 0\<rparr>"

end
