(* ===== verification/Fw_Lib_Props.thy ===== *)
theory Fw_Lib_Props
  imports Fw_Time Machine_Props
begin

text \<open>
  Properties of the firmware library that do not depend on the devices: timeouts on a counter that wraps
  around, the length of busy waits, the divider of the baud rate, the pulse counter and the printing of
  texts.
\<close>

section \<open>Timeouts\<close>






section \<open>Busy waiting\<close>






section \<open>Baud rate\<close>




section \<open>Pulses\<close>

lemma PulseInput_irq_counter: "pulseCounter p \<le> 4 \<Longrightarrow> pulseCounter (PulseInput_irq now p) \<le> 4"
  by (auto simp: PulseInput_irq_def Let_def word_le_nat_alt unat_word_ariths word_unat_eq_iff)



section \<open>Printing\<close>






end
