(* ===== verification/Fw_Ops.thy ===== *)
theory Fw_Ops
  imports Fw_Hal Machine_Props
begin

text \<open>
  A program of the P103 board on its machine: the invariant \<open>fw_ready\<close> of a machine that was booted and
  whose UARTs are not configured, and what each register access of a program does to such a machine. The
  lemmas hide the bus, the decoding of addresses and the delivery of lines.
\<close>

section \<open>Addresses\<close>

lemma region_find:
  assumes "(base, len, d) \<in> set xs" and "sorted_wrt apart xs" and "base \<le> a" and "a < base + len"
  shows "find (\<lambda>(b, n, d). b \<le> a \<and> a < b + n) xs = Some (base, len, d)"
  using assms(1,2)
proof (induction xs)
  case (Cons x xs)
  then show ?case using assms(3,4) by (fastforce simp: apart_def)
qed simp

lemma region_at:
  assumes "m_regions m = stm32_map" and "(base, len, d) \<in> set stm32_map" and "base \<le> a" and "a < base + len"
  shows "stm32_region_at a m = Some (base, len, d)"
  using region_find [OF assms(2) stm32_map_apart assms(3,4)] assms(1) by (simp add: stm32_region_at_def)

lemma region_devices:
  "(0x40021000, 0x1000, DevRcc) \<in> set stm32_map" "(0x40010400, 0x3ff, DevExti) \<in> set stm32_map"
  "(0x40010000, 0x3ff, DevAfio) \<in> set stm32_map"
  "p < 7 \<Longrightarrow> (0x40010800 + p * 0x400, 0x3ff, DevGpio p) \<in> set stm32_map"
  by (simp_all add: stm32_map_def del: upt_rec_numeral)

text \<open>Nothing of the microcontroller is above the RCC.\<close>

lemma region_none:
  assumes "m_regions m = stm32_map" and "0x40022000 \<le> a"
  shows "stm32_region_at a m = None"
  using assms by (auto simp: stm32_region_at_def find_None_iff stm32_map_def)

text \<open>A word access to a register of a device.\<close>

lemma word_casts:
  "take_bit 32 (ucast v :: u64) = ucast v" "take_bit 32 v = v" "ucast (ucast v :: u64) = v" for v :: u32
  by (rule bit_word_eqI; auto simp: bit_simps dest: bit_imp_le_length)+

lemma memory_write_dev:
  assumes "m_regions (fw_m s) = stm32_map" and "(base, len, d) \<in> set stm32_map" and "off < len" and "off mod 4 = 0"
  shows "memory_write 4 (base + off) v s = run_map (\<lambda>m. s\<lparr>fw_m := m\<rparr>) (stm32_run (stm32_dev_write d off (ucast v) 4) (fw_m s))"
  using region_at [OF assms(1,2), of "base + off"] assms(3,4)
  by (simp add: memory_write_def memory_region_dispatch_write_def memory_region_access_valid_def word_casts)

lemma reg_write_dev:
  assumes "m_regions (fw_m s) = stm32_map" and "(base, len, d) \<in> set stm32_map" and "off < len" and "off mod 4 = 0"
  shows "reg_write 4 (base + off) v s = run_map (\<lambda>m. s\<lparr>fw_m := m\<rparr>) (stm32_run (stm32_dev_write d off (ucast v) 4) (fw_m s))"
  using memory_write_dev [OF assms] by (simp add: reg_write_def word_casts)

lemma memory_read_dev:
  assumes "m_regions (fw_m s) = stm32_map" and "(base, len, d) \<in> set stm32_map" and "off < len" and "off mod 4 = 0"
    and "stm32_dev_read d off 4 (fw_m s) = Ok (ucast v, fw_m s) []"
  shows "memory_read 4 (base + off) s = Ok (v :: u32, s) []"
  using region_at [OF assms(1,2), of "base + off"] assms(3-5)
  by (simp add: memory_read_def memory_region_dispatch_read_def memory_region_access_valid_def word_casts)

lemma memory_ext:
  assumes "m_regions (fw_m s) = stm32_map" and "0x40022000 \<le> a"
  shows "memory_read n a s = Ok (fw_ext s (fw_ext_log s) a n, s) []"
    and "memory_write n a v s = Ok (s\<lparr>fw_ext_log := fw_ext_log s @ [(a, n, v)]\<rparr>) []"
  using region_none [OF assms] by (simp_all add: memory_read_def memory_write_def)

section \<open>Clock notifications\<close>

primrec is_post :: "effect \<Rightarrow> bool" where
  "is_post (PostDigitalOut p n v) = True"
| "is_post (PostEvent e) = True"
| "is_post (SetIrq i l) = False"
| "is_post (ClkNotify i f) = False"
| "is_post (HwWarn m) = False"
| "is_post (Stderr m) = False"
| "is_post (GuestLog m) = False"
| "is_post (ChrWrite c) = False"
| "is_post WaitAck = False"
| "is_post (Printf m) = False"

text \<open>The messages for the monitor among the effects.\<close>

abbreviation posts :: "effect list \<Rightarrow> effect list" where
  "posts es \<equiv> filter is_post es"

lemma sane_hclk:
  assumes "cfg_sane g"
  shows "clk_eval (rcc_heap g) 9 = 0 \<or> 8 \<le> clk_eval (rcc_heap g) 9"
proof -
  have sel: "rcc_selected g" and osc: "cfg_osc g = 8000000" and mul: "unat (cfg_pllmul g) \<in> {2 .. 16}"
    and h: "fst (cfg_hclk g) = 1" "unat (snd (cfg_hclk g)) \<in> {1 .. 16}"
    using assms by (simp_all add: cfg_sane_def)
  have half: "unat (scaled True (1, 2) f) = unat f div 2" for f using unat_scaled_div [of 2 f] by simp
  have src: "unat (freq_hsi g) \<in> {0, 8000000}" "unat (freq_hse g) \<in> {0, 8000000}"
    by (simp_all add: freq_hsi_def freq_hse_def osc)
  then have "unat (freq_pllxtpre g) \<in> {0, 4000000, 8000000}"
    by (auto simp: freq_pllxtpre_def half)
  then have "unat (if cfg_pllsrc g = 0 then scaled True (1, 2) (freq_hsi g) else freq_pllxtpre g) \<in> {0, 4000000, 8000000}"
    using src(1) by (auto simp: half)
  moreover have "unat (scaled e (cfg_pllmul g, 1) f) = 0 \<or> 8000000 \<le> unat (scaled e (cfg_pllmul g, 1) f)"
    if "unat f \<in> {0, 4000000, 8000000}" for e f
    using that mul by (auto simp: unat_scaled)
  ultimately have "unat (freq_pll g) = 0 \<or> 8000000 \<le> unat (freq_pll g)"
    unfolding freq_pll_def by blast
  then have sys: "unat (freq_sysclk g) = 0 \<or> 8000000 \<le> unat (freq_sysclk g)"
    using src by (auto simp: freq_sysclk_def)
  have d: "snd (cfg_hclk g) \<noteq> 0" using h(2) by auto
  have "unat (freq_hclk g) = unat (freq_sysclk g) div unat (snd (cfg_hclk g))"
    using unat_scaled_div [OF d, of "freq_sysclk g"] h(1) unfolding freq_hclk_def by (metis prod.collapse)
  moreover have "8 \<le> n div k" if "8000000 \<le> n" "k \<in> {1 .. 16}" for n k :: nat
    using that by (simp add: less_eq_div_iff_mult_less_eq)
  ultimately have "unat (freq_hclk g) = 0 \<or> 8 \<le> unat (freq_hclk g)" using sys h(2) by auto
  then show ?thesis
    unfolding rcc_eval_system(2) [OF sel] by (auto simp: word_le_nat_alt unat_eq_0)
qed

definition uarts_off :: "Stm32 \<Rightarrow> bool" where
  "uarts_off m \<longleftrightarrow> length (m_uart m) = 5 \<and> list_all (\<lambda>u. USART_BRR u = 0) (m_uart m)"

lemma hclk_handler_ok:
  assumes "f = 0 \<or> 8 \<le> f"
  shows "\<exists>x. stm32_rcc_hclk_upd_irq_handler f g = Ok x []"
proof (cases "f = 0")
  case False
  then have "8 \<le> unat f" using assms by (simp add: word_le_nat_alt)
  then have "unat (f div 8) \<noteq> 0" by (simp add: unat_div_distrib)
  then have "f div 8 \<noteq> 0" by (metis unat_0)
  then show ?thesis by (simp add: stm32_rcc_hclk_upd_irq_handler_def Let_def)
qed (simp add: stm32_rcc_hclk_upd_irq_handler_def)

lemma dispatch_calm:
  assumes "list_all rcc_calm es" and "uarts_off m"
  shows "\<exists>y us ws. stm32_dispatch 3 es m = Ok (m\<lparr>m_systick := y, m_uart := us\<rparr>) ws \<and>
    uarts_off (m\<lparr>m_systick := y, m_uart := us\<rparr>) \<and> posts ws = []"
  using assms
proof (induction es arbitrary: m)
  case Nil
  then show ?case by (intro exI [of _ "m_systick m"] exI [of _ "m_uart m"]) simp
next
  case (Cons e es)
  show ?case
  proof (cases "stm32_handle e")
    case None
    then have "\<not> is_post e" using Cons.prems(1) by (cases e) simp_all
    moreover obtain y us ws where "stm32_dispatch 3 es m = Ok (m\<lparr>m_systick := y, m_uart := us\<rparr>) ws"
        "uarts_off (m\<lparr>m_systick := y, m_uart := us\<rparr>)" "posts ws = []"
      using Cons.IH [OF _ Cons.prems(2)] Cons.prems(1) by auto
    ultimately show ?thesis using None by (intro exI [of _ y] exI [of _ us] exI [of _ "e # ws"]) simp
  next
    case (Some h)
    then obtain irq f where e: "e = ClkNotify irq f" "h = stm32_clk_handler irq f"
      using Cons.prems(1) by (cases e) auto
    have "\<exists>y us. h m = Ok (m\<lparr>m_systick := y, m_uart := us\<rparr>) [] \<and> uarts_off (m\<lparr>m_systick := y, m_uart := us\<rparr>)"
    proof (cases "irq = IrqHclkUpd")
      case True
      then have "f = 0 \<or> 8 \<le> f" using Cons.prems(1) e sane_hclk by auto
      from hclk_handler_ok [OF this] obtain x where "stm32_rcc_hclk_upd_irq_handler f (m_systick m) = Ok x []" by blast
      then show ?thesis
        using True e Cons.prems(2) by (intro exI [of _ x] exI [of _ "m_uart m"]) (simp add: on_systick_def uarts_off_def)
    next
      case False
      then obtain k where k: "irq = IrqUartClk k" "k < 5" using Cons.prems(1) e by (cases irq) auto
      let ?u = "(m_uart m ! k)\<lparr>bits_per_sec := 0\<rparr>"
      have "USART_BRR (m_uart m ! k) = 0" "k < length (m_uart m)"
        using Cons.prems(2) k(2) by (simp_all add: uarts_off_def list_all_length)
      then show ?thesis
        using k e Cons.prems(2)
        by (intro exI [of _ "m_systick m"] exI [of _ "(m_uart m)[k := ?u]"])
          (auto simp: on_uart_def uart_clk_notified_def uarts_off_def list_all_length nth_list_update)
    qed
    then obtain y us where h: "h m = Ok (m\<lparr>m_systick := y, m_uart := us\<rparr>) []" "uarts_off (m\<lparr>m_systick := y, m_uart := us\<rparr>)"
      by blast
    from Cons.IH [OF _ h(2)] Cons.prems(1) obtain y' us' ws where
      "stm32_dispatch 3 es (m\<lparr>m_systick := y, m_uart := us\<rparr>) = Ok (m\<lparr>m_systick := y', m_uart := us'\<rparr>) ws"
      "uarts_off (m\<lparr>m_systick := y', m_uart := us'\<rparr>)" "posts ws = []"
      by auto
    then show ?thesis using Some h(1) by (intro exI [of _ y'] exI [of _ us'] exI [of _ ws]) (simp add: numeral_3_eq_3)
  qed
qed

section \<open>Programs\<close>

text \<open>
  The triple: from a state with \<open>P\<close> the block \<open>f\<close> returns in a state with \<open>Q\<close>, sends exactly the messages \<open>ps\<close> to
  the monitor, and changes no variable of the program. \<open>fw_waits\<close> is the same for a block with loops that may
  not end.
\<close>

definition same_prog :: "'z Fw_scheme \<Rightarrow> 'z Fw_scheme \<Rightarrow> bool" where
  "same_prog s s' \<longleftrightarrow> (\<exists>m l. s' = s\<lparr>fw_m := m, fw_ext_log := l\<rparr>)"

definition fw_does ::
    "('z Fw_scheme \<Rightarrow> bool) \<Rightarrow> ('z Fw_scheme \<Rightarrow> 'z Fw_scheme run) \<Rightarrow> ('z Fw_scheme \<Rightarrow> bool) \<Rightarrow> effect list \<Rightarrow> bool" where
  "fw_does P f Q ps \<longleftrightarrow> (\<forall>s. P s \<longrightarrow> run_total (\<lambda>s' es. Q s' \<and> same_prog s s' \<and> posts es = ps) (f s))"

definition fw_waits ::
    "('z Fw_scheme \<Rightarrow> bool) \<Rightarrow> ('z Fw_scheme \<Rightarrow> 'z Fw_scheme run option) \<Rightarrow> ('z Fw_scheme \<Rightarrow> bool) \<Rightarrow> effect list \<Rightarrow> bool" where
  "fw_waits P f Q ps \<longleftrightarrow>
     (\<forall>s. P s \<longrightarrow> (\<exists>r. f s = Some r \<and> run_total (\<lambda>s' es. Q s' \<and> same_prog s s' \<and> posts es = ps) r))"

lemma same_prog_refl [simp]: "same_prog s s"
  unfolding same_prog_def by (intro exI [of _ "fw_m s"] exI [of _ "fw_ext_log s"]) simp

lemma same_prog_m [simp]: "same_prog s (s\<lparr>fw_m := m\<rparr>)" "same_prog s (s\<lparr>fw_ext_log := l\<rparr>)"
  unfolding same_prog_def
  by (intro exI [of _ m] exI [of _ "fw_ext_log s"], simp) (intro exI [of _ "fw_m s"] exI [of _ l], simp)

lemma same_prog_trans: "same_prog s s' \<Longrightarrow> same_prog s' s'' \<Longrightarrow> same_prog s s''"
  unfolding same_prog_def by (elim exE) (simp, blast)

lemma fw_doesI: "(\<And>s. P s \<Longrightarrow> run_total (\<lambda>s' es. Q s' \<and> same_prog s s' \<and> posts es = ps) (f s)) \<Longrightarrow> fw_does P f Q ps"
  by (simp add: fw_does_def)

lemma fw_doesE:
  assumes "fw_does P f Q ps" "P s"
  obtains s' es where "f s = Ok s' es" "Q s'" "same_prog s s'" "posts es = ps"
proof -
  have "run_total (\<lambda>s' es. Q s' \<and> same_prog s s' \<and> posts es = ps) (f s)" using assms by (simp add: fw_does_def)
  then show thesis by (rule run_totalE) (use that in blast)
qed

lemma fw_does_Nil: "(\<And>s. P s \<Longrightarrow> Q s) \<Longrightarrow> fw_does P (run_seq []) Q []"
  by (simp add: fw_does_def)

lemma fw_does_skip: "(\<And>s. P s \<Longrightarrow> Q s) \<Longrightarrow> fw_does P (\<lambda>s. Ok s []) Q []"
  by (simp add: fw_does_def)

lemma fw_does_Cons:
  assumes "fw_does P f R ps" "fw_does R (run_seq fs) Q qs"
  shows "fw_does P (run_seq (f # fs)) Q (ps @ qs)"
proof (rule fw_doesI)
  fix s assume "P s"
  with assms(1) obtain s' es where 1: "f s = Ok s' es" "R s'" "same_prog s s'" "posts es = ps" by (rule fw_doesE)
  from assms(2) 1(2) obtain s'' fs' where "run_seq fs s' = Ok s'' fs'" "Q s''" "same_prog s' s''" "posts fs' = qs"
    by (rule fw_doesE)
  then show "run_total (\<lambda>s' es. Q s' \<and> same_prog s s' \<and> posts es = ps @ qs) (run_seq (f # fs) s)"
    using 1 same_prog_trans by auto
qed

lemma fw_waitsE:
  assumes "fw_waits P f Q ps" "P s"
  obtains s' es where "f s = Some (Ok s' es)" "Q s'" "same_prog s s'" "posts es = ps"
proof -
  obtain r where r: "f s = Some r" "run_total (\<lambda>s' es. Q s' \<and> same_prog s s' \<and> posts es = ps) r"
    using assms by (auto simp: fw_waits_def)
  show thesis by (rule run_totalE [OF r(2)]) (use r(1) that in blast)
qed

lemma fw_waits_plain: "fw_does P f Q ps \<Longrightarrow> fw_waits P (plain f) Q ps"
  by (simp add: fw_does_def fw_waits_def plain_def)

lemma fw_waits_Nil: "(\<And>s. P s \<Longrightarrow> Q s) \<Longrightarrow> fw_waits P (wait_seq []) Q []"
  by (simp add: fw_waits_def)

lemma fw_waits_Cons:
  assumes "fw_waits P f R ps" "fw_waits R (wait_seq fs) Q qs"
  shows "fw_waits P (wait_seq (f # fs)) Q (ps @ qs)"
  unfolding fw_waits_def
proof (intro allI impI)
  fix s assume "P s"
  with assms(1) obtain s' es where 1: "f s = Some (Ok s' es)" "R s'" "same_prog s s'" "posts es = ps"
    by (rule fw_waitsE)
  from assms(2) 1(2) obtain s'' fs' where "wait_seq fs s' = Some (Ok s'' fs')" "Q s''" "same_prog s' s''" "posts fs' = qs"
    by (rule fw_waitsE)
  then show "\<exists>r. wait_seq (f # fs) s = Some r \<and> run_total (\<lambda>s' es. Q s' \<and> same_prog s s' \<and> posts es = ps @ qs) r"
    using 1 same_prog_trans by (auto simp: wait_bind_def)
qed

text \<open>Accesses outside the microcontroller keep everything that does not depend on the log of such accesses.\<close>

lemma fw_does_ext:
  fixes P :: "'z Fw_scheme \<Rightarrow> bool"
  assumes "\<And>s. P s \<Longrightarrow> m_regions (fw_m s) = stm32_map" and "\<And>s l. P s \<Longrightarrow> P (s\<lparr>fw_ext_log := l\<rparr>)" and "0x40022000 \<le> a"
  shows "fw_does P (reg_write n a v) P []" "fw_does P (reg_or n a v) P []" "fw_does P (reg_and n a v) P []"
proof -
  have "run_total (\<lambda>s' es. P s' \<and> same_prog s s' \<and> posts es = []) (reg_write n a v s)" if "P s" for s v
    using memory_ext(2) [OF assms(1) [OF that] assms(3)] assms(2) [OF that] by (simp add: reg_write_def)
  moreover have "reg_read n a k s = k (fw_ext s (fw_ext_log s) a n) s" if "P s" for s and k :: "u32 \<Rightarrow> 'z Fw_scheme \<Rightarrow> 'z Fw_scheme run"
    using memory_ext(1) [OF assms(1) [OF that] assms(3)] by (simp add: reg_read_def)
  ultimately show "fw_does P (reg_write n a v) P []" "fw_does P (reg_or n a v) P []" "fw_does P (reg_and n a v) P []"
    by (simp_all add: fw_does_def reg_or_def reg_and_def)
qed

section \<open>The clocks\<close>

text \<open>The clocks are in configuration \<open>a\<close>, and nothing but the clocks, the SysTick scales and the UARTs differs
  from \<open>m\<close>.\<close>

definition clk_frame :: "Stm32 \<Rightarrow> Stm32 \<Rightarrow> bool" where
  "clk_frame m m' \<longleftrightarrow> (\<exists>r y us. m' = m\<lparr>m_rcc := r, m_systick := y, m_uart := us\<rparr>)"

definition clk_at :: "Stm32 \<Rightarrow> rcc_abs \<Rightarrow> 'z Fw_scheme \<Rightarrow> bool" where
  "clk_at m a s \<longleftrightarrow> rcc_at a (m_rcc (fw_m s)) \<and> rcc_synced (fst a) (snd a) \<and> cfg_sane (fst a) \<and> uarts_off (fw_m s) \<and>
     m_regions m = stm32_map \<and> clk_frame m (fw_m s)"

lemma clk_frame_refl: "clk_frame m m"
  unfolding clk_frame_def by (intro exI [of _ "m_rcc m"] exI [of _ "m_systick m"] exI [of _ "m_uart m"]) simp

lemma clk_frame_step: "clk_frame m m' \<Longrightarrow> clk_frame m (m'\<lparr>m_rcc := r, m_systick := y, m_uart := us\<rparr>)"
  unfolding clk_frame_def by (elim exE) (simp, blast)

lemma clk_frame_same:
  assumes "clk_frame m m'"
  shows "m_gpio m' = m_gpio m" "m_exti m' = m_exti m" "m_afio m' = m_afio m" "m_nvic m' = m_nvic m" "m_regions m' = m_regions m"
  using assms by (auto simp: clk_frame_def)

lemma clk_at_regions: "clk_at m a s \<Longrightarrow> m_regions (fw_m s) = stm32_map"
  using clk_frame_same(5) by (auto simp: clk_at_def)

lemma rcc_bus_write:
  assumes "rcc_does (g, x) (\<lambda>r. stm32_rcc_write r off (ucast v) 4) b" and "rcc_synced (fst b) (snd b)"
    and "off < 0x1000" and "off mod 4 = 0" and "clk_at m (g, x) s"
  shows "run_total (\<lambda>s' es. clk_at m b s' \<and> same_prog s s' \<and> posts es = []) (reg_write 4 (0x40021000 + off) v s)"
proof -
  let ?m = "fw_m s"
  have at: "rcc_at (g, x) (m_rcc ?m)" "cfg_sane g" "uarts_off ?m" using assms(5) by (simp_all add: clk_at_def)
  obtain r es where r: "stm32_rcc_write (m_rcc ?m) off (ucast v) 4 = Ok r es" "rcc_at b r" "cfg_sane (fst b)" "list_all rcc_calm es"
    using rcc_does_all [OF assms(1) at(1)] at(2) by (auto elim: run_totalE)
  let ?m1 = "?m\<lparr>m_rcc := r\<rparr>"
  have "uarts_off ?m1" using at(3) by (simp add: uarts_off_def)
  from dispatch_calm [OF r(4) this] obtain y us ws where
    d: "stm32_dispatch 3 es ?m1 = Ok (?m1\<lparr>m_systick := y, m_uart := us\<rparr>) ws" "uarts_off (?m1\<lparr>m_systick := y, m_uart := us\<rparr>)"
      "posts ws = []" by blast
  have w: "reg_write 4 (0x40021000 + off) v s = Ok (s\<lparr>fw_m := ?m1\<lparr>m_systick := y, m_uart := us\<rparr>\<rparr>) ws"
    using reg_write_dev [OF clk_at_regions [OF assms(5)] region_devices(1) assms(3,4), of v] r(1) d(1)
    by (simp add: stm32_run_def)
  have "clk_frame m (?m1\<lparr>m_systick := y, m_uart := us\<rparr>)"
    using clk_frame_step [of m ?m] assms(5) by (simp add: clk_at_def)
  then have "clk_at m b (s\<lparr>fw_m := ?m1\<lparr>m_systick := y, m_uart := us\<rparr>\<rparr>)"
    using r(2,3) d(2) assms(2,5) by (simp add: clk_at_def)
  then show ?thesis using d(3) by (simp add: w)
qed

lemma rcc_bus_read:
  assumes "clk_at m (g, x) s" and "off < 0x1000" and "off mod 4 = 0"
    and "stm32_rcc_read (m_rcc (fw_m s)) off 4 = Ok (ucast v) []"
  shows "memory_read 4 (0x40021000 + off) s = Ok (v, s) []"
  using memory_read_dev [OF clk_at_regions [OF assms(1)] region_devices(1) assms(2,3)] assms(4) by simp

end
