(* ===== verification/Fw_Clock_Props.thy ===== *)
theory Fw_Clock_Props
  imports Fw_Ops
begin

text \<open>
  The clocks of a program: the start-up code brings the buses to 72 and 36 MHz on every machine of a
  board, whatever the clocks were before, and where the frequencies the driver computes are the ones the
  emulator runs at.
\<close>

section \<open>Registers of the RCC\<close>

lemma clk_does_write:
  assumes "rcc_does (g, x) (\<lambda>r. stm32_rcc_write r off (ucast v) 4) b"
    and "rcc_synced g x \<Longrightarrow> rcc_synced (fst b) (snd b)" and "off < 0x1000" and "off mod 4 = 0"
  shows "fw_does (clk_at m (g, x)) (reg_write 4 (0x40021000 + off) v) (clk_at m b) []"
proof (rule fw_doesI)
  fix s :: "'a Fw_scheme" assume s: "clk_at m (g, x) s"
  then have "rcc_synced (fst b) (snd b)" using assms(2) by (simp add: clk_at_def)
  from rcc_bus_write [OF assms(1) this assms(3,4) s]
  show "run_total (\<lambda>s' es. clk_at m b s' \<and> same_prog s s' \<and> posts es = []) (reg_write 4 (0x40021000 + off) v s)" .
qed

lemma clk_CR_write: "fw_does (clk_at m (g, x)) (reg_write 4 pRCC_CR v) (clk_at m (rcc_cr_cfg v g, x)) []"
  using clk_does_write [of g x 0 v "(rcc_cr_cfg v g, x)" m] rcc_does_CR_write [of g x v] rcc_synced_writes(1) [of g x v]
  by (simp add: stm32_rcc_write_def stm32_rcc_writew_def word_casts)

lemma clk_CFGR_write:
  "cfgr_sw v \<noteq> 3 \<Longrightarrow> fw_does (clk_at m (g, x)) (reg_write 4 pRCC_CFGR v)
     (clk_at m (rcc_cfgr_cfg v g, rcc_cfgr_fields v x)) []"
  using clk_does_write [of g x 4 v "(rcc_cfgr_cfg v g, rcc_cfgr_fields v x)" m] rcc_does_CFGR_write [of v g x]
    rcc_synced_cfgr [of g x v]
  by (simp add: stm32_rcc_write_def stm32_rcc_writew_def word_casts)

lemma clk_CIR_write: "fw_does (clk_at m (g, x)) (reg_write 4 pRCC_CIR v) (clk_at m (g, x)) []"
  using clk_does_write [of g x 8 v "(g, x)" m]
  by (simp add: stm32_rcc_write_def stm32_rcc_writew_def rcc_does_def)

lemma clk_read:
  assumes "\<And>r. rcc_at (g, x) r \<Longrightarrow> rcc_synced g x \<Longrightarrow> \<exists>v. stm32_rcc_read r off 4 = Ok (ucast v) [] \<and> R v"
    and "off < 0x1000" and "off mod 4 = 0" and "\<And>v. R v \<Longrightarrow> fw_does (clk_at m (g, x)) (k v) Q ps"
  shows "fw_does (clk_at m (g, x)) (reg_read 4 (0x40021000 + off) k) Q ps"
proof (rule fw_doesI)
  fix s :: "'a Fw_scheme" assume s: "clk_at m (g, x) s"
  obtain v where v: "stm32_rcc_read (m_rcc (fw_m s)) off 4 = Ok (ucast v) []" "R v"
    using assms(1) [of "m_rcc (fw_m s)"] s by (auto simp: clk_at_def)
  have "reg_read 4 (0x40021000 + off) k s = k v s"
    using rcc_bus_read [OF s assms(2,3) v(1)] by (simp add: reg_read_def)
  then show "run_total (\<lambda>s' es. Q s' \<and> same_prog s s' \<and> posts es = ps) (reg_read 4 (0x40021000 + off) k s)"
    using assms(4) [OF v(2)] s by (simp add: fw_does_def)
qed

lemma clk_read_CR:
  assumes "\<And>v. (\<forall>n. bit v n \<longleftrightarrow> (n = 24 \<or> n = 25) \<and> cfg_pll g \<or> (n = 16 \<or> n = 17) \<and> cfg_hse g \<or> (n = 0 \<or> n = 1) \<and> cfg_hsi g) \<Longrightarrow>
    fw_does (clk_at m (g, x)) (k v) Q ps"
  shows "fw_does (clk_at m (g, x)) (reg_read 4 pRCC_CR k) Q ps"
proof -
  let ?R = "\<lambda>v :: u32. \<forall>n. bit v n \<longleftrightarrow> (n = 24 \<or> n = 25) \<and> cfg_pll g \<or> (n = 16 \<or> n = 17) \<and> cfg_hse g \<or> (n = 0 \<or> n = 1) \<and> cfg_hsi g"
  have "\<exists>v. stm32_rcc_read r 0 4 = Ok (ucast v) [] \<and> ?R v" if "rcc_at (g, x) r" for r
    using bit_CR_read [OF that] by (intro exI [of _ "stm32_rcc_RCC_CR_read r"]) (simp add: stm32_rcc_read_def stm32_rcc_readw_def)
  from clk_read [of g x 0 ?R m k Q ps, OF this _ _ assms] show ?thesis by simp
qed

text \<open>A write to CFGR of what was read from it, combined with a constant field by field.\<close>

definition cfgr_map :: "(u32 \<Rightarrow> u32 \<Rightarrow> u32) \<Rightarrow> u32 \<Rightarrow> Stm32Rcc \<Rightarrow> Stm32Rcc" where
  "cfgr_map f w x = x\<lparr>RCC_CFGR_PLLMUL := f (RCC_CFGR_PLLMUL x) (cfgr_pllmul w),
     RCC_CFGR_PLLXTPRE := f (RCC_CFGR_PLLXTPRE x) (cfgr_xtpre w), RCC_CFGR_PLLSRC := f (RCC_CFGR_PLLSRC x) (cfgr_pllsrc w),
     RCC_CFGR_PPRE2 := f (RCC_CFGR_PPRE2 x) (cfgr_ppre2 w), RCC_CFGR_PPRE1 := f (RCC_CFGR_PPRE1 x) (cfgr_ppre1 w),
     RCC_CFGR_HPRE := f (RCC_CFGR_HPRE x) (cfgr_hpre w), RCC_CFGR_SW := f (RCC_CFGR_SW x) (cfgr_sw w)\<rparr>"

definition cfg_of_fields :: "Stm32Rcc \<Rightarrow> rcc_cfg \<Rightarrow> rcc_cfg" where
  "cfg_of_fields x g = g\<lparr>cfg_pllmul := rcc_pllmul (RCC_CFGR_PLLMUL x), cfg_xtpre := uint (RCC_CFGR_PLLXTPRE x),
     cfg_pllsrc := uint (RCC_CFGR_PLLSRC x), cfg_pclk2 := (1, rcc_presc 4 (RCC_CFGR_PPRE2 x)),
     cfg_pclk1 := (1, rcc_presc 4 (RCC_CFGR_PPRE1 x)), cfg_hclk := (1, rcc_presc 8 (RCC_CFGR_HPRE x)),
     cfg_sw := uint (RCC_CFGR_SW x)\<rparr>"

lemma cfgr_fields_ops:
  "cfgr_pllmul (c AND w) = cfgr_pllmul c AND cfgr_pllmul w" "cfgr_pllmul (c OR w) = cfgr_pllmul c OR cfgr_pllmul w"
  "cfgr_xtpre (c AND w) = cfgr_xtpre c AND cfgr_xtpre w" "cfgr_xtpre (c OR w) = cfgr_xtpre c OR cfgr_xtpre w"
  "cfgr_pllsrc (c AND w) = cfgr_pllsrc c AND cfgr_pllsrc w" "cfgr_pllsrc (c OR w) = cfgr_pllsrc c OR cfgr_pllsrc w"
  "cfgr_ppre2 (c AND w) = cfgr_ppre2 c AND cfgr_ppre2 w" "cfgr_ppre2 (c OR w) = cfgr_ppre2 c OR cfgr_ppre2 w"
  "cfgr_ppre1 (c AND w) = cfgr_ppre1 c AND cfgr_ppre1 w" "cfgr_ppre1 (c OR w) = cfgr_ppre1 c OR cfgr_ppre1 w"
  "cfgr_hpre (c AND w) = cfgr_hpre c AND cfgr_hpre w" "cfgr_hpre (c OR w) = cfgr_hpre c OR cfgr_hpre w"
  "cfgr_sw (c AND w) = cfgr_sw c AND cfgr_sw w" "cfgr_sw (c OR w) = cfgr_sw c OR cfgr_sw w"
  by (rule bit_word_eqI; auto simp: bit_cfgr_fields bit_and_iff bit_or_iff)+

lemma cfgr_combine:
  assumes "rcc_synced g (rcc_fields s)"
  shows "rcc_cfgr_fields (stm32_rcc_RCC_CFGR_read s AND w) (rcc_fields s) = cfgr_map (AND) w (rcc_fields s)"
    "rcc_cfgr_cfg (stm32_rcc_RCC_CFGR_read s AND w) g = cfg_of_fields (cfgr_map (AND) w (rcc_fields s)) g"
    "rcc_cfgr_fields (stm32_rcc_RCC_CFGR_read s OR w) (rcc_fields s) = cfgr_map (OR) w (rcc_fields s)"
    "rcc_cfgr_cfg (stm32_rcc_RCC_CFGR_read s OR w) g = cfg_of_fields (cfgr_map (OR) w (rcc_fields s)) g"
  by (simp_all add: rcc_cfgr_fields_def rcc_cfgr_cfg_def cfgr_map_def cfg_of_fields_def cfgr_fields_ops
      cfgr_of_read [OF assms] rcc_fields_def)

lemma clk_read_CFGR:
  assumes "\<And>r. rcc_fields r = x \<Longrightarrow> rcc_synced g x \<Longrightarrow>
    fw_does (clk_at m (g, x)) (k (stm32_rcc_RCC_CFGR_read r)) Q ps"
  shows "fw_does (clk_at m (g, x)) (reg_read 4 pRCC_CFGR k) Q ps"
proof -
  let ?R = "\<lambda>v. \<exists>r. rcc_fields r = x \<and> rcc_synced g x \<and> v = stm32_rcc_RCC_CFGR_read r"
  have "\<exists>v. stm32_rcc_read r 4 4 = Ok (ucast v) [] \<and> ?R v" if "rcc_at (g, x) r" "rcc_synced g x" for r
    using that by (intro exI [of _ "stm32_rcc_RCC_CFGR_read r"]) (auto simp: stm32_rcc_read_def stm32_rcc_readw_def rcc_at_def)
  from clk_read [of g x 4 ?R m k Q ps, OF this] show ?thesis using assms by auto
qed

lemma clk_CFGR_and:
  assumes "RCC_CFGR_SW x AND cfgr_sw w \<noteq> 3"
  shows "fw_does (clk_at m (g, x)) (reg_and 4 pRCC_CFGR w)
    (clk_at m (cfg_of_fields (cfgr_map (AND) w x) g, cfgr_map (AND) w x)) []"
  unfolding reg_and_def
proof (rule clk_read_CFGR)
  fix r assume r: "rcc_fields r = x" "rcc_synced g x"
  have "cfgr_sw (stm32_rcc_RCC_CFGR_read r AND w) \<noteq> 3"
    using assms r cfgr_of_read(7) [of g r] by (auto simp: cfgr_fields_ops rcc_fields_def)
  from clk_CFGR_write [OF this, of m g x]
  show "fw_does (clk_at m (g, x)) (reg_write 4 pRCC_CFGR (stm32_rcc_RCC_CFGR_read r AND w))
      (clk_at m (cfg_of_fields (cfgr_map (AND) w x) g, cfgr_map (AND) w x)) []"
    using cfgr_combine(1,2) [of g r w] r by simp
qed

lemma clk_CFGR_or:
  assumes "RCC_CFGR_SW x OR cfgr_sw w \<noteq> 3"
  shows "fw_does (clk_at m (g, x)) (reg_or 4 pRCC_CFGR w)
    (clk_at m (cfg_of_fields (cfgr_map (OR) w x) g, cfgr_map (OR) w x)) []"
  unfolding reg_or_def
proof (rule clk_read_CFGR)
  fix r assume r: "rcc_fields r = x" "rcc_synced g x"
  have "cfgr_sw (stm32_rcc_RCC_CFGR_read r OR w) \<noteq> 3"
    using assms r cfgr_of_read(7) [of g r] by (auto simp: cfgr_fields_ops rcc_fields_def)
  from clk_CFGR_write [OF this, of m g x]
  show "fw_does (clk_at m (g, x)) (reg_write 4 pRCC_CFGR (stm32_rcc_RCC_CFGR_read r OR w))
      (clk_at m (cfg_of_fields (cfgr_map (OR) w x) g, cfgr_map (OR) w x)) []"
    using cfgr_combine(3,4) [of g r w] r by simp
qed

lemma clk_CR_ops:
  "fw_does (clk_at m (g, x)) (reg_or 4 pRCC_CR w) (clk_at m (g\<lparr>cfg_pll := cfg_pll g \<or> bit w 24,
     cfg_hse := cfg_hse g \<or> bit w 16, cfg_hsi := cfg_hsi g \<or> bit w 0\<rparr>, x)) []"
  "fw_does (clk_at m (g, x)) (reg_and 4 pRCC_CR w) (clk_at m (g\<lparr>cfg_pll := cfg_pll g \<and> bit w 24,
     cfg_hse := cfg_hse g \<and> bit w 16, cfg_hsi := cfg_hsi g \<and> bit w 0\<rparr>, x)) []"
proof -
  show "fw_does (clk_at m (g, x)) (reg_or 4 pRCC_CR w) (clk_at m (g\<lparr>cfg_pll := cfg_pll g \<or> bit w 24,
     cfg_hse := cfg_hse g \<or> bit w 16, cfg_hsi := cfg_hsi g \<or> bit w 0\<rparr>, x)) []"
    unfolding reg_or_def
  proof (rule clk_read_CR)
    fix v :: u32 assume "\<forall>n. bit v n \<longleftrightarrow> (n = 24 \<or> n = 25) \<and> cfg_pll g \<or> (n = 16 \<or> n = 17) \<and> cfg_hse g \<or> (n = 0 \<or> n = 1) \<and> cfg_hsi g"
    then show "fw_does (clk_at m (g, x)) (reg_write 4 pRCC_CR (v OR w)) (clk_at m (g\<lparr>cfg_pll := cfg_pll g \<or> bit w 24,
       cfg_hse := cfg_hse g \<or> bit w 16, cfg_hsi := cfg_hsi g \<or> bit w 0\<rparr>, x)) []"
      using clk_CR_write [of m g x "v OR w"] by (simp add: rcc_cr_cfg_def bit_or_iff)
  qed
  show "fw_does (clk_at m (g, x)) (reg_and 4 pRCC_CR w) (clk_at m (g\<lparr>cfg_pll := cfg_pll g \<and> bit w 24,
     cfg_hse := cfg_hse g \<and> bit w 16, cfg_hsi := cfg_hsi g \<and> bit w 0\<rparr>, x)) []"
    unfolding reg_and_def
  proof (rule clk_read_CR)
    fix v :: u32 assume "\<forall>n. bit v n \<longleftrightarrow> (n = 24 \<or> n = 25) \<and> cfg_pll g \<or> (n = 16 \<or> n = 17) \<and> cfg_hse g \<or> (n = 0 \<or> n = 1) \<and> cfg_hsi g"
    then show "fw_does (clk_at m (g, x)) (reg_write 4 pRCC_CR (v AND w)) (clk_at m (g\<lparr>cfg_pll := cfg_pll g \<and> bit w 24,
       cfg_hse := cfg_hse g \<and> bit w 16, cfg_hsi := cfg_hsi g \<and> bit w 0\<rparr>, x)) []"
      using clk_CR_write [of m g x "v AND w"] by (simp add: rcc_cr_cfg_def bit_and_iff)
  qed
qed

section \<open>Start-up\<close>

lemma clk_at_ext: "clk_at m a s \<Longrightarrow> clk_at m a (s\<lparr>fw_ext_log := l\<rparr>)"
  by (simp add: clk_at_def)

lemma clk_ext:
  assumes "0x40022000 \<le> a"
  shows "fw_does (clk_at m c) (reg_write n a v) (clk_at m c) []" "fw_does (clk_at m c) (reg_or n a v) (clk_at m c) []"
    "fw_does (clk_at m c) (reg_and n a v) (clk_at m c) []"
  by (rule fw_does_ext; (erule clk_at_regions | erule clk_at_ext | rule assms))+

lemma clk_waits:
  fixes m :: Stm32
  assumes "\<And>s :: 'z Fw_scheme. clk_at m a s \<Longrightarrow> \<exists>v. memory_read 4 p s = Ok (v, s) [] \<and> v AND msk = w"
  shows "fw_waits (clk_at m a) (reg_wait p msk w :: 'z Fw_scheme \<Rightarrow> _) (clk_at m a) []"
  unfolding fw_waits_def
proof (intro allI impI)
  fix s :: "'z Fw_scheme" assume s: "clk_at m a s"
  then obtain v where "memory_read 4 p s = Ok (v, s) []" "v AND msk = w" using assms by blast
  then show "\<exists>r. reg_wait p msk w s = Some r \<and> run_total (\<lambda>s' es. clk_at m a s' \<and> same_prog s s' \<and> posts es = []) r"
    using s by (subst reg_wait.simps) simp
qed

lemma CR_bus_read:
  assumes "clk_at m (g, x) s"
  shows "\<exists>v. memory_read 4 pRCC_CR s = Ok (v, s) [] \<and> (\<forall>n. bit v n \<longleftrightarrow>
    (n = 24 \<or> n = 25) \<and> cfg_pll g \<or> (n = 16 \<or> n = 17) \<and> cfg_hse g \<or> (n = 0 \<or> n = 1) \<and> cfg_hsi g)"
proof -
  let ?r = "m_rcc (fw_m s)"
  have at: "rcc_at (g, x) ?r" using assms by (simp add: clk_at_def)
  have "stm32_rcc_read ?r 0 4 = Ok (ucast (stm32_rcc_RCC_CR_read ?r)) []"
    by (simp add: stm32_rcc_read_def stm32_rcc_readw_def)
  from rcc_bus_read [OF assms _ _ this] show ?thesis using bit_CR_read [OF at] by auto
qed

lemma CFGR_bus_read:
  assumes "clk_at m (g, x) s"
  shows "memory_read 4 pRCC_CFGR s = Ok (stm32_rcc_RCC_CFGR_read x, s) []"
proof -
  let ?r = "m_rcc (fw_m s)"
  have "rcc_fields ?r = x" using assms by (simp add: clk_at_def rcc_at_def)
  then have "stm32_rcc_RCC_CFGR_read ?r = stm32_rcc_RCC_CFGR_read x"
    by (auto simp: rcc_fields_def stm32_rcc_RCC_CFGR_read_def)
  then have "stm32_rcc_read ?r 4 4 = Ok (ucast (stm32_rcc_RCC_CFGR_read x)) []"
    by (simp add: stm32_rcc_read_def stm32_rcc_readw_def)
  from rcc_bus_read [OF assms _ _ this] show ?thesis by simp
qed

lemma and_flag: "v AND 0x02000000 = 0x02000000 \<longleftrightarrow> bit v 25" "v AND 0x00020000 \<noteq> 0 \<longleftrightarrow> bit v 17" for v :: u32
proof -
  have b: "(0x02000000 :: u32) = BIT 25" "(0x00020000 :: u32) = BIT 17" by code_simp+
  have "v AND BIT 25 = (if bit v 25 then BIT 25 else 0)"
    by (rule bit_word_eqI) (auto simp: bit_and_iff bit_BIT)
  moreover have "BIT 25 \<noteq> (0 :: u32)" by code_simp
  ultimately show "v AND 0x02000000 = 0x02000000 \<longleftrightarrow> bit v 25" unfolding b by auto
  show "v AND 0x00020000 \<noteq> 0 \<longleftrightarrow> bit v 17" unfolding b by (simp add: and_BIT_ne_0)
qed

lemma clk_hse_wait:
  assumes "cfg_hse g"
  shows "fw_does (clk_at m (g, x)) (hse_ready_loop (Suc n)) (clk_at m (g, x)) []"
proof (rule fw_doesI)
  fix s :: "'a Fw_scheme" assume s: "clk_at m (g, x) s"
  obtain v where "memory_read 4 pRCC_CR s = Ok (v, s) []" "bit v 17" using CR_bus_read [OF s] assms by auto
  then show "run_total (\<lambda>s' es. clk_at m (g, x) s' \<and> same_prog s s' \<and> posts es = []) (hse_ready_loop (Suc n) s)"
    using s by (simp add: reg_read_def and_flag)
qed

text \<open>The fields of the constants the start-up code combines with CFGR.\<close>

lemma cfgr_constants:
  "cfgr_pllmul 0xF8FF0000 = 15" "cfgr_xtpre 0xF8FF0000 = 1" "cfgr_pllsrc 0xF8FF0000 = 1" "cfgr_ppre2 0xF8FF0000 = 0"
  "cfgr_ppre1 0xF8FF0000 = 0" "cfgr_hpre 0xF8FF0000 = 0" "cfgr_sw 0xF8FF0000 = 0"
  "cfgr_pllmul 0xFF80FFFF = 0" "cfgr_xtpre 0xFF80FFFF = 0" "cfgr_pllsrc 0xFF80FFFF = 0" "cfgr_ppre2 0xFF80FFFF = 7"
  "cfgr_ppre1 0xFF80FFFF = 7" "cfgr_hpre 0xFF80FFFF = 15" "cfgr_sw 0xFF80FFFF = 3"
  "cfgr_pllmul 0x400 = 0" "cfgr_xtpre 0x400 = 0" "cfgr_pllsrc 0x400 = 0" "cfgr_ppre2 0x400 = 0"
  "cfgr_ppre1 0x400 = 4" "cfgr_hpre 0x400 = 0" "cfgr_sw 0x400 = 0"
  "cfgr_pllmul (NOT 0x3F0000) = 0" "cfgr_xtpre (NOT 0x3F0000) = 0" "cfgr_pllsrc (NOT 0x3F0000) = 0"
  "cfgr_ppre2 (NOT 0x3F0000) = 7" "cfgr_ppre1 (NOT 0x3F0000) = 7" "cfgr_hpre (NOT 0x3F0000) = 15" "cfgr_sw (NOT 0x3F0000) = 3"
  "cfgr_pllmul 0x1D0000 = 7" "cfgr_xtpre 0x1D0000 = 0" "cfgr_pllsrc 0x1D0000 = 1" "cfgr_ppre2 0x1D0000 = 0"
  "cfgr_ppre1 0x1D0000 = 0" "cfgr_hpre 0x1D0000 = 0" "cfgr_sw 0x1D0000 = 0"
  "cfgr_pllmul (NOT 3) = 15" "cfgr_xtpre (NOT 3) = 1" "cfgr_pllsrc (NOT 3) = 1" "cfgr_ppre2 (NOT 3) = 7"
  "cfgr_ppre1 (NOT 3) = 7" "cfgr_hpre (NOT 3) = 15" "cfgr_sw (NOT 3) = 0"
  "cfgr_pllmul 2 = 0" "cfgr_xtpre 2 = 0" "cfgr_pllsrc 2 = 0" "cfgr_ppre2 2 = 0" "cfgr_ppre1 2 = 0" "cfgr_hpre 2 = 0" "cfgr_sw 2 = 2"
  by code_simp+

text \<open>The configuration and the fields the first half of \<open>SystemInit\<close> reaches, and the ones at its end.\<close>

definition start_fields :: "u32 \<Rightarrow> u32 \<Rightarrow> u32 \<Rightarrow> u32 \<Rightarrow> u32 \<Rightarrow> Stm32Rcc \<Rightarrow> Stm32Rcc" where
  "start_fields mul xt src p1 sw x = x\<lparr>RCC_CFGR_PLLMUL := mul, RCC_CFGR_PLLXTPRE := xt, RCC_CFGR_PLLSRC := src,
     RCC_CFGR_PPRE2 := 0, RCC_CFGR_PPRE1 := p1, RCC_CFGR_HPRE := 0, RCC_CFGR_SW := sw\<rparr>"

definition start_at :: "Stm32 \<Rightarrow> rcc_cfg \<Rightarrow> Stm32Rcc \<Rightarrow> u32 \<Rightarrow> u32 \<Rightarrow> u32 \<Rightarrow> u32 \<Rightarrow> u32 \<Rightarrow> 'z Fw_scheme \<Rightarrow> bool" where
  "start_at m g x mul xt src p1 sw =
     clk_at m (cfg_of_fields (start_fields mul xt src p1 sw x) g, start_fields mul xt src p1 sw x)"

lemma cfg_of_fields_absorb [simp]:
  "cfg_of_fields y (cfg_of_fields z g) = cfg_of_fields y g"
  "(cfg_of_fields y g)\<lparr>cfg_pll := a, cfg_hse := b, cfg_hsi := c\<rparr> = cfg_of_fields y (g\<lparr>cfg_pll := a, cfg_hse := b, cfg_hsi := c\<rparr>)"
  "cfg_pll (cfg_of_fields y g) = cfg_pll g" "cfg_hse (cfg_of_fields y g) = cfg_hse g" "cfg_hsi (cfg_of_fields y g) = cfg_hsi g"
  by (simp_all add: cfg_of_fields_def)

lemma start_CFGR:
  "sw AND cfgr_sw w \<noteq> 3 \<Longrightarrow> fw_does (start_at m g x mul xt src p1 sw) (reg_and 4 pRCC_CFGR w)
     (start_at m g x (mul AND cfgr_pllmul w) (xt AND cfgr_xtpre w) (src AND cfgr_pllsrc w) (p1 AND cfgr_ppre1 w) (sw AND cfgr_sw w)) []"
  "sw OR cfgr_sw w \<noteq> 3 \<Longrightarrow> cfgr_ppre2 w = 0 \<Longrightarrow> cfgr_hpre w = 0 \<Longrightarrow>
   fw_does (start_at m g x mul xt src p1 sw) (reg_or 4 pRCC_CFGR w)
     (start_at m g x (mul OR cfgr_pllmul w) (xt OR cfgr_xtpre w) (src OR cfgr_pllsrc w) (p1 OR cfgr_ppre1 w) (sw OR cfgr_sw w)) []"
  using clk_CFGR_and [of "start_fields mul xt src p1 sw x" w m "cfg_of_fields (start_fields mul xt src p1 sw x) g"]
    clk_CFGR_or [of "start_fields mul xt src p1 sw x" w m "cfg_of_fields (start_fields mul xt src p1 sw x) g"]
  by (simp_all add: start_at_def) (simp_all add: start_fields_def cfgr_map_def)

lemma start_CR:
  "fw_does (start_at m g x mul xt src p1 sw) (reg_or 4 pRCC_CR w) (start_at m (g\<lparr>cfg_pll := cfg_pll g \<or> bit w 24,
     cfg_hse := cfg_hse g \<or> bit w 16, cfg_hsi := cfg_hsi g \<or> bit w 0\<rparr>) x mul xt src p1 sw) []"
  "fw_does (start_at m g x mul xt src p1 sw) (reg_and 4 pRCC_CR w) (start_at m (g\<lparr>cfg_pll := cfg_pll g \<and> bit w 24,
     cfg_hse := cfg_hse g \<and> bit w 16, cfg_hsi := cfg_hsi g \<and> bit w 0\<rparr>) x mul xt src p1 sw) []"
  using clk_CR_ops [of m "cfg_of_fields (start_fields mul xt src p1 sw x) g" "start_fields mul xt src p1 sw x" w]
  by (simp_all add: start_at_def)

lemma start_ext:
  "fw_does (start_at m g x mul xt src p1 sw) (reg_or 4 pFLASH_ACR v) (start_at m g x mul xt src p1 sw) []"
  "fw_does (start_at m g x mul xt src p1 sw) (reg_and 4 pFLASH_ACR v) (start_at m g x mul xt src p1 sw) []"
  "fw_does (start_at m g x mul xt src p1 sw) (reg_write 4 pSCB_VTOR v) (start_at m g x mul xt src p1 sw) []"
  unfolding start_at_def by (rule clk_ext; simp)+

lemma start_wait_pll:
  "cfg_pll g \<Longrightarrow> fw_waits (start_at m g x mul xt src p1 sw) (reg_wait pRCC_CR 0x02000000 0x02000000) (start_at m g x mul xt src p1 sw) []"
  unfolding start_at_def by (rule clk_waits) (auto dest!: CR_bus_read simp: and_flag)

lemma start_wait_sws:
  "fw_waits (start_at m g x 7 0 1 4 2) (reg_wait pRCC_CFGR 0x0000000C 0x08) (start_at m g x 7 0 1 4 2) []"
proof -
  have "stm32_rcc_RCC_CFGR_read (start_fields 7 0 1 4 2 x) AND 0x0000000C = 0x08"
    by (simp add: stm32_rcc_RCC_CFGR_read_def start_fields_def)
  then show ?thesis unfolding start_at_def by (intro clk_waits) (auto dest: CFGR_bus_read)
qed

lemma fw_waits_conseq: "fw_waits P f R ps \<Longrightarrow> (\<And>s. R s \<Longrightarrow> Q s) \<Longrightarrow> ps = qs \<Longrightarrow> fw_waits P f Q qs"
  unfolding fw_waits_def by (blast intro: run_total_mono)

abbreviation oscs :: "bool \<Rightarrow> bool \<Rightarrow> bool \<Rightarrow> rcc_cfg \<Rightarrow> rcc_cfg" where
  "oscs pll hse hsi g \<equiv> g\<lparr>cfg_pll := pll, cfg_hse := hse, cfg_hsi := hsi\<rparr>"

lemma clk_set_sysclk_pll:
  "fw_waits (start_at m (oscs False True True g) x 0 0 0 0 0) set_sysclk_pll (start_at m (oscs True True True g) x 7 0 1 4 2) []"
proof -
  let ?g = "oscs False True True g" and ?h = "oscs True True True g"
  have b: "bit (0x01000000 :: u32) 24" "\<not> bit (0x01000000 :: u32) 16" "\<not> bit (0x01000000 :: u32) 0" by code_simp+
  have or: "(4 :: u32) AND 7 = 4" "(7 :: u32) AND 15 = 7" "(1 :: u32) AND 1 = 1" by code_simp+
  have on: "fw_does (start_at m ?g x 7 0 1 4 0) (reg_or 4 pRCC_CR 0x01000000) (start_at m ?h x 7 0 1 4 0) []"
    using start_CR(1) [of m ?g x 7 0 1 4 0 "0x01000000"] b by simp
  note c = cfgr_constants or
  have w: "fw_does (start_at m ?g x 0 0 0 0 0) (reg_or 4 pRCC_CFGR 0) (start_at m ?g x 0 0 0 0 0) []"
    "fw_does (start_at m ?g x 0 0 0 0 0) (reg_or 4 pRCC_CFGR 0x400) (start_at m ?g x 0 0 0 4 0) []"
    "fw_does (start_at m ?g x 0 0 0 4 0) (reg_and 4 pRCC_CFGR (NOT 0x3F0000)) (start_at m ?g x 0 0 0 4 0) []"
    "fw_does (start_at m ?g x 0 0 0 4 0) (reg_or 4 pRCC_CFGR 0x1D0000) (start_at m ?g x 7 0 1 4 0) []"
    "fw_does (start_at m ?h x 7 0 1 4 0) (reg_and 4 pRCC_CFGR (NOT 3)) (start_at m ?h x 7 0 1 4 0) []"
    "fw_does (start_at m ?h x 7 0 1 4 0) (reg_or 4 pRCC_CFGR 2) (start_at m ?h x 7 0 1 4 2) []"
    using start_CFGR(2) [of 0 0 m ?g x 0 0 0 0] start_CFGR(2) [of 0 "0x400" m ?g x 0 0 0 0]
      start_CFGR(1) [of 0 "NOT 0x3F0000" m ?g x 0 0 0 4] start_CFGR(2) [of 0 "0x1D0000" m ?g x 0 0 0 4]
      start_CFGR(1) [of 0 "NOT 3" m ?h x 7 0 1 4] start_CFGR(2) [of 0 2 m ?h x 7 0 1 4]
    by (simp_all only: c cfgr_zero) simp_all
  have masks: "(0x00010000 OR 0x00020000 OR 0x003C0000 :: u32) = 0x3F0000" "(0x00010000 OR 0x001C0000 :: u32) = 0x1D0000"
    by code_simp+
  show ?thesis
    unfolding set_sysclk_pll_def masks
    by (rule fw_waits_conseq, (rule fw_waits_Cons, rule fw_waits_plain, rule start_ext)+,
        (rule fw_waits_Cons, rule fw_waits_plain, rule w)+, rule fw_waits_Cons, rule fw_waits_plain, rule on,
        rule fw_waits_Cons, rule start_wait_pll, simp, (rule fw_waits_Cons, rule fw_waits_plain, rule w)+,
        rule fw_waits_Cons, rule start_wait_sws, rule fw_waits_Nil) simp_all
qed

lemma clk_SetSysClockTo72:
  "fw_waits (start_at m (oscs False False True g) x 0 0 0 0 0) (SetSysClockTo72 :: 'z Fw_scheme \<Rightarrow> _) (start_at m (oscs True True True g) x 7 0 1 4 2) []"
proof -
  let ?P = "start_at m (oscs False True True g) x 0 0 0 0 0" and ?Q = "start_at m (oscs True True True g) x 7 0 1 4 2"
  have "\<not> bit (0x00010000 :: u32) 24" "bit (0x00010000 :: u32) 16" "\<not> bit (0x00010000 :: u32) 0" by code_simp+
  then have hse: "fw_does (start_at m (oscs False False True g) x 0 0 0 0 0) (reg_or 4 pRCC_CR 0x00010000) ?P []"
    using start_CR(1) [of m "oscs False False True g" x 0 0 0 0 0 "0x00010000"] by simp
  have "unat HSE_STARTUP_TIMEOUT = Suc 0x4FF" by simp
  then have loop: "fw_does ?P (hse_ready_loop (unat HSE_STARTUP_TIMEOUT)) ?P []"
    unfolding start_at_def by (simp only:) (rule clk_hse_wait, simp)
  have branch: "fw_waits ?P (\<lambda>s :: 'z Fw_scheme. wait_bind (Some (memory_read 4 pRCC_CR s)) (\<lambda>(v, s).
      if v AND 0x00020000 \<noteq> 0 then set_sysclk_pll s else Some (Ok s []))) ?Q []"
    unfolding fw_waits_def
  proof (intro allI impI)
    fix s :: "'z Fw_scheme" assume s: "?P s"
    then obtain v where "memory_read 4 pRCC_CR s = Ok (v, s) []" "bit v 17"
      unfolding start_at_def by (auto dest!: CR_bus_read)
    moreover obtain s' es where "set_sysclk_pll s = Some (Ok s' es)" "?Q s'" "same_prog s s'" "posts es = []"
      using clk_set_sysclk_pll s by (rule fw_waitsE)
    ultimately show "\<exists>r. wait_bind (Some (memory_read 4 pRCC_CR s)) (\<lambda>(v, s).
        if v AND 0x00020000 \<noteq> 0 then set_sysclk_pll s else Some (Ok s [])) = Some r \<and>
        run_total (\<lambda>s' es. ?Q s' \<and> same_prog s s' \<and> posts es = []) r"
      by (simp add: wait_bind_def and_flag)
  qed
  show ?thesis
    unfolding SetSysClockTo72_def
    by (rule fw_waits_conseq, rule fw_waits_Cons, rule fw_waits_plain, rule hse, rule fw_waits_Cons, rule fw_waits_plain,
        rule loop, rule fw_waits_Cons, rule branch, rule fw_waits_Nil) simp_all
qed

lemma clk_SystemInit:
  "fw_waits (clk_at m (g, x)) SystemInit (start_at m (oscs True True True g) x 7 0 1 4 2) []"
proof -
  let ?h = "oscs (cfg_pll g) (cfg_hse g) True g" and ?l = "oscs False False True g"
  let ?mul = "RCC_CFGR_PLLMUL x AND 15" and ?xt = "RCC_CFGR_PLLXTPRE x AND 1" and ?src = "RCC_CFGR_PLLSRC x AND 1"
  have b: "\<not> bit (1 :: u32) 24" "\<not> bit (1 :: u32) 16" "bit (1 :: u32) 0"
    "\<not> bit (0xFEF6FFFF :: u32) 24" "\<not> bit (0xFEF6FFFF :: u32) 16" "bit (0xFEF6FFFF :: u32) 0" "bit (0xFFFBFFFF :: u32) 0"
    by code_simp+
  have "cfgr_map (AND) 0xF8FF0000 x = start_fields ?mul ?xt ?src 0 0 x"
    by (simp add: cfgr_map_def start_fields_def cfgr_constants)
  then have steps: "fw_does (clk_at m (g, x)) (reg_or 4 pRCC_CR 0x00000001) (clk_at m (?h, x)) []"
    "fw_does (clk_at m (?h, x)) (reg_and 4 pRCC_CFGR 0xF8FF0000) (start_at m ?h x ?mul ?xt ?src 0 0) []"
    "fw_does (start_at m ?h x ?mul ?xt ?src 0 0) (reg_and 4 pRCC_CR 0xFEF6FFFF) (start_at m ?l x ?mul ?xt ?src 0 0) []"
    "fw_does (start_at m ?l x ?mul ?xt ?src 0 0) (reg_and 4 pRCC_CR 0xFFFBFFFF) (start_at m ?l x ?mul ?xt ?src 0 0) []"
    "fw_does (start_at m ?l x ?mul ?xt ?src 0 0) (reg_and 4 pRCC_CFGR 0xFF80FFFF) (start_at m ?l x 0 0 0 0 0) []"
    "fw_does (start_at m ?l x 0 0 0 0 0) (reg_write 4 pRCC_CIR 0x009F0000) (start_at m ?l x 0 0 0 0 0) []"
    using clk_CR_ops(1) [of m g x 1] clk_CFGR_and [of x "0xF8FF0000" m ?h]
      start_CR(2) [of m ?h x ?mul ?xt ?src 0 0 "0xFEF6FFFF"] start_CR(2) [of m ?l x ?mul ?xt ?src 0 0 "0xFFFBFFFF"]
      start_CFGR(1) [of 0 "0xFF80FFFF" m ?l x ?mul ?xt ?src 0] clk_CIR_write [of m _ _ "0x009F0000"]
    by (simp_all add: b cfgr_constants start_at_def)
  show ?thesis
    unfolding SystemInit_def SetSysClock_def
    by (rule fw_waits_conseq, (rule fw_waits_Cons, rule fw_waits_plain, rule steps)+,
        rule fw_waits_Cons, rule clk_SetSysClockTo72, rule fw_waits_Cons, rule fw_waits_plain, rule start_ext,
        rule fw_waits_Nil) simp_all
qed

text \<open>The clocks the emulator has after a boot with the 8 MHz crystal of the board, whatever was written to them since.\<close>

definition rcc_ready :: "Stm32Rcc \<Rightarrow> bool" where
  "rcc_ready r \<longleftrightarrow> (\<exists>g. rcc_at (g, rcc_fields r) r \<and> rcc_synced g (rcc_fields r) \<and> cfg_sane g)"

lemma rcc_boot_ready:
  assumes "stm32_rcc_boot 8000000 osc32 = Ok r es"
  shows "rcc_ready r"
proof -
  let ?g = "rcc_reset_cfg (rcc_cfg0 8000000 osc32)"
  have "rcc_at (?g, rcc_fields r) r" "rcc_synced ?g (rcc_fields r)" using rcc_boot_at [of 8000000 osc32] assms by simp_all
  moreover have "cfg_sane ?g"
    by (simp add: cfg_sane_def rcc_reset_cfg_def rcc_cfg0_def rcc_selected_def list_all_iff)
  ultimately show ?thesis by (auto simp: rcc_ready_def)
qed

lemma start_at_freq:
  assumes "start_at m (oscs True True True g) x 7 0 1 4 2 s"
  shows "clktree_get_output_freq (rcc_clks (m_rcc (fw_m s))) (HCLK (m_rcc (fw_m s))) = 72000000"
    "clktree_get_output_freq (rcc_clks (m_rcc (fw_m s))) (PCLK1 (m_rcc (fw_m s))) = 36000000"
    "clktree_get_output_freq (rcc_clks (m_rcc (fw_m s))) (PCLK2 (m_rcc (fw_m s))) = 72000000"
proof -
  let ?g = "cfg_of_fields (start_fields 7 0 1 4 2 x) (oscs True True True g)"
  have at: "rcc_at (?g, start_fields 7 0 1 4 2 x) (m_rcc (fw_m s))" "cfg_sane ?g"
    using assms by (simp_all add: start_at_def clk_at_def)
  then have sel: "rcc_selected ?g" and "cfg_osc ?g = 8000000" by (simp_all add: cfg_sane_def)
  moreover have sc: "scaled True (9, 1) 8000000 = 72000000" "scaled True (1, 2) 72000000 = 36000000" by code_simp+
  ultimately have "freq_hclk ?g = 72000000"
    by (simp add: freq_hclk_def freq_sysclk_def freq_pll_def freq_pllxtpre_def freq_hse_def cfg_of_fields_def start_fields_def
        rcc_pllmul_def rcc_presc_def)
  then show "clktree_get_output_freq (rcc_clks (m_rcc (fw_m s))) (HCLK (m_rcc (fw_m s))) = 72000000"
    "clktree_get_output_freq (rcc_clks (m_rcc (fw_m s))) (PCLK1 (m_rcc (fw_m s))) = 36000000"
    "clktree_get_output_freq (rcc_clks (m_rcc (fw_m s))) (PCLK2 (m_rcc (fw_m s))) = 72000000"
    using rcc_at_freq(2-4) [OF at(1) sel]
    by (simp_all add: freq_pclk1_def freq_pclk2_def) (simp_all add: cfg_of_fields_def start_fields_def rcc_presc_def sc)
qed

text \<open>
  C3: On a board with the 8 MHz crystal, \<open>SystemInit\<close> returns from every configuration of the clocks a
  program may have left: its two unbounded loops end, the buses run at 72, 36 and 72 MHz, no message goes to
  the monitor, and nothing of the machine changes but the clocks, the SysTick scales and the UART timing.
\<close>

theorem SystemInit_72MHz:
  assumes "m_regions (fw_m s) = stm32_map" "rcc_ready (m_rcc (fw_m s))" "uarts_off (fw_m s)"
  shows "\<exists>s' es. SystemInit s = Some (Ok s' es) \<and> posts es = [] \<and> same_prog s s' \<and> clk_frame (fw_m s) (fw_m s') \<and>
    uarts_off (fw_m s') \<and> rcc_ready (m_rcc (fw_m s')) \<and>
    clktree_get_output_freq (rcc_clks (m_rcc (fw_m s'))) (HCLK (m_rcc (fw_m s'))) = 72000000 \<and>
    clktree_get_output_freq (rcc_clks (m_rcc (fw_m s'))) (PCLK1 (m_rcc (fw_m s'))) = 36000000 \<and>
    clktree_get_output_freq (rcc_clks (m_rcc (fw_m s'))) (PCLK2 (m_rcc (fw_m s'))) = 72000000"
proof -
  obtain g where g: "rcc_at (g, rcc_fields (m_rcc (fw_m s))) (m_rcc (fw_m s))"
      "rcc_synced g (rcc_fields (m_rcc (fw_m s)))" "cfg_sane g"
    using assms(2) by (auto simp: rcc_ready_def)
  then have "clk_at (fw_m s) (g, rcc_fields (m_rcc (fw_m s))) s" using assms by (simp add: clk_at_def clk_frame_refl)
  with clk_SystemInit obtain s' es where r: "SystemInit s = Some (Ok s' es)" "same_prog s s'" "posts es = []"
      "start_at (fw_m s) (oscs True True True g) (rcc_fields (m_rcc (fw_m s))) 7 0 1 4 2 s'"
    by (rule fw_waitsE)
  have "clk_frame (fw_m s) (fw_m s')" "uarts_off (fw_m s')" "rcc_ready (m_rcc (fw_m s'))"
    using r(4) by (auto simp: start_at_def clk_at_def rcc_ready_def rcc_at_def)
  then show ?thesis using r start_at_freq [OF r(4)] by blast
qed

definition fw_example :: "Stm32Rcc \<Rightarrow> Fw" where
  "fw_example rcc =
     \<lparr>fw_m = machine_example\<lparr>m_regions := stm32_map, m_rcc := rcc, m_uart := map uart_zero [STM32_UART1 ..< STM32_UART5 + 1]\<rparr>,
      fw_ext = (\<lambda>_ _ _. 0), fw_ext_log = []\<rparr>"

theorem SystemInit_72MHz_witness:
  "\<exists>rcc es0. stm32_rcc_boot 8000000 32768 = Ok rcc es0 \<and> (\<exists>s' es. SystemInit (fw_example rcc) = Some (Ok s' es) \<and>
     clktree_get_output_freq (rcc_clks (m_rcc (fw_m s'))) (PCLK1 (m_rcc (fw_m s'))) = 36000000)"
proof -
  obtain rcc es0 where r: "stm32_rcc_boot 8000000 32768 = Ok rcc es0" using rcc_boot_ex by blast
  have "uarts_off (fw_m (fw_example rcc))"
    by (simp add: fw_example_def uarts_off_def list_all_iff uart_zero_def)
  then show ?thesis
    using SystemInit_72MHz [of "fw_example rcc"] r rcc_boot_ready [OF r] by (auto simp: fw_example_def)
qed

end
