(* ===== verification/Fw_Board.thy ===== *)
theory Fw_Board
  imports Fw_Clock_Props
begin

text \<open>
  The P103 board while a program runs. \<open>p103_board\<close> is the invariant of the machine, \<open>board_view\<close> what a
  program sees of port C, of the external interrupt lines and of the inputs of the interrupt controller. The
  lemmas give, as triples, what each register access of the drivers does to the view and which messages
  it sends to the monitor.
\<close>

section \<open>Invariant and view\<close>

definition p103_board :: "Stm32 \<Rightarrow> bool" where
  "p103_board m \<longleftrightarrow> m_regions m = stm32_map \<and> rcc_ready (m_rcc m) \<and> uarts_off m \<and> afio_inv (m_afio m, m_gpio m) \<and>
     exti_irq (m_exti m) = exti_pics \<and> exti_wf (m_exti m) \<and>
     (\<forall>p<7. gpio_out_irq (m_gpio m ! p) = p103_outs p \<and> gpio_periph (m_gpio m ! p) = Suc p)"

record board_view =
  v_cr :: "u32 list"
  v_in :: u16
  v_line :: "nat \<Rightarrow> exti_line"
  v_src :: "nat \<Rightarrow> nat"
  v_nvic :: "nat \<Rightarrow> int"

definition board_at :: "board_view \<Rightarrow> 'z Fw_scheme \<Rightarrow> bool" where
  "board_at v s \<longleftrightarrow> (let m = fw_m s in p103_board m \<and> GPIOx_CRy (m_gpio m ! 2) = v_cr v \<and> in_pins (m_gpio m ! 2) = v_in v \<and>
     (\<forall>n<20. exti_line_of (m_exti m) n = v_line v n) \<and> (\<forall>n<16. afio_source (m_afio m) n = v_src v n) \<and> m_nvic m = v_nvic v)"

lemma board_at_lines: "(\<And>n. n < 20 \<Longrightarrow> L n = L' n) \<Longrightarrow> board_at (v\<lparr>v_line := L\<rparr>) s = board_at (v\<lparr>v_line := L'\<rparr>) s"
  by (simp add: board_at_def Let_def)

lemma rcc_ready_wf: "rcc_ready r \<Longrightarrow> rcc_wf r"
  using rcc_atI by (auto simp: rcc_ready_def)

lemma board_facts:
  assumes "p103_board m"
  shows "rcc_wf (m_rcc m)" "length (m_gpio m) = 7" "p < 7 \<Longrightarrow> gpio_wf (m_gpio m ! p)"
    "p < 7 \<Longrightarrow> rcc_has_clk (gpio_periph (m_gpio m ! p))" "length (AFIO_EXTICR (m_afio m)) = 4"
  using assms rcc_ready_wf
  by (auto simp: p103_board_def afio_inv_def afio_routed_def ports_wf_def gpio_count rcc_has_clk_def)

lemma board_at_regions: "board_at v s \<Longrightarrow> m_regions (fw_m s) = stm32_map"
  by (simp add: board_at_def p103_board_def Let_def)

text \<open>Changes of one device.\<close>

lemma board_port_update:
  assumes "p103_board m" and "gpio_wf g" and "p < 7"
    and "gpio_in_irq g = gpio_in_irq (m_gpio m ! p)" "gpio_out_irq g = gpio_out_irq (m_gpio m ! p)" "gpio_periph g = gpio_periph (m_gpio m ! p)"
  shows "p103_board (m\<lparr>m_gpio := (m_gpio m)[p := g]\<rparr>)"
proof -
  have len: "length (m_gpio m) = 7" and wf: "\<forall>g\<in>set (m_gpio m). gpio_wf g"
    using assms(1) by (simp_all add: p103_board_def afio_inv_def afio_routed_def ports_wf_def gpio_count)
  have "ports_wf ((m_gpio m)[p := g])"
    using len wf assms(2) by (auto simp: ports_wf_def gpio_count dest!: set_update_subset_insert [THEN subsetD])
  moreover have "port_link ((m_gpio m)[p := g]) q l = port_link (m_gpio m) q l" if "q < 7" for q l
    using that assms(3,4) len by (cases "q = p") (simp_all add: port_link_def)
  ultimately have "afio_inv (m_afio m, (m_gpio m)[p := g])"
    using assms(1) by (simp add: p103_board_def afio_inv_def afio_routed_def gpio_count)
  then show ?thesis
    using assms(1,3,5,6) len by (auto simp: p103_board_def uarts_off_def nth_list_update)
qed

lemma board_clk:
  assumes "board_at v s" "clk_at (fw_m s) b s'"
  shows "board_at v s'"
proof -
  obtain r y us where m: "fw_m s' = (fw_m s)\<lparr>m_rcc := r, m_systick := y, m_uart := us\<rparr>"
    using assms(2) by (auto simp: clk_at_def clk_frame_def)
  have "rcc_ready r" "uarts_off (fw_m s')" using assms(2) m by (auto simp: clk_at_def rcc_ready_def rcc_at_def)
  then show ?thesis using assms(1) m by (simp add: board_at_def p103_board_def Let_def)
qed

lemma board_clk_at:
  assumes "board_at v s"
  shows "\<exists>g x. clk_at (fw_m s) (g, x) s"
  using assms by (auto simp: board_at_def p103_board_def Let_def rcc_ready_def clk_at_def clk_frame_refl)

section \<open>Peripheral clocks and registers of the core\<close>

lemma board_apb2: "fw_does (board_at v) (reg_or 4 pRCC_APB2ENR w) (board_at v) []"
proof (rule fw_doesI)
  fix s :: "'a Fw_scheme" assume s: "board_at v s"
  then obtain g x where c: "clk_at (fw_m s) (g, x) s" using board_clk_at by blast
  then have "rcc_synced g x" by (simp add: clk_at_def)
  then have syn: "rcc_synced (rcc_apb2_cfg u g) (x\<lparr>RCC_APB2ENR := u AND 0xfffd\<rparr>)" for u by (rule rcc_synced_writes(2))
  have "stm32_rcc_read (m_rcc (fw_m s)) 0x18 4 = Ok (ucast (RCC_APB2ENR (m_rcc (fw_m s)))) []"
    by (simp add: stm32_rcc_read_def stm32_rcc_readw_def)
  then have r: "memory_read 4 pRCC_APB2ENR s = Ok (RCC_APB2ENR (m_rcc (fw_m s)), s) []"
    using rcc_bus_read [OF c, of "0x18"] by simp
  let ?v = "RCC_APB2ENR (m_rcc (fw_m s)) OR w"
  have "(\<lambda>r. stm32_rcc_write r 0x18 (ucast ?v) 4) = stm32_rcc_RCC_APB2ENR_write ?v False"
    by (simp add: fun_eq_iff stm32_rcc_write_def stm32_rcc_writew_def word_casts)
  then have "rcc_does (g, x) (\<lambda>r. stm32_rcc_write r 0x18 (ucast ?v) 4) (rcc_apb2_cfg ?v g, x\<lparr>RCC_APB2ENR := ?v AND 0xfffd\<rparr>)"
    using rcc_does_APB2(1) [of g x ?v False] by simp
  from rcc_bus_write [OF this _ _ _ c] syn
  have "run_total (\<lambda>s' es. clk_at (fw_m s) (rcc_apb2_cfg ?v g, x\<lparr>RCC_APB2ENR := ?v AND 0xfffd\<rparr>) s' \<and> same_prog s s' \<and> posts es = [])
      (reg_write 4 pRCC_APB2ENR ?v s)" by simp
  then show "run_total (\<lambda>s' es. board_at v s' \<and> same_prog s s' \<and> posts es = []) (reg_or 4 pRCC_APB2ENR w s)"
    using r board_clk [OF s] by (auto simp: reg_or_def reg_read_def elim!: run_total_mono)
qed

lemma board_at_ext: "board_at v (s\<lparr>fw_ext_log := l\<rparr>) = board_at v s"
  by (simp add: board_at_def Let_def)

lemma board_ext_write: "0x40022000 \<le> a \<Longrightarrow> fw_does (board_at v) (reg_write n a w) (board_at v) []"
  by (rule fw_does_ext(1)) (auto simp: board_at_regions board_at_ext)

lemma board_ext_read:
  assumes "0x40022000 \<le> a" and "\<And>x. fw_does (board_at v) (k x) Q ps"
  shows "fw_does (board_at v) (reg_read n a k) Q ps"
proof (rule fw_doesI)
  fix s :: "'a Fw_scheme" assume s: "board_at v s"
  then have "reg_read n a k s = k (fw_ext s (fw_ext_log s) a n) s"
    using memory_ext(1) [OF board_at_regions [OF s] assms(1), of n] by (simp add: reg_read_def)
  then show "run_total (\<lambda>s' es. Q s' \<and> same_prog s s' \<and> posts es = ps) (reg_read n a k s)"
    using assms(2) s by (simp add: fw_does_def)
qed

lemma board_NVIC_Init: "NVIC_IRQChannelCmd ini \<Longrightarrow> fw_does (board_at v) (NVIC_Init ini) (board_at v) []"
  unfolding NVIC_Init_def Let_def
  by (simp, rule board_ext_read, simp, rule fw_does_Cons [where ps = "[]" and qs = "[]", simplified])
    (auto intro!: board_ext_write fw_does_Cons [where ps = "[]" and qs = "[]", simplified] fw_does_Nil)

section \<open>Port C\<close>

lemma posts_quiet:
  assumes "rcc_wf rcc" "rcc_has_clk q"
  shows "posts (rcc_clk_warning rcc q) = []" "posts (gpio_log offset v) = []"
proof -
  have "is_warning e \<Longrightarrow> \<not> is_post e" for e by (cases e) simp_all
  then show "posts (rcc_clk_warning rcc q) = []"
    using rcc_clk.check_warns [of rcc q] assms by (auto simp: list_all_iff rcc_clk_warning_def filter_empty_conv)
  show "posts (gpio_log offset v) = []" by (simp add: gpio_log_def STM32_WARN_RO_REG_def)
qed

lemma posts_leds: "posts (led_posts p odr P) = led_posts p odr P"
  by (simp add: led_posts_def filter_map o_def)

lemma board_gpio_write:
  fixes s :: "'z Fw_scheme"
  assumes "board_at v s" "off \<in> set gpio_registers"
  shows "\<exists>s' es o' odr. reg_write 4 (GPIOC + off) w s = Ok s' es \<and> same_prog s s' \<and>
    board_at (v\<lparr>v_cr := gpio_cr_next off (ucast w) (v_cr v)\<rparr>) s' \<and>
    posts es = led_posts 2 o' (\<lambda>pin. gpio_drives off (ucast w) odr pin \<and> gpio_pin_output (v_cr v) pin) \<and>
    (\<forall>pin<16. bit o' pin = gpio_odr_next off (ucast w) odr pin)"
proof -
  let ?m = "fw_m s" and ?w = "ucast w :: u64"
  let ?g = "m_gpio ?m ! 2"
  have b: "p103_board ?m" and v: "GPIOx_CRy ?g = v_cr v" "in_pins ?g = v_in v" using assms(1) by (simp_all add: board_at_def Let_def)
  note f = board_facts [OF b]
  have out: "gpio_out_irq ?g = p103_outs 2" using b by (simp add: p103_board_def)
  obtain g' o' d where g': "g' = ?g\<lparr>GPIOx_ODR := o', GPIOx_CRy := gpio_cr_next off ?w (GPIOx_CRy ?g), dir_mask := d\<rparr>"
    "stm32_run (stm32_dev_write (DevGpio 2) off ?w 4) ?m = Ok (?m\<lparr>m_gpio := (m_gpio ?m)[2 := g']\<rparr>)
        (rcc_clk_warning (m_rcc ?m) (gpio_periph ?g) @ gpio_log off ?w @
         led_posts 2 (GPIOx_ODR g') (\<lambda>pin. gpio_drives off ?w (GPIOx_ODR ?g) pin \<and> gpio_pin_output (GPIOx_CRy ?g) pin))"
    "gpio_wf g'" "\<forall>pin<16. bit (GPIOx_ODR g') pin = gpio_odr_next off ?w (GPIOx_ODR ?g) pin"
    using p103_port_write [OF f(1) _ f(3,4) out assms(2), of ?w] f(2) by auto
  let ?s = "s\<lparr>fw_m := ?m\<lparr>m_gpio := (m_gpio ?m)[2 := g']\<rparr>\<rparr>"
  have "off < 0x3ff" "off mod 4 = 0" using assms(2) by (auto simp: gpio_registers_def)
  then have "reg_write 4 (GPIOC + off) w s = run_map (\<lambda>m. s\<lparr>fw_m := m\<rparr>) (stm32_run (stm32_dev_write (DevGpio 2) off ?w 4) ?m)"
    using reg_write_dev [OF board_at_regions [OF assms(1)] region_devices(4) [of 2], of off w] by simp
  moreover have "p103_board (?m\<lparr>m_gpio := (m_gpio ?m)[2 := g']\<rparr>)"
    by (rule board_port_update [OF b g'(3)]) (simp_all add: g'(1))
  then have "board_at (v\<lparr>v_cr := gpio_cr_next off ?w (v_cr v)\<rparr>) ?s"
    using assms(1) f(2) v g'(1) by (simp add: board_at_def Let_def)
  ultimately show ?thesis
    using g'(2,4) posts_quiet [OF f(1) f(4) [of 2]] v(1)
    by (intro exI [of _ ?s] exI conjI) (auto simp: posts_leds)
qed

text \<open>Configuration registers, setting and resetting pins.\<close>

lemma board_CR_write:
  assumes "i < 2"
  shows "fw_does (board_at v) (reg_write 4 (GPIOC + 4 * i) w) (board_at (v\<lparr>v_cr := (v_cr v)[i := w]\<rparr>)) []"
proof (rule fw_doesI)
  fix s :: "'a Fw_scheme" assume s: "board_at v s"
  have "4 * i \<in> set gpio_registers" "gpio_cr_next (4 * i) (ucast w) cr = cr[i := w]" "\<not> gpio_drives (4 * i) u odr pin" for cr u odr pin
    using assms by (auto simp: less_2_cases_iff gpio_registers_def gpio_cr_next_def gpio_drives_def word_casts)
  then show "run_total (\<lambda>s' es. board_at (v\<lparr>v_cr := (v_cr v)[i := w]\<rparr>) s' \<and> same_prog s s' \<and> posts es = [])
      (reg_write 4 (GPIOC + 4 * i) w s)"
    using board_gpio_write [OF s, of "4 * i" w] by (auto simp: led_posts_def)
qed

definition led_level :: "board_view \<Rightarrow> u32 \<Rightarrow> u32 \<Rightarrow> effect list" where
  "led_level v w l = map (\<lambda>pin. PostDigitalOut 0x43 (of_nat pin) l)
     (filter (\<lambda>pin. bit w pin \<and> gpio_pin_output (v_cr v) pin) (p103_leds 2))"

lemma board_set_reset:
  "fw_does (board_at v) (reg_write 4 (GPIOC + pBSRR) w) (board_at v) (led_level v w 1)"
  "fw_does (board_at v) (reg_write 4 (GPIOC + pBRR) w) (board_at v) (led_level v w 0)"
  by (rule fw_doesI, frule board_gpio_write [where off = "0x10" and w = w], simp add: gpio_registers_def,
      elim exE conjE, simp add: gpio_cr_next_def led_level_def led_posts_def gpio_drives_def gpio_odr_next_def bit_ucast_iff p103_leds_def)
    (rule fw_doesI, frule board_gpio_write [where off = "0x14" and w = w], simp add: gpio_registers_def,
      elim exE conjE, simp add: gpio_cr_next_def led_level_def led_posts_def gpio_drives_def gpio_odr_next_def bit_ucast_iff p103_leds_def)

text \<open>Reads.\<close>

lemma board_gpio_read:
  assumes "board_at v s"
  shows "i < 2 \<Longrightarrow> memory_read 4 (GPIOC + 4 * i) s = Ok (v_cr v ! i, s) []" "memory_read 4 (GPIOC + pIDR) s = Ok (ucast (v_in v), s) []"
proof -
  let ?m = "fw_m s"
  have b: "p103_board ?m" and v: "GPIOx_CRy (m_gpio ?m ! 2) = v_cr v" "in_pins (m_gpio ?m ! 2) = v_in v"
    using assms by (simp_all add: board_at_def Let_def)
  note rd = memory_read_dev [OF board_at_regions [OF assms] region_devices(4) [of 2]]
  show "memory_read 4 (GPIOC + 4 * i) s = Ok (v_cr v ! i, s) []" if "i < 2"
    using rd [of "4 * i" "v_cr v ! i"] that board_facts(2) [OF b] v
    by (auto simp: less_2_cases_iff stm32_gpio_read_def)
  have "(ucast (v_in v) :: u64) = ucast (ucast (v_in v) :: u32)"
    by (rule bit_word_eqI) (auto simp: bit_ucast_iff dest: bit_imp_le_length)
  then show "memory_read 4 (GPIOC + pIDR) s = Ok (ucast (v_in v), s) []"
    using rd [of "8" "ucast (v_in v)"] board_facts(2) [OF b] v by (simp add: stm32_gpio_read_def)
qed

section \<open>External interrupts\<close>

text \<open>The input of the interrupt controller that a line drives.\<close>

definition exti_input :: "nat \<Rightarrow> nat" where
  "exti_input n = [6, 7, 8, 9, 10, 23, 40, 1, 41, 42] ! exti_nvic n"

definition nvic_moves :: "(nat \<Rightarrow> bool) \<Rightarrow> (nat \<Rightarrow> bool) \<Rightarrow> nat list \<Rightarrow> (nat \<Rightarrow> int) \<Rightarrow> nat \<Rightarrow> int" where
  "nvic_moves old new ns f = fold (\<lambda>n f. if old n = new n then f else f(exti_input n := if new n then 1 else 0)) ns f"

lemma exti_pics_input: "n < 19 \<Longrightarrow> exti_pics ! exti_nvic n = IrqNvic (exti_input n)"
proof -
  assume "n < 19"
  then have "exti_nvic n < 10" by (auto simp: exti_nvic_def)
  then show ?thesis unfolding exti_pics_def pic_def exti_input_def by (subst nth_map) simp_all
qed

lemma dispatch_exti_events:
  assumes "\<forall>n\<in>set ns. n < 19 \<or> old n = new n"
  shows "stm32_dispatch 3 (concat (map (\<lambda>n. exti_event exti_pics n (old n) (new n)) ns)) m =
    Ok (m\<lparr>m_nvic := nvic_moves old new ns (m_nvic m)\<rparr>) []"
  using assms
proof (induction ns arbitrary: m)
  case Nil
  then show ?case by (simp add: nvic_moves_def)
next
  case (Cons n ns)
  let ?f = "if old n = new n then m_nvic m else (m_nvic m)(exti_input n := if new n then 1 else 0)"
  have "stm32_dispatch 3 (exti_event exti_pics n (old n) (new n)) m = Ok (m\<lparr>m_nvic := ?f\<rparr>) []"
    using Cons.prems exti_pics_input [of n] dispatch_one [of 2] by (auto simp: exti_event_def numeral_3_eq_3 numeral_2_eq_2)
  then show ?case
    using Cons.IH [of "m\<lparr>m_nvic := ?f\<rparr>"] Cons.prems by (simp add: dispatch_append nvic_moves_def)
qed

lemma nvic_moves_same: "(\<And>n. n \<in> set ns \<Longrightarrow> old n = new n) \<Longrightarrow> nvic_moves old new ns f = f"
  unfolding nvic_moves_def by (induction ns arbitrary: f) auto

lemma nvic_moves_cong:
  "(\<And>n. n \<in> set ns \<Longrightarrow> old n = old' n \<and> new n = new' n) \<Longrightarrow> nvic_moves old new ns f = nvic_moves old' new' ns f"
  unfolding nvic_moves_def by (rule fold_cong) auto

lemma board_exti_write:
  assumes "off \<in> set exti_registers" "off \<noteq> EXTI_SWIER_OFFSET"
  shows "fw_does (board_at v) (reg_write 4 (EXTI_BASE + off) w)
    (board_at (v\<lparr>v_line := \<lambda>n. ln_write off (bit w n) (v_line v n),
       v_nvic := nvic_moves (\<lambda>n. ln_pr (v_line v n)) (\<lambda>n. ln_pr (ln_write off (bit w n) (v_line v n))) [0 ..< 20] (v_nvic v)\<rparr>)) []"
proof (rule fw_doesI)
  fix s :: "'a Fw_scheme" assume s: "board_at v s"
  let ?m = "fw_m s" and ?x = "m_exti (fw_m s)" and ?w = "ucast w :: u64"
  let ?L = "\<lambda>n. ln_write off (bit w n) (v_line v n)"
  have b: "p103_board ?m" and v: "\<forall>n<20. exti_line_of ?x n = v_line v n" using s by (simp_all add: board_at_def Let_def)
  then have x: "exti_irq ?x = exti_pics" "exti_wf ?x" by (simp_all add: p103_board_def)
  have "\<not> exti_fault off ?w ?x" using assms(2) by (simp add: exti_fault_def)
  from exti_write_spec [OF x(2) assms(1) this] obtain x' where x': "stm32_exti_write ?x off ?w 4 =
      Ok x' (concat (map (\<lambda>n. exti_event exti_pics n (bit (EXTI_PR ?x) n) (bit (EXTI_PR x') n)) [0 ..< 20]))"
      "exti_irq x' = exti_pics" "exti_wf x'" "\<forall>n<20. exti_line_of x' n = ln_write off (bit ?w n) (exti_line_of ?x n)"
    using x(1) by auto
  have line: "exti_line_of x' n = ?L n" if "n < 20" for n using x'(4) v that by (simp add: bit_ucast_iff)
  let ?nv = "nvic_moves (\<lambda>n. bit (EXTI_PR ?x) n) (\<lambda>n. bit (EXTI_PR x') n) [0 ..< 20] (m_nvic ?m)"
  have "\<forall>n\<in>set [0 ..< 20]. n < 19 \<or> bit (EXTI_PR ?x) n = bit (EXTI_PR x') n"
  proof
    fix n assume "n \<in> set [0 ..< (20 :: nat)]"
    then have "n < 19 \<or> n = 19" by auto
    then show "n < 19 \<or> bit (EXTI_PR ?x) n = bit (EXTI_PR x') n" using x(2) x'(3) by (auto simp: exti_wf_def)
  qed
  from dispatch_exti_events [OF this, of "?m\<lparr>m_exti := x'\<rparr>"]
  have run: "stm32_run (stm32_dev_write DevExti off ?w 4) ?m = Ok (?m\<lparr>m_exti := x', m_nvic := ?nv\<rparr>) []"
    using x'(1) by (simp add: stm32_run_def on_exti_def del: upt_rec_numeral)
  have pr: "bit (EXTI_PR ?x) n = ln_pr (v_line v n) \<and> bit (EXTI_PR x') n = ln_pr (?L n)" if "n < 20" for n
    using exti_line_of_sel(3) [of ?x n] exti_line_of_sel(3) [of x' n] v line [OF that] that by simp
  have "m_nvic ?m = v_nvic v" using s by (simp add: board_at_def Let_def)
  then have "?nv = nvic_moves (\<lambda>n. ln_pr (v_line v n)) (\<lambda>n. ln_pr (?L n)) [0 ..< 20] (v_nvic v)"
    using nvic_moves_cong [of "[0 ..< 20]" "\<lambda>n. bit (EXTI_PR ?x) n" "\<lambda>n. ln_pr (v_line v n)"
        "\<lambda>n. bit (EXTI_PR x') n" "\<lambda>n. ln_pr (?L n)" "m_nvic ?m"] pr by (simp del: upt_rec_numeral)
  then have "board_at (v\<lparr>v_line := ?L, v_nvic := nvic_moves (\<lambda>n. ln_pr (v_line v n)) (\<lambda>n. ln_pr (?L n)) [0 ..< 20] (v_nvic v)\<rparr>)
      (s\<lparr>fw_m := ?m\<lparr>m_exti := x', m_nvic := ?nv\<rparr>\<rparr>)"
    using s x'(2,3) line by (simp add: board_at_def p103_board_def Let_def uarts_off_def del: upt_rec_numeral)
  moreover have "off < 0x3ff" "off mod 4 = 0" using assms(1) by (auto simp: exti_registers_def exti_bit_registers_def)
  ultimately show "run_total (\<lambda>s' es. board_at (v\<lparr>v_line := ?L,
       v_nvic := nvic_moves (\<lambda>n. ln_pr (v_line v n)) (\<lambda>n. ln_pr (?L n)) [0 ..< 20] (v_nvic v)\<rparr>) s' \<and>
     same_prog s s' \<and> posts es = []) (reg_write 4 (EXTI_BASE + off) w s)"
    using reg_write_dev [OF board_at_regions [OF s] region_devices(2), of off w] run by (simp del: upt_rec_numeral)
qed

lemma fw_does_conseq: "fw_does P f R ps \<Longrightarrow> (\<And>s. R s \<Longrightarrow> Q s) \<Longrightarrow> ps = qs \<Longrightarrow> fw_does P f Q qs"
  unfolding fw_does_def by (blast intro: run_total_mono)

lemma fw_does_read:
  assumes "\<And>s. P s \<Longrightarrow> \<exists>x ws. memory_read n a s = Ok (x, s) ws \<and> posts ws = [] \<and> R x"
    and "\<And>x. R x \<Longrightarrow> fw_does P (k x) Q ps"
  shows "fw_does P (reg_read n a k) Q ps"
proof (rule fw_doesI)
  fix s assume s: "P s"
  then obtain x ws where x: "memory_read n a s = Ok (x, s) ws" "posts ws = []" "R x" using assms(1) by blast
  from assms(2) [OF x(3)] s obtain s' es where "k x s = Ok s' es" "Q s'" "same_prog s s'" "posts es = ps" by (rule fw_doesE)
  then show "run_total (\<lambda>s' es. Q s' \<and> same_prog s s' \<and> posts es = ps) (reg_read n a k s)"
    using x(1,2) by (simp add: reg_read_def)
qed

lemma board_exti_read:
  assumes "board_at v s"
  shows "\<exists>x. memory_read 4 pEXTI_IMR s = Ok (x, s) [] \<and> (\<forall>n<20. bit x n = ln_imr (v_line v n))"
    "\<exists>x. memory_read 4 pEXTI_RTSR s = Ok (x, s) [] \<and> (\<forall>n<20. bit x n = ln_rt (v_line v n))"
    "\<exists>x. memory_read 4 pEXTI_FTSR s = Ok (x, s) [] \<and> (\<forall>n<20. bit x n = ln_ft (v_line v n))"
    "\<exists>x. memory_read 4 pEXTI_PR s = Ok (x, s) [] \<and> (\<forall>n<20. bit x n = ln_pr (v_line v n))"
    "memory_read 4 pEXTI_EMR s = Ok (0, s) []"
proof -
  let ?x = "m_exti (fw_m s)"
  have v: "\<forall>n<20. v_line v n = exti_line_of ?x n" using assms by (simp add: board_at_def Let_def)
  note rd = memory_read_dev [OF board_at_regions [OF assms] region_devices(2)]
  note r = rd [of 0 "EXTI_IMR ?x"] rd [of 8 "EXTI_RTSR ?x"] rd [of "0xc" "EXTI_FTSR ?x"] rd [of "0x14" "EXTI_PR ?x"] rd [of 4 0]
  show "\<exists>x. memory_read 4 pEXTI_IMR s = Ok (x, s) [] \<and> (\<forall>n<20. bit x n = ln_imr (v_line v n))"
    "\<exists>x. memory_read 4 pEXTI_RTSR s = Ok (x, s) [] \<and> (\<forall>n<20. bit x n = ln_rt (v_line v n))"
    "\<exists>x. memory_read 4 pEXTI_FTSR s = Ok (x, s) [] \<and> (\<forall>n<20. bit x n = ln_ft (v_line v n))"
    "\<exists>x. memory_read 4 pEXTI_PR s = Ok (x, s) [] \<and> (\<forall>n<20. bit x n = ln_pr (v_line v n))"
    "memory_read 4 pEXTI_EMR s = Ok (0, s) []"
    using r v by (simp_all add: stm32_exti_read_def exti_line_of_sel)
qed

abbreviation idle :: "board_view \<Rightarrow> bool" where
  "idle v \<equiv> \<forall>n<20. \<not> ln_pr (v_line v n)"

lemma ln_write_idle: "off \<noteq> EXTI_SWIER_OFFSET \<Longrightarrow> \<not> ln_pr ln \<Longrightarrow> \<not> ln_pr (ln_write off b ln)"
  by (simp add: ln_write_def ln_pend_def)

lemma board_exti_write_idle:
  assumes "idle v" "off \<in> set exti_registers" "off \<noteq> EXTI_SWIER_OFFSET"
  shows "fw_does (board_at v) (reg_write 4 (EXTI_BASE + off) w) (board_at (v\<lparr>v_line := \<lambda>n. ln_write off (bit w n) (v_line v n)\<rparr>)) []"
proof -
  have "nvic_moves (\<lambda>n. ln_pr (v_line v n)) (\<lambda>n. ln_pr (ln_write off (bit w n) (v_line v n))) [0 ..< 20] (v_nvic v) = v_nvic v"
    by (rule nvic_moves_same) (use assms(1,3) ln_write_idle in \<open>auto simp del: upt_rec_numeral\<close>)
  then show ?thesis using board_exti_write [OF assms(2,3), of v w] by (simp del: upt_rec_numeral)
qed

lemma board_exti_rmw:
  assumes "idle v" "off \<in> set exti_registers" "off \<noteq> EXTI_SWIER_OFFSET"
    and "\<And>s :: 'z Fw_scheme. board_at v s \<Longrightarrow> \<exists>x. memory_read 4 (EXTI_BASE + off) s = Ok (x, s) [] \<and> (\<forall>n<20. bit x n = sel (v_line v n))"
  shows "fw_does (board_at v) (reg_or 4 (EXTI_BASE + off) w :: 'z Fw_scheme \<Rightarrow> _)
      (board_at (v\<lparr>v_line := \<lambda>n. ln_write off (sel (v_line v n) \<or> bit w n) (v_line v n)\<rparr>)) []"
    "fw_does (board_at v) (reg_and 4 (EXTI_BASE + off) w :: 'z Fw_scheme \<Rightarrow> _)
      (board_at (v\<lparr>v_line := \<lambda>n. ln_write off (sel (v_line v n) \<and> bit w n) (v_line v n)\<rparr>)) []"
proof -
  let ?R = "\<lambda>x :: u32. \<forall>n<20. bit x n = sel (v_line v n)"
  have rd: "\<exists>x ws. memory_read 4 (EXTI_BASE + off) s = Ok (x, s) ws \<and> posts ws = [] \<and> ?R x" if "board_at v s" for s :: "'z Fw_scheme"
    using assms(4) [OF that] by auto
  show "fw_does (board_at v) (reg_or 4 (EXTI_BASE + off) w :: 'z Fw_scheme \<Rightarrow> _)
      (board_at (v\<lparr>v_line := \<lambda>n. ln_write off (sel (v_line v n) \<or> bit w n) (v_line v n)\<rparr>)) []"
    unfolding reg_or_def
  proof (rule fw_does_read [OF rd])
    fix x assume "?R x"
    then show "fw_does (board_at v) (reg_write 4 (EXTI_BASE + off) (x OR w) :: 'z Fw_scheme \<Rightarrow> _)
      (board_at (v\<lparr>v_line := \<lambda>n. ln_write off (sel (v_line v n) \<or> bit w n) (v_line v n)\<rparr>)) []"
      by (intro fw_does_conseq [OF board_exti_write_idle [OF assms(1-3), of "x OR w"]])
        (simp_all add: bit_or_iff cong: board_at_lines)
  qed
  show "fw_does (board_at v) (reg_and 4 (EXTI_BASE + off) w :: 'z Fw_scheme \<Rightarrow> _)
      (board_at (v\<lparr>v_line := \<lambda>n. ln_write off (sel (v_line v n) \<and> bit w n) (v_line v n)\<rparr>)) []"
    unfolding reg_and_def
  proof (rule fw_does_read [OF rd])
    fix x assume "?R x"
    then show "fw_does (board_at v) (reg_write 4 (EXTI_BASE + off) (x AND w) :: 'z Fw_scheme \<Rightarrow> _)
      (board_at (v\<lparr>v_line := \<lambda>n. ln_write off (sel (v_line v n) \<and> bit w n) (v_line v n)\<rparr>)) []"
      by (intro fw_does_conseq [OF board_exti_write_idle [OF assms(1-3), of "x AND w"]])
        (simp_all add: bit_and_iff cong: board_at_lines)
  qed
qed

lemma fw_does_lines:
  assumes "fw_does P f (board_at (v\<lparr>v_line := L\<rparr>)) ps" "\<And>n. n < 20 \<Longrightarrow> L n = L' n"
  shows "fw_does P f (board_at (v\<lparr>v_line := L'\<rparr>)) ps"
  by (rule fw_does_conseq [OF assms(1)]) (use assms(2) in \<open>simp_all add: board_at_def Let_def\<close>)

lemma board_exti_ops:
  assumes "idle v"
  shows "fw_does (board_at v) (reg_or 4 pEXTI_IMR w) (board_at (v\<lparr>v_line := \<lambda>n. (v_line v n)\<lparr>ln_imr := ln_imr (v_line v n) \<or> bit w n\<rparr>\<rparr>)) []"
    "fw_does (board_at v) (reg_and 4 pEXTI_IMR w) (board_at (v\<lparr>v_line := \<lambda>n. (v_line v n)\<lparr>ln_imr := ln_imr (v_line v n) \<and> bit w n\<rparr>\<rparr>)) []"
    "fw_does (board_at v) (reg_or 4 pEXTI_RTSR w) (board_at (v\<lparr>v_line := \<lambda>n. (v_line v n)\<lparr>ln_rt := ln_rt (v_line v n) \<or> bit w n\<rparr>\<rparr>)) []"
    "fw_does (board_at v) (reg_and 4 pEXTI_RTSR w) (board_at (v\<lparr>v_line := \<lambda>n. (v_line v n)\<lparr>ln_rt := ln_rt (v_line v n) \<and> bit w n\<rparr>\<rparr>)) []"
    "fw_does (board_at v) (reg_or 4 pEXTI_FTSR w) (board_at (v\<lparr>v_line := \<lambda>n. (v_line v n)\<lparr>ln_ft := ln_ft (v_line v n) \<or> bit w n\<rparr>\<rparr>)) []"
    "fw_does (board_at v) (reg_and 4 pEXTI_FTSR w) (board_at (v\<lparr>v_line := \<lambda>n. (v_line v n)\<lparr>ln_ft := ln_ft (v_line v n) \<and> bit w n\<rparr>\<rparr>)) []"
    "fw_does (board_at v) (reg_and 4 pEXTI_EMR w) (board_at v) []"
    "fw_does (board_at v) (reg_write 4 pEXTI_PR w) (board_at v) []"
proof -
  have off: "EXTI_IMR_OFFSET \<in> set exti_registers" "EXTI_RTSR_OFFSET \<in> set exti_registers" "EXTI_FTSR_OFFSET \<in> set exti_registers"
    "EXTI_EMR_OFFSET \<in> set exti_registers" "EXTI_PR_OFFSET \<in> set exti_registers"
    by (simp_all add: exti_registers_def exti_bit_registers_def)
  have pend: "ln_pend False (v_line v n) = v_line v n" if "n < 20" for n using assms that by (simp add: ln_pend_def)
  note o = board_exti_rmw [OF assms off(1), of ln_imr w, simplified] board_exti_rmw [OF assms off(2), of ln_rt w, simplified]
    board_exti_rmw [OF assms off(3), of ln_ft w, simplified] board_exti_rmw [OF assms off(4), of "\<lambda>_. False" w, simplified]
    board_exti_write_idle [OF assms off(5), of w, simplified]
  show "fw_does (board_at v) (reg_or 4 pEXTI_IMR w) (board_at (v\<lparr>v_line := \<lambda>n. (v_line v n)\<lparr>ln_imr := ln_imr (v_line v n) \<or> bit w n\<rparr>\<rparr>)) []"
    by (rule fw_does_lines, rule o(1), erule board_exti_read) (simp add: ln_write_def pend)
  show "fw_does (board_at v) (reg_and 4 pEXTI_IMR w) (board_at (v\<lparr>v_line := \<lambda>n. (v_line v n)\<lparr>ln_imr := ln_imr (v_line v n) \<and> bit w n\<rparr>\<rparr>)) []"
    by (rule fw_does_lines, rule o(2), erule board_exti_read) (simp add: ln_write_def pend)
  show "fw_does (board_at v) (reg_or 4 pEXTI_RTSR w) (board_at (v\<lparr>v_line := \<lambda>n. (v_line v n)\<lparr>ln_rt := ln_rt (v_line v n) \<or> bit w n\<rparr>\<rparr>)) []"
    by (rule fw_does_lines, rule o(3), erule board_exti_read) (simp add: ln_write_def pend)
  show "fw_does (board_at v) (reg_and 4 pEXTI_RTSR w) (board_at (v\<lparr>v_line := \<lambda>n. (v_line v n)\<lparr>ln_rt := ln_rt (v_line v n) \<and> bit w n\<rparr>\<rparr>)) []"
    by (rule fw_does_lines, rule o(4), erule board_exti_read) (simp add: ln_write_def pend)
  show "fw_does (board_at v) (reg_or 4 pEXTI_FTSR w) (board_at (v\<lparr>v_line := \<lambda>n. (v_line v n)\<lparr>ln_ft := ln_ft (v_line v n) \<or> bit w n\<rparr>\<rparr>)) []"
    by (rule fw_does_lines, rule o(5), erule board_exti_read) (simp add: ln_write_def pend)
  show "fw_does (board_at v) (reg_and 4 pEXTI_FTSR w) (board_at (v\<lparr>v_line := \<lambda>n. (v_line v n)\<lparr>ln_ft := ln_ft (v_line v n) \<and> bit w n\<rparr>\<rparr>)) []"
    by (rule fw_does_lines, rule o(6), erule board_exti_read) (simp add: ln_write_def pend)
  have "fw_does (board_at v) (reg_and 4 pEXTI_EMR w) (board_at (v\<lparr>v_line := v_line v\<rparr>)) []"
    by (rule fw_does_lines, rule o(8)) (simp_all add: board_exti_read(5) ln_write_def)
  then show "fw_does (board_at v) (reg_and 4 pEXTI_EMR w) (board_at v) []" by simp
  have "fw_does (board_at v) (reg_write 4 pEXTI_PR w) (board_at (v\<lparr>v_line := v_line v\<rparr>)) []"
    by (rule fw_does_lines, rule o(9)) (simp add: ln_write_def pend)
  then show "fw_does (board_at v) (reg_write 4 pEXTI_PR w) (board_at v) []" by simp
qed

text \<open>\<open>EXTI_Init\<close> for both edges.\<close>

definition line_on :: "u32 \<Rightarrow> board_view \<Rightarrow> board_view" where
  "line_on w v = v\<lparr>v_line := \<lambda>n. if bit w n then (v_line v n)\<lparr>ln_imr := True, ln_rt := True, ln_ft := True\<rparr> else v_line v n\<rparr>"

lemma board_EXTI_Init:
  assumes "idle v"
  shows "fw_does (board_at v) (EXTI_Init \<lparr>EXTI_Line = w, EXTI_Mode = EXTI_Mode_Interrupt, EXTI_Trigger = EXTI_Trigger_Rising_Falling,
      EXTI_LineCmd = True\<rparr>) (board_at (line_on w v)) []"
proof -
  have w: "n < 20 \<Longrightarrow> bit (NOT w) n = (\<not> bit w n)" for n by (simp add: bit_not_iff)
  have "fw_does (board_at v) (EXTI_Init \<lparr>EXTI_Line = w, EXTI_Mode = EXTI_Mode_Interrupt, EXTI_Trigger = EXTI_Trigger_Rising_Falling,
      EXTI_LineCmd = True\<rparr>) (board_at (v\<lparr>v_line := \<lambda>n. (v_line v n)\<lparr>ln_imr := ln_imr (v_line v n) \<and> bit (NOT w) n \<or> bit w n,
      ln_rt := ln_rt (v_line v n) \<and> bit (NOT w) n \<or> bit w n, ln_ft := ln_ft (v_line v n) \<and> bit (NOT w) n \<or> bit w n\<rparr>\<rparr>)) []"
    unfolding EXTI_Init_def
    by (simp, rule fw_does_conseq, (rule fw_does_Cons, rule board_exti_ops, simp add: assms)+, rule fw_does_Cons,
        (rule fw_does_Cons, rule board_exti_ops, simp add: assms)+, rule fw_does_Nil, assumption, rule fw_does_Nil, assumption) simp_all
  then show ?thesis
    unfolding line_on_def by (rule fw_does_lines) (simp add: w)
qed

section \<open>Selection of ports\<close>

lemma bit_nibble: "bit (drop_bit (i * 4) w AND 0xf) n \<longleftrightarrow> n < 4 \<and> bit w (i * 4 + n)" for w :: u32
proof -
  have f: "(0xf :: u32) = mask 4" by (simp add: mask_eq_exp_minus_1)
  show ?thesis unfolding f bit_and_iff bit_mask_iff bit_drop_bit_eq by (auto simp: ac_simps dest: bit_imp_le_length)
qed

lemma nibble_place: "k * 4 \<le> i * 4 + n \<and> i * 4 + n < k * 4 + 4 \<longleftrightarrow> i = k" if "n < 4" for i k n :: nat
  using that by auto

lemma nibble_and_not:
  assumes "k < 4" "i < 4"
  shows "nibble (w AND NOT (push_bit (4 * k) 0xf)) i = (if i = k then 0 else nibble w i)"
proof -
  have f: "(0xf :: u32) = mask 4" by (simp add: mask_eq_exp_minus_1)
  have "drop_bit (i * 4) (w AND NOT (push_bit (4 * k) 0xf)) AND 0xf = (if i = k then 0 else drop_bit (i * 4) w AND 0xf)"
  proof (rule bit_word_eqI)
    fix n assume "n < LENGTH(32)"
    show "bit (drop_bit (i * 4) (w AND NOT (push_bit (4 * k) 0xf)) AND 0xf) n = bit (if i = k then 0 else drop_bit (i * 4) w AND 0xf) n"
    proof (cases "n < 4")
      case True
      have "bit (push_bit (4 * k) 0xf :: u32) (i * 4 + n) \<longleftrightarrow> i = k"
        unfolding f using nibble_place [OF True, of k i] True assms by (auto simp: bit_push_bit_iff bit_mask_iff)
      then show ?thesis
        using True assms unfolding bit_nibble if_distrib [where f = "\<lambda>x. bit x n"] by (auto simp: bit_and_iff bit_not_iff)
    qed (simp only: bit_nibble if_distrib [where f = "\<lambda>x. bit x n"], simp)
  qed
  then show ?thesis by (simp add: nibble_def)
qed

lemma nibble_or:
  fixes p :: u32
  assumes "k < 4" "i < 4" "p < 16" "nibble w k = 0"
  shows "nibble (w OR push_bit (4 * k) p) i = (if i = k then unat p else nibble w i)"
proof -
  have z: "drop_bit (k * 4) w AND 0xf = 0" using assms(4) by (simp add: nibble_def unat_eq_0)
  have p: "bit p n \<Longrightarrow> n < 4" for n using word_bits_bound(1) [OF assms(3)] .
  have "drop_bit (i * 4) (w OR push_bit (4 * k) p) AND 0xf = (if i = k then p else drop_bit (i * 4) w AND 0xf)"
  proof (rule bit_word_eqI)
    fix n assume "n < LENGTH(32)"
    show "bit (drop_bit (i * 4) (w OR push_bit (4 * k) p) AND 0xf) n = bit (if i = k then p else drop_bit (i * 4) w AND 0xf) n"
    proof (cases "n < 4")
      case True
      have "\<not> bit w (k * 4 + n)" using z bit_nibble [of k w n] True by simp
      moreover have "bit (push_bit (4 * k) p) (i * 4 + n) \<longleftrightarrow> i = k \<and> bit p n"
        using nibble_place [OF True, of k i] p [of "i * 4 + n - 4 * k"] True assms
        by (auto simp: bit_push_bit_iff ac_simps)
      ultimately show ?thesis
        using True unfolding bit_nibble if_distrib [where f = "\<lambda>x. bit x n"] by (auto simp: bit_or_iff)
    next
      case False
      then show ?thesis using p unfolding bit_nibble if_distrib [where f = "\<lambda>x. bit x n"] by auto
    qed
  qed
  then show ?thesis by (simp add: nibble_def)
qed

lemma afio_check:
  assumes "rcc_wf rcc"
  shows "stm32_rcc_check_periph_clk rcc STM32_AFIO_PERIPH = Ok () (rcc_clk_warning rcc STM32_AFIO_PERIPH)"
    "stm32_dispatch 3 (rcc_clk_warning rcc STM32_AFIO_PERIPH) m = Ok m (rcc_clk_warning rcc STM32_AFIO_PERIPH)"
    "posts (rcc_clk_warning rcc STM32_AFIO_PERIPH) = []"
proof -
  have clk: "rcc_has_clk STM32_AFIO_PERIPH" by (simp add: rcc_has_clk_def)
  show "stm32_rcc_check_periph_clk rcc STM32_AFIO_PERIPH = Ok () (rcc_clk_warning rcc STM32_AFIO_PERIPH)"
    using rcc_clk.check_Ok [of rcc STM32_AFIO_PERIPH] assms clk by (simp add: rcc_clk_warning_def)
  have "list_all (\<lambda>e. stm32_handle e = None) (rcc_clk_warning rcc STM32_AFIO_PERIPH)"
    using writes_quiet [OF assms clk, of 0 0] by simp
  then show "stm32_dispatch 3 (rcc_clk_warning rcc STM32_AFIO_PERIPH) m = Ok m (rcc_clk_warning rcc STM32_AFIO_PERIPH)"
    by (rule dispatch_external)
  show "posts (rcc_clk_warning rcc STM32_AFIO_PERIPH) = []" by (rule posts_quiet(1) [OF assms clk])
qed

lemma board_exticr_write:
  assumes "j < 4" "\<forall>i<4. nibble w i < 7"
  shows "fw_does (board_at v) (reg_write 4 (pAFIO_EXTICR + 4 * j) w)
    (board_at (v\<lparr>v_src := \<lambda>n. if n div 4 = j then nibble w (n mod 4) else v_src v n\<rparr>)) []"
proof (rule fw_doesI)
  fix s :: "'a Fw_scheme" assume s: "board_at v s"
  let ?m = "fw_m s" and ?w = "ucast w :: u64" and ?ws = "rcc_clk_warning (m_rcc (fw_m s)) STM32_AFIO_PERIPH"
  have b: "p103_board ?m" using s by (simp add: board_at_def Let_def)
  have inv: "afio_inv (m_afio ?m, m_gpio ?m)" using b by (simp add: p103_board_def)
  obtain a gs where a: "stm32_afio_AFIO_EXTICR_write j w False (m_afio ?m, m_gpio ?m) = Ok (a, gs) []" "afio_inv (a, gs)"
      "AFIO_EXTICR a = (AFIO_EXTICR (m_afio ?m))[j := w]" "\<forall>p. (gs ! p)\<lparr>gpio_in_irq := []\<rparr> = (m_gpio ?m ! p)\<lparr>gpio_in_irq := []\<rparr>"
    using afio_exticr_write_inv [OF inv assms(1), of w] assms(2) by auto
  let ?m' = "?m\<lparr>m_afio := a, m_gpio := gs\<rparr>"
  have off: "8 + 4 * j \<in> set afio_exticr_regs" "8 + 4 * j \<noteq> AFIO_MAPR_OFFSET" "(8 + 4 * j - AFIO_EXTICR_START) div 4 = j"
    using assms(1) by (auto simp: afio_exticr_regs_def)
  note chk = afio_check [OF board_facts(1) [OF b]]
  have "stm32_afio_write (m_rcc ?m) (m_afio ?m, m_gpio ?m) (8 + 4 * j) ?w 4 = Ok (a, gs) ?ws"
    using a(1) off by (simp add: afio_write_eq chk(1) afio_write_reg_def word_casts)
  then have run: "stm32_run (stm32_dev_write DevAfio (8 + 4 * j) ?w 4) ?m = Ok ?m' ?ws"
    by (simp add: stm32_run_def chk(2))
  have port: "gpio_out_irq (gs ! p) = gpio_out_irq (m_gpio ?m ! p)" "gpio_periph (gs ! p) = gpio_periph (m_gpio ?m ! p)"
      "GPIOx_CRy (gs ! p) = GPIOx_CRy (m_gpio ?m ! p)" "in_pins (gs ! p) = in_pins (m_gpio ?m ! p)" for p
    using arg_cong [OF spec [OF a(4), of p], of gpio_out_irq] arg_cong [OF spec [OF a(4), of p], of gpio_periph]
      arg_cong [OF spec [OF a(4), of p], of GPIOx_CRy] arg_cong [OF spec [OF a(4), of p], of in_pins] by simp_all
  have src: "afio_source a n = (if n div 4 = j then nibble w (n mod 4) else afio_source (m_afio ?m) n)" for n
    using assms(1) board_facts(5) [OF b] by (auto simp: afio_source_def a(3) nth_list_update)
  have "board_at (v\<lparr>v_src := \<lambda>n. if n div 4 = j then nibble w (n mod 4) else v_src v n\<rparr>) (s\<lparr>fw_m := ?m'\<rparr>)"
    using s a(2) port src by (simp add: board_at_def p103_board_def Let_def uarts_off_def)
  moreover have "8 + 4 * j < 0x3ff" "(8 + 4 * j) mod 4 = 0" using assms(1) by presburger+
  ultimately show "run_total (\<lambda>s' es. board_at (v\<lparr>v_src := \<lambda>n. if n div 4 = j then nibble w (n mod 4) else v_src v n\<rparr>) s' \<and>
      same_prog s s' \<and> posts es = []) (reg_write 4 (pAFIO_EXTICR + 4 * j) w s)"
    using reg_write_dev [OF board_at_regions [OF s] region_devices(3), of "8 + 4 * j" w] run chk(3) by simp
qed

lemma board_exticr_read:
  assumes "board_at v s" "j < 4"
  shows "\<exists>x ws. memory_read 4 (pAFIO_EXTICR + 4 * j) s = Ok (x, s) ws \<and> posts ws = [] \<and> (\<forall>i<4. nibble x i = v_src v (4 * j + i))"
proof -
  let ?m = "fw_m s" and ?ws = "rcc_clk_warning (m_rcc (fw_m s)) STM32_AFIO_PERIPH"
  let ?x = "AFIO_EXTICR (m_afio ?m) ! j"
  have b: "p103_board ?m" and src: "\<forall>n<16. afio_source (m_afio ?m) n = v_src v n" using assms(1) by (simp_all add: board_at_def Let_def)
  note chk = afio_check [OF board_facts(1) [OF b]]
  have j: "j = 0 \<or> j = 1 \<or> j = 2 \<or> j = 3" using assms(2) by auto
  then have "stm32_dev_read DevAfio (8 + 4 * j) 4 ?m = Ok (ucast ?x, ?m) ?ws"
    by (auto simp: stm32_afio_read_def chk(1))
  moreover have "stm32_region_at (pAFIO_EXTICR + 4 * j) ?m = Some (0x40010000, 0x3ff, DevAfio)"
    using assms(2) by (intro region_at [OF board_at_regions [OF assms(1)] region_devices(3)]) simp_all
  moreover have "(8 + 4 * j) mod 4 = 0" by presburger
  ultimately have "memory_read 4 (pAFIO_EXTICR + 4 * j) s = Ok (?x, s) ?ws"
    by (simp add: memory_read_def memory_region_dispatch_read_def memory_region_access_valid_def chk(2) word_casts)
  moreover have "nibble ?x i = v_src v (4 * j + i)" if "i < 4" for i
  proof -
    have "4 * j + i < 16" "(4 * j + i) div 4 = j" "(4 * j + i) mod 4 = i" using that assms(2) by simp_all
    then show ?thesis using src by (metis afio_source_def)
  qed
  ultimately show ?thesis using chk(3) by blast
qed

lemma fw_does_fact: "(\<And>s. P s \<Longrightarrow> F) \<Longrightarrow> (F \<Longrightarrow> fw_does P f Q ps) \<Longrightarrow> fw_does P f Q ps"
  unfolding fw_does_def by blast

lemma board_src_less: "board_at v s \<Longrightarrow> \<forall>n<16. v_src v n < 7"
  by (auto simp: board_at_def Let_def p103_board_def afio_inv_def afio_routed_def gpio_count)

lemma source_update:
  fixes j k :: nat
  assumes "k < 4" "\<And>i. i < 4 \<Longrightarrow> f i = (if i = k then c else g (4 * j + i))" "\<And>n. n div 4 \<noteq> j \<Longrightarrow> h n = g n"
  shows "(\<lambda>n. if n div 4 = j then f (n mod 4) else h n) = g(4 * j + k := c)"
proof
  fix n
  show "(if n div 4 = j then f (n mod 4) else h n) = (g(4 * j + k := c)) n"
  proof (cases "n div 4 = j")
    case True
    then have n: "n = 4 * j + n mod 4" by auto
    then have "n = 4 * j + k \<longleftrightarrow> n mod 4 = k" by auto
    then show ?thesis using True n assms(2) [of "n mod 4"] by auto
  next
    case False
    then have "n \<noteq> 4 * j + k" using assms(1) by auto
    then show ?thesis using False assms(3) by simp
  qed
qed

lemma board_line_config:
  assumes "pin < 16" "port < 7"
  shows "fw_does (board_at v) (GPIO_EXTILineConfig port pin) (board_at (v\<lparr>v_src := (v_src v)(unat pin := unat port)\<rparr>)) []"
proof (rule fw_does_fact [OF board_src_less])
  define j k where "j = unat pin div 4" and "k = unat pin mod 4"
  have pin: "unat pin < 16" and port: "unat port < 7" using assms by (simp_all add: word_less_nat_alt)
  have j: "j < 4" and k: "k < 4" and jk: "4 * j + k = unat pin" using pin by (auto simp: j_def k_def)
  have three: "(3 :: u8) = mask 2" by (simp add: mask_eq_exp_minus_1)
  have idx: "unat (pin AND 0x03) = k" "unat (drop_bit 2 pin) = j"
    by (simp_all add: three take_bit_eq_mask [symmetric] unsigned_take_bit_eq unat_drop_bit_eq take_bit_eq_mod drop_bit_eq_div unat_div_distrib unat_mod_distrib j_def k_def)
  have p: "unat (ucast port :: u32) = unat port" using port by (simp add: unsigned_ucast_eq take_bit_nat_eq_self)
  then have small: "(ucast port :: u32) < 16" using port by (simp add: word_less_nat_alt)
  let ?v = "v\<lparr>v_src := (v_src v)(unat pin := 0)\<rparr>"
  assume src: "\<forall>n<16. v_src v n < 7"
  have "fw_does (board_at v) (reg_and 4 (pAFIO_EXTICR + 4 * j) (NOT (push_bit (4 * k) 0x0F))) (board_at ?v) []"
    unfolding reg_and_def
  proof (rule fw_does_read [OF board_exticr_read], assumption, rule j)
    fix x assume x: "\<forall>i<4. nibble x i = v_src v (4 * j + i)"
    let ?w = "x AND NOT (push_bit (4 * k) 0x0F)"
    have nib: "nibble ?w i = (if i = k then 0 else v_src v (4 * j + i))" if "i < 4" for i
      using nibble_and_not [OF k that, of x] x that by simp
    have "nibble ?w i < 7" if "i < 4" for i using nib [OF that] src j that by simp
    moreover have "(\<lambda>n. if n div 4 = j then nibble ?w (n mod 4) else v_src v n) = (v_src v)(unat pin := 0)"
      using source_update [OF k nib, of "v_src v"] jk by simp
    ultimately show "fw_does (board_at v) (reg_write 4 (pAFIO_EXTICR + 4 * j) ?w) (board_at ?v) []"
      using board_exticr_write [OF j, of ?w v] by simp
  qed
  moreover have "fw_does (board_at ?v) (reg_or 4 (pAFIO_EXTICR + 4 * j) (push_bit (4 * k) (ucast port)))
      (board_at (v\<lparr>v_src := (v_src v)(unat pin := unat port)\<rparr>)) []"
    unfolding reg_or_def
  proof (rule fw_does_read [OF board_exticr_read], assumption, rule j)
    fix x assume x: "\<forall>i<4. nibble x i = v_src ?v (4 * j + i)"
    let ?w = "x OR push_bit (4 * k) (ucast port)"
    have "nibble x k = 0" using x k jk by simp
    then have nib: "nibble ?w i = (if i = k then unat port else v_src v (4 * j + i))" if "i < 4" for i
      using nibble_or [OF k that small] x that jk p by auto
    have "nibble ?w i < 7" if "i < 4" for i using nib [OF that] src j that port by simp
    moreover have "(\<lambda>n. if n div 4 = j then nibble ?w (n mod 4) else v_src ?v n) = (v_src v)(unat pin := unat port)"
      unfolding jk [symmetric] by (rule source_update [OF k nib]) (use k in \<open>auto simp: j_def\<close>)
    ultimately show "fw_does (board_at ?v) (reg_write 4 (pAFIO_EXTICR + 4 * j) ?w)
        (board_at (v\<lparr>v_src := (v_src v)(unat pin := unat port)\<rparr>)) []"
      using board_exticr_write [OF j, of ?w ?v] by simp
  qed
  ultimately show "fw_does (board_at v) (GPIO_EXTILineConfig port pin) (board_at (v\<lparr>v_src := (v_src v)(unat pin := unat port)\<rparr>)) []"
    unfolding GPIO_EXTILineConfig_def Let_def idx
    by (intro fw_does_conseq [OF fw_does_Cons [OF _ fw_does_Cons [OF _ fw_does_Nil]]]) simp_all
qed

section \<open>Configuration of pins\<close>

lemma upt_0_8: "[0 ..< 8] = [0, 1, 2, 3, 4, 5, 6, 7 :: nat]"
  by (simp add: upt_rec)

lemma init_pin_6:
  "run_for [0 ..< 8] (gpio_init_pin GPIOC \<lparr>GPIO_Pin = 0x40, GPIO_Speed = junk, GPIO_Mode = GPIO_Mode_IN_FLOATING\<rparr> 4 0) (t, s) =
     Ok ((t AND NOT 0x0F000000) OR 0x04000000, s) []"
  by (simp add: gpio_init_pin_def Let_def upt_0_8)

lemma init_pin_12:
  "run_for [0 ..< 8] (gpio_init_pin GPIOC \<lparr>GPIO_Pin = 0x1000, GPIO_Speed = GPIO_Speed_50MHz, GPIO_Mode = GPIO_Mode_Out_PP\<rparr> 3 8) (t, s) =
     Ok ((t AND NOT 0x000F0000) OR 0x00030000, s) []"
  by (simp add: gpio_init_pin_def Let_def upt_0_8)

lemma board_init_reg:
  assumes "i < 2" "\<And>t (s :: 'z Fw_scheme). run_for [0 ..< 8] (gpio_init_pin GPIOC ini mode shift) (t, s) = Ok (f t, s) []"
  shows "fw_does (board_at v) (gpio_init_reg GPIOC ini mode (4 * i) shift :: 'z Fw_scheme \<Rightarrow> _)
    (board_at (v\<lparr>v_cr := (v_cr v)[i := f (v_cr v ! i)]\<rparr>)) []"
  unfolding gpio_init_reg_def
proof (rule fw_does_read)
  show "\<exists>x ws. memory_read 4 (GPIOC + 4 * i) s = Ok (x, s) ws \<and> posts ws = [] \<and> x = v_cr v ! i" if "board_at v s" for s :: "'z Fw_scheme"
    using board_gpio_read(1) [OF that assms(1)] by simp
  fix x assume "x = v_cr v ! i"
  then show "fw_does (board_at v) (\<lambda>s :: 'z Fw_scheme. run_bind (run_for [0 ..< 8] (gpio_init_pin GPIOC ini mode shift) (x, s))
      (\<lambda>(tmpreg, s). reg_write 4 (GPIOC + 4 * i) tmpreg s)) (board_at (v\<lparr>v_cr := (v_cr v)[i := f (v_cr v ! i)]\<rparr>)) []"
    using board_CR_write [OF assms(1), of v "f (v_cr v ! i)"] by (simp add: assms(2) del: upt_rec_numeral)
qed

lemma board_init_pins:
  "fw_does (board_at v) (GPIO_Init GPIOC \<lparr>GPIO_Pin = 0x40, GPIO_Speed = junk, GPIO_Mode = GPIO_Mode_IN_FLOATING\<rparr>)
     (board_at (v\<lparr>v_cr := (v_cr v)[0 := (v_cr v ! 0 AND NOT 0x0F000000) OR 0x04000000]\<rparr>)) []"
  "fw_does (board_at v) (GPIO_Init GPIOC \<lparr>GPIO_Pin = 0x1000, GPIO_Speed = GPIO_Speed_50MHz, GPIO_Mode = GPIO_Mode_Out_PP\<rparr>)
     (board_at (v\<lparr>v_cr := (v_cr v)[1 := (v_cr v ! 1 AND NOT 0x000F0000) OR 0x00030000]\<rparr>)) []"
proof -
  have eq: "GPIO_Init GPIOC \<lparr>GPIO_Pin = 0x40, GPIO_Speed = junk, GPIO_Mode = GPIO_Mode_IN_FLOATING\<rparr> = run_seq [gpio_init_reg GPIOC \<lparr>GPIO_Pin = 0x40, GPIO_Speed = junk, GPIO_Mode = GPIO_Mode_IN_FLOATING\<rparr> 4 pCRL 0, \<lambda>s. Ok s []]"
    "GPIO_Init GPIOC \<lparr>GPIO_Pin = 0x1000, GPIO_Speed = GPIO_Speed_50MHz, GPIO_Mode = GPIO_Mode_Out_PP\<rparr> = run_seq [\<lambda>s. Ok s [], gpio_init_reg GPIOC \<lparr>GPIO_Pin = 0x1000, GPIO_Speed = GPIO_Speed_50MHz, GPIO_Mode = GPIO_Mode_Out_PP\<rparr> 3 pCRH 8]"
    by (simp_all add: GPIO_Init_def)
  have "fw_does (board_at v) (gpio_init_reg GPIOC \<lparr>GPIO_Pin = 0x40, GPIO_Speed = junk, GPIO_Mode = GPIO_Mode_IN_FLOATING\<rparr> 4 pCRL 0)
     (board_at (v\<lparr>v_cr := (v_cr v)[0 := (v_cr v ! 0 AND NOT 0x0F000000) OR 0x04000000]\<rparr>)) []"
    using board_init_reg [OF _ init_pin_6, of 0 v junk] by simp
  then show "fw_does (board_at v) (GPIO_Init GPIOC \<lparr>GPIO_Pin = 0x40, GPIO_Speed = junk, GPIO_Mode = GPIO_Mode_IN_FLOATING\<rparr>)
     (board_at (v\<lparr>v_cr := (v_cr v)[0 := (v_cr v ! 0 AND NOT 0x0F000000) OR 0x04000000]\<rparr>)) []"
    unfolding eq by (intro fw_does_conseq [OF fw_does_Cons [OF _ fw_does_Cons [OF fw_does_skip fw_does_Nil]]]) simp_all
  have "fw_does (board_at v) (gpio_init_reg GPIOC \<lparr>GPIO_Pin = 0x1000, GPIO_Speed = GPIO_Speed_50MHz, GPIO_Mode = GPIO_Mode_Out_PP\<rparr> 3 pCRH 8)
     (board_at (v\<lparr>v_cr := (v_cr v)[1 := (v_cr v ! 1 AND NOT 0x000F0000) OR 0x00030000]\<rparr>)) []"
    using board_init_reg [OF _ init_pin_12, of 1 v] by simp
  then show "fw_does (board_at v) (GPIO_Init GPIOC \<lparr>GPIO_Pin = 0x1000, GPIO_Speed = GPIO_Speed_50MHz, GPIO_Mode = GPIO_Mode_Out_PP\<rparr>)
     (board_at (v\<lparr>v_cr := (v_cr v)[1 := (v_cr v ! 1 AND NOT 0x000F0000) OR 0x00030000]\<rparr>)) []"
    unfolding eq by (intro fw_does_conseq [OF fw_does_Cons [OF fw_does_skip fw_does_Cons [OF _ fw_does_Nil]]]) simp_all
qed

section \<open>Registration of an interrupt\<close>

definition line_for :: "Pin \<Rightarrow> board_view \<Rightarrow> board_view" where
  "line_for p v = line_on (pin_mask p) (v\<lparr>v_src := (v_src v)(unat (pinNumber p) := unat (pin_port p - 0x41))\<rparr>)"

lemma board_registerInt:
  fixes s :: "'z FwApp_scheme"
  assumes "board_at v s" "idle v" "length (isrVector s) = 16" "pinNumber p < 16" "pin_port p - 0x41 < 7"
  shows "\<exists>m l es. let n = unat (pinNumber p); free = (isrVector s ! n = None);
      s' = s\<lparr>fw_m := m, fw_ext_log := l, isrVector := if free then (isrVector s)[n := Some isr] else isrVector s\<rparr> in
    IntController_registerInt isr p s = Ok (free, s') es \<and> posts es = [] \<and> board_at (line_for p v) s'"
proof -
  let ?v = "v\<lparr>v_src := (v_src v)(unat (pinNumber p) := unat (pin_port p - 0x41))\<rparr>"
  have "idle ?v" using assms(2) by simp
  have "fw_does (board_at v) (run_seq
       [GPIO_EXTILineConfig (pin_port p - 0x41) (pinNumber p),
        EXTI_ClearITPendingBit (pin_mask p),
        EXTI_Init \<lparr>EXTI_Line = pin_mask p, EXTI_Mode = EXTI_Mode_Interrupt, EXTI_Trigger = EXTI_Trigger_Rising_Falling,
                   EXTI_LineCmd = True\<rparr>,
        NVIC_Init \<lparr>NVIC_IRQChannel = exti_channel (pinNumber p), NVIC_IRQChannelPreemptionPriority = 0x0F,
                   NVIC_IRQChannelSubPriority = 0x00, NVIC_IRQChannelCmd = True\<rparr>]) (board_at (line_for p v)) []"
    (is "fw_does _ (run_seq ?fs) _ _")
    unfolding EXTI_ClearITPendingBit_def line_for_def
    by (rule fw_does_conseq, rule fw_does_Cons, rule board_line_config [OF assms(4,5)], rule fw_does_Cons,
        rule board_exti_ops(8) [OF \<open>idle ?v\<close>], rule fw_does_Cons, rule board_EXTI_Init [OF \<open>idle ?v\<close>], rule fw_does_Cons,
        rule board_NVIC_Init, simp, rule fw_does_Nil, assumption) simp_all
  then obtain s' es where r: "run_seq ?fs s = Ok s' es" "board_at (line_for p v) s'" "same_prog s s'" "posts es = []"
    using assms(1) by (rule fw_doesE)
  from r(3) obtain m l where s': "s' = s\<lparr>fw_m := m, fw_ext_log := l\<rparr>" by (auto simp: same_prog_def)
  have "unat (pinNumber p) < 16" using assms(4) by (simp add: word_less_nat_alt)
  then show ?thesis
    using r(1,2,4) assms(3) s'
    by (intro exI [of _ m] exI [of _ l] exI [of _ es]) (simp add: IntController_registerInt_def board_at_def Let_def)
qed

end
